(* ===== verification/Go_Prelude.thy ===== *)
theory Go_Prelude
  imports Main "HOL-Library.Word"
begin

text \<open>
  The part of Go every component relies on.

  \<^item> Unsigned integers keep their width: \<open>u32\<close> is Go's \<^verbatim>\<open>uint32\<close>, \<open>byte\<close> its \<^verbatim>\<open>byte\<close>.
  \<^item> \<open>'a outcome\<close> is what a Go call can do: return a value with a nil error (\<open>Ok\<close>),
    return a non-nil error (\<open>Err\<close>), or panic (\<open>Panic\<close>: a nil pointer dereference, an
    index out of range, a failed type assertion).
  \<^item> \<open>goerr\<close> is an error value. \<open>Errorf\<close> carries the literal of the \<^verbatim>\<open>fmt.Errorf\<close> or
    \<^verbatim>\<open>errors.New\<close> call and \<open>Wrap\<close> also the error it formats into the message; the other
    constructors are the errors the code distinguishes.
  \<^item> \<open>checks\<close> is a chain of \<^verbatim>\<open>if err := f(); err != nil { return err }\<close> statements,
    \<open>for_each\<close> and \<open>omap\<close> are \<^verbatim>\<open>for i, x := range xs\<close> loops with an early return.
  \<^item> A Go map is a partial function. A \<^verbatim>\<open>range\<close> over it visits each key once in an order
    the runtime picks: \<open>range_order m ks\<close> says that \<open>ks\<close> is such an order, and a function
    that ranges over a map takes the order as an argument.
\<close>

section \<open>Collections of facts\<close>

named_theorems outcome_simps \<open>when a composed outcome is \<open>Ok\<close>, \<open>Err\<close> or \<open>Panic\<close>\<close>
named_theorems go_defs \<open>definitions of small helpers of the model, unfolded together\<close>

section \<open>Types\<close>

type_synonym u32 = "32 word"
type_synonym byte = "8 word"

datatype goerr =
    Errorf string
  | Wrap string goerr
  | NotFound
  | Conflict
  | ErrWaitTimeout
  | ErrFormat
  | ExitError int

datatype 'a outcome = Ok 'a | Err goerr | Panic string

type_synonym check = "unit outcome"

section \<open>Sequencing\<close>

primrec obind :: "'a outcome \<Rightarrow> ('a \<Rightarrow> 'b outcome) \<Rightarrow> 'b outcome" where
  "obind (Ok x) f = f x"
| "obind (Err e) f = Err e"
| "obind (Panic p) f = Panic p"

text \<open>\<^verbatim>\<open>if err != nil { return fmt.Errorf("...: %v", err) }\<close>\<close>

primrec wrap_err :: "string \<Rightarrow> 'a outcome \<Rightarrow> 'a outcome" where
  "wrap_err s (Ok x) = Ok x"
| "wrap_err s (Err e) = Err (Wrap s e)"
| "wrap_err s (Panic p) = Panic p"

text \<open>\<^verbatim>\<open>if cond { return fmt.Errorf(...) }\<close>\<close>

definition fail_if :: "bool \<Rightarrow> string \<Rightarrow> check" where
  "fail_if c msg = (if c then Err (Errorf msg) else Ok ())"

text \<open>A check that only runs when its guard holds.\<close>

definition only_if :: "bool \<Rightarrow> check \<Rightarrow> check" where
  "only_if c k = (if c then k else Ok ())"

text \<open>A dereference of a pointer that may be nil.\<close>

primrec deref :: "'a option \<Rightarrow> 'a outcome" where
  "deref None = Panic ''nil pointer dereference''"
| "deref (Some x) = Ok x"

primrec checks :: "check list \<Rightarrow> check" where
  "checks [] = Ok ()"
| "checks (c # cs) = obind c (\<lambda>_. checks cs)"

primrec for_each :: "(nat \<Rightarrow> 'a \<Rightarrow> check) \<Rightarrow> nat \<Rightarrow> 'a list \<Rightarrow> check" where
  "for_each f i [] = Ok ()"
| "for_each f i (x # xs) = obind (f i x) (\<lambda>_. for_each f (Suc i) xs)"

primrec omap :: "('a \<Rightarrow> 'b outcome) \<Rightarrow> 'a list \<Rightarrow> 'b list outcome" where
  "omap f [] = Ok []"
| "omap f (x # xs) = obind (f x) (\<lambda>y. obind (omap f xs) (\<lambda>ys. Ok (y # ys)))"

section \<open>Facts about sequencing\<close>

lemma obind_Ok_iff [simp, outcome_simps]:
  "obind m f = Ok y \<longleftrightarrow> (\<exists>x. m = Ok x \<and> f x = Ok y)"
  by (cases m) auto

lemma obind_Err_iff [outcome_simps]:
  "obind m f = Err e \<longleftrightarrow> m = Err e \<or> (\<exists>x. m = Ok x \<and> f x = Err e)"
  by (cases m) auto

lemma obind_Panic_iff [outcome_simps]:
  "obind m f = Panic p \<longleftrightarrow> m = Panic p \<or> (\<exists>x. m = Ok x \<and> f x = Panic p)"
  by (cases m) auto

lemma obind_assoc: "obind (obind m f) g = obind m (\<lambda>x. obind (f x) g)"
  by (cases m) auto

lemma wrap_err_Ok_iff [simp, outcome_simps]: "wrap_err s m = Ok x \<longleftrightarrow> m = Ok x"
  by (cases m) auto

lemma wrap_err_Panic_iff [simp, outcome_simps]: "wrap_err s m = Panic p \<longleftrightarrow> m = Panic p"
  by (cases m) auto

lemma fail_if_Ok_iff [simp, outcome_simps]: "fail_if c msg = Ok u \<longleftrightarrow> \<not> c"
  by (simp add: fail_if_def)

lemma fail_if_not_Panic [simp, outcome_simps]: "fail_if c msg \<noteq> Panic p"
  by (simp add: fail_if_def)

lemma only_if_Ok_iff [simp, outcome_simps]: "only_if c k = Ok u \<longleftrightarrow> (c \<longrightarrow> k = Ok u)"
  by (simp add: only_if_def)

lemma only_if_Panic_iff [simp, outcome_simps]: "only_if c k = Panic p \<longleftrightarrow> c \<and> k = Panic p"
  by (simp add: only_if_def)

lemma deref_Ok_iff [simp, outcome_simps]: "deref p = Ok x \<longleftrightarrow> p = Some x"
  by (cases p) auto

lemma deref_Panic_iff [simp, outcome_simps]:
  "deref p = Panic q \<longleftrightarrow> p = None \<and> q = ''nil pointer dereference''"
  by (cases p) auto

lemma checks_Ok_iff [simp, outcome_simps]:
  "checks cs = Ok u \<longleftrightarrow> (\<forall>c \<in> set cs. c = Ok ())"
  by (induction cs) auto

lemma checks_append [simp]: "checks (cs @ ds) = obind (checks cs) (\<lambda>_. checks ds)"
  by (induction cs) (auto simp: obind_assoc)

lemma checks_no_panic:
  "(\<And>c p. c \<in> set cs \<Longrightarrow> c \<noteq> Panic p) \<Longrightarrow> checks cs \<noteq> Panic q"
  by (induction cs) (auto simp: obind_Panic_iff)

lemma for_each_Ok_iff [outcome_simps]:
  "for_each f i xs = Ok u \<longleftrightarrow> (\<forall>j < length xs. f (i + j) (xs ! j) = Ok ())"
proof (induction xs arbitrary: i)
  case Nil
  then show ?case by simp
next
  case (Cons x xs)
  have "for_each f i (x # xs) = Ok u \<longleftrightarrow>
      f i x = Ok () \<and> (\<forall>j < length xs. f (Suc i + j) (xs ! j) = Ok ())"
    using Cons.IH [of "Suc i"] by auto
  also have "\<dots> \<longleftrightarrow> (\<forall>j < length (x # xs). f (i + j) ((x # xs) ! j) = Ok ())"
    by (auto simp: less_Suc_eq_0_disj)
  finally show ?case .
qed

lemma for_each_no_panic:
  "(\<And>j x p. x \<in> set xs \<Longrightarrow> f j x \<noteq> Panic p) \<Longrightarrow> for_each f i xs \<noteq> Panic q"
  by (induction xs arbitrary: i) (auto simp: obind_Panic_iff)

lemma omap_Ok_iff [outcome_simps]:
  "omap f xs = Ok ys \<longleftrightarrow> list_all2 (\<lambda>x y. f x = Ok y) xs ys"
proof (induction xs arbitrary: ys)
  case Nil
  then show ?case by auto
next
  case (Cons x xs)
  then show ?case by (cases ys) auto
qed

lemma omap_Ok_map: "(\<And>x. x \<in> set xs \<Longrightarrow> f x = Ok (g x)) \<Longrightarrow> omap f xs = Ok (map g xs)"
  by (induction xs) auto

lemma omap_no_panic:
  "(\<And>x p. x \<in> set xs \<Longrightarrow> f x \<noteq> Panic p) \<Longrightarrow> omap f xs \<noteq> Panic q"
  by (induction xs arbitrary: q) (auto simp: obind_Panic_iff)

section \<open>Ranging over maps\<close>

definition range_order :: "('k \<rightharpoonup> 'v) \<Rightarrow> 'k list \<Rightarrow> bool" where
  "range_order m ks \<longleftrightarrow> distinct ks \<and> set ks = dom m"

lemma range_order_finite: "range_order m ks \<Longrightarrow> finite (dom m)"
  by (metis List.finite_set range_order_def)

lemma range_order_card: "range_order m ks \<Longrightarrow> length ks = card (dom m)"
  by (metis distinct_card range_order_def)

lemma range_order_exists: "finite (dom m) \<Longrightarrow> \<exists>ks. range_order m ks"
  unfolding range_order_def by (metis finite_distinct_list)

lemma range_order_empty [simp]: "range_order Map.empty ks \<longleftrightarrow> ks = []"
  by (auto simp: range_order_def)

lemma range_order_mem: "range_order m ks \<Longrightarrow> k \<in> set ks \<longleftrightarrow> (\<exists>v. m k = Some v)"
  by (auto simp: range_order_def dom_def)

text \<open>A choice of an order for every finite set of keys.\<close>

definition valid_order :: "(string set \<Rightarrow> string list) \<Rightarrow> bool" where
  "valid_order ro \<longleftrightarrow> (\<forall>S. finite S \<longrightarrow> distinct (ro S) \<and> set (ro S) = S)"

lemma valid_orderD: "valid_order ro \<Longrightarrow> finite S \<Longrightarrow> distinct (ro S) \<and> set (ro S) = S"
  by (simp add: valid_order_def)

lemma valid_order_range: "valid_order ro \<Longrightarrow> finite (dom m) \<Longrightarrow> range_order m (ro (dom m))"
  by (simp add: valid_order_def range_order_def)

lemma valid_order_empty [simp]: "valid_order ro \<Longrightarrow> ro {} = []"
  using valid_orderD [of ro "{}"] by simp

section \<open>Strings\<close>

definition ascii_lower :: "char \<Rightarrow> char" where
  "ascii_lower c = (let n = of_char c :: int in if 65 \<le> n \<and> n \<le> 90 then char_of (n + 32) else c)"

definition ToLower :: "string \<Rightarrow> string" where
  "ToLower = map ascii_lower"

definition HasPrefix :: "string \<Rightarrow> string \<Rightarrow> bool" where
  "HasPrefix s p \<longleftrightarrow> take (length p) s = p"

definition HasSuffix :: "string \<Rightarrow> string \<Rightarrow> bool" where
  "HasSuffix s p \<longleftrightarrow> HasPrefix (rev s) (rev p)"

text \<open>\<^verbatim>\<open>strings.Split\<close> with a separator of one character.\<close>

fun Split :: "char \<Rightarrow> string \<Rightarrow> string list" where
  "Split c [] = [[]]"
| "Split c (x # xs) =
     (if x = c then [] # Split c xs
      else (case Split c xs of [] \<Rightarrow> [[x]] | w # ws \<Rightarrow> (x # w) # ws))"

definition TrimSuffix :: "string \<Rightarrow> string \<Rightarrow> string" where
  "TrimSuffix s p = (if HasSuffix s p then take (length s - length p) s else s)"

fun Contains :: "string \<Rightarrow> string \<Rightarrow> bool" where
  "Contains [] p = (p = [])"
| "Contains (x # xs) p = (HasPrefix (x # xs) p \<or> Contains xs p)"

lemma Split_not_Nil [simp]: "Split c s \<noteq> []"
  by (induction s) (auto split: list.splits)

lemma HasPrefix_append [simp]: "HasPrefix (p @ s) p"
  by (simp add: HasPrefix_def)

lemma HasPrefix_iff: "HasPrefix s p \<longleftrightarrow> (\<exists>t. s = p @ t)"
  unfolding HasPrefix_def by (metis append_eq_conv_conj)

lemma HasSuffix_iff: "HasSuffix s p \<longleftrightarrow> (\<exists>t. s = t @ p)"
  unfolding HasSuffix_def HasPrefix_iff by (metis rev_append rev_rev_ident)

lemma Contains_iff: "Contains s p \<longleftrightarrow> (\<exists>a b. s = a @ p @ b)"
proof (induction s)
  case Nil
  then show ?case by auto
next
  case (Cons x xs)
  show ?case
    unfolding Contains.simps Cons.IH HasPrefix_iff
    by (metis append_Cons append_Nil neq_Nil_conv list.inject)
qed

text \<open>Splitting and joining with the separator is the identity.\<close>

fun Join :: "string \<Rightarrow> string list \<Rightarrow> string" where
  "Join sep [] = []"
| "Join sep [x] = x"
| "Join sep (x # y # ys) = x @ sep @ Join sep (y # ys)"

lemma Join_Split: "Join [c] (Split c s) = s"
proof (induction s)
  case Nil
  then show ?case by simp
next
  case (Cons x xs)
  obtain w ws where s: "Split c xs = w # ws"
    by (cases "Split c xs") auto
  show ?case
  proof (cases "x = c")
    case True
    with Cons s show ?thesis by simp
  next
    case False
    with Cons s show ?thesis by (cases ws) auto
  qed
qed

lemma Split_no_sep: "w \<in> set (Split c s) \<Longrightarrow> c \<notin> set w"
proof (induction s arbitrary: w)
  case Nil
  then show ?case by simp
next
  case (Cons x xs)
  obtain v vs where s: "Split c xs = v # vs"
    by (cases "Split c xs") auto
  from Cons.prems s show ?case
    using Cons.IH by (cases "x = c") auto
qed

end
