(* ===== verification/Go_Json.thy ===== *)
theory Go_Json
  imports Go_Prelude
begin

text \<open>
  What the sources use of \<^verbatim>\<open>encoding/json\<close>: decoding a document into a Go struct. The bytes of
  a \<^verbatim>\<open>RawExtension\<close> are modelled by the document they spell (\<open>None\<close>: they spell none), so
  lexing is left out and struct decoding is kept: the match of a key with a field (exact, then
  regardless of case), unknown keys (an error under \<^verbatim>\<open>DisallowUnknownFields\<close>, skipped
  otherwise), the range of each integer type, base64 in byte slices, \<^verbatim>\<open>null\<close>, and a key given
  twice (the second value is decoded into the result of the first).

  A struct is described by its exported fields, in declaration order: the JSON name of the
  field and its kind. \<open>'t\<close> names the struct types a field can point to.
\<close>

section \<open>Documents, kinds and values\<close>

datatype json =
    JNull
  | JBool bool
  | JNum string          \<comment> \<open>the literal, as \<^verbatim>\<open>strconv\<close> sees it\<close>
  | JStr string
  | JArr "json list"
  | JObj "(string \<times> json) list"

record RawExtension =
  Raw :: "json option"

datatype 't fkind = FU32 | FU64 | FI32 | FStr | FBytes | FU32s | FMsg 't

datatype pval =
    VInt int
  | VStr string
  | VBytes "byte list"
  | VInts "int list"
  | VMsg "(string \<times> pval) list option"

type_synonym fields = "(string \<times> pval) list"
type_synonym 't descr = "'t \<Rightarrow> (string \<times> 't fkind) list"

primrec zero_val :: "'t fkind \<Rightarrow> pval" where
  "zero_val FU32 = VInt 0"
| "zero_val FU64 = VInt 0"
| "zero_val FI32 = VInt 0"
| "zero_val FStr = VStr []"
| "zero_val FBytes = VBytes []"
| "zero_val FU32s = VInts []"
| "zero_val (FMsg t) = VMsg None"

definition zero_struct :: "(string \<times> 't fkind) list \<Rightarrow> fields" where
  "zero_struct fs = map (\<lambda>(n, k). (n, zero_val k)) fs"

section \<open>Scalars\<close>

definition digit_val :: "char \<Rightarrow> int option" where
  "digit_val c = (let n = of_char c :: int in if 48 \<le> n \<and> n \<le> 57 then Some (n - 48) else None)"

primrec dec_digits :: "int \<Rightarrow> string \<Rightarrow> int option" where
  "dec_digits acc [] = Some acc"
| "dec_digits acc (c # cs) =
     (case digit_val c of None \<Rightarrow> None | Some d \<Rightarrow> dec_digits (10 * acc + d) cs)"

text \<open>\<^verbatim>\<open>strconv.ParseUint(s, 10, 64)\<close> followed by the overflow test of a \<open>w\<close>-bit field.\<close>

definition ParseUint :: "nat \<Rightarrow> string \<Rightarrow> int option" where
  "ParseUint w s = (if s = [] then None else
     (case dec_digits 0 s of None \<Rightarrow> None | Some n \<Rightarrow> if n < 2 ^ w then Some n else None))"

text \<open>\<^verbatim>\<open>strconv.ParseInt(s, 10, 64)\<close> followed by the overflow test of a \<open>w\<close>-bit field.\<close>

definition ParseInt :: "nat \<Rightarrow> string \<Rightarrow> int option" where
  "ParseInt w s =
     (let neg = (s \<noteq> [] \<and> hd s = CHR ''-'');
          body = (if s \<noteq> [] \<and> (hd s = CHR ''-'' \<or> hd s = CHR ''+'') then tl s else s)
      in if body = [] then None else
         (case dec_digits 0 body of
            None \<Rightarrow> None
          | Some n \<Rightarrow> (if neg then (if n \<le> 2 ^ (w - 1) then Some (- n) else None)
                      else (if n < 2 ^ (w - 1) then Some n else None))))"

definition b64_val :: "char \<Rightarrow> int option" where
  "b64_val c = (let n = of_char c :: int in
     if 65 \<le> n \<and> n \<le> 90 then Some (n - 65)
     else if 97 \<le> n \<and> n \<le> 122 then Some (n - 71)
     else if 48 \<le> n \<and> n \<le> 57 then Some (n + 4)
     else if c = CHR ''+'' then Some 62
     else if c = CHR ''/'' then Some 63 else None)"

text \<open>\<^verbatim>\<open>base64.StdEncoding\<close>, line breaks already dropped.\<close>

fun b64_groups :: "string \<Rightarrow> byte list option" where
  "b64_groups [] = Some []"
| "b64_groups (a # b # c # d # rest) =
     (case (b64_val a, b64_val b) of
        (Some x, Some y) \<Rightarrow>
          (if d = CHR ''='' then
             (if rest \<noteq> [] then None
              else if c = CHR ''='' then Some [of_int (4 * x + y div 16)]
              else (case b64_val c of None \<Rightarrow> None
                    | Some z \<Rightarrow> Some [of_int (4 * x + y div 16), of_int (16 * (y mod 16) + z div 4)]))
           else (case (b64_val c, b64_val d) of
                   (Some z, Some w) \<Rightarrow>
                     map_option ((@) [of_int (4 * x + y div 16),
                                      of_int (16 * (y mod 16) + z div 4),
                                      of_int (64 * (z mod 4) + w)]) (b64_groups rest)
                 | _ \<Rightarrow> None))
      | _ \<Rightarrow> None)"
| "b64_groups _ = None"

definition b64_decode :: "string \<Rightarrow> byte list option" where
  "b64_decode s = b64_groups (filter (\<lambda>c. of_char c \<noteq> (10 :: int) \<and> of_char c \<noteq> (13 :: int)) s)"

primrec decode_u32s :: "json list \<Rightarrow> int list option" where
  "decode_u32s [] = Some []"
| "decode_u32s (j # js) =
     (case (case j of JNull \<Rightarrow> Some 0 | JNum s \<Rightarrow> ParseUint 32 s | _ \<Rightarrow> None) of
        None \<Rightarrow> None
      | Some v \<Rightarrow> map_option ((#) v) (decode_u32s js))"

text \<open>\<^verbatim>\<open>%d\<close> of \<^verbatim>\<open>fmt\<close>.\<close>

fun nat_digits :: "nat \<Rightarrow> string" where
  "nat_digits n = (if n < 10 then [char_of (n + 48)]
     else nat_digits (n div 10) @ [char_of (n mod 10 + 48)])"

declare nat_digits.simps [simp del]

definition Itoa :: "int \<Rightarrow> string" where
  "Itoa i = (if i < 0 then CHR ''-'' # nat_digits (nat (- i)) else nat_digits (nat i))"

section \<open>Struct decoding\<close>

text \<open>The field a key names: an exact match first, then a match regardless of case.\<close>

definition find_field :: "(string \<times> 't fkind) list \<Rightarrow> string \<Rightarrow> (string \<times> 't fkind) option" where
  "find_field fs k =
     (case find (\<lambda>f. fst f = k) fs of
        Some f \<Rightarrow> Some f
      | None \<Rightarrow> find (\<lambda>f. ToLower (fst f) = ToLower k) fs)"

primrec set_field :: "string \<Rightarrow> pval \<Rightarrow> fields \<Rightarrow> fields" where
  "set_field n v [] = []"
| "set_field n v (p # ps) = (if fst p = n then (n, v) # ps else p # set_field n v ps)"

definition get_field :: "fields \<Rightarrow> string \<Rightarrow> pval option" where
  "get_field fs n = map_of fs n"

text \<open>
  \<open>decode_val\<close> decodes a document into a field of the given kind that holds \<open>cur\<close>;
  \<open>decode_obj\<close> walks the members of an object. \<open>None\<close> is an error: the decoder goes on
  after a mismatch, but returns it at the end.
\<close>

function (sequential) decode_val :: "bool \<Rightarrow> 't descr \<Rightarrow> 't fkind \<Rightarrow> pval \<Rightarrow> json \<Rightarrow> pval option"
  and decode_obj :: "bool \<Rightarrow> 't descr \<Rightarrow> (string \<times> 't fkind) list \<Rightarrow> fields \<Rightarrow> (string \<times> json) list
    \<Rightarrow> fields option" where
  "decode_val st D (FMsg t) cur JNull = Some (VMsg None)"
| "decode_val st D FBytes cur JNull = Some (VBytes [])"
| "decode_val st D FU32s cur JNull = Some (VInts [])"
| "decode_val st D k cur JNull = Some cur"
| "decode_val st D FU32 cur (JNum s) = map_option VInt (ParseUint 32 s)"
| "decode_val st D FU64 cur (JNum s) = map_option VInt (ParseUint 64 s)"
| "decode_val st D FI32 cur (JNum s) = map_option VInt (ParseInt 32 s)"
| "decode_val st D FStr cur (JStr s) = Some (VStr s)"
| "decode_val st D FBytes cur (JStr s) = map_option VBytes (b64_decode s)"
| "decode_val st D FU32s cur (JArr js) = map_option VInts (decode_u32s js)"
| "decode_val st D (FMsg t) cur (JObj kvs) =
     (let start = (case cur of VMsg (Some fs) \<Rightarrow> fs | _ \<Rightarrow> zero_struct (D t))
      in map_option (VMsg o Some) (decode_obj st D (D t) start kvs))"
| "decode_val st D k cur j = None"
| "decode_obj st D fs cur [] = Some cur"
| "decode_obj st D fs cur ((k, j) # rest) =
     (case find_field fs k of
        None \<Rightarrow> if st then None else decode_obj st D fs cur rest
      | Some (n, kind) \<Rightarrow>
          (case decode_val st D kind (case get_field cur n of Some v \<Rightarrow> v | None \<Rightarrow> zero_val kind) j of
             None \<Rightarrow> None
           | Some v \<Rightarrow> decode_obj st D fs (set_field n v cur) rest))"
  by pat_completeness auto
termination
  by (relation "measure (\<lambda>p. case p of
        Inl (st, D, k, cur, j) \<Rightarrow> size j
      | Inr (st, D, fs, cur, kvs) \<Rightarrow> size_list (size_prod (\<lambda>_. 0) size) kvs)") auto

text \<open>
  Decoding into a pointer to a struct that holds its zero value. A top-level \<^verbatim>\<open>null\<close> leaves
  the struct alone.
\<close>

fun decode_struct :: "bool \<Rightarrow> 't descr \<Rightarrow> 't \<Rightarrow> json \<Rightarrow> fields option" where
  "decode_struct st D t JNull = Some (zero_struct (D t))"
| "decode_struct st D t (JObj kvs) = decode_obj st D (D t) (zero_struct (D t)) kvs"
| "decode_struct st D t _ = None"

text \<open>\<^verbatim>\<open>json.Unmarshal\<close> of raw bytes, and a \<^verbatim>\<open>Decoder\<close> that refuses unknown keys.\<close>

definition Unmarshal :: "'t descr \<Rightarrow> 't \<Rightarrow> json option \<Rightarrow> fields outcome" where
  "Unmarshal D t raw = (case raw of None \<Rightarrow> Err (Errorf ''invalid JSON'')
     | Some j \<Rightarrow> (case decode_struct False D t j of
         None \<Rightarrow> Err (Errorf ''json: cannot unmarshal'') | Some fs \<Rightarrow> Ok fs))"

definition DecodeStrict :: "'t descr \<Rightarrow> 't \<Rightarrow> json option \<Rightarrow> fields outcome" where
  "DecodeStrict D t raw = (case raw of None \<Rightarrow> Err (Errorf ''invalid JSON'')
     | Some j \<Rightarrow> (case decode_struct True D t j of
         None \<Rightarrow> Err (Errorf ''json: cannot unmarshal'') | Some fs \<Rightarrow> Ok fs))"

section \<open>Reading decoded fields\<close>

definition f_int :: "fields \<Rightarrow> string \<Rightarrow> int" where
  "f_int fs n = (case get_field fs n of Some (VInt i) \<Rightarrow> i | _ \<Rightarrow> 0)"

definition f_u32 :: "fields \<Rightarrow> string \<Rightarrow> u32" where
  "f_u32 fs n = word_of_int (f_int fs n)"

definition f_str :: "fields \<Rightarrow> string \<Rightarrow> string" where
  "f_str fs n = (case get_field fs n of Some (VStr s) \<Rightarrow> s | _ \<Rightarrow> [])"

definition f_bytes :: "fields \<Rightarrow> string \<Rightarrow> byte list" where
  "f_bytes fs n = (case get_field fs n of Some (VBytes b) \<Rightarrow> b | _ \<Rightarrow> [])"

definition f_msg :: "fields \<Rightarrow> string \<Rightarrow> fields option" where
  "f_msg fs n = (case get_field fs n of Some (VMsg m) \<Rightarrow> m | _ \<Rightarrow> None)"

lemmas field_readers = f_int_def f_u32_def f_str_def f_bytes_def f_msg_def get_field_def
declare field_readers [go_defs]

section \<open>Facts\<close>

lemma digit_val_bounds: "digit_val c = Some d \<Longrightarrow> 0 \<le> d \<and> d \<le> 9"
  by (auto simp: digit_val_def Let_def split: if_splits)

lemma dec_digits_nonneg: "dec_digits acc s = Some n \<Longrightarrow> 0 \<le> acc \<Longrightarrow> 0 \<le> n"
  by (induction s arbitrary: acc) (auto split: option.splits dest: digit_val_bounds)

lemma ParseUint_bound: "ParseUint w s = Some n \<Longrightarrow> 0 \<le> n \<and> n < 2 ^ w"
  by (auto simp: ParseUint_def split: if_splits option.splits dest: dec_digits_nonneg)

lemma dec_digits_append:
  "dec_digits acc (s @ t) = (case dec_digits acc s of None \<Rightarrow> None | Some n \<Rightarrow> dec_digits n t)"
  by (induction s arbitrary: acc) (auto split: option.splits)

lemma digit_val_char: "n < 10 \<Longrightarrow> digit_val (char_of (n + 48)) = Some (int n)" for n :: nat
proof -
  assume "n < 10"
  moreover have "(of_char (char_of (n + 48)) :: int) = int ((n + 48) mod 256)"
    by (metis of_char_of of_nat_of_char)
  ultimately show ?thesis by (simp add: digit_val_def Let_def)
qed

text \<open>Printing a natural number and reading the digits back.\<close>

lemma dec_digits_nat_digits: "dec_digits 0 (nat_digits n) = Some (int n)"
proof (induction n rule: nat_digits.induct)
  case (1 n)
  show ?case
  proof (cases "n < 10")
    case True
    then show ?thesis by (simp add: nat_digits.simps [of n] digit_val_char)
  next
    case False
    have "digit_val (char_of (n mod 10 + 48)) = Some (int (n mod 10))"
      by (rule digit_val_char) simp
    with "1.IH" False show ?thesis
      by (simp add: nat_digits.simps [of n] dec_digits_append) presburger
  qed
qed

lemma nat_digits_not_Nil [simp]: "nat_digits n \<noteq> []"
  by (simp add: nat_digits.simps [of n])

lemma ParseUint_Itoa:
  "0 \<le> i \<Longrightarrow> ParseUint w (Itoa i) = (if i < 2 ^ w then Some i else None)"
  by (simp add: ParseUint_def Itoa_def dec_digits_nat_digits)

lemma set_field_names [simp]: "map fst (set_field n v fs) = map fst fs"
  by (induction fs) auto

lemma Unmarshal_no_panic [simp]: "Unmarshal D t raw \<noteq> Panic p"
  by (auto simp: Unmarshal_def split: option.splits)

lemma DecodeStrict_no_panic [simp]: "DecodeStrict D t raw \<noteq> Panic p"
  by (auto simp: DecodeStrict_def split: option.splits)

text \<open>A decoder never adds or drops a field of the struct.\<close>

lemma decode_obj_names:
  "decode_obj st D fs cur kvs = Some res \<Longrightarrow> map fst res = map fst cur"
proof (induction kvs arbitrary: cur)
  case Nil
  then show ?case by simp
next
  case (Cons kv kvs)
  obtain k j where [simp]: "kv = (k, j)" by (cases kv)
  from Cons show ?case
    by (fastforce split: option.splits if_splits prod.splits)
qed

text \<open>Strict decoding refuses what lax decoding would have skipped, and agrees elsewhere.\<close>

lemma find_field_unknown:
  "find_field fs k = None \<longleftrightarrow> (\<forall>f \<in> set fs. ToLower (fst f) \<noteq> ToLower k)"
proof (cases "find (\<lambda>f. fst f = k) fs")
  case None
  then have "find_field fs k = find (\<lambda>f. ToLower (fst f) = ToLower k) fs"
    by (simp add: find_field_def)
  then show ?thesis by (auto simp: find_None_iff)
next
  case (Some f)
  then have "f \<in> set fs" and "fst f = k"
    by (auto simp: find_Some_iff)
  with Some show ?thesis by (auto simp: find_field_def)
qed

lemma decode_obj_strict_unknown:
  "(k, j) \<in> set kvs \<Longrightarrow> find_field fs k = None \<Longrightarrow> decode_obj True D fs cur kvs = None"
proof (induction kvs arbitrary: cur)
  case Nil
  then show ?case by simp
next
  case (Cons kv kvs)
  obtain k' j' where [simp]: "kv = (k', j')" by (cases kv)
  show ?case
  proof (cases "(k, j) = kv")
    case True
    with Cons.prems show ?thesis by simp
  next
    case False
    with Cons.prems have "(k, j) \<in> set kvs" by auto
    then have "\<And>c. decode_obj True D fs c kvs = None"
      using Cons.prems(2) by (rule Cons.IH)
    then show ?thesis by (auto split: option.splits)
  qed
qed

end
