(* ===== verification/Flow_Api.thy ===== *)
theory Flow_Api
  imports Go_Json
begin

text \<open>
  \<^verbatim>\<open>pkg/flowconfig/rpc/v1/flow\<close>: the vocabulary shared by the webhooks, the controllers and the
  DCF (UFT) gRPC service. Protobuf enumerations are \<^verbatim>\<open>int32\<close> in Go and integers here, with the
  name and value tables of \<^verbatim>\<open>flow.pb.go\<close>; \<open>struct_table\<close> lists every message type that a pattern
  item or an action can carry (and the four intermediate structs of \<^verbatim>\<open>eth.go\<close>, \<^verbatim>\<open>ipv4.go\<close>,
  \<^verbatim>\<open>userTypes.go\<close> and \<^verbatim>\<open>clusterflowaction_types.go\<close>), with its exported fields.
  The messages whose fields the code reads are records; every other message is kept as the list
  of its fields (\<open>MsgOther\<close>). \<open>GetFlowItemObj\<close>, \<open>GetFlowActionObj\<close> (\<^verbatim>\<open>helper.go\<close>) and
  \<open>GetFlowActionType\<close> (\<^verbatim>\<open>userTypes.go\<close>) choose the message of a type.

  \<^verbatim>\<open>google.golang.org/protobuf/types/known/anypb\<close> is not part of the repository: packing a message
  into an \<^verbatim>\<open>Any\<close> and unpacking it are the two operations of the record \<open>anypb\<close>, an argument of
  every function that uses them, and \<open>anypb_spec\<close> states what the package documents.
\<close>

section \<open>Enumerations\<close>

abbreviation RTE_FLOW_ITEM_TYPE_END :: int where "RTE_FLOW_ITEM_TYPE_END \<equiv> 0"
abbreviation RTE_FLOW_ITEM_TYPE_VOID :: int where "RTE_FLOW_ITEM_TYPE_VOID \<equiv> 1"
abbreviation RTE_FLOW_ITEM_TYPE_INVERT :: int where "RTE_FLOW_ITEM_TYPE_INVERT \<equiv> 2"
abbreviation RTE_FLOW_ITEM_TYPE_ANY :: int where "RTE_FLOW_ITEM_TYPE_ANY \<equiv> 3"
abbreviation RTE_FLOW_ITEM_TYPE_PF :: int where "RTE_FLOW_ITEM_TYPE_PF \<equiv> 4"
abbreviation RTE_FLOW_ITEM_TYPE_VF :: int where "RTE_FLOW_ITEM_TYPE_VF \<equiv> 5"
abbreviation RTE_FLOW_ITEM_TYPE_PHY_PORT :: int where "RTE_FLOW_ITEM_TYPE_PHY_PORT \<equiv> 6"
abbreviation RTE_FLOW_ITEM_TYPE_PORT_ID :: int where "RTE_FLOW_ITEM_TYPE_PORT_ID \<equiv> 7"
abbreviation RTE_FLOW_ITEM_TYPE_RAW :: int where "RTE_FLOW_ITEM_TYPE_RAW \<equiv> 8"
abbreviation RTE_FLOW_ITEM_TYPE_ETH :: int where "RTE_FLOW_ITEM_TYPE_ETH \<equiv> 9"
abbreviation RTE_FLOW_ITEM_TYPE_VLAN :: int where "RTE_FLOW_ITEM_TYPE_VLAN \<equiv> 10"
abbreviation RTE_FLOW_ITEM_TYPE_IPV4 :: int where "RTE_FLOW_ITEM_TYPE_IPV4 \<equiv> 11"
abbreviation RTE_FLOW_ITEM_TYPE_IPV6 :: int where "RTE_FLOW_ITEM_TYPE_IPV6 \<equiv> 12"
abbreviation RTE_FLOW_ITEM_TYPE_ICMP :: int where "RTE_FLOW_ITEM_TYPE_ICMP \<equiv> 13"
abbreviation RTE_FLOW_ITEM_TYPE_UDP :: int where "RTE_FLOW_ITEM_TYPE_UDP \<equiv> 14"
abbreviation RTE_FLOW_ITEM_TYPE_TCP :: int where "RTE_FLOW_ITEM_TYPE_TCP \<equiv> 15"
abbreviation RTE_FLOW_ITEM_TYPE_SCTP :: int where "RTE_FLOW_ITEM_TYPE_SCTP \<equiv> 16"
abbreviation RTE_FLOW_ITEM_TYPE_VXLAN :: int where "RTE_FLOW_ITEM_TYPE_VXLAN \<equiv> 17"
abbreviation RTE_FLOW_ITEM_TYPE_E_TAG :: int where "RTE_FLOW_ITEM_TYPE_E_TAG \<equiv> 18"
abbreviation RTE_FLOW_ITEM_TYPE_NVGRE :: int where "RTE_FLOW_ITEM_TYPE_NVGRE \<equiv> 19"
abbreviation RTE_FLOW_ITEM_TYPE_MPLS :: int where "RTE_FLOW_ITEM_TYPE_MPLS \<equiv> 20"
abbreviation RTE_FLOW_ITEM_TYPE_GRE :: int where "RTE_FLOW_ITEM_TYPE_GRE \<equiv> 21"
abbreviation RTE_FLOW_ITEM_TYPE_FUZZY :: int where "RTE_FLOW_ITEM_TYPE_FUZZY \<equiv> 22"
abbreviation RTE_FLOW_ITEM_TYPE_GTP :: int where "RTE_FLOW_ITEM_TYPE_GTP \<equiv> 23"
abbreviation RTE_FLOW_ITEM_TYPE_GTPC :: int where "RTE_FLOW_ITEM_TYPE_GTPC \<equiv> 24"
abbreviation RTE_FLOW_ITEM_TYPE_GTPU :: int where "RTE_FLOW_ITEM_TYPE_GTPU \<equiv> 25"
abbreviation RTE_FLOW_ITEM_TYPE_ESP :: int where "RTE_FLOW_ITEM_TYPE_ESP \<equiv> 26"
abbreviation RTE_FLOW_ITEM_TYPE_GENEVE :: int where "RTE_FLOW_ITEM_TYPE_GENEVE \<equiv> 27"
abbreviation RTE_FLOW_ITEM_TYPE_VXLAN_GPE :: int where "RTE_FLOW_ITEM_TYPE_VXLAN_GPE \<equiv> 28"
abbreviation RTE_FLOW_ITEM_TYPE_ARP_ETH_IPV4 :: int where "RTE_FLOW_ITEM_TYPE_ARP_ETH_IPV4 \<equiv> 29"
abbreviation RTE_FLOW_ITEM_TYPE_IPV6_EXT :: int where "RTE_FLOW_ITEM_TYPE_IPV6_EXT \<equiv> 30"
abbreviation RTE_FLOW_ITEM_TYPE_ICMP6 :: int where "RTE_FLOW_ITEM_TYPE_ICMP6 \<equiv> 31"
abbreviation RTE_FLOW_ITEM_TYPE_ICMP6_ND_NS :: int where "RTE_FLOW_ITEM_TYPE_ICMP6_ND_NS \<equiv> 32"
abbreviation RTE_FLOW_ITEM_TYPE_ICMP6_ND_NA :: int where "RTE_FLOW_ITEM_TYPE_ICMP6_ND_NA \<equiv> 33"
abbreviation RTE_FLOW_ITEM_TYPE_ICMP6_ND_OPT :: int where "RTE_FLOW_ITEM_TYPE_ICMP6_ND_OPT \<equiv> 34"
abbreviation RTE_FLOW_ITEM_TYPE_ICMP6_ND_OPT_SLA_ETH :: int where "RTE_FLOW_ITEM_TYPE_ICMP6_ND_OPT_SLA_ETH \<equiv> 35"
abbreviation RTE_FLOW_ITEM_TYPE_ICMP6_ND_OPT_TLA_ETH :: int where "RTE_FLOW_ITEM_TYPE_ICMP6_ND_OPT_TLA_ETH \<equiv> 36"
abbreviation RTE_FLOW_ITEM_TYPE_MARK :: int where "RTE_FLOW_ITEM_TYPE_MARK \<equiv> 37"
abbreviation RTE_FLOW_ITEM_TYPE_META :: int where "RTE_FLOW_ITEM_TYPE_META \<equiv> 38"
abbreviation RTE_FLOW_ITEM_TYPE_GRE_KEY :: int where "RTE_FLOW_ITEM_TYPE_GRE_KEY \<equiv> 39"
abbreviation RTE_FLOW_ITEM_TYPE_GTP_PSC :: int where "RTE_FLOW_ITEM_TYPE_GTP_PSC \<equiv> 40"
abbreviation RTE_FLOW_ITEM_TYPE_PPPOES :: int where "RTE_FLOW_ITEM_TYPE_PPPOES \<equiv> 41"
abbreviation RTE_FLOW_ITEM_TYPE_PPPOED :: int where "RTE_FLOW_ITEM_TYPE_PPPOED \<equiv> 42"
abbreviation RTE_FLOW_ITEM_TYPE_PPPOE_PROTO_ID :: int where "RTE_FLOW_ITEM_TYPE_PPPOE_PROTO_ID \<equiv> 43"
abbreviation RTE_FLOW_ITEM_TYPE_NSH :: int where "RTE_FLOW_ITEM_TYPE_NSH \<equiv> 44"
abbreviation RTE_FLOW_ITEM_TYPE_IGMP :: int where "RTE_FLOW_ITEM_TYPE_IGMP \<equiv> 45"
abbreviation RTE_FLOW_ITEM_TYPE_AH :: int where "RTE_FLOW_ITEM_TYPE_AH \<equiv> 46"
abbreviation RTE_FLOW_ITEM_TYPE_HIGIG2 :: int where "RTE_FLOW_ITEM_TYPE_HIGIG2 \<equiv> 47"
abbreviation RTE_FLOW_ITEM_TYPE_TAG :: int where "RTE_FLOW_ITEM_TYPE_TAG \<equiv> 48"

definition RteFlowItemType_name_table :: "(int \<times> string) list" where
  "RteFlowItemType_name_table =
  [(0, ''RTE_FLOW_ITEM_TYPE_END''),
   (1, ''RTE_FLOW_ITEM_TYPE_VOID''),
   (2, ''RTE_FLOW_ITEM_TYPE_INVERT''),
   (3, ''RTE_FLOW_ITEM_TYPE_ANY''),
   (4, ''RTE_FLOW_ITEM_TYPE_PF''),
   (5, ''RTE_FLOW_ITEM_TYPE_VF''),
   (6, ''RTE_FLOW_ITEM_TYPE_PHY_PORT''),
   (7, ''RTE_FLOW_ITEM_TYPE_PORT_ID''),
   (8, ''RTE_FLOW_ITEM_TYPE_RAW''),
   (9, ''RTE_FLOW_ITEM_TYPE_ETH''),
   (10, ''RTE_FLOW_ITEM_TYPE_VLAN''),
   (11, ''RTE_FLOW_ITEM_TYPE_IPV4''),
   (12, ''RTE_FLOW_ITEM_TYPE_IPV6''),
   (13, ''RTE_FLOW_ITEM_TYPE_ICMP''),
   (14, ''RTE_FLOW_ITEM_TYPE_UDP''),
   (15, ''RTE_FLOW_ITEM_TYPE_TCP''),
   (16, ''RTE_FLOW_ITEM_TYPE_SCTP''),
   (17, ''RTE_FLOW_ITEM_TYPE_VXLAN''),
   (18, ''RTE_FLOW_ITEM_TYPE_E_TAG''),
   (19, ''RTE_FLOW_ITEM_TYPE_NVGRE''),
   (20, ''RTE_FLOW_ITEM_TYPE_MPLS''),
   (21, ''RTE_FLOW_ITEM_TYPE_GRE''),
   (22, ''RTE_FLOW_ITEM_TYPE_FUZZY''),
   (23, ''RTE_FLOW_ITEM_TYPE_GTP''),
   (24, ''RTE_FLOW_ITEM_TYPE_GTPC''),
   (25, ''RTE_FLOW_ITEM_TYPE_GTPU''),
   (26, ''RTE_FLOW_ITEM_TYPE_ESP''),
   (27, ''RTE_FLOW_ITEM_TYPE_GENEVE''),
   (28, ''RTE_FLOW_ITEM_TYPE_VXLAN_GPE''),
   (29, ''RTE_FLOW_ITEM_TYPE_ARP_ETH_IPV4''),
   (30, ''RTE_FLOW_ITEM_TYPE_IPV6_EXT''),
   (31, ''RTE_FLOW_ITEM_TYPE_ICMP6''),
   (32, ''RTE_FLOW_ITEM_TYPE_ICMP6_ND_NS''),
   (33, ''RTE_FLOW_ITEM_TYPE_ICMP6_ND_NA''),
   (34, ''RTE_FLOW_ITEM_TYPE_ICMP6_ND_OPT''),
   (35, ''RTE_FLOW_ITEM_TYPE_ICMP6_ND_OPT_SLA_ETH''),
   (36, ''RTE_FLOW_ITEM_TYPE_ICMP6_ND_OPT_TLA_ETH''),
   (37, ''RTE_FLOW_ITEM_TYPE_MARK''),
   (38, ''RTE_FLOW_ITEM_TYPE_META''),
   (39, ''RTE_FLOW_ITEM_TYPE_GRE_KEY''),
   (40, ''RTE_FLOW_ITEM_TYPE_GTP_PSC''),
   (41, ''RTE_FLOW_ITEM_TYPE_PPPOES''),
   (42, ''RTE_FLOW_ITEM_TYPE_PPPOED''),
   (43, ''RTE_FLOW_ITEM_TYPE_PPPOE_PROTO_ID''),
   (44, ''RTE_FLOW_ITEM_TYPE_NSH''),
   (45, ''RTE_FLOW_ITEM_TYPE_IGMP''),
   (46, ''RTE_FLOW_ITEM_TYPE_AH''),
   (47, ''RTE_FLOW_ITEM_TYPE_HIGIG2''),
   (48, ''RTE_FLOW_ITEM_TYPE_TAG'')]"

definition RteFlowItemType_value_table :: "(string \<times> int) list" where
  "RteFlowItemType_value_table =
  [(''RTE_FLOW_ITEM_TYPE_END'', 0),
   (''RTE_FLOW_ITEM_TYPE_VOID'', 1),
   (''RTE_FLOW_ITEM_TYPE_INVERT'', 2),
   (''RTE_FLOW_ITEM_TYPE_ANY'', 3),
   (''RTE_FLOW_ITEM_TYPE_PF'', 4),
   (''RTE_FLOW_ITEM_TYPE_VF'', 5),
   (''RTE_FLOW_ITEM_TYPE_PHY_PORT'', 6),
   (''RTE_FLOW_ITEM_TYPE_PORT_ID'', 7),
   (''RTE_FLOW_ITEM_TYPE_RAW'', 8),
   (''RTE_FLOW_ITEM_TYPE_ETH'', 9),
   (''RTE_FLOW_ITEM_TYPE_VLAN'', 10),
   (''RTE_FLOW_ITEM_TYPE_IPV4'', 11),
   (''RTE_FLOW_ITEM_TYPE_IPV6'', 12),
   (''RTE_FLOW_ITEM_TYPE_ICMP'', 13),
   (''RTE_FLOW_ITEM_TYPE_UDP'', 14),
   (''RTE_FLOW_ITEM_TYPE_TCP'', 15),
   (''RTE_FLOW_ITEM_TYPE_SCTP'', 16),
   (''RTE_FLOW_ITEM_TYPE_VXLAN'', 17),
   (''RTE_FLOW_ITEM_TYPE_E_TAG'', 18),
   (''RTE_FLOW_ITEM_TYPE_NVGRE'', 19),
   (''RTE_FLOW_ITEM_TYPE_MPLS'', 20),
   (''RTE_FLOW_ITEM_TYPE_GRE'', 21),
   (''RTE_FLOW_ITEM_TYPE_FUZZY'', 22),
   (''RTE_FLOW_ITEM_TYPE_GTP'', 23),
   (''RTE_FLOW_ITEM_TYPE_GTPC'', 24),
   (''RTE_FLOW_ITEM_TYPE_GTPU'', 25),
   (''RTE_FLOW_ITEM_TYPE_ESP'', 26),
   (''RTE_FLOW_ITEM_TYPE_GENEVE'', 27),
   (''RTE_FLOW_ITEM_TYPE_VXLAN_GPE'', 28),
   (''RTE_FLOW_ITEM_TYPE_ARP_ETH_IPV4'', 29),
   (''RTE_FLOW_ITEM_TYPE_IPV6_EXT'', 30),
   (''RTE_FLOW_ITEM_TYPE_ICMP6'', 31),
   (''RTE_FLOW_ITEM_TYPE_ICMP6_ND_NS'', 32),
   (''RTE_FLOW_ITEM_TYPE_ICMP6_ND_NA'', 33),
   (''RTE_FLOW_ITEM_TYPE_ICMP6_ND_OPT'', 34),
   (''RTE_FLOW_ITEM_TYPE_ICMP6_ND_OPT_SLA_ETH'', 35),
   (''RTE_FLOW_ITEM_TYPE_ICMP6_ND_OPT_TLA_ETH'', 36),
   (''RTE_FLOW_ITEM_TYPE_MARK'', 37),
   (''RTE_FLOW_ITEM_TYPE_META'', 38),
   (''RTE_FLOW_ITEM_TYPE_GRE_KEY'', 39),
   (''RTE_FLOW_ITEM_TYPE_GTP_PSC'', 40),
   (''RTE_FLOW_ITEM_TYPE_PPPOES'', 41),
   (''RTE_FLOW_ITEM_TYPE_PPPOED'', 42),
   (''RTE_FLOW_ITEM_TYPE_PPPOE_PROTO_ID'', 43),
   (''RTE_FLOW_ITEM_TYPE_NSH'', 44),
   (''RTE_FLOW_ITEM_TYPE_IGMP'', 45),
   (''RTE_FLOW_ITEM_TYPE_AH'', 46),
   (''RTE_FLOW_ITEM_TYPE_HIGIG2'', 47),
   (''RTE_FLOW_ITEM_TYPE_TAG'', 48)]"

definition RteFlowItemType_name :: "int \<Rightarrow> string option" where
  "RteFlowItemType_name = map_of RteFlowItemType_name_table"

definition RteFlowItemType_value :: "string \<Rightarrow> int option" where
  "RteFlowItemType_value = map_of RteFlowItemType_value_table"

abbreviation RTE_FLOW_ACTION_TYPE_END :: int where "RTE_FLOW_ACTION_TYPE_END \<equiv> 0"
abbreviation RTE_FLOW_ACTION_TYPE_VOID :: int where "RTE_FLOW_ACTION_TYPE_VOID \<equiv> 1"
abbreviation RTE_FLOW_ACTION_TYPE_PASSTHRU :: int where "RTE_FLOW_ACTION_TYPE_PASSTHRU \<equiv> 2"
abbreviation RTE_FLOW_ACTION_TYPE_JUMP :: int where "RTE_FLOW_ACTION_TYPE_JUMP \<equiv> 3"
abbreviation RTE_FLOW_ACTION_TYPE_MARK :: int where "RTE_FLOW_ACTION_TYPE_MARK \<equiv> 4"
abbreviation RTE_FLOW_ACTION_TYPE_FLAG :: int where "RTE_FLOW_ACTION_TYPE_FLAG \<equiv> 5"
abbreviation RTE_FLOW_ACTION_TYPE_QUEUE :: int where "RTE_FLOW_ACTION_TYPE_QUEUE \<equiv> 6"
abbreviation RTE_FLOW_ACTION_TYPE_DROP :: int where "RTE_FLOW_ACTION_TYPE_DROP \<equiv> 7"
abbreviation RTE_FLOW_ACTION_TYPE_COUNT :: int where "RTE_FLOW_ACTION_TYPE_COUNT \<equiv> 8"
abbreviation RTE_FLOW_ACTION_TYPE_RSS :: int where "RTE_FLOW_ACTION_TYPE_RSS \<equiv> 9"
abbreviation RTE_FLOW_ACTION_TYPE_PF :: int where "RTE_FLOW_ACTION_TYPE_PF \<equiv> 10"
abbreviation RTE_FLOW_ACTION_TYPE_VF :: int where "RTE_FLOW_ACTION_TYPE_VF \<equiv> 11"
abbreviation RTE_FLOW_ACTION_TYPE_PHY_PORT :: int where "RTE_FLOW_ACTION_TYPE_PHY_PORT \<equiv> 12"
abbreviation RTE_FLOW_ACTION_TYPE_PORT_ID :: int where "RTE_FLOW_ACTION_TYPE_PORT_ID \<equiv> 13"
abbreviation RTE_FLOW_ACTION_TYPE_METER :: int where "RTE_FLOW_ACTION_TYPE_METER \<equiv> 14"
abbreviation RTE_FLOW_ACTION_TYPE_SECURITY :: int where "RTE_FLOW_ACTION_TYPE_SECURITY \<equiv> 15"
abbreviation RTE_FLOW_ACTION_TYPE_OF_SET_MPLS_TTL :: int where "RTE_FLOW_ACTION_TYPE_OF_SET_MPLS_TTL \<equiv> 16"
abbreviation RTE_FLOW_ACTION_TYPE_OF_DEC_MPLS_TTL :: int where "RTE_FLOW_ACTION_TYPE_OF_DEC_MPLS_TTL \<equiv> 17"
abbreviation RTE_FLOW_ACTION_TYPE_OF_SET_NW_TTL :: int where "RTE_FLOW_ACTION_TYPE_OF_SET_NW_TTL \<equiv> 18"
abbreviation RTE_FLOW_ACTION_TYPE_OF_DEC_NW_TTL :: int where "RTE_FLOW_ACTION_TYPE_OF_DEC_NW_TTL \<equiv> 19"
abbreviation RTE_FLOW_ACTION_TYPE_OF_COPY_TTL_OUT :: int where "RTE_FLOW_ACTION_TYPE_OF_COPY_TTL_OUT \<equiv> 20"
abbreviation RTE_FLOW_ACTION_TYPE_OF_COPY_TTL_IN :: int where "RTE_FLOW_ACTION_TYPE_OF_COPY_TTL_IN \<equiv> 21"
abbreviation RTE_FLOW_ACTION_TYPE_OF_POP_VLAN :: int where "RTE_FLOW_ACTION_TYPE_OF_POP_VLAN \<equiv> 22"
abbreviation RTE_FLOW_ACTION_TYPE_OF_PUSH_VLAN :: int where "RTE_FLOW_ACTION_TYPE_OF_PUSH_VLAN \<equiv> 23"
abbreviation RTE_FLOW_ACTION_TYPE_OF_SET_VLAN_VID :: int where "RTE_FLOW_ACTION_TYPE_OF_SET_VLAN_VID \<equiv> 24"
abbreviation RTE_FLOW_ACTION_TYPE_OF_SET_VLAN_PCP :: int where "RTE_FLOW_ACTION_TYPE_OF_SET_VLAN_PCP \<equiv> 25"
abbreviation RTE_FLOW_ACTION_TYPE_OF_POP_MPLS :: int where "RTE_FLOW_ACTION_TYPE_OF_POP_MPLS \<equiv> 26"
abbreviation RTE_FLOW_ACTION_TYPE_OF_PUSH_MPLS :: int where "RTE_FLOW_ACTION_TYPE_OF_PUSH_MPLS \<equiv> 27"
abbreviation RTE_FLOW_ACTION_TYPE_VXLAN_ENCAP :: int where "RTE_FLOW_ACTION_TYPE_VXLAN_ENCAP \<equiv> 28"
abbreviation RTE_FLOW_ACTION_TYPE_VXLAN_DECAP :: int where "RTE_FLOW_ACTION_TYPE_VXLAN_DECAP \<equiv> 29"
abbreviation RTE_FLOW_ACTION_TYPE_NVGRE_ENCAP :: int where "RTE_FLOW_ACTION_TYPE_NVGRE_ENCAP \<equiv> 30"
abbreviation RTE_FLOW_ACTION_TYPE_NVGRE_DECAP :: int where "RTE_FLOW_ACTION_TYPE_NVGRE_DECAP \<equiv> 31"
abbreviation RTE_FLOW_ACTION_TYPE_RAW_ENCAP :: int where "RTE_FLOW_ACTION_TYPE_RAW_ENCAP \<equiv> 32"
abbreviation RTE_FLOW_ACTION_TYPE_RAW_DECAP :: int where "RTE_FLOW_ACTION_TYPE_RAW_DECAP \<equiv> 33"
abbreviation RTE_FLOW_ACTION_TYPE_SET_IPV4_SRC :: int where "RTE_FLOW_ACTION_TYPE_SET_IPV4_SRC \<equiv> 34"
abbreviation RTE_FLOW_ACTION_TYPE_SET_IPV4_DST :: int where "RTE_FLOW_ACTION_TYPE_SET_IPV4_DST \<equiv> 35"
abbreviation RTE_FLOW_ACTION_TYPE_SET_IPV6_SRC :: int where "RTE_FLOW_ACTION_TYPE_SET_IPV6_SRC \<equiv> 36"
abbreviation RTE_FLOW_ACTION_TYPE_SET_IPV6_DST :: int where "RTE_FLOW_ACTION_TYPE_SET_IPV6_DST \<equiv> 37"
abbreviation RTE_FLOW_ACTION_TYPE_SET_TP_SRC :: int where "RTE_FLOW_ACTION_TYPE_SET_TP_SRC \<equiv> 38"
abbreviation RTE_FLOW_ACTION_TYPE_SET_TP_DST :: int where "RTE_FLOW_ACTION_TYPE_SET_TP_DST \<equiv> 39"
abbreviation RTE_FLOW_ACTION_TYPE_MAC_SWAP :: int where "RTE_FLOW_ACTION_TYPE_MAC_SWAP \<equiv> 40"
abbreviation RTE_FLOW_ACTION_TYPE_DEC_TTL :: int where "RTE_FLOW_ACTION_TYPE_DEC_TTL \<equiv> 41"
abbreviation RTE_FLOW_ACTION_TYPE_SET_TTL :: int where "RTE_FLOW_ACTION_TYPE_SET_TTL \<equiv> 42"
abbreviation RTE_FLOW_ACTION_TYPE_SET_MAC_SRC :: int where "RTE_FLOW_ACTION_TYPE_SET_MAC_SRC \<equiv> 43"
abbreviation RTE_FLOW_ACTION_TYPE_SET_MAC_DST :: int where "RTE_FLOW_ACTION_TYPE_SET_MAC_DST \<equiv> 44"
abbreviation RTE_FLOW_ACTION_TYPE_INC_TCP_SEQ :: int where "RTE_FLOW_ACTION_TYPE_INC_TCP_SEQ \<equiv> 45"
abbreviation RTE_FLOW_ACTION_TYPE_DEC_TCP_SEQ :: int where "RTE_FLOW_ACTION_TYPE_DEC_TCP_SEQ \<equiv> 46"
abbreviation RTE_FLOW_ACTION_TYPE_INC_TCP_ACK :: int where "RTE_FLOW_ACTION_TYPE_INC_TCP_ACK \<equiv> 47"
abbreviation RTE_FLOW_ACTION_TYPE_DEC_TCP_ACK :: int where "RTE_FLOW_ACTION_TYPE_DEC_TCP_ACK \<equiv> 48"
abbreviation RTE_FLOW_ACTION_TYPE_SET_TAG :: int where "RTE_FLOW_ACTION_TYPE_SET_TAG \<equiv> 49"
abbreviation RTE_FLOW_ACTION_TYPE_SET_META :: int where "RTE_FLOW_ACTION_TYPE_SET_META \<equiv> 50"

definition RteFlowActionType_name_table :: "(int \<times> string) list" where
  "RteFlowActionType_name_table =
  [(0, ''RTE_FLOW_ACTION_TYPE_END''),
   (1, ''RTE_FLOW_ACTION_TYPE_VOID''),
   (2, ''RTE_FLOW_ACTION_TYPE_PASSTHRU''),
   (3, ''RTE_FLOW_ACTION_TYPE_JUMP''),
   (4, ''RTE_FLOW_ACTION_TYPE_MARK''),
   (5, ''RTE_FLOW_ACTION_TYPE_FLAG''),
   (6, ''RTE_FLOW_ACTION_TYPE_QUEUE''),
   (7, ''RTE_FLOW_ACTION_TYPE_DROP''),
   (8, ''RTE_FLOW_ACTION_TYPE_COUNT''),
   (9, ''RTE_FLOW_ACTION_TYPE_RSS''),
   (10, ''RTE_FLOW_ACTION_TYPE_PF''),
   (11, ''RTE_FLOW_ACTION_TYPE_VF''),
   (12, ''RTE_FLOW_ACTION_TYPE_PHY_PORT''),
   (13, ''RTE_FLOW_ACTION_TYPE_PORT_ID''),
   (14, ''RTE_FLOW_ACTION_TYPE_METER''),
   (15, ''RTE_FLOW_ACTION_TYPE_SECURITY''),
   (16, ''RTE_FLOW_ACTION_TYPE_OF_SET_MPLS_TTL''),
   (17, ''RTE_FLOW_ACTION_TYPE_OF_DEC_MPLS_TTL''),
   (18, ''RTE_FLOW_ACTION_TYPE_OF_SET_NW_TTL''),
   (19, ''RTE_FLOW_ACTION_TYPE_OF_DEC_NW_TTL''),
   (20, ''RTE_FLOW_ACTION_TYPE_OF_COPY_TTL_OUT''),
   (21, ''RTE_FLOW_ACTION_TYPE_OF_COPY_TTL_IN''),
   (22, ''RTE_FLOW_ACTION_TYPE_OF_POP_VLAN''),
   (23, ''RTE_FLOW_ACTION_TYPE_OF_PUSH_VLAN''),
   (24, ''RTE_FLOW_ACTION_TYPE_OF_SET_VLAN_VID''),
   (25, ''RTE_FLOW_ACTION_TYPE_OF_SET_VLAN_PCP''),
   (26, ''RTE_FLOW_ACTION_TYPE_OF_POP_MPLS''),
   (27, ''RTE_FLOW_ACTION_TYPE_OF_PUSH_MPLS''),
   (28, ''RTE_FLOW_ACTION_TYPE_VXLAN_ENCAP''),
   (29, ''RTE_FLOW_ACTION_TYPE_VXLAN_DECAP''),
   (30, ''RTE_FLOW_ACTION_TYPE_NVGRE_ENCAP''),
   (31, ''RTE_FLOW_ACTION_TYPE_NVGRE_DECAP''),
   (32, ''RTE_FLOW_ACTION_TYPE_RAW_ENCAP''),
   (33, ''RTE_FLOW_ACTION_TYPE_RAW_DECAP''),
   (34, ''RTE_FLOW_ACTION_TYPE_SET_IPV4_SRC''),
   (35, ''RTE_FLOW_ACTION_TYPE_SET_IPV4_DST''),
   (36, ''RTE_FLOW_ACTION_TYPE_SET_IPV6_SRC''),
   (37, ''RTE_FLOW_ACTION_TYPE_SET_IPV6_DST''),
   (38, ''RTE_FLOW_ACTION_TYPE_SET_TP_SRC''),
   (39, ''RTE_FLOW_ACTION_TYPE_SET_TP_DST''),
   (40, ''RTE_FLOW_ACTION_TYPE_MAC_SWAP''),
   (41, ''RTE_FLOW_ACTION_TYPE_DEC_TTL''),
   (42, ''RTE_FLOW_ACTION_TYPE_SET_TTL''),
   (43, ''RTE_FLOW_ACTION_TYPE_SET_MAC_SRC''),
   (44, ''RTE_FLOW_ACTION_TYPE_SET_MAC_DST''),
   (45, ''RTE_FLOW_ACTION_TYPE_INC_TCP_SEQ''),
   (46, ''RTE_FLOW_ACTION_TYPE_DEC_TCP_SEQ''),
   (47, ''RTE_FLOW_ACTION_TYPE_INC_TCP_ACK''),
   (48, ''RTE_FLOW_ACTION_TYPE_DEC_TCP_ACK''),
   (49, ''RTE_FLOW_ACTION_TYPE_SET_TAG''),
   (50, ''RTE_FLOW_ACTION_TYPE_SET_META'')]"

definition RteFlowActionType_value_table :: "(string \<times> int) list" where
  "RteFlowActionType_value_table =
  [(''RTE_FLOW_ACTION_TYPE_END'', 0),
   (''RTE_FLOW_ACTION_TYPE_VOID'', 1),
   (''RTE_FLOW_ACTION_TYPE_PASSTHRU'', 2),
   (''RTE_FLOW_ACTION_TYPE_JUMP'', 3),
   (''RTE_FLOW_ACTION_TYPE_MARK'', 4),
   (''RTE_FLOW_ACTION_TYPE_FLAG'', 5),
   (''RTE_FLOW_ACTION_TYPE_QUEUE'', 6),
   (''RTE_FLOW_ACTION_TYPE_DROP'', 7),
   (''RTE_FLOW_ACTION_TYPE_COUNT'', 8),
   (''RTE_FLOW_ACTION_TYPE_RSS'', 9),
   (''RTE_FLOW_ACTION_TYPE_PF'', 10),
   (''RTE_FLOW_ACTION_TYPE_VF'', 11),
   (''RTE_FLOW_ACTION_TYPE_PHY_PORT'', 12),
   (''RTE_FLOW_ACTION_TYPE_PORT_ID'', 13),
   (''RTE_FLOW_ACTION_TYPE_METER'', 14),
   (''RTE_FLOW_ACTION_TYPE_SECURITY'', 15),
   (''RTE_FLOW_ACTION_TYPE_OF_SET_MPLS_TTL'', 16),
   (''RTE_FLOW_ACTION_TYPE_OF_DEC_MPLS_TTL'', 17),
   (''RTE_FLOW_ACTION_TYPE_OF_SET_NW_TTL'', 18),
   (''RTE_FLOW_ACTION_TYPE_OF_DEC_NW_TTL'', 19),
   (''RTE_FLOW_ACTION_TYPE_OF_COPY_TTL_OUT'', 20),
   (''RTE_FLOW_ACTION_TYPE_OF_COPY_TTL_IN'', 21),
   (''RTE_FLOW_ACTION_TYPE_OF_POP_VLAN'', 22),
   (''RTE_FLOW_ACTION_TYPE_OF_PUSH_VLAN'', 23),
   (''RTE_FLOW_ACTION_TYPE_OF_SET_VLAN_VID'', 24),
   (''RTE_FLOW_ACTION_TYPE_OF_SET_VLAN_PCP'', 25),
   (''RTE_FLOW_ACTION_TYPE_OF_POP_MPLS'', 26),
   (''RTE_FLOW_ACTION_TYPE_OF_PUSH_MPLS'', 27),
   (''RTE_FLOW_ACTION_TYPE_VXLAN_ENCAP'', 28),
   (''RTE_FLOW_ACTION_TYPE_VXLAN_DECAP'', 29),
   (''RTE_FLOW_ACTION_TYPE_NVGRE_ENCAP'', 30),
   (''RTE_FLOW_ACTION_TYPE_NVGRE_DECAP'', 31),
   (''RTE_FLOW_ACTION_TYPE_RAW_ENCAP'', 32),
   (''RTE_FLOW_ACTION_TYPE_RAW_DECAP'', 33),
   (''RTE_FLOW_ACTION_TYPE_SET_IPV4_SRC'', 34),
   (''RTE_FLOW_ACTION_TYPE_SET_IPV4_DST'', 35),
   (''RTE_FLOW_ACTION_TYPE_SET_IPV6_SRC'', 36),
   (''RTE_FLOW_ACTION_TYPE_SET_IPV6_DST'', 37),
   (''RTE_FLOW_ACTION_TYPE_SET_TP_SRC'', 38),
   (''RTE_FLOW_ACTION_TYPE_SET_TP_DST'', 39),
   (''RTE_FLOW_ACTION_TYPE_MAC_SWAP'', 40),
   (''RTE_FLOW_ACTION_TYPE_DEC_TTL'', 41),
   (''RTE_FLOW_ACTION_TYPE_SET_TTL'', 42),
   (''RTE_FLOW_ACTION_TYPE_SET_MAC_SRC'', 43),
   (''RTE_FLOW_ACTION_TYPE_SET_MAC_DST'', 44),
   (''RTE_FLOW_ACTION_TYPE_INC_TCP_SEQ'', 45),
   (''RTE_FLOW_ACTION_TYPE_DEC_TCP_SEQ'', 46),
   (''RTE_FLOW_ACTION_TYPE_INC_TCP_ACK'', 47),
   (''RTE_FLOW_ACTION_TYPE_DEC_TCP_ACK'', 48),
   (''RTE_FLOW_ACTION_TYPE_SET_TAG'', 49),
   (''RTE_FLOW_ACTION_TYPE_SET_META'', 50)]"

definition RteFlowActionType_name :: "int \<Rightarrow> string option" where
  "RteFlowActionType_name = map_of RteFlowActionType_name_table"

definition RteFlowActionType_value :: "string \<Rightarrow> int option" where
  "RteFlowActionType_value = map_of RteFlowActionType_value_table"

abbreviation RTE_FLOW_ERROR_TYPE_NONE :: int where "RTE_FLOW_ERROR_TYPE_NONE \<equiv> 0"

section \<open>Message types\<close>

type_synonym go_struct = string

definition struct_table :: "(go_struct \<times> (string \<times> go_struct fkind) list) list" where
  "struct_table =
   [(''Empty'',
     []),
    (''AnyPb'',
     [(''type_url'', FStr), (''value'', FBytes)]),
    (''RteFlowItemAny'',
     [(''num'', FU32)]),
    (''RteFlowItemVf'',
     [(''id'', FU32)]),
    (''RteFlowItemPhyPort'',
     [(''index'', FU32)]),
    (''RteFlowItemPortId'',
     [(''id'', FU32)]),
    (''RteFlowItemRaw'',
     [(''relative'', FU32), (''search'', FU32), (''reserved'', FU32),
      (''offset'', FI32), (''limit'', FU32), (''length'', FU32), (''pattern'', FU32)]),
    (''RteEtherAddr'',
     [(''addr_bytes'', FBytes)]),
    (''RteFlowItemEth'',
     [(''dst'', FMsg ''RteEtherAddr''), (''src'', FMsg ''RteEtherAddr''), (''type'', FU32)]),
    (''RteFlowItemVlan'',
     [(''tci'', FU32), (''inner_type'', FU32)]),
    (''RteIpv4Hdr'',
     [(''version_ihl'', FU32), (''type_of_service'', FU32), (''total_length'', FU32),
      (''packet_id'', FU32), (''fragment_offset'', FU32), (''time_to_live'', FU32),
      (''next_proto_id'', FU32), (''hdr_checksum'', FU32), (''src_addr'', FU32),
      (''dst_addr'', FU32)]),
    (''RteFlowItemIpv4'',
     [(''hdr'', FMsg ''RteIpv4Hdr'')]),
    (''RteIpv6Hdr'',
     [(''vtc_flow'', FU32), (''payload_len'', FU32), (''proto'', FU32),
      (''hop_limits'', FU32), (''src_addr'', FBytes), (''dst_addr'', FBytes)]),
    (''RteFlowItemIpv6'',
     [(''hdr'', FMsg ''RteIpv6Hdr'')]),
    (''RteIcmpHdr'',
     [(''icmp_type'', FU32), (''icmp_code'', FU32), (''icmp_cksum'', FU32),
      (''icmp_ident'', FU32), (''icmp_seq_nb'', FU32)]),
    (''RteFlowItemIcmp'',
     [(''hdr'', FMsg ''RteIcmpHdr'')]),
    (''RteUdpHdr'',
     [(''src_port'', FU32), (''dst_port'', FU32), (''dgram_len'', FU32),
      (''dgram_cksum'', FU32)]),
    (''RteFlowItemUdp'',
     [(''hdr'', FMsg ''RteUdpHdr'')]),
    (''RteTcpHdr'',
     [(''src_port'', FU32), (''dst_port'', FU32), (''sent_seq'', FU32),
      (''recv_ack'', FU32), (''data_off'', FU32), (''tcp_flags'', FU32),
      (''rx_win'', FU32), (''cksum'', FU32), (''tcp_urp'', FU32)]),
    (''RteFlowItemTcp'',
     [(''hdr'', FMsg ''RteTcpHdr'')]),
    (''RteSctpHdr'',
     [(''src_port'', FU32), (''dst_port'', FU32), (''tag'', FU32), (''cksum'', FU32)]),
    (''RteFlowItemSctp'',
     [(''hdr'', FMsg ''RteSctpHdr'')]),
    (''RteFlowItemVxlan'',
     [(''flags'', FU32), (''rsvd0'', FBytes), (''vni'', FBytes), (''rsvd1'', FU32)]),
    (''RteFlowItemETag'',
     [(''epcp_edei_in_ecid_b'', FU32), (''rsvd_grp_ecid_b'', FU32),
      (''in_ecid_e'', FU32), (''ecid_e'', FU32), (''inner_type'', FU32)]),
    (''RteFlowItemNvgre'',
     [(''c_k_s_rsvd0_ver'', FU32), (''protocol'', FU32), (''tni'', FBytes),
      (''flow_id'', FU32)]),
    (''RteFlowItemMpls'',
     [(''label_tc_s'', FBytes), (''ttl'', FU32)]),
    (''RteFlowItemGre'',
     [(''c_rsvd0_ver'', FU32), (''protocol'', FU32)]),
    (''RteFlowItemFuzzy'',
     [(''thresh'', FU32)]),
    (''RteFlowItemGtp'',
     [(''v_pt_rsv_flags'', FU32), (''msg_type'', FU32), (''msg_len'', FU32),
      (''teid'', FU32)]),
    (''RteEspHdr'',
     [(''spi'', FU32), (''seq'', FU32)]),
    (''RteFlowItemEsp'',
     [(''hdr'', FMsg ''RteEspHdr'')]),
    (''RteFlowItemGeneve'',
     [(''ver_opt_len_o_c_rsvd0'', FU32), (''protocol'', FU32), (''vni'', FBytes),
      (''rsvd1'', FU32)]),
    (''RteFlowItemVxlanGpe'',
     [(''flags'', FU32), (''rsvd0'', FBytes), (''protocol'', FU32), (''vni'', FBytes),
      (''rsvd1'', FU32)]),
    (''RteFlowItemArpEthIpv4'',
     [(''hrd'', FU32), (''pro'', FU32), (''hln'', FU32), (''pln'', FU32),
      (''op'', FU32), (''sha'', FMsg ''RteEtherAddr''), (''spa'', FU32),
      (''tha'', FMsg ''RteEtherAddr''), (''tpa'', FU32)]),
    (''RteFlowItemIpv6Ext'',
     [(''next_hdr'', FU32)]),
    (''RteFlowItemIcmp6'',
     [(''type'', FU32), (''code'', FU32), (''checksum'', FU32)]),
    (''RteFlowItemIcmp6NdNs'',
     [(''type'', FU32), (''code'', FU32), (''checksum'', FU32), (''reserved'', FU32),
      (''target_addr'', FBytes)]),
    (''RteFlowItemIcmp6NdNa'',
     [(''type'', FU32), (''code'', FU32), (''checksum'', FU32),
      (''rso_reserved'', FU32), (''target_addr'', FBytes)]),
    (''RteFlowItemIcmp6NdOpt'',
     [(''type'', FU32), (''length'', FU32)]),
    (''RteFlowItemIcmp6NdOptSlaEth'',
     [(''type'', FU32), (''length'', FU32), (''sla'', FMsg ''RteEtherAddr'')]),
    (''RteFlowItemIcmp6NdOptStaEth'',
     [(''type'', FU32), (''length'', FU32), (''tla'', FMsg ''RteEtherAddr'')]),
    (''RteFlowItemMark'',
     [(''id'', FU32)]),
    (''RteFlowItemMeta'',
     [(''data'', FU32)]),
    (''RteFlowItemGtpPsc'',
     [(''pdu_type'', FU32), (''qfi'', FU32)]),
    (''RteFlowItemPppoe'',
     [(''version_type'', FU32), (''code'', FU32), (''session_id'', FU32),
      (''length'', FU32)]),
    (''RteFlowItemPppoeProtoId'',
     [(''proto_id'', FU32)]),
    (''RteFlowItemNsh'',
     [(''version'', FU32), (''oam_pkt'', FU32), (''reserved'', FU32), (''ttl'', FU32),
      (''length'', FU32), (''reserved1'', FU32), (''mdtype'', FU32),
      (''next_proto'', FU32), (''spi'', FU32), (''sindex'', FU32)]),
    (''RteFlowItemIgmp'',
     [(''type'', FU32), (''max_resp_time'', FU32), (''checksum'', FU32),
      (''group_addr'', FU32)]),
    (''RteFlowItemAh'',
     [(''next_hdr'', FU32), (''payload_len'', FU32), (''reserved'', FU32),
      (''spi'', FU32), (''seq_num'', FU32)]),
    (''RteHigig2Frc'',
     [(''ksop'', FU32), (''tc'', FU32), (''mcst'', FU32), (''resv'', FU32),
      (''dst_modid'', FU32), (''dst_pid'', FU32), (''src_modid'', FU32),
      (''src_pid'', FU32), (''lbid'', FU32), (''ppd_type'', FU32), (''resv1'', FU32),
      (''dp'', FU32)]),
    (''RteHigig2PptType0'',
     [(''mirror'', FU32), (''mirror_done'', FU32), (''mirror_only'', FU32),
      (''ingress_tagged'', FU32), (''dst_tgid'', FU32), (''dst_t'', FU32),
      (''vc_label2'', FU32), (''label_present'', FU32), (''l3'', FU32),
      (''res'', FU32), (''vc_label1'', FU32), (''vc_label0'', FU32),
      (''vid_high'', FU32), (''vid_low'', FU32), (''opc'', FU32), (''res1'', FU32),
      (''srce_t'', FU32), (''pf'', FU32), (''res2'', FU32), (''hdr_ext_length'', FU32)]),
    (''RteHigig2PptType1'',
     [(''classification'', FU32), (''resv'', FU32), (''vid'', FU32),
      (''opcode'', FU32), (''resv1'', FU32), (''src_t'', FU32), (''pfm'', FU32),
      (''resv2'', FU32), (''hdr_ext_len'', FU32)]),
    (''RteHigig2Hdr'',
     [(''fcr'', FMsg ''RteHigig2Frc''), (''ppt0'', FMsg ''RteHigig2PptType0''),
      (''ppt1'', FMsg ''RteHigig2PptType1'')]),
    (''RteFlowItemHigig2Hdr'',
     [(''hdr'', FMsg ''RteHigig2Hdr'')]),
    (''RteFlowItemTag'',
     [(''data'', FU32), (''index'', FU32)]),
    (''RteFlowItem'',
     [(''type'', FI32), (''spec'', FMsg ''AnyPb''), (''last'', FMsg ''AnyPb''),
      (''mask'', FMsg ''AnyPb'')]),
    (''RteFlowActionMark'',
     [(''id'', FU32)]),
    (''RteFlowActionJump'',
     [(''group'', FU32)]),
    (''RteFlowActionQueue'',
     [(''index'', FU32)]),
    (''RteFlowActionCount'',
     [(''shared'', FU32), (''reserved'', FU32), (''id'', FU32)]),
    (''RteFlowActionRss'',
     [(''func'', FI32), (''level'', FU32), (''types'', FU64), (''key_len'', FU32),
      (''queue_num'', FU32), (''key'', FU32), (''queue'', FU32)]),
    (''RteFlowActionVf'',
     [(''reserved'', FU32), (''original'', FU32), (''id'', FU32)]),
    (''RteFlowActionPhyPort'',
     [(''original'', FU32), (''reserved'', FU32), (''index'', FU32)]),
    (''RteFlowActionPortId'',
     [(''original'', FU32), (''reserved'', FU32), (''id'', FU32)]),
    (''RteFlowActionMeter'',
     [(''mtr_id'', FU32)]),
    (''RteFlowActionSecurity'',
     [(''security_session'', FMsg ''AnyPb'')]),
    (''RteFlowActionOfSetMplsTtl'',
     [(''mpls_ttl'', FU32)]),
    (''RteFlowActionOfSetNwTtl'',
     [(''nw_ttl'', FU32)]),
    (''RteFlowActionOfPushVlan'',
     [(''ethertype'', FU32)]),
    (''RteFlowActionOfSetVlanVid'',
     [(''vlan_vid'', FU32)]),
    (''RteFlowActionOfSetVlanPcp'',
     [(''vlan_pcp'', FU32)]),
    (''RteFlowActionOfPopMpls'',
     [(''ethertype'', FU32)]),
    (''RteFlowActionOfPushMpls'',
     [(''ethertype'', FU32)]),
    (''RteFlowActionVxlanEncap'',
     [(''definition'', FMsg ''RteFlowItem'')]),
    (''RteFlowActionNvgreEncap'',
     [(''definition'', FMsg ''RteFlowItem'')]),
    (''RteFlowActionRawEncap'',
     [(''data'', FU32), (''preserve'', FU32), (''size'', FU32)]),
    (''RteFlowActionRawDecap'',
     [(''data'', FU32), (''size'', FU32)]),
    (''RteFlowActionSetIpv4'',
     [(''ipv4_addr'', FU32)]),
    (''RteFlowActionSetIpv6'',
     [(''ipv6_addr'', FU32s)]),
    (''RteFlowActionSetTp'',
     [(''port'', FU32)]),
    (''RteFlowActionSetTtl'',
     [(''ttl_value'', FU32)]),
    (''RteFlowActionSetMac'',
     [(''mac_addrf'', FU32s)]),
    (''RteFlowActionSetTag'',
     [(''data'', FU32), (''mask'', FU32), (''index'', FU32)]),
    (''RteFlowActionSetMeta'',
     [(''data'', FU32), (''mask'', FU32)]),
    (''Eth'',
     [(''dst'', FStr), (''src'', FStr), (''type'', FU32)]),
    (''Ipv4'',
     [(''hdr'', FMsg ''Ipv4Hdr'')]),
    (''Ipv4Hdr'',
     [(''version_ihl'', FU32), (''type_of_service'', FU32), (''total_length'', FU32),
      (''packet_id'', FU32), (''fragment_offset'', FU32), (''time_to_live'', FU32),
      (''next_proto_id'', FU32), (''hdr_checksum'', FU32), (''src_addr'', FStr), (''dst_addr'', FStr)]),
    (''VfPciAddr'',
     [(''addr'', FStr)]),
    (''ToPodInterfaceConf'',
     [(''podInterface'', FStr)])]"

definition struct_fields :: "go_struct descr" where
  "struct_fields t = (case map_of struct_table t of Some fs \<Rightarrow> fs | None \<Rightarrow> [])"

record RteEtherAddr =
  AddrBytes :: "byte list"

record RteFlowItemEth =
  eth_Dst :: "RteEtherAddr option"
  eth_Src :: "RteEtherAddr option"
  eth_Type :: u32

record RteFlowItemVlan =
  vlan_Tci :: u32
  vlan_InnerType :: u32

record RteIpv4Hdr =
  ip4_VersionIhl :: u32
  ip4_TypeOfService :: u32
  ip4_TotalLength :: u32
  ip4_PacketId :: u32
  ip4_FragmentOffset :: u32
  ip4_TimeToLive :: u32
  ip4_NextProtoId :: u32
  ip4_HdrChecksum :: u32
  ip4_SrcAddr :: u32
  ip4_DstAddr :: u32

record RteFlowItemIpv4 =
  ipv4_Hdr :: "RteIpv4Hdr option"

record RteUdpHdr =
  udp_SrcPort :: u32
  udp_DstPort :: u32
  udp_DgramLen :: u32
  udp_DgramCksum :: u32

record RteFlowItemUdp =
  udp_Hdr :: "RteUdpHdr option"

record RteFlowItemPppoe =
  pppoe_VersionType :: u32
  pppoe_Code :: u32
  pppoe_SessionId :: u32
  pppoe_Length :: u32

record RteFlowItemPppoeProtoId =
  pppoe_ProtoId :: u32

record RteFlowActionVf =
  vf_Reserved :: u32
  vf_Original :: u32
  vf_Id :: u32

datatype proto_msg =
    MsgEth RteFlowItemEth
  | MsgVlan RteFlowItemVlan
  | MsgIpv4 RteFlowItemIpv4
  | MsgUdp RteFlowItemUdp
  | MsgPppoe RteFlowItemPppoe
  | MsgPppoeProtoId RteFlowItemPppoeProtoId
  | MsgVf RteFlowActionVf
  | MsgOther go_struct fields

text \<open>The full name \<^verbatim>\<open>anypb\<close> stores with a packed message.\<close>

primrec msg_type_of :: "proto_msg \<Rightarrow> go_struct" where
  "msg_type_of (MsgEth m) = ''RteFlowItemEth''"
| "msg_type_of (MsgVlan m) = ''RteFlowItemVlan''"
| "msg_type_of (MsgIpv4 m) = ''RteFlowItemIpv4''"
| "msg_type_of (MsgUdp m) = ''RteFlowItemUdp''"
| "msg_type_of (MsgPppoe m) = ''RteFlowItemPppoe''"
| "msg_type_of (MsgPppoeProtoId m) = ''RteFlowItemPppoeProtoId''"
| "msg_type_of (MsgVf m) = ''RteFlowActionVf''"
| "msg_type_of (MsgOther t fs) = t"

text \<open>The message a decoder fills in, from the fields it decoded.\<close>

definition build_udp_hdr :: "fields \<Rightarrow> RteUdpHdr" where
  "build_udp_hdr fs = \<lparr>udp_SrcPort = f_u32 fs ''src_port'', udp_DstPort = f_u32 fs ''dst_port'',
     udp_DgramLen = f_u32 fs ''dgram_len'', udp_DgramCksum = f_u32 fs ''dgram_cksum''\<rparr>"

definition build_msg :: "go_struct \<Rightarrow> fields \<Rightarrow> proto_msg" where
  "build_msg t fs =
     (if t = ''RteFlowItemVlan'' then
        MsgVlan \<lparr>vlan_Tci = f_u32 fs ''tci'', vlan_InnerType = f_u32 fs ''inner_type''\<rparr>
      else if t = ''RteFlowItemUdp'' then
        MsgUdp \<lparr>udp_Hdr = map_option build_udp_hdr (f_msg fs ''hdr'')\<rparr>
      else if t = ''RteFlowItemPppoe'' then
        MsgPppoe \<lparr>pppoe_VersionType = f_u32 fs ''version_type'', pppoe_Code = f_u32 fs ''code'',
                  pppoe_SessionId = f_u32 fs ''session_id'', pppoe_Length = f_u32 fs ''length''\<rparr>
      else if t = ''RteFlowItemPppoeProtoId'' then
        MsgPppoeProtoId \<lparr>pppoe_ProtoId = f_u32 fs ''proto_id''\<rparr>
      else if t = ''RteFlowActionVf'' then
        MsgVf \<lparr>vf_Reserved = f_u32 fs ''reserved'', vf_Original = f_u32 fs ''original'',
               vf_Id = f_u32 fs ''id''\<rparr>
      else MsgOther t fs)"

section \<open>Choosing the message of a type (helper.go, userTypes.go)\<close>

definition GetFlowItemObj :: "int \<Rightarrow> go_struct option" where
  "GetFlowItemObj t =
     (if t \<in> {RTE_FLOW_ITEM_TYPE_END, RTE_FLOW_ITEM_TYPE_VOID, RTE_FLOW_ITEM_TYPE_INVERT,
           RTE_FLOW_ITEM_TYPE_PF} then Some ''Empty''
      else if t = RTE_FLOW_ITEM_TYPE_ANY then Some ''RteFlowItemAny''
      else if t = RTE_FLOW_ITEM_TYPE_VF then Some ''RteFlowItemVf''
      else if t = RTE_FLOW_ITEM_TYPE_PHY_PORT then Some ''RteFlowItemPhyPort''
      else if t = RTE_FLOW_ITEM_TYPE_PORT_ID then Some ''RteFlowItemPortId''
      else if t = RTE_FLOW_ITEM_TYPE_RAW then Some ''RteFlowItemRaw''
      else if t = RTE_FLOW_ITEM_TYPE_ETH then Some ''RteFlowItemEth''
      else if t = RTE_FLOW_ITEM_TYPE_VLAN then Some ''RteFlowItemVlan''
      else if t = RTE_FLOW_ITEM_TYPE_IPV4 then Some ''RteFlowItemIpv4''
      else if t = RTE_FLOW_ITEM_TYPE_IPV6 then Some ''RteFlowItemIpv6''
      else if t = RTE_FLOW_ITEM_TYPE_ICMP then Some ''RteFlowItemIcmp''
      else if t = RTE_FLOW_ITEM_TYPE_UDP then Some ''RteFlowItemUdp''
      else if t = RTE_FLOW_ITEM_TYPE_TCP then Some ''RteFlowItemTcp''
      else if t = RTE_FLOW_ITEM_TYPE_SCTP then Some ''RteFlowItemSctp''
      else if t = RTE_FLOW_ITEM_TYPE_VXLAN then Some ''RteFlowItemVxlan''
      else if t = RTE_FLOW_ITEM_TYPE_E_TAG then Some ''RteFlowItemETag''
      else if t = RTE_FLOW_ITEM_TYPE_NVGRE then Some ''RteFlowItemNvgre''
      else if t = RTE_FLOW_ITEM_TYPE_MPLS then Some ''RteFlowItemMpls''
      else if t = RTE_FLOW_ITEM_TYPE_GRE then Some ''RteFlowItemGre''
      else if t = RTE_FLOW_ITEM_TYPE_FUZZY then Some ''RteFlowItemFuzzy''
      else if t \<in> {RTE_FLOW_ITEM_TYPE_GTP, RTE_FLOW_ITEM_TYPE_GTPC,
           RTE_FLOW_ITEM_TYPE_GTPU} then Some ''RteFlowItemGtp''
      else if t = RTE_FLOW_ITEM_TYPE_ESP then Some ''RteFlowItemEsp''
      else if t = RTE_FLOW_ITEM_TYPE_GENEVE then Some ''RteFlowItemGeneve''
      else if t = RTE_FLOW_ITEM_TYPE_VXLAN_GPE then Some ''RteFlowItemVxlanGpe''
      else if t = RTE_FLOW_ITEM_TYPE_ARP_ETH_IPV4 then Some ''RteFlowItemArpEthIpv4''
      else if t = RTE_FLOW_ITEM_TYPE_IPV6_EXT then Some ''RteFlowItemIpv6Ext''
      else if t = RTE_FLOW_ITEM_TYPE_ICMP6 then Some ''RteFlowItemIcmp6''
      else if t = RTE_FLOW_ITEM_TYPE_ICMP6_ND_NS then Some ''RteFlowItemIcmp6NdNs''
      else if t = RTE_FLOW_ITEM_TYPE_ICMP6_ND_NA then Some ''RteFlowItemIcmp6NdNa''
      else if t = RTE_FLOW_ITEM_TYPE_ICMP6_ND_OPT then Some ''RteFlowItemIcmp6NdOpt''
      else if t = RTE_FLOW_ITEM_TYPE_ICMP6_ND_OPT_SLA_ETH then Some ''RteFlowItemIcmp6NdOptSlaEth''
      else if t = RTE_FLOW_ITEM_TYPE_ICMP6_ND_OPT_TLA_ETH then Some ''RteFlowItemIcmp6NdOptStaEth''
      else if t = RTE_FLOW_ITEM_TYPE_MARK then Some ''RteFlowItemMark''
      else if t = RTE_FLOW_ITEM_TYPE_META then Some ''RteFlowItemMeta''
      else if t = RTE_FLOW_ITEM_TYPE_GRE_KEY then Some ''RteFlowItemGre''
      else if t = RTE_FLOW_ITEM_TYPE_GTP_PSC then Some ''RteFlowItemGtpPsc''
      else if t \<in> {RTE_FLOW_ITEM_TYPE_PPPOES,
           RTE_FLOW_ITEM_TYPE_PPPOED} then Some ''RteFlowItemPppoe''
      else if t = RTE_FLOW_ITEM_TYPE_PPPOE_PROTO_ID then Some ''RteFlowItemPppoeProtoId''
      else if t = RTE_FLOW_ITEM_TYPE_NSH then Some ''RteFlowItemNsh''
      else if t = RTE_FLOW_ITEM_TYPE_IGMP then Some ''RteFlowItemIgmp''
      else if t = RTE_FLOW_ITEM_TYPE_AH then Some ''RteFlowItemAh''
      else if t = RTE_FLOW_ITEM_TYPE_HIGIG2 then Some ''RteFlowItemHigig2Hdr''
      else if t = RTE_FLOW_ITEM_TYPE_TAG then Some ''RteFlowItemTag''
      else None)"

definition GetFlowActionObj :: "int \<Rightarrow> go_struct option" where
  "GetFlowActionObj t =
     (if t \<in> {RTE_FLOW_ACTION_TYPE_END, RTE_FLOW_ACTION_TYPE_VOID,
           RTE_FLOW_ACTION_TYPE_PASSTHRU, RTE_FLOW_ACTION_TYPE_FLAG,
           RTE_FLOW_ACTION_TYPE_DROP, RTE_FLOW_ACTION_TYPE_PF,
           RTE_FLOW_ACTION_TYPE_OF_DEC_MPLS_TTL, RTE_FLOW_ACTION_TYPE_OF_DEC_NW_TTL,
           RTE_FLOW_ACTION_TYPE_OF_COPY_TTL_OUT, RTE_FLOW_ACTION_TYPE_OF_COPY_TTL_IN,
           RTE_FLOW_ACTION_TYPE_OF_POP_VLAN, RTE_FLOW_ACTION_TYPE_VXLAN_DECAP,
           RTE_FLOW_ACTION_TYPE_NVGRE_DECAP, RTE_FLOW_ACTION_TYPE_MAC_SWAP,
           RTE_FLOW_ACTION_TYPE_DEC_TTL, RTE_FLOW_ACTION_TYPE_INC_TCP_SEQ,
           RTE_FLOW_ACTION_TYPE_DEC_TCP_SEQ, RTE_FLOW_ACTION_TYPE_INC_TCP_ACK,
           RTE_FLOW_ACTION_TYPE_DEC_TCP_ACK} then Some ''Empty''
      else if t = RTE_FLOW_ACTION_TYPE_JUMP then Some ''RteFlowActionJump''
      else if t = RTE_FLOW_ACTION_TYPE_MARK then Some ''RteFlowActionMark''
      else if t = RTE_FLOW_ACTION_TYPE_QUEUE then Some ''RteFlowActionQueue''
      else if t = RTE_FLOW_ACTION_TYPE_COUNT then Some ''RteFlowActionCount''
      else if t = RTE_FLOW_ACTION_TYPE_RSS then Some ''RteFlowActionRss''
      else if t = RTE_FLOW_ACTION_TYPE_VF then Some ''RteFlowActionVf''
      else if t = RTE_FLOW_ACTION_TYPE_PHY_PORT then Some ''RteFlowActionPhyPort''
      else if t = RTE_FLOW_ACTION_TYPE_PORT_ID then Some ''RteFlowActionPortId''
      else if t = RTE_FLOW_ACTION_TYPE_METER then Some ''RteFlowActionMeter''
      else if t = RTE_FLOW_ACTION_TYPE_SECURITY then Some ''RteFlowActionSecurity''
      else if t = RTE_FLOW_ACTION_TYPE_OF_SET_MPLS_TTL then Some ''RteFlowActionOfSetMplsTtl''
      else if t = RTE_FLOW_ACTION_TYPE_OF_SET_NW_TTL then Some ''RteFlowActionOfSetNwTtl''
      else if t = RTE_FLOW_ACTION_TYPE_OF_PUSH_VLAN then Some ''RteFlowActionOfPushVlan''
      else if t = RTE_FLOW_ACTION_TYPE_OF_SET_VLAN_VID then Some ''RteFlowActionOfSetVlanVid''
      else if t = RTE_FLOW_ACTION_TYPE_OF_SET_VLAN_PCP then Some ''RteFlowActionOfSetVlanPcp''
      else if t = RTE_FLOW_ACTION_TYPE_OF_POP_MPLS then Some ''RteFlowActionOfPopMpls''
      else if t = RTE_FLOW_ACTION_TYPE_OF_PUSH_MPLS then Some ''RteFlowActionOfPushMpls''
      else if t = RTE_FLOW_ACTION_TYPE_VXLAN_ENCAP then Some ''RteFlowActionVxlanEncap''
      else if t = RTE_FLOW_ACTION_TYPE_NVGRE_ENCAP then Some ''RteFlowActionNvgreEncap''
      else if t = RTE_FLOW_ACTION_TYPE_RAW_ENCAP then Some ''RteFlowActionRawEncap''
      else if t = RTE_FLOW_ACTION_TYPE_RAW_DECAP then Some ''RteFlowActionRawDecap''
      else if t = RTE_FLOW_ACTION_TYPE_SET_IPV4_SRC then Some ''RteFlowActionSetIpv4''
      else if t = RTE_FLOW_ACTION_TYPE_SET_IPV4_DST then Some ''RteFlowActionSetIpv4''
      else if t = RTE_FLOW_ACTION_TYPE_SET_IPV6_SRC then Some ''RteFlowActionSetIpv6''
      else if t = RTE_FLOW_ACTION_TYPE_SET_IPV6_DST then Some ''RteFlowActionSetIpv6''
      else if t = RTE_FLOW_ACTION_TYPE_SET_TP_SRC then Some ''RteFlowActionSetTp''
      else if t = RTE_FLOW_ACTION_TYPE_SET_TP_DST then Some ''RteFlowActionSetTp''
      else if t = RTE_FLOW_ACTION_TYPE_SET_TTL then Some ''RteFlowActionSetTtl''
      else if t = RTE_FLOW_ACTION_TYPE_SET_MAC_SRC then Some ''RteFlowActionSetMac''
      else if t = RTE_FLOW_ACTION_TYPE_SET_MAC_DST then Some ''RteFlowActionSetMac''
      else if t = RTE_FLOW_ACTION_TYPE_SET_TAG then Some ''RteFlowActionSetTag''
      else if t = RTE_FLOW_ACTION_TYPE_SET_META then Some ''RteFlowActionSetMeta''
      else None)"

definition RTE_FLOW_ACTION_TYPE_VFPCIADDR :: string where
  "RTE_FLOW_ACTION_TYPE_VFPCIADDR = ''RTE_FLOW_ACTION_TYPE_VFPCIADDR''"

definition GetFlowActionType :: "string \<Rightarrow> int option" where
  "GetFlowActionType actionType =
     (case RteFlowActionType_value actionType of
        Some v \<Rightarrow> Some v
      | None \<Rightarrow> (if actionType = RTE_FLOW_ACTION_TYPE_VFPCIADDR
                 then (case RteFlowActionType_name RTE_FLOW_ACTION_TYPE_VF of
                         Some n \<Rightarrow> RteFlowActionType_value n
                       | None \<Rightarrow> RteFlowActionType_value [])
                 else None))"

section \<open>Requests and responses of the DCF service\<close>

record 'any RteFlowItem =
  item_Type :: int
  item_Spec :: "'any option"
  item_Last :: "'any option"
  item_Mask :: "'any option"

record 'any RteFlowAction =
  action_Type :: int
  action_Conf :: "'any option"

record RteFlowAttr =
  attr_Group :: u32
  attr_Priority :: u32
  attr_Ingress :: u32
  attr_Egress :: u32
  attr_Transfer :: u32
  attr_Reserved :: u32

record 'any RequestFlowCreate =
  req_PortId :: u32
  req_Attr :: "RteFlowAttr option"
  req_Pattern :: "'any RteFlowItem list"
  req_Action :: "'any RteFlowAction list"

record RequestFlowofPort =
  del_PortId :: u32
  del_FlowId :: u32

record RteFlowError =
  err_Type :: int
  err_Mesg :: string

record ResponseFlow =
  res_ErrorInfo :: "RteFlowError option"

record ResponseFlowCreate =
  cres_FlowId :: u32
  cres_ErrorInfo :: "RteFlowError option"

record PortsInformation =
  PortId :: u32
  PortPci :: string
  PortMode :: string

section \<open>Packing messages into Any\<close>

record 'any anypb =
  any_New :: "proto_msg \<Rightarrow> 'any outcome"
  UnmarshalTo :: "'any option \<Rightarrow> go_struct \<Rightarrow> proto_msg outcome"

text \<open>
  What \<^verbatim>\<open>anypb\<close> documents: neither call panics, a nil \<^verbatim>\<open>Any\<close> does not unpack, an \<^verbatim>\<open>Any\<close> unpacks
  into the message that was packed when the target has its type, and into no other type.
\<close>

definition anypb_spec :: "'any anypb \<Rightarrow> bool" where
  "anypb_spec A \<longleftrightarrow>
     (\<forall>m p. any_New A m \<noteq> Panic p) \<and>
     (\<forall>a t p. UnmarshalTo A a t \<noteq> Panic p) \<and>
     (\<forall>t m. UnmarshalTo A None t \<noteq> Ok m) \<and>
     (\<forall>m a. any_New A m = Ok a \<longrightarrow> UnmarshalTo A (Some a) (msg_type_of m) = Ok m) \<and>
     (\<forall>a t m. UnmarshalTo A a t = Ok m \<longrightarrow> msg_type_of m = t)"

text \<open>An implementation that keeps the message itself, for closed examples.\<close>

primrec plain_unmarshal :: "proto_msg option \<Rightarrow> go_struct \<Rightarrow> proto_msg outcome" where
  "plain_unmarshal None t = Err (Errorf ''invalid nil source message'')"
| "plain_unmarshal (Some m) t =
     (if msg_type_of m = t then Ok m else Err (Errorf ''mismatched message type''))"

definition plain_any :: "proto_msg anypb" where
  "plain_any = \<lparr>any_New = Ok, UnmarshalTo = plain_unmarshal\<rparr>"

lemma plain_any_sel [simp]:
  "any_New plain_any = Ok" "UnmarshalTo plain_any = plain_unmarshal"
  by (simp_all add: plain_any_def)

lemma plain_unmarshal_Ok_iff: "plain_unmarshal a t = Ok m \<longleftrightarrow> a = Some m \<and> msg_type_of m = t"
  by (cases a) auto

lemma plain_unmarshal_no_panic: "plain_unmarshal a t \<noteq> Panic p"
  by (cases a) auto

lemma plain_any_spec: "anypb_spec plain_any"
  by (simp add: anypb_spec_def plain_unmarshal_Ok_iff plain_unmarshal_no_panic)

section \<open>Facts about the tables\<close>

lemma map_of_inverse_tables:
  assumes "distinct (map fst t)" and "distinct (map snd t)"
  shows "map_of t a = Some b \<longleftrightarrow> map_of (map (\<lambda>(x, y). (y, x)) t) b = Some a"
proof -
  have eq: "map fst (map (\<lambda>(x, y). (y, x)) t) = map snd t"
    by (induction t) auto
  have "distinct (map fst (map (\<lambda>(x, y). (y, x)) t))"
    unfolding eq by (rule assms(2))
  then show ?thesis
    using assms(1) by (auto simp only: map_of_eq_Some_iff) auto
qed

lemma item_tables_agree:
  "RteFlowItemType_value_table = map (\<lambda>(x, y). (y, x)) RteFlowItemType_name_table"
  by (simp add: RteFlowItemType_value_table_def RteFlowItemType_name_table_def)

lemma item_tables_distinct:
  "distinct (map fst RteFlowItemType_name_table)" "distinct (map snd RteFlowItemType_name_table)"
  by code_simp+

lemma action_tables_agree:
  "RteFlowActionType_value_table = map (\<lambda>(x, y). (y, x)) RteFlowActionType_name_table"
  by (simp add: RteFlowActionType_value_table_def RteFlowActionType_name_table_def)

lemma action_tables_distinct:
  "distinct (map fst RteFlowActionType_name_table)" "distinct (map snd RteFlowActionType_name_table)"
  by code_simp+

lemma item_name_value: "RteFlowItemType_name n = Some s \<longleftrightarrow> RteFlowItemType_value s = Some n"
  unfolding RteFlowItemType_name_def RteFlowItemType_value_def item_tables_agree
  by (rule map_of_inverse_tables [OF item_tables_distinct])

lemma action_name_value: "RteFlowActionType_name n = Some s \<longleftrightarrow> RteFlowActionType_value s = Some n"
  unfolding RteFlowActionType_name_def RteFlowActionType_value_def action_tables_agree
  by (rule map_of_inverse_tables [OF action_tables_distinct])

lemma item_values_have_obj: "list_all (\<lambda>p. GetFlowItemObj (snd p) \<noteq> None) RteFlowItemType_value_table"
  by code_simp

lemma action_values_have_obj:
  "list_all (\<lambda>p. GetFlowActionObj (snd p) \<noteq> None) RteFlowActionType_value_table"
  by code_simp

lemma GetFlowItemObj_total: "RteFlowItemType_value s = Some n \<Longrightarrow> \<exists>t. GetFlowItemObj n = Some t"
  using item_values_have_obj
  by (fastforce simp: RteFlowItemType_value_def list_all_iff dest: map_of_SomeD)

lemma GetFlowActionObj_total: "RteFlowActionType_value s = Some n \<Longrightarrow> \<exists>t. GetFlowActionObj n = Some t"
  using action_values_have_obj
  by (fastforce simp: RteFlowActionType_value_def list_all_iff dest: map_of_SomeD)

lemma VFPCIADDR_not_proto: "RteFlowActionType_value RTE_FLOW_ACTION_TYPE_VFPCIADDR = None"
  by code_simp

lemma GetFlowActionType_VFPCIADDR:
  "GetFlowActionType RTE_FLOW_ACTION_TYPE_VFPCIADDR = Some RTE_FLOW_ACTION_TYPE_VF"
  by code_simp

lemma GetFlowActionType_proto: "RteFlowActionType_value s = Some n \<Longrightarrow> GetFlowActionType s = Some n"
  by (simp add: GetFlowActionType_def)

lemma GetFlowActionType_Some_iff:
  "GetFlowActionType s = Some n \<longleftrightarrow>
     RteFlowActionType_value s = Some n \<or>
     s = RTE_FLOW_ACTION_TYPE_VFPCIADDR \<and> n = RTE_FLOW_ACTION_TYPE_VF"
  using GetFlowActionType_VFPCIADDR VFPCIADDR_not_proto
  by (auto simp: GetFlowActionType_def split: option.splits if_splits)

lemma anypb_specD:
  assumes "anypb_spec A"
  shows "any_New A m \<noteq> Panic p" and "UnmarshalTo A x t \<noteq> Panic p"
    and "UnmarshalTo A None t \<noteq> Ok m'"
    and "any_New A m = Ok a \<Longrightarrow> UnmarshalTo A (Some a) (msg_type_of m) = Ok m"
    and "UnmarshalTo A x t = Ok m \<Longrightarrow> msg_type_of m = t"
  using assms unfolding anypb_spec_def by blast+

end
