(* ===== verification/Go_Net.thy ===== *)
theory Go_Net
  imports Go_Json
begin

text \<open>
  What the sources use of \<^verbatim>\<open>net\<close>, \<^verbatim>\<open>encoding/hex\<close>, \<^verbatim>\<open>encoding/binary\<close> and \<^verbatim>\<open>strconv\<close>: parsing
  MAC and IP addresses, hexadecimal text and big-endian words. The functions follow the library's
  own (\<^verbatim>\<open>net.ParseMAC\<close>, \<^verbatim>\<open>net.ParseIP\<close> with its IPv4 and IPv6 parsers, \<^verbatim>\<open>xtoi\<close>, \<^verbatim>\<open>dtoi\<close>).
\<close>

section \<open>Digits\<close>

definition hex_val :: "char \<Rightarrow> int option" where
  "hex_val c = (let n = of_char c :: int in
     if 48 \<le> n \<and> n \<le> 57 then Some (n - 48)
     else if 97 \<le> n \<and> n \<le> 102 then Some (n - 87)
     else if 65 \<le> n \<and> n \<le> 70 then Some (n - 55) else None)"

text \<open>
  A number at the front of a string in the given base: its value, the number of digits and
  whether there was one (\<^verbatim>\<open>dtoi\<close> and \<^verbatim>\<open>xtoi\<close>).
\<close>

primrec number_at :: "(char \<Rightarrow> int option) \<Rightarrow> int \<Rightarrow> int \<Rightarrow> nat \<Rightarrow> string \<Rightarrow> int \<times> nat \<times> bool" where
  "number_at dv base n i [] = (n, i, i \<noteq> 0)"
| "number_at dv base n i (c # cs) =
     (case dv c of
        None \<Rightarrow> (n, i, i \<noteq> 0)
      | Some d \<Rightarrow> (if 16777215 \<le> base * n + d then (0, i, False)
                  else number_at dv base (base * n + d) (Suc i) cs))"

definition dtoi :: "string \<Rightarrow> int \<times> nat \<times> bool" where
  "dtoi s = number_at digit_val 10 0 0 s"

definition xtoi :: "string \<Rightarrow> int \<times> nat \<times> bool" where
  "xtoi s = number_at hex_val 16 0 0 s"

text \<open>Two hexadecimal digits followed by the separator \<open>e\<close>, or by nothing.\<close>

definition xtoi2 :: "string \<Rightarrow> char option \<Rightarrow> byte option" where
  "xtoi2 s e =
     (if 2 < length s \<and> Some (s ! 2) \<noteq> e then None
      else (case xtoi (take 2 s) of (n, ei, ok) \<Rightarrow>
              if ok \<and> ei = 2 then Some (of_int n) else None))"

section \<open>MAC addresses\<close>

primrec mac_octets :: "nat \<Rightarrow> char \<Rightarrow> string \<Rightarrow> byte list option" where
  "mac_octets 0 e s = Some []"
| "mac_octets (Suc n) e s =
     (case xtoi2 s (Some e) of
        None \<Rightarrow> None
      | Some b \<Rightarrow> map_option ((#) b) (mac_octets n e (drop 3 s)))"

primrec mac_dotted :: "nat \<Rightarrow> char \<Rightarrow> string \<Rightarrow> byte list option" where
  "mac_dotted 0 e s = Some []"
| "mac_dotted (Suc n) e s =
     (case (xtoi2 (take 2 s) None, xtoi2 (drop 2 s) (Some e)) of
        (Some a, Some b) \<Rightarrow> map_option (\<lambda>r. a # b # r) (mac_dotted n e (drop 5 s))
      | _ \<Rightarrow> None)"

definition ParseMAC :: "string \<Rightarrow> byte list option" where
  "ParseMAC s =
     (if length s < 14 then None
      else if s ! 2 = CHR '':'' \<or> s ! 2 = CHR ''-'' then
        (if (length s + 1) mod 3 \<noteq> 0 then None
         else let n = (length s + 1) div 3 in
              if n \<noteq> 6 \<and> n \<noteq> 8 \<and> n \<noteq> 20 then None else mac_octets n (s ! 2) s)
      else if s ! 4 = CHR ''.'' then
        (if (length s + 1) mod 5 \<noteq> 0 then None
         else let n = 2 * (length s + 1) div 5 in
              if n \<noteq> 6 \<and> n \<noteq> 8 \<and> n \<noteq> 20 then None else mac_dotted (n div 2) (s ! 4) s)
      else None)"

section \<open>IP addresses\<close>

text \<open>\<open>k\<close> more octets; every octet but the first is preceded by a dot.\<close>

primrec v4_octets :: "nat \<Rightarrow> bool \<Rightarrow> string \<Rightarrow> (byte list \<times> string) option" where
  "v4_octets 0 dot s = Some ([], s)"
| "v4_octets (Suc k) dot s =
     (if s = [] \<or> (dot \<and> hd s \<noteq> CHR ''.'') then None
      else let t = (if dot then tl s else s) in
        (case dtoi t of (n, c, ok) \<Rightarrow>
           (if \<not> ok \<or> 255 < n \<or> (1 < c \<and> hd t = CHR ''0'') then None
            else map_option (\<lambda>(bs, r). (of_int n # bs, r)) (v4_octets k True (drop c t)))))"

definition v4_prefix :: "byte list" where
  "v4_prefix = replicate 10 0 @ [255, 255]"

definition parseIPv4 :: "string \<Rightarrow> byte list option" where
  "parseIPv4 s = (case v4_octets 4 False s of
     Some (bs, []) \<Rightarrow> Some (v4_prefix @ bs) | _ \<Rightarrow> None)"

text \<open>
  The loop over the groups of an IPv6 address: the bytes so far, the position of the ellipsis
  and the rest of the string. \<open>k\<close> groups still fit (\<^verbatim>\<open>i < IPv6len\<close>).
\<close>

primrec v6_groups :: "nat \<Rightarrow> byte list \<Rightarrow> nat option \<Rightarrow> string
    \<Rightarrow> (byte list \<times> nat option \<times> string) option" where
  "v6_groups 0 ip ell s = Some (ip, ell, s)"
| "v6_groups (Suc k) ip ell s =
     (case xtoi s of (n, c, ok) \<Rightarrow>
        (if \<not> ok \<or> 65535 < n then None
         else if c < length s \<and> s ! c = CHR ''.'' then
           (if (ell = None \<and> length ip \<noteq> 12) \<or> 16 < length ip + 4 then None
            else map_option (\<lambda>ip4. (ip @ drop 12 ip4, ell, [])) (parseIPv4 s))
         else let ip' = ip @ [of_int (n div 256), of_int n]; t = drop c s in
           (case t of
              [] \<Rightarrow> Some (ip', ell, [])
            | x # u \<Rightarrow>
                (if x \<noteq> CHR '':'' then None
                 else (case u of
                         [] \<Rightarrow> None
                       | y # v \<Rightarrow>
                           (if y = CHR '':'' then
                              (if ell \<noteq> None then None
                               else if v = [] then Some (ip', Some (length ip'), [])
                               else v6_groups k ip' (Some (length ip')) v)
                            else v6_groups k ip' ell u))))))"

definition parseIPv6 :: "string \<Rightarrow> byte list option" where
  "parseIPv6 s =
     (let lead = HasPrefix s ''::''; t = (if lead then drop 2 s else s) in
      if lead \<and> t = [] then Some (replicate 16 0)
      else (case v6_groups 8 [] (if lead then Some 0 else None) t of
              None \<Rightarrow> None
            | Some (ip, ell, r) \<Rightarrow>
                (if r \<noteq> [] then None
                 else if length ip < 16 then
                   (case ell of
                      None \<Rightarrow> None
                    | Some e \<Rightarrow> Some (take e ip @ replicate (16 - length ip) 0 @ drop e ip))
                 else if ell \<noteq> None then None else Some ip)))"

definition ParseIP :: "string \<Rightarrow> byte list option" where
  "ParseIP s = (case find (\<lambda>c. c = CHR ''.'' \<or> c = CHR '':'') s of
     None \<Rightarrow> None
   | Some c \<Rightarrow> if c = CHR ''.'' then parseIPv4 s else parseIPv6 s)"

section \<open>Big-endian words and hexadecimal text\<close>

primrec be_val :: "int \<Rightarrow> byte list \<Rightarrow> int" where
  "be_val acc [] = acc"
| "be_val acc (b # bs) = be_val (256 * acc + uint b) bs"

text \<open>\<^verbatim>\<open>binary.BigEndian.Uint32\<close> reads four bytes and panics when there are fewer.\<close>

definition be_Uint32 :: "byte list \<Rightarrow> u32 outcome" where
  "be_Uint32 bs = (if length bs < 4 then Panic ''index out of range''
     else Ok (word_of_int (be_val 0 (take 4 bs))))"

definition be_PutUint32 :: "u32 \<Rightarrow> byte list" where
  "be_PutUint32 v = [of_int (uint v div 16777216), of_int (uint v div 65536),
     of_int (uint v div 256), of_int (uint v)]"

definition hex_digit :: "int \<Rightarrow> char" where
  "hex_digit n = (if n < 10 then char_of (n + 48) else char_of (n + 87))"

text \<open>\<^verbatim>\<open>hex.Encode\<close>\<close>

definition hex_Encode :: "byte list \<Rightarrow> string" where
  "hex_Encode bs = concat (map (\<lambda>b. [hex_digit (uint b div 16), hex_digit (uint b mod 16)]) bs)"

primrec hex_digits :: "int \<Rightarrow> string \<Rightarrow> int option" where
  "hex_digits acc [] = Some acc"
| "hex_digits acc (c # cs) =
     (case hex_val c of None \<Rightarrow> None | Some d \<Rightarrow> hex_digits (16 * acc + d) cs)"

text \<open>\<^verbatim>\<open>strconv.ParseInt(s, 16, w)\<close> of a string without a sign.\<close>

definition ParseInt_hex :: "nat \<Rightarrow> string \<Rightarrow> int outcome" where
  "ParseInt_hex w s =
     (if s = [] then Err (Errorf ''invalid syntax'')
      else (case hex_digits 0 s of
              None \<Rightarrow> Err (Errorf ''invalid syntax'')
            | Some n \<Rightarrow> if n < 2 ^ (w - 1) then Ok n else Err (Errorf ''value out of range'')))"

section \<open>Facts\<close>

lemma be_val_append: "be_val acc (as @ bs) = be_val (be_val acc as) bs"
  by (induction as arbitrary: acc) auto

lemma be_val_shift: "be_val acc bs = acc * 256 ^ length bs + be_val 0 bs"
proof (induction bs arbitrary: acc)
  case Nil
  then show ?case by simp
next
  case (Cons b bs)
  show ?case
    using Cons [of "256 * acc + uint b"] Cons [of "uint b"] by (simp add: algebra_simps)
qed

lemma be_val_bounds: "0 \<le> be_val 0 bs \<and> be_val 0 bs < 256 ^ length bs"
proof (induction bs rule: rev_induct)
  case Nil
  then show ?case by simp
next
  case (snoc b bs)
  have "0 \<le> uint b \<and> uint b < 256" using uint_lt2p [of b] by simp
  with snoc show ?case by (auto simp: be_val_append)
qed

lemma hex_val_digit: "0 \<le> n \<Longrightarrow> n < 16 \<Longrightarrow> hex_val (hex_digit n) = Some n"
  by (auto simp: hex_val_def hex_digit_def Let_def of_char_of)

lemma hex_digits_Encode: "hex_digits acc (hex_Encode bs) = Some (be_val acc bs)"
proof (induction bs arbitrary: acc)
  case Nil
  then show ?case by (simp add: hex_Encode_def)
next
  case (Cons b bs)
  have "0 \<le> uint b" and "uint b < 256" using uint_lt2p [of b] by simp_all
  then have "hex_val (hex_digit (uint b div 16)) = Some (uint b div 16)"
    and "hex_val (hex_digit (uint b mod 16)) = Some (uint b mod 16)"
    by (auto intro!: hex_val_digit simp: pos_imp_zdiv_nonneg_iff)
  moreover have "16 * (16 * acc + uint b div 16) + uint b mod 16 = 256 * acc + uint b"
    by (simp add: algebra_simps)
  ultimately show ?case
    using Cons by (simp add: hex_Encode_def add.commute)
qed

lemma hex_Encode_Nil_iff [simp]: "hex_Encode bs = [] \<longleftrightarrow> bs = []"
  by (cases bs) (auto simp: hex_Encode_def)

text \<open>A MAC address that parses has 6, 8 or 20 bytes.\<close>

lemma mac_octets_length: "mac_octets n e s = Some bs \<Longrightarrow> length bs = n"
  by (induction n arbitrary: s bs) (auto split: option.splits)

lemma mac_dotted_length: "mac_dotted n e s = Some bs \<Longrightarrow> length bs = 2 * n"
  by (induction n arbitrary: s bs) (auto split: option.splits)

lemma ParseMAC_length: "ParseMAC s = Some bs \<Longrightarrow> length bs \<in> {6, 8, 20}"
  by (auto simp: ParseMAC_def Let_def dest!: mac_octets_length mac_dotted_length split: if_splits)

text \<open>An IP address that parses has 16 bytes.\<close>

lemma v4_octets_length: "v4_octets k dot s = Some (bs, r) \<Longrightarrow> length bs = k"
  by (induction k arbitrary: dot s bs r) (auto simp: Let_def split: if_splits prod.splits)

lemma parseIPv4_form: "parseIPv4 s = Some ip \<Longrightarrow> \<exists>bs. ip = v4_prefix @ bs \<and> length bs = 4"
  by (auto simp: parseIPv4_def dest!: v4_octets_length split: option.splits list.splits)

lemma v4_prefix_length [simp]: "length v4_prefix = 12"
  by (simp add: v4_prefix_def)

lemma parseIPv4_length: "parseIPv4 s = Some ip \<Longrightarrow> length ip = 16"
  by (auto dest: parseIPv4_form)

definition v6_wf :: "byte list \<Rightarrow> nat option \<Rightarrow> bool" where
  "v6_wf ip ell \<longleftrightarrow> length ip \<le> 16 \<and> (\<forall>e. ell = Some e \<longrightarrow> e \<le> length ip)"

lemma v6_groups_wf:
  "v6_groups k ip ell s = Some (ip', ell', r) \<Longrightarrow> length ip + 2 * k \<le> 16 \<Longrightarrow> v6_wf ip ell
    \<Longrightarrow> v6_wf ip' ell'"
proof (induction k arbitrary: ip ell s)
  case 0
  then show ?case by simp
next
  case (Suc k)
  obtain n c ok where x: "xtoi s = (n, c, ok)" by (cases "xtoi s")
  let ?ip = "ip @ [of_int (n div 256), of_int n]"
  have wf: "v6_wf ?ip ell" "v6_wf ?ip (Some (length ?ip))"
    using Suc.prems(2,3) by (auto simp: v6_wf_def)
  have len: "length ?ip + 2 * k \<le> 16" using Suc.prems(2) by simp
  from Suc.prems(1) x Suc.prems(3) wf len Suc.IH [of ?ip ell] Suc.IH [of ?ip "Some (length ?ip)"]
  show ?case
    by (auto simp: Let_def v6_wf_def dest!: parseIPv4_length split: if_splits list.splits)
qed

lemma parseIPv6_length: "parseIPv6 s = Some ip \<Longrightarrow> length ip = 16"
  by (auto simp: parseIPv6_def Let_def v6_wf_def split: if_splits option.splits
      dest!: v6_groups_wf)

lemma ParseIP_length: "ParseIP s = Some ip \<Longrightarrow> length ip = 16"
  by (auto simp: ParseIP_def dest: parseIPv4_length parseIPv6_length split: option.splits if_splits)

text \<open>Writing a word big-endian and reading it back.\<close>

lemma be_Uint32_Put: "be_Uint32 (be_PutUint32 v) = Ok v"
proof -
  let ?n = "uint v"
  have b: "?n div 16777216 mod 256 = ?n div 16777216"
    using uint_lt2p [of v] by (intro mod_pos_pos_trivial) (auto simp: pos_imp_zdiv_nonneg_iff)
  have u: "uint (of_int k :: byte) = k mod 256" for k
    by (simp add: uint_word_of_int)
  have d: "256 * (k div 256) + k mod 256 = k" for k :: int
    by simp
  have q: "?n div 16777216 = ?n div 65536 div 256" "?n div 65536 = ?n div 256 div 256"
    by (simp_all add: zdiv_zmult2_eq [symmetric])
  have "be_val 0 (be_PutUint32 v) =
      256 * (256 * (256 * (?n div 16777216) + ?n div 65536 mod 256) + ?n div 256 mod 256) + ?n mod 256"
    unfolding be_PutUint32_def be_val.simps u b by simp
  also have "\<dots> = ?n"
    by (simp only: q d)
  finally have "be_val 0 (be_PutUint32 v) = ?n" .
  moreover have "length (be_PutUint32 v) = 4" by (simp add: be_PutUint32_def)
  ultimately show ?thesis by (simp add: be_Uint32_def)
qed

end
