(* ===== verification/Flow_Convert.thy ===== *)
theory Flow_Convert
  imports Flow_Api Go_Net
begin

text \<open>
  \<^verbatim>\<open>pkg/flowconfig/rpc/v1/flow/eth.go\<close> and \<^verbatim>\<open>ipv4.go\<close>: the two item messages whose addresses are
  written as text in a rule. The intermediate structs \<^verbatim>\<open>Eth\<close>, \<^verbatim>\<open>Ipv4\<close> and \<^verbatim>\<open>Ipv4Hdr\<close> are records,
  and the conversions parse their addresses.
\<close>

section \<open>Ethernet (eth.go)\<close>

record Eth =
  ethj_Dst :: string
  ethj_Src :: string
  ethj_Type :: u32

definition ToRteFlowItemEth :: "Eth \<Rightarrow> RteFlowItemEth outcome" where
  "ToRteFlowItemEth eth =
     obind (if ethj_Dst eth \<noteq> [] then
              (case ParseMAC (ethj_Dst eth) of
                 None \<Rightarrow> Err (Errorf ''could not parse MAC address'')
               | Some b \<Rightarrow> Ok (Some \<lparr>AddrBytes = b\<rparr>))
            else Ok None) (\<lambda>dst.
     obind (if ethj_Src eth \<noteq> [] then
              (case ParseMAC (ethj_Src eth) of
                 None \<Rightarrow> Err (Errorf ''could not parse MAC address'')
               | Some b \<Rightarrow> Ok (Some \<lparr>AddrBytes = b\<rparr>))
            else Ok None) (\<lambda>src.
     Ok \<lparr>eth_Dst = dst, eth_Src = src, eth_Type = ethj_Type eth\<rparr>))"

definition build_Eth :: "fields \<Rightarrow> Eth" where
  "build_Eth fs = \<lparr>ethj_Dst = f_str fs ''dst'', ethj_Src = f_str fs ''src'', ethj_Type = f_u32 fs ''type''\<rparr>"

section \<open>IPv4 (ipv4.go)\<close>

record Ipv4Hdr =
  hj_VersionIhl :: u32
  hj_TypeOfService :: u32
  hj_TotalLength :: u32
  hj_PacketId :: u32
  hj_FragmentOffset :: u32
  hj_TimeToLive :: u32
  hj_NextProtoId :: u32
  hj_HdrChecksum :: u32
  hj_SrcAddr :: string
  hj_DstAddr :: string

record Ipv4 =
  ipj_Hdr :: "Ipv4Hdr option"

definition ipToUint32 :: "byte list \<Rightarrow> u32 outcome" where
  "ipToUint32 ip =
     (if length ip = 16 then be_Uint32 (take 4 (drop 12 ip))
      else if length ip < 3 then Ok 0
      else be_Uint32 ip)"

definition Uint32ToIP :: "u32 \<Rightarrow> byte list" where
  "Uint32ToIP val = be_PutUint32 val"

definition addr_field :: "string \<Rightarrow> u32 outcome" where
  "addr_field s =
     (if s \<noteq> [] then
        (case ParseIP s of
           None \<Rightarrow> Err (Errorf ''could not parse IP address'')
         | Some ip \<Rightarrow> ipToUint32 ip)
      else Ok 0)"

definition ToRteFlowItemIpv4 :: "Ipv4 \<Rightarrow> RteFlowItemIpv4 outcome" where
  "ToRteFlowItemIpv4 ipv4 =
     (case ipj_Hdr ipv4 of
        None \<Rightarrow> Ok \<lparr>ipv4_Hdr = None\<rparr>
      | Some h \<Rightarrow>
          obind (addr_field (hj_SrcAddr h)) (\<lambda>src.
          obind (addr_field (hj_DstAddr h)) (\<lambda>dst.
          Ok \<lparr>ipv4_Hdr = Some
            \<lparr>ip4_VersionIhl = hj_VersionIhl h, ip4_TypeOfService = hj_TypeOfService h,
             ip4_TotalLength = hj_TotalLength h, ip4_PacketId = hj_PacketId h,
             ip4_FragmentOffset = hj_FragmentOffset h, ip4_TimeToLive = hj_TimeToLive h,
             ip4_NextProtoId = hj_NextProtoId h, ip4_HdrChecksum = hj_HdrChecksum h,
             ip4_SrcAddr = src, ip4_DstAddr = dst\<rparr>\<rparr>)))"

definition build_Ipv4Hdr :: "fields \<Rightarrow> Ipv4Hdr" where
  "build_Ipv4Hdr fs =
     \<lparr>hj_VersionIhl = f_u32 fs ''version_ihl'', hj_TypeOfService = f_u32 fs ''type_of_service'',
      hj_TotalLength = f_u32 fs ''total_length'', hj_PacketId = f_u32 fs ''packet_id'',
      hj_FragmentOffset = f_u32 fs ''fragment_offset'', hj_TimeToLive = f_u32 fs ''time_to_live'',
      hj_NextProtoId = f_u32 fs ''next_proto_id'', hj_HdrChecksum = f_u32 fs ''hdr_checksum'',
      hj_SrcAddr = f_str fs ''src_addr'', hj_DstAddr = f_str fs ''dst_addr''\<rparr>"

definition build_Ipv4 :: "fields \<Rightarrow> Ipv4" where
  "build_Ipv4 fs = \<lparr>ipj_Hdr = map_option build_Ipv4Hdr (f_msg fs ''hdr'')\<rparr>"

section \<open>Facts\<close>

lemma ToRteFlowItemEth_no_panic: "ToRteFlowItemEth e \<noteq> Panic p"
  by (auto simp: ToRteFlowItemEth_def obind_Panic_iff split: option.splits if_splits)

lemma ToRteFlowItemEth_Ok:
  "ToRteFlowItemEth e = Ok r \<Longrightarrow>
     eth_Type r = ethj_Type e \<and>
     (\<forall>a. eth_Dst r = Some a \<longrightarrow> length (AddrBytes a) \<in> {6, 8, 20}) \<and>
     (\<forall>a. eth_Src r = Some a \<longrightarrow> length (AddrBytes a) \<in> {6, 8, 20}) \<and>
     (eth_Dst r = None \<longleftrightarrow> ethj_Dst e = []) \<and> (eth_Src r = None \<longleftrightarrow> ethj_Src e = [])"
  by (auto simp: ToRteFlowItemEth_def dest!: ParseMAC_length split: option.splits if_splits)

lemma ipToUint32_16 [simp]:
  "length ip = 16 \<Longrightarrow> ipToUint32 ip = Ok (word_of_int (be_val 0 (drop 12 ip)))"
  by (simp add: ipToUint32_def be_Uint32_def)

lemma addr_field_no_panic: "addr_field s \<noteq> Panic p"
  by (auto simp: addr_field_def dest!: ParseIP_length split: option.splits if_splits)

lemma ToRteFlowItemIpv4_no_panic: "ToRteFlowItemIpv4 i \<noteq> Panic p"
  by (auto simp: ToRteFlowItemIpv4_def obind_Panic_iff addr_field_no_panic split: option.splits)

text \<open>
  An IPv4 address written with \<^verbatim>\<open>Uint32ToIP\<close> is read back by \<^verbatim>\<open>ipToUint32\<close>, for every 32-bit value.
\<close>

theorem ipToUint32_Uint32ToIP: "ipToUint32 (Uint32ToIP v) = Ok v"
  by (simp add: ipToUint32_def Uint32ToIP_def be_Uint32_Put) (simp add: be_PutUint32_def)

end
