(* ===== verification/Flow_Utils.thy ===== *)
theory Flow_Utils
  imports Flow_Convert
begin

text \<open>
  \<^verbatim>\<open>pkg/flowconfig/utils/utils.go\<close>: turning the raw configuration of a pattern item or an action
  into a packed protobuf message. The webhooks and the node controller share these functions.
  The SR-IOV lookups are the interface \<^verbatim>\<open>SriovUtils\<close> of \<^verbatim>\<open>sriovutils.go\<close>, a record of its two
  methods. A document \<^verbatim>\<open>null\<close> makes \<^verbatim>\<open>Decode(&p)\<close> set the pointer (or the interface) itself to
  nil, so the code after it panics; the model says so.
\<close>

section \<open>The SR-IOV interface\<close>

record SriovUtils =
  GetPfName :: "string \<Rightarrow> string outcome"
  GetVFID :: "string \<Rightarrow> int outcome"

section \<open>Pattern items\<close>

definition GetIPv4AnyObj :: "'any anypb \<Rightarrow> json option \<Rightarrow> 'any outcome" where
  "GetIPv4AnyObj A b =
     obind (wrap_err ''could not decode bytes to ptypes.Any'' (DecodeStrict struct_fields ''Ipv4'' b)) (\<lambda>fs.
     if b = Some JNull then Panic ''nil pointer dereference''
     else obind (wrap_err ''error unmarshalling to ptypes.Any'' (ToRteFlowItemIpv4 (build_Ipv4 fs))) (\<lambda>m.
     wrap_err ''error marshalling to ptypes.Any'' (any_New A (MsgIpv4 m))))"

definition GetEthAnyObj :: "'any anypb \<Rightarrow> json option \<Rightarrow> 'any outcome" where
  "GetEthAnyObj A b =
     obind (wrap_err ''could not decode bytes to ptypes.Any'' (DecodeStrict struct_fields ''Eth'' b)) (\<lambda>fs.
     if b = Some JNull then Panic ''nil pointer dereference''
     else obind (wrap_err ''error unmarshiling to ptypes.Any'' (ToRteFlowItemEth (build_Eth fs))) (\<lambda>m.
     wrap_err ''error marshalling to ptypes.Any'' (any_New A (MsgEth m))))"

definition GetFlowItemAny :: "'any anypb \<Rightarrow> string \<Rightarrow> json option \<Rightarrow> 'any outcome" where
  "GetFlowItemAny A flowType b =
     (case RteFlowItemType_value flowType of
        None \<Rightarrow> Err (Errorf ''invalid  flow type'')
      | Some v \<Rightarrow>
          (if v = RTE_FLOW_ITEM_TYPE_ETH then GetEthAnyObj A b
           else if v = RTE_FLOW_ITEM_TYPE_IPV4 then GetIPv4AnyObj A b
           else (case GetFlowItemObj v of
                   None \<Rightarrow> Err (Errorf ''nil object received for item type'')
                 | Some t \<Rightarrow>
                     obind (wrap_err ''could not decode bytes to ptypes.Any''
                              (DecodeStrict struct_fields t b)) (\<lambda>fs.
                     if b = Some JNull then Panic ''interface conversion: interface is nil''
                     else wrap_err ''error marshalling into ptypes.Any''
                            (any_New A (build_msg t fs))))))"

section \<open>Actions\<close>

text \<open>The part of \<^verbatim>\<open>GetFlowActionAny\<close> and its webhook variant after the lookup of the type.\<close>

definition protoActionAny :: "'any anypb \<Rightarrow> int \<Rightarrow> json option \<Rightarrow> 'any outcome" where
  "protoActionAny A v b =
     (case GetFlowActionObj v of
        None \<Rightarrow> Err (Errorf ''nil object received for action type'')
      | Some t \<Rightarrow>
          obind (wrap_err ''error unmarshalling bytes to ptypes.Any'' (Unmarshal struct_fields t b)) (\<lambda>fs.
          wrap_err ''error marshalling into ptypes.Any'' (any_New A (build_msg t fs))))"

text \<open>The document \<^verbatim>\<open>{"id":%d}\<close>.\<close>

definition vf_id_doc :: "int \<Rightarrow> json option" where
  "vf_id_doc n = Some (JObj [(''id'', JNum (Itoa n))])"

definition is_hex :: "char \<Rightarrow> bool" where
  "is_hex c \<longleftrightarrow> hex_val c \<noteq> None"

definition is_word_char :: "char \<Rightarrow> bool" where
  "is_word_char c \<longleftrightarrow> (let n = of_char c :: int in
     48 \<le> n \<and> n \<le> 57 \<or> 65 \<le> n \<and> n \<le> 90 \<or> 97 \<le> n \<and> n \<le> 122 \<or> n = 95)"

text \<open>
  The expression \<^verbatim>\<open>[0-9a-fA-F]{4}:[0-9a-fA-F]{2}:[0-9a-fA-F]{2}.\d\<close> at the front of a string (the
  dot is any character but a newline), and an unanchored search for it at a word boundary.
\<close>

definition pci_at :: "string \<Rightarrow> bool" where
  "pci_at s \<longleftrightarrow> 12 \<le> length s \<and>
     list_all is_hex (take 4 s) \<and> s ! 4 = CHR '':'' \<and>
     list_all is_hex (take 2 (drop 5 s)) \<and> s ! 7 = CHR '':'' \<and>
     list_all is_hex (take 2 (drop 8 s)) \<and> of_char (s ! 10) \<noteq> (10 :: int) \<and>
     digit_val (s ! 11) \<noteq> None"

fun pci_search :: "bool \<Rightarrow> string \<Rightarrow> bool" where
  "pci_search boundary [] = False"
| "pci_search boundary (c # cs) =
     ((boundary \<and> pci_at (c # cs)) \<or> pci_search (\<not> is_word_char c) cs)"

definition pci_MatchString :: "string \<Rightarrow> bool" where
  "pci_MatchString s = pci_search True s"

definition handleActionVfPciAddr ::
    "'any anypb \<Rightarrow> json option \<Rightarrow> bool \<Rightarrow> SriovUtils \<Rightarrow> 'any outcome" where
  "handleActionVfPciAddr A b isCalledByWebhook S =
     obind (wrap_err ''error unmarshalling bytes to ptypes.Any'' (Unmarshal struct_fields ''VfPciAddr'' b)) (\<lambda>fs.
     if \<not> isCalledByWebhook then
       (case GetVFID S (f_str fs ''addr'') of
          Panic p \<Rightarrow> Panic p
        | Err e \<Rightarrow> Err (Wrap ''error unable to get VF ID for PCI'' e)
        | Ok vfID \<Rightarrow> (if vfID = -1 then Err (Errorf ''error unable to get VF ID for PCI'')
                     else protoActionAny A RTE_FLOW_ACTION_TYPE_VF (vf_id_doc vfID)))
     else if pci_MatchString (f_str fs ''addr'')
       then protoActionAny A RTE_FLOW_ACTION_TYPE_VF (vf_id_doc 0)
       else Err (Errorf ''error unable to handle VF PCI address - please verify its correctness''))"

text \<open>The webhook passes a nil \<^verbatim>\<open>SriovUtils\<close>, which \<^verbatim>\<open>handleActionVfPciAddr\<close> then never calls.\<close>

definition nil_sriov :: SriovUtils where
  "nil_sriov = \<lparr>GetPfName = (\<lambda>_. Panic ''nil pointer dereference''),
                GetVFID = (\<lambda>_. Panic ''nil pointer dereference'')\<rparr>"

definition GetFlowActionAnyForWebhook :: "'any anypb \<Rightarrow> string \<Rightarrow> json option \<Rightarrow> 'any outcome" where
  "GetFlowActionAnyForWebhook A actionType b =
     (case RteFlowActionType_value actionType of
        None \<Rightarrow> (if actionType = RTE_FLOW_ACTION_TYPE_VFPCIADDR
                 then handleActionVfPciAddr A b True nil_sriov
                 else Err (Errorf ''invalid action type''))
      | Some v \<Rightarrow> protoActionAny A v b)"

definition GetFlowActionAny :: "'any anypb \<Rightarrow> string \<Rightarrow> json option \<Rightarrow> SriovUtils \<Rightarrow> 'any outcome" where
  "GetFlowActionAny A actionType b S =
     (case RteFlowActionType_value actionType of
        None \<Rightarrow> (if actionType = RTE_FLOW_ACTION_TYPE_VFPCIADDR
                 then handleActionVfPciAddr A b False S
                 else Err (Errorf ''invalid action type''))
      | Some v \<Rightarrow> protoActionAny A v b)"

section \<open>Facts\<close>

text \<open>
  The call \<^verbatim>\<open>GetFlowActionAny("RTE_FLOW_ACTION_TYPE_VF", ...)\<close> that \<^verbatim>\<open>handleActionVfPciAddr\<close>
  makes is the one the model inlines.
\<close>

lemma GetFlowActionAny_VF:
  "GetFlowActionAny A ''RTE_FLOW_ACTION_TYPE_VF'' b S = protoActionAny A RTE_FLOW_ACTION_TYPE_VF b"
proof -
  have "RteFlowActionType_value ''RTE_FLOW_ACTION_TYPE_VF'' = Some RTE_FLOW_ACTION_TYPE_VF"
    by code_simp
  then show ?thesis by (simp add: GetFlowActionAny_def)
qed

lemma VF_obj: "GetFlowActionObj RTE_FLOW_ACTION_TYPE_VF = Some ''RteFlowActionVf''"
  by code_simp

lemma VF_fields: "struct_fields ''RteFlowActionVf'' = [(''reserved'', FU32), (''original'', FU32), (''id'', FU32)]"
  by code_simp

lemma Unmarshal_vf_id:
  "0 \<le> n \<Longrightarrow> n < 2 ^ 32 \<Longrightarrow> Unmarshal struct_fields ''RteFlowActionVf'' (vf_id_doc n) =
     Ok [(''reserved'', VInt 0), (''original'', VInt 0), (''id'', VInt n)]"
  by (simp add: Unmarshal_def vf_id_doc_def VF_fields zero_struct_def find_field_def get_field_def
      ParseUint_Itoa)

lemma VfPciAddr_fields: "struct_fields ''VfPciAddr'' = [(''addr'', FStr)]"
  by code_simp

text \<open>A VF index in range survives the detour through JSON text.\<close>

lemma protoActionAny_vf_id:
  "0 \<le> n \<Longrightarrow> n < 2 ^ 32 \<Longrightarrow> protoActionAny A RTE_FLOW_ACTION_TYPE_VF (vf_id_doc n) =
     wrap_err ''error marshalling into ptypes.Any''
       (any_New A (MsgVf \<lparr>vf_Reserved = 0, vf_Original = 0, vf_Id = word_of_int n\<rparr>))"
  unfolding protoActionAny_def VF_obj
  by (simp add: Unmarshal_vf_id build_msg_def field_readers)

lemma protoActionAny_no_panic: "anypb_spec A \<Longrightarrow> protoActionAny A v b \<noteq> Panic p"
  by (auto simp: protoActionAny_def obind_Panic_iff dest: anypb_specD(1) split: option.splits)

lemma GetFlowActionAnyForWebhook_no_panic:
  "anypb_spec A \<Longrightarrow> GetFlowActionAnyForWebhook A t b \<noteq> Panic p"
  by (auto simp: GetFlowActionAnyForWebhook_def handleActionVfPciAddr_def obind_Panic_iff
      protoActionAny_no_panic split: option.splits if_splits)

text \<open>The only documents that make an item conversion panic are \<^verbatim>\<open>null\<close>.\<close>

lemma GetFlowItemAny_panic:
  "anypb_spec A \<Longrightarrow> GetFlowItemAny A t b = Panic p \<Longrightarrow> b = Some JNull"
  by (auto simp: GetFlowItemAny_def GetEthAnyObj_def GetIPv4AnyObj_def obind_Panic_iff
      ToRteFlowItemEth_no_panic ToRteFlowItemIpv4_no_panic anypb_specD(1)
      split: option.splits if_splits)

text \<open>The message an item type carries.\<close>

definition item_struct :: "int \<Rightarrow> go_struct" where
  "item_struct v = (case GetFlowItemObj v of Some t \<Rightarrow> t | None \<Rightarrow> [])"

lemma build_msg_type: "msg_type_of (build_msg t fs) = t"
  by (simp add: build_msg_def)

lemma GetFlowItemAny_Ok:
  assumes "GetFlowItemAny A s b = Ok a"
  obtains v m where "RteFlowItemType_value s = Some v" and "any_New A m = Ok a"
    and "msg_type_of m = item_struct v"
proof -
  from assms obtain v where v: "RteFlowItemType_value s = Some v"
    by (auto simp: GetFlowItemAny_def split: option.splits)
  have eth: "item_struct RTE_FLOW_ITEM_TYPE_ETH = ''RteFlowItemEth''"
    and ip4: "item_struct RTE_FLOW_ITEM_TYPE_IPV4 = ''RteFlowItemIpv4''"
    by code_simp+
  have "\<exists>m. any_New A m = Ok a \<and> msg_type_of m = item_struct v"
    using assms v eth ip4
    by (auto simp: GetFlowItemAny_def GetEthAnyObj_def GetIPv4AnyObj_def item_struct_def build_msg_type
        split: option.splits if_splits)
  with v that show thesis by blast
qed

section \<open>Properties of the conversions\<close>

text \<open>
  The enumeration tables the code looks types up in are inverse to each other, and every type
  they list has a message: the branches of \<^verbatim>\<open>GetFlowItemAny\<close>, \<^verbatim>\<open>GetFlowActionAny\<close> and its webhook
  variant for a nil message are never taken.
\<close>

theorem flow_types_complete:
  "(RteFlowItemType_name n = Some s \<longleftrightarrow> RteFlowItemType_value s = Some n) \<and>
   (RteFlowActionType_name n = Some s \<longleftrightarrow> RteFlowActionType_value s = Some n) \<and>
   GetFlowItemAny A s b \<noteq> Err (Errorf ''nil object received for item type'') \<and>
   GetFlowActionAny A s b S \<noteq> Err (Errorf ''nil object received for action type'') \<and>
   GetFlowActionAnyForWebhook A s b \<noteq> Err (Errorf ''nil object received for action type'')"
proof -
  have w: "wrap_err m x \<noteq> Err (Errorf e)" for m e and x :: "'z outcome"
    by (cases x) auto
  have p: "protoActionAny A v b' \<noteq> Err (Errorf ''nil object received for action type'')"
    if "GetFlowActionObj v \<noteq> None" for v b'
    using that by (auto simp: protoActionAny_def obind_Err_iff w split: option.splits)
  have h: "handleActionVfPciAddr A b f S' \<noteq> Err (Errorf ''nil object received for action type'')" for f S'
    using p VF_obj by (auto simp: handleActionVfPciAddr_def obind_Err_iff w split: outcome.splits)
  have "GetFlowItemAny A s b \<noteq> Err (Errorf ''nil object received for item type'')"
    using GetFlowItemObj_total [of s]
    by (auto simp: GetFlowItemAny_def GetEthAnyObj_def GetIPv4AnyObj_def obind_Err_iff w
        split: option.splits if_splits)
  moreover have "GetFlowActionAny A s b S \<noteq> Err (Errorf ''nil object received for action type'')"
    and "GetFlowActionAnyForWebhook A s b \<noteq> Err (Errorf ''nil object received for action type'')"
    using p h GetFlowActionObj_total [of s]
    by (auto simp: GetFlowActionAny_def GetFlowActionAnyForWebhook_def split: option.splits)
  ultimately show ?thesis
    using item_name_value action_name_value by blast
qed

text \<open>
  \<^bold>\<open>C15.\<close> An action that names a VF by its PCI address becomes the VF action of the index the host
  reports for that address: the detour through the text of a JSON document loses nothing of an
  index that fits its field, and a failed lookup is an error, never a VF.
\<close>

theorem GetFlowActionAny_VfPciAddr:
  assumes "\<forall>n. GetVFID S addr = Ok n \<longrightarrow> n = -1 \<or> 0 \<le> n \<and> n < 2 ^ 32"
  shows "GetFlowActionAny A RTE_FLOW_ACTION_TYPE_VFPCIADDR (Some (JObj [(''addr'', JStr addr)])) S =
     (case GetVFID S addr of
        Ok n \<Rightarrow> (if n = -1 then Err (Errorf ''error unable to get VF ID for PCI'')
                 else wrap_err ''error marshalling into ptypes.Any''
                   (any_New A (MsgVf \<lparr>vf_Reserved = 0, vf_Original = 0, vf_Id = word_of_int n\<rparr>)))
      | Err e \<Rightarrow> Err (Wrap ''error unable to get VF ID for PCI'' e)
      | Panic p \<Rightarrow> Panic p)"
proof -
  have "Unmarshal struct_fields ''VfPciAddr'' (Some (JObj [(''addr'', JStr addr)])) = Ok [(''addr'', VStr addr)]"
    by (simp add: Unmarshal_def VfPciAddr_fields zero_struct_def find_field_def get_field_def)
  moreover have "f_str [(''addr'', VStr addr)] ''addr'' = addr"
    by (simp add: field_readers)
  ultimately show ?thesis
    using assms protoActionAny_vf_id
    by (auto simp: GetFlowActionAny_def VFPCIADDR_not_proto handleActionVfPciAddr_def split: outcome.splits)
qed

definition sample_sriov :: SriovUtils where
  "sample_sriov = \<lparr>GetPfName = (\<lambda>_. Ok ''ens785f0''), GetVFID = (\<lambda>_. Ok 3)\<rparr>"

theorem GetFlowActionAny_VfPciAddr_witness:
  "GetFlowActionAny plain_any RTE_FLOW_ACTION_TYPE_VFPCIADDR (Some (JObj [(''addr'', JStr ''0000:01:01.3'')])) sample_sriov =
     Ok (MsgVf \<lparr>vf_Reserved = 0, vf_Original = 0, vf_Id = 3\<rparr>)"
  using GetFlowActionAny_VfPciAddr [of sample_sriov "''0000:01:01.3''" plain_any]
  by (simp add: sample_sriov_def)

end
