(* ===== verification/Flow_Crd.thy ===== *)
theory Flow_Crd
  imports Flow_Utils
begin

text \<open>
  \<^verbatim>\<open>apis/flowconfig/v1\<close>: the custom resources of the flow configuration. A pointer is an option.
  The elements of \<^verbatim>\<open>[]*FlowItem\<close>, \<^verbatim>\<open>[]*FlowAction\<close> and \<^verbatim>\<open>[]*FlowRules\<close> are values: the schema of
  the resources is structural and does not let a list hold \<^verbatim>\<open>null\<close>. Metadata is reduced to the
  name, the namespace and what the code reads of it. \<^verbatim>\<open>metav1.LabelSelector\<close> is a type of
  Kubernetes: its \<^verbatim>\<open>MatchLabels\<close> are kept as a map and the rest as an opaque value.
\<close>

section \<open>Names\<close>

record NamespacedName =
  Namespace :: string
  Name :: string

section \<open>Rules (nodeflowconfig\_types.go)\<close>

record FlowAttr =
  Group :: u32
  Priority :: u32
  Ingress :: u32
  Egress :: u32
  Transfer :: u32
  Reserved :: u32

record FlowItem =
  FlowItem_Type :: string
  FlowItem_Spec :: "RawExtension option"
  FlowItem_Last :: "RawExtension option"
  FlowItem_Mask :: "RawExtension option"

record FlowAction =
  FlowAction_Type :: string
  FlowAction_Conf :: "RawExtension option"

record FlowRules =
  FlowRules_PortId :: u32
  FlowRules_Attr :: "FlowAttr option"
  FlowRules_Pattern :: "FlowItem list"
  FlowRules_Action :: "FlowAction list"

record NodeFlowConfig =
  nfc_Key :: NamespacedName
  nfc_Rules :: "FlowRules list"
  nfc_PortInfo :: "PortsInformation list option"

section \<open>Cluster-wide rules (clusterflowconfig\_types.go, clusterflowaction\_types.go)\<close>

record ClusterFlowAction =
  cfa_Type :: int
  cfa_Conf :: "RawExtension option"

record ClusterFlowRule =
  cfr_Attr :: "FlowAttr option"
  cfr_Pattern :: "FlowItem list"
  cfr_Action :: "ClusterFlowAction list"

record 'x LabelSelector =
  MatchLabels :: "string \<rightharpoonup> string"
  MatchExpressions :: 'x

record 'x ClusterFlowConfig =
  cfc_Key :: NamespacedName
  cfc_PodSelector :: "'x LabelSelector option"
  cfc_Rules :: "ClusterFlowRule list"

abbreviation ToPodInterface :: int where "ToPodInterface \<equiv> 20000"

definition clusterFlowActionTypeName :: "int \<Rightarrow> string option" where
  "clusterFlowActionTypeName = [ToPodInterface \<mapsto> ''to-pod-interface'']"

definition clusterFlowActionTypeValue :: "string \<Rightarrow> int option" where
  "clusterFlowActionTypeValue = [''to-pod-interface'' \<mapsto> ToPodInterface]"

text \<open>\<^verbatim>\<open>ClusterFlowActionType.String\<close> and \<^verbatim>\<open>ClusterFlowActionToString\<close>: empty when unknown.\<close>

definition ClusterFlowActionType_String :: "int \<Rightarrow> string" where
  "ClusterFlowActionType_String ct = (case clusterFlowActionTypeName ct of Some s \<Rightarrow> s | None \<Rightarrow> [])"

definition ClusterFlowActionToString :: "int \<Rightarrow> string" where
  "ClusterFlowActionToString actionType =
     (case clusterFlowActionTypeName actionType of Some s \<Rightarrow> s | None \<Rightarrow> [])"

text \<open>The JSON form of the enumeration is the quoted name.\<close>

definition ClusterFlowActionType_MarshalJSON :: "int \<Rightarrow> json" where
  "ClusterFlowActionType_MarshalJSON s =
     JStr (case clusterFlowActionTypeName s of Some n \<Rightarrow> n | None \<Rightarrow> [])"

definition ClusterFlowActionType_UnmarshalJSON :: "json option \<Rightarrow> int outcome" where
  "ClusterFlowActionType_UnmarshalJSON b =
     obind (case b of
              Some (JStr j) \<Rightarrow> Ok j
            | Some JNull \<Rightarrow> Ok []
            | Some _ \<Rightarrow> Err (Errorf ''json: cannot unmarshal'')
            | None \<Rightarrow> Err (Errorf ''invalid JSON'')) (\<lambda>j.
     if j = [] then Err (Errorf ''json unmarshalling produced an empty string'')
     else (case clusterFlowActionTypeValue j of
             None \<Rightarrow> Err (Errorf ''unsupported type string'')
           | Some v \<Rightarrow> Ok v))"

section \<open>Facts\<close>

lemma ClusterFlowActionType_String_iff:
  "ClusterFlowActionType_String t = ClusterFlowActionToString ToPodInterface \<longleftrightarrow> t = ToPodInterface"
  by (simp add: ClusterFlowActionType_String_def ClusterFlowActionToString_def
      clusterFlowActionTypeName_def)

text \<open>Exactly the registered enumeration values survive a round trip through JSON.\<close>

lemma ClusterFlowActionType_json_roundtrip:
  "ClusterFlowActionType_UnmarshalJSON (Some (ClusterFlowActionType_MarshalJSON t)) =
     (if t = ToPodInterface then Ok t
      else Err (Errorf ''json unmarshalling produced an empty string''))"
  by (simp add: ClusterFlowActionType_UnmarshalJSON_def ClusterFlowActionType_MarshalJSON_def
      clusterFlowActionTypeName_def clusterFlowActionTypeValue_def)

end
