(* ===== verification/Flow_Webhook.thy ===== *)
theory Flow_Webhook
  imports Flow_Crd
begin

text \<open>
  The admission webhooks of the flow configuration: \<^verbatim>\<open>apis/flowconfig/v1/validate.go\<close>,
  \<^verbatim>\<open>webhook_common.go\<close>, \<^verbatim>\<open>nodeflowconfig_webhook.go\<close> and \<^verbatim>\<open>clusterflowconfig_webhook.go\<close>.
  A validator returns \<open>Ok ()\<close>, an error, or panics. \<open>A\<close> is the \<^verbatim>\<open>anypb\<close> package.
\<close>

section \<open>validate.go\<close>

definition validateUint32ItemField :: "string \<Rightarrow> string \<Rightarrow> u32 \<Rightarrow> u32 \<Rightarrow> check" where
  "validateUint32ItemField itemName field specValue fieldValue =
     (if itemName = ''spec'' then Ok ()
      else if specValue = 0 \<and> fieldValue \<noteq> 0 then
        Err (Errorf (''spec.'' @ field @ '' must be specified''))
      else if itemName = ''last'' \<and> fieldValue < specValue then
        Err (Errorf (''last.'' @ field @ '' must be higher or equal to spec''))
      else Ok ())"

text \<open>Unpacking into a fresh message of a given type; a nil spec leaves the zero message.\<close>

definition unpack :: "'any anypb \<Rightarrow> go_struct \<Rightarrow> string \<Rightarrow> 'any option \<Rightarrow> proto_msg outcome" where
  "unpack A t itemName x = wrap_err (''could not unmarshal '' @ itemName) (UnmarshalTo A x t)"

definition unpack_spec ::
    "'any anypb \<Rightarrow> go_struct \<Rightarrow> proto_msg \<Rightarrow> string \<Rightarrow> 'any option \<Rightarrow> proto_msg outcome" where
  "unpack_spec A t zero itemName spec =
     (case spec of None \<Rightarrow> Ok zero | Some s \<Rightarrow> unpack A t itemName (Some s))"

text \<open>The typed view of a message of each struct, and the zero messages \<^verbatim>\<open>new(T)\<close>.\<close>

definition zero_eth :: RteFlowItemEth where
  "zero_eth = \<lparr>eth_Dst = None, eth_Src = None, eth_Type = 0\<rparr>"

definition zero_vlan :: RteFlowItemVlan where
  "zero_vlan = \<lparr>vlan_Tci = 0, vlan_InnerType = 0\<rparr>"

definition zero_pppoe :: RteFlowItemPppoe where
  "zero_pppoe = \<lparr>pppoe_VersionType = 0, pppoe_Code = 0, pppoe_SessionId = 0, pppoe_Length = 0\<rparr>"

fun as_eth :: "proto_msg \<Rightarrow> RteFlowItemEth" where
  "as_eth (MsgEth m) = m" | "as_eth _ = zero_eth"

fun as_vlan :: "proto_msg \<Rightarrow> RteFlowItemVlan" where
  "as_vlan (MsgVlan m) = m" | "as_vlan _ = zero_vlan"

fun as_ipv4 :: "proto_msg \<Rightarrow> RteFlowItemIpv4" where
  "as_ipv4 (MsgIpv4 m) = m" | "as_ipv4 _ = \<lparr>ipv4_Hdr = None\<rparr>"

fun as_udp :: "proto_msg \<Rightarrow> RteFlowItemUdp" where
  "as_udp (MsgUdp m) = m" | "as_udp _ = \<lparr>udp_Hdr = None\<rparr>"

fun as_pppoe :: "proto_msg \<Rightarrow> RteFlowItemPppoe" where
  "as_pppoe (MsgPppoe m) = m" | "as_pppoe _ = zero_pppoe"

fun as_pppoe_proto :: "proto_msg \<Rightarrow> RteFlowItemPppoeProtoId" where
  "as_pppoe_proto (MsgPppoeProtoId m) = m" | "as_pppoe_proto _ = \<lparr>pppoe_ProtoId = 0\<rparr>"

fun as_vf :: "proto_msg \<Rightarrow> RteFlowActionVf" where
  "as_vf (MsgVf m) = m" | "as_vf _ = \<lparr>vf_Reserved = 0, vf_Original = 0, vf_Id = 0\<rparr>"

subsection \<open>Ethernet\<close>

definition encodeHexMacAddress :: "byte list \<Rightarrow> u32 outcome" where
  "encodeHexMacAddress addr =
     obind (wrap_err ''error parsing mac address'' (ParseInt_hex 64 (hex_Encode addr)))
       (\<lambda>parseAddr. Ok (word_of_int parseAddr))"

text \<open>The block of \<^verbatim>\<open>validateRteFlowItemEth\<close> for one of the two addresses.\<close>

definition validate_mac ::
    "string \<Rightarrow> string \<Rightarrow> RteEtherAddr option \<Rightarrow> RteEtherAddr option \<Rightarrow> check" where
  "validate_mac itemName field specAddr itemAddr =
     (case itemAddr of
        None \<Rightarrow> Ok ()
      | Some a \<Rightarrow>
          obind (case specAddr of
                   None \<Rightarrow> Ok 0
                 | Some s \<Rightarrow> wrap_err ''invalid spec'' (encodeHexMacAddress (AddrBytes s))) (\<lambda>specInt.
          obind (wrap_err (''invalid '' @ itemName) (encodeHexMacAddress (AddrBytes a))) (\<lambda>itemInt.
          validateUint32ItemField itemName field specInt itemInt)))"

definition check_eth :: "string \<Rightarrow> RteFlowItemEth \<Rightarrow> RteFlowItemEth \<Rightarrow> check" where
  "check_eth itemName specItem ethItem = checks
     [only_if (eth_Type ethItem \<noteq> 0) (wrap_err ''validateUint32ItemField() error''
        (validateUint32ItemField itemName ''type'' (eth_Type specItem) (eth_Type ethItem))),
      validate_mac itemName ''dst'' (eth_Dst specItem) (eth_Dst ethItem),
      validate_mac itemName ''src'' (eth_Src specItem) (eth_Src ethItem),
      fail_if (0xFFFF < eth_Type ethItem) ''invalid type, must be equal or lower than 65,535'']"

definition validateRteFlowItemEth :: "'any anypb \<Rightarrow> string \<Rightarrow> 'any option \<Rightarrow> 'any option \<Rightarrow> check" where
  "validateRteFlowItemEth A itemName spec item =
     obind (unpack_spec A ''RteFlowItemEth'' (MsgEth zero_eth) itemName spec) (\<lambda>s.
     obind (unpack A ''RteFlowItemEth'' itemName item) (\<lambda>i.
     check_eth itemName (as_eth s) (as_eth i)))"

subsection \<open>VLAN\<close>

definition check_vlan :: "string \<Rightarrow> RteFlowItemVlan \<Rightarrow> RteFlowItemVlan \<Rightarrow> check" where
  "check_vlan itemName specItem vlanItem = checks
     [validateUint32ItemField itemName ''tci'' (vlan_Tci specItem) (vlan_Tci vlanItem),
      validateUint32ItemField itemName ''inner_type'' (vlan_InnerType specItem) (vlan_InnerType vlanItem),
      fail_if (0xFFFF < vlan_Tci vlanItem) ''invalid tci, must be equal or lower than 65,535'',
      fail_if (0xFFFF < vlan_InnerType vlanItem)
        ''invalid inner_type, must be equal or lower than 65,535'']"

definition validateRteFlowItemVlan :: "'any anypb \<Rightarrow> string \<Rightarrow> 'any option \<Rightarrow> 'any option \<Rightarrow> check" where
  "validateRteFlowItemVlan A itemName spec item =
     obind (unpack_spec A ''RteFlowItemVlan'' (MsgVlan zero_vlan) itemName spec) (\<lambda>s.
     obind (unpack A ''RteFlowItemVlan'' itemName item) (\<lambda>i.
     check_vlan itemName (as_vlan s) (as_vlan i)))"

subsection \<open>IPv4\<close>

definition check_ipv4_fields :: "string \<Rightarrow> RteIpv4Hdr \<Rightarrow> RteIpv4Hdr \<Rightarrow> check" where
  "check_ipv4_fields itemName s i = checks
     [validateUint32ItemField itemName ''version_ihl'' (ip4_VersionIhl s) (ip4_VersionIhl i),
      validateUint32ItemField itemName ''type_of_service'' (ip4_TypeOfService s) (ip4_TypeOfService i),
      validateUint32ItemField itemName ''total_length'' (ip4_TotalLength s) (ip4_TotalLength i),
      validateUint32ItemField itemName ''packet_id'' (ip4_PacketId s) (ip4_PacketId i),
      validateUint32ItemField itemName ''fragment_offset'' (ip4_FragmentOffset s) (ip4_FragmentOffset i),
      validateUint32ItemField itemName ''time_to_live'' (ip4_TimeToLive s) (ip4_TimeToLive i),
      validateUint32ItemField itemName ''next_proto_id'' (ip4_NextProtoId s) (ip4_NextProtoId i),
      validateUint32ItemField itemName ''hdr_checksum'' (ip4_HdrChecksum s) (ip4_HdrChecksum i),
      validateUint32ItemField itemName ''src_addr'' (ip4_SrcAddr s) (ip4_SrcAddr i),
      validateUint32ItemField itemName ''dst_addr'' (ip4_DstAddr s) (ip4_DstAddr i)]"

definition check_ipv4_limits :: "RteIpv4Hdr \<Rightarrow> check" where
  "check_ipv4_limits i = checks
     [fail_if (0xFF < ip4_VersionIhl i) ''invalid version_ihl, must be equal or lower than 255'',
      fail_if (0xFF < ip4_TypeOfService i) ''invalid type_of_service, must be equal or lower than 255'',
      fail_if (0xFFFF < ip4_TotalLength i) ''invalid total_length, must be equal or lower than 65,535'',
      fail_if (0xFFFF < ip4_PacketId i) ''invalid packet_id, must be equal or lower than 65,535'',
      fail_if (0xFFFF < ip4_FragmentOffset i) ''invalid fragment_offset, must be equal or lower than 65,535'',
      fail_if (0xFF < ip4_TimeToLive i) ''invalid time_to_live, must be equal or lower than 255'',
      fail_if (0xFF < ip4_NextProtoId i) ''invalid next_proto_id, must be equal or lower than 255'',
      fail_if (0xFF < ip4_HdrChecksum i) ''invalid hdr_checksum, must be equal or lower than 255'']"

text \<open>\<^verbatim>\<open>ipv4Item.Hdr\<close> is dereferenced without a test for nil.\<close>

definition check_ipv4 :: "string \<Rightarrow> RteFlowItemIpv4 \<Rightarrow> RteFlowItemIpv4 \<Rightarrow> check" where
  "check_ipv4 itemName specItem ipv4Item =
     obind (case ipv4_Hdr specItem of
              None \<Rightarrow> Ok ()
            | Some s \<Rightarrow> obind (deref (ipv4_Hdr ipv4Item)) (check_ipv4_fields itemName s)) (\<lambda>_.
     obind (deref (ipv4_Hdr ipv4Item)) check_ipv4_limits)"

definition validateRteFlowItemIpv4 :: "'any anypb \<Rightarrow> string \<Rightarrow> 'any option \<Rightarrow> 'any option \<Rightarrow> check" where
  "validateRteFlowItemIpv4 A itemName spec item =
     obind (unpack_spec A ''RteFlowItemIpv4'' (MsgIpv4 \<lparr>ipv4_Hdr = None\<rparr>) itemName spec) (\<lambda>s.
     obind (unpack A ''RteFlowItemIpv4'' itemName item) (\<lambda>i.
     check_ipv4 itemName (as_ipv4 s) (as_ipv4 i)))"

subsection \<open>UDP\<close>

definition check_udp_fields :: "string \<Rightarrow> RteUdpHdr \<Rightarrow> RteUdpHdr \<Rightarrow> check" where
  "check_udp_fields itemName s i = checks
     [only_if (udp_SrcPort i \<noteq> 0)
        (validateUint32ItemField itemName ''src_port'' (udp_SrcPort s) (udp_SrcPort i)),
      only_if (udp_DstPort i \<noteq> 0)
        (validateUint32ItemField itemName ''dst_port'' (udp_DstPort s) (udp_DstPort i)),
      only_if (udp_DgramLen i \<noteq> 0)
        (validateUint32ItemField itemName ''dgram_len'' (udp_DgramLen s) (udp_DgramLen i)),
      only_if (udp_DgramCksum i \<noteq> 0)
        (validateUint32ItemField itemName ''dgram_cksum'' (udp_DgramCksum s) (udp_DgramCksum i))]"

definition check_udp_limits :: "RteUdpHdr \<Rightarrow> check" where
  "check_udp_limits i = checks
     [fail_if (0xFFFF < udp_SrcPort i) ''invalid src_port, must be equal or lower than 65,535'',
      fail_if (0xFFFF < udp_DstPort i) ''invalid dst_port, must be equal or lower than 65,535'',
      fail_if (0xFFFF < udp_DgramLen i) ''invalid dgram_len, must be equal or lower than 65,535'',
      fail_if (0xFFFF < udp_DgramCksum i) ''invalid dgram_cksum, must be equal or lower than 65,535'']"

definition check_udp :: "string \<Rightarrow> RteFlowItemUdp \<Rightarrow> RteFlowItemUdp \<Rightarrow> check" where
  "check_udp itemName specItem udpItem =
     obind (case udp_Hdr specItem of
              None \<Rightarrow> Ok ()
            | Some s \<Rightarrow> obind (deref (udp_Hdr udpItem)) (check_udp_fields itemName s)) (\<lambda>_.
     (case udp_Hdr udpItem of None \<Rightarrow> Ok () | Some i \<Rightarrow> check_udp_limits i))"

definition validateRteFlowItemUdp :: "'any anypb \<Rightarrow> string \<Rightarrow> 'any option \<Rightarrow> 'any option \<Rightarrow> check" where
  "validateRteFlowItemUdp A itemName spec item =
     obind (unpack_spec A ''RteFlowItemUdp'' (MsgUdp \<lparr>udp_Hdr = None\<rparr>) itemName spec) (\<lambda>s.
     obind (unpack A ''RteFlowItemUdp'' itemName item) (\<lambda>i.
     check_udp itemName (as_udp s) (as_udp i)))"

subsection \<open>PPPoE\<close>

definition check_pppoe :: "string \<Rightarrow> RteFlowItemPppoe \<Rightarrow> RteFlowItemPppoe \<Rightarrow> check" where
  "check_pppoe itemName s i = checks
     [only_if (pppoe_VersionType s \<noteq> 0)
        (validateUint32ItemField itemName ''version_type'' (pppoe_VersionType s) (pppoe_VersionType i)),
      only_if (pppoe_Code s \<noteq> 0)
        (validateUint32ItemField itemName ''code'' (pppoe_Code s) (pppoe_Code i)),
      only_if (pppoe_SessionId s \<noteq> 0)
        (validateUint32ItemField itemName ''session_id'' (pppoe_SessionId s) (pppoe_SessionId i)),
      only_if (pppoe_Length s \<noteq> 0)
        (validateUint32ItemField itemName ''length'' (pppoe_Length s) (pppoe_Length i)),
      fail_if (0xFF < pppoe_VersionType i) ''invalid version_type, must be equal or lower than 255'',
      fail_if (0xFF < pppoe_Code i) ''invalid code, must be equal or lower than 255'',
      fail_if (0xFFFF < pppoe_SessionId i) ''invalid session_id, must be equal or lower than 65,535'',
      fail_if (0xFFFF < pppoe_Length i) ''invalid length, must be equal or lower than 65,535'']"

definition validateRteFlowItemPppoe :: "'any anypb \<Rightarrow> string \<Rightarrow> 'any option \<Rightarrow> 'any option \<Rightarrow> check" where
  "validateRteFlowItemPppoe A itemName spec item =
     obind (unpack_spec A ''RteFlowItemPppoe'' (MsgPppoe zero_pppoe) itemName spec) (\<lambda>s.
     obind (unpack A ''RteFlowItemPppoe'' itemName item) (\<lambda>i.
     check_pppoe itemName (as_pppoe s) (as_pppoe i)))"

definition check_pppoe_proto ::
    "string \<Rightarrow> RteFlowItemPppoeProtoId \<Rightarrow> RteFlowItemPppoeProtoId \<Rightarrow> check" where
  "check_pppoe_proto itemName s i = checks
     [validateUint32ItemField itemName ''proto_id'' (pppoe_ProtoId s) (pppoe_ProtoId i),
      fail_if (0xFFFF < pppoe_ProtoId i) ''invalid proto_id, must be equal or lower than 65,535'']"

definition validateRteFlowItemPppoeProtoId ::
    "'any anypb \<Rightarrow> string \<Rightarrow> 'any option \<Rightarrow> 'any option \<Rightarrow> check" where
  "validateRteFlowItemPppoeProtoId A itemName spec item =
     obind (unpack_spec A ''RteFlowItemPppoeProtoId'' (MsgPppoeProtoId \<lparr>pppoe_ProtoId = 0\<rparr>) itemName spec) (\<lambda>s.
     obind (unpack A ''RteFlowItemPppoeProtoId'' itemName item) (\<lambda>i.
     check_pppoe_proto itemName (as_pppoe_proto s) (as_pppoe_proto i)))"

subsection \<open>Actions\<close>

definition validateRteFlowActionConfigEmpty :: "'any option \<Rightarrow> check" where
  "validateRteFlowActionConfigEmpty spec =
     fail_if (spec \<noteq> None) ''unexpected key conf: action is not configurable''"

definition check_vf :: "RteFlowActionVf \<Rightarrow> check" where
  "check_vf conf = checks
     [fail_if (255 < vf_Id conf) ''id must be in 0-255 range'',
      fail_if (1 < vf_Original conf) ''original must be 0 or 1'',
      fail_if (0 < vf_Reserved conf) ''reserved field cannot be non-zero'']"

definition validateRteFlowActionVf :: "'any anypb \<Rightarrow> 'any option \<Rightarrow> check" where
  "validateRteFlowActionVf A spec =
     obind (wrap_err ''could not unmarshal RTE_FLOW_ACTION_TYPE_VF configuration''
              (UnmarshalTo A spec ''RteFlowActionVf'')) (\<lambda>m. check_vf (as_vf m))"

section \<open>webhook\_common.go\<close>

definition validateItem :: "'any anypb \<Rightarrow> int \<Rightarrow> string \<Rightarrow> 'any option \<Rightarrow> 'any option \<Rightarrow> check" where
  "validateItem A itemType itemName spec item =
     (if spec = None \<and> itemName \<noteq> ''spec'' then Err (Errorf ''spec must be specified'')
      else if itemType = RTE_FLOW_ITEM_TYPE_ETH then validateRteFlowItemEth A itemName spec item
      else if itemType = RTE_FLOW_ITEM_TYPE_VLAN then validateRteFlowItemVlan A itemName spec item
      else if itemType = RTE_FLOW_ITEM_TYPE_IPV4 then validateRteFlowItemIpv4 A itemName spec item
      else if itemType = RTE_FLOW_ITEM_TYPE_UDP then validateRteFlowItemUdp A itemName spec item
      else if itemType = RTE_FLOW_ITEM_TYPE_PPPOES \<or> itemType = RTE_FLOW_ITEM_TYPE_PPPOED
        then validateRteFlowItemPppoe A itemName spec item
      else if itemType = RTE_FLOW_ITEM_TYPE_PPPOE_PROTO_ID
        then validateRteFlowItemPppoeProtoId A itemName spec item
      else Ok ())"

text \<open>One of the three blocks of \<^verbatim>\<open>validateRteFlowItem\<close>: convert the document and validate it.\<close>

definition validate_part ::
    "'any anypb \<Rightarrow> string \<Rightarrow> int \<Rightarrow> string \<Rightarrow> 'any option \<Rightarrow> RawExtension option \<Rightarrow> 'any option outcome" where
  "validate_part A type v itemName spec part =
     (case part of
        None \<Rightarrow> Ok None
      | Some r \<Rightarrow>
          obind (wrap_err (''invalid '' @ itemName @ '' in pattern type'') (GetFlowItemAny A type (Raw r))) (\<lambda>a.
          obind (wrap_err (''validateItem(): error validating '' @ itemName)
                   (validateItem A v itemName spec (Some a))) (\<lambda>_.
          Ok (Some a))))"

definition validateRteFlowItem :: "'any anypb \<Rightarrow> FlowItem \<Rightarrow> check" where
  "validateRteFlowItem A item =
     (case RteFlowItemType_value (FlowItem_Type item) of
        None \<Rightarrow> Err (Errorf ''invalid flow item type'')
      | Some v \<Rightarrow>
          obind (validate_part A (FlowItem_Type item) v ''spec'' None (FlowItem_Spec item)) (\<lambda>spec.
          obind (validate_part A (FlowItem_Type item) v ''last'' spec (FlowItem_Last item)) (\<lambda>_.
          obind (validate_part A (FlowItem_Type item) v ''mask'' spec (FlowItem_Mask item)) (\<lambda>_.
          Ok ()))))"

definition validateFlowPatterns :: "'any anypb \<Rightarrow> FlowItem list \<Rightarrow> check" where
  "validateFlowPatterns A patterns =
     for_each (\<lambda>i item.
       obind (wrap_err ''pattern invalid'' (validateRteFlowItem A item)) (\<lambda>_.
       only_if (i = length patterns - 1)
         (fail_if (FlowItem_Type item \<noteq> ''RTE_FLOW_ITEM_TYPE_END'')
            ''invalid: last pattern must be RTE_FLOW_ITEM_TYPE_END''))) 0 patterns"

definition validateRteFlowAttr :: "RteFlowAttr \<Rightarrow> check" where
  "validateRteFlowAttr attr = checks
     [fail_if (1 < attr_Ingress attr) ''invalid attr.ingress, must be of value {0,1}'',
      fail_if (1 < attr_Egress attr) ''invalid attr.egress, must be of value {0,1}'',
      fail_if (1 < attr_Transfer attr) ''invalid attr.transfer, must be of value {0,1}'']"

definition copy_attr :: "FlowAttr \<Rightarrow> RteFlowAttr" where
  "copy_attr a = \<lparr>attr_Group = Group a, attr_Priority = Priority a, attr_Ingress = Ingress a,
     attr_Egress = Egress a, attr_Transfer = Transfer a, attr_Reserved = Reserved a\<rparr>"

definition validateFlowAttr :: "FlowAttr option \<Rightarrow> check" where
  "validateFlowAttr attributes =
     obind (deref attributes) (\<lambda>a. validateRteFlowAttr (copy_attr a))"

section \<open>nodeflowconfig\_webhook.go\<close>

definition validatePortId :: "u32 \<Rightarrow> check" where
  "validatePortId portId = Ok ()"

definition not_configurable_actions :: "int set" where
  "not_configurable_actions =
     {RTE_FLOW_ACTION_TYPE_END, RTE_FLOW_ACTION_TYPE_VOID, RTE_FLOW_ACTION_TYPE_PASSTHRU,
      RTE_FLOW_ACTION_TYPE_FLAG, RTE_FLOW_ACTION_TYPE_DROP, RTE_FLOW_ACTION_TYPE_PF,
      RTE_FLOW_ACTION_TYPE_OF_DEC_MPLS_TTL, RTE_FLOW_ACTION_TYPE_OF_DEC_NW_TTL,
      RTE_FLOW_ACTION_TYPE_OF_COPY_TTL_OUT, RTE_FLOW_ACTION_TYPE_OF_COPY_TTL_IN,
      RTE_FLOW_ACTION_TYPE_OF_POP_VLAN, RTE_FLOW_ACTION_TYPE_VXLAN_DECAP,
      RTE_FLOW_ACTION_TYPE_NVGRE_DECAP, RTE_FLOW_ACTION_TYPE_MAC_SWAP, RTE_FLOW_ACTION_TYPE_DEC_TTL,
      RTE_FLOW_ACTION_TYPE_INC_TCP_SEQ, RTE_FLOW_ACTION_TYPE_DEC_TCP_SEQ,
      RTE_FLOW_ACTION_TYPE_INC_TCP_ACK, RTE_FLOW_ACTION_TYPE_DEC_TCP_ACK}"

definition unchecked_actions :: "int set" where
  "unchecked_actions =
     {RTE_FLOW_ACTION_TYPE_JUMP, RTE_FLOW_ACTION_TYPE_MARK, RTE_FLOW_ACTION_TYPE_QUEUE,
      RTE_FLOW_ACTION_TYPE_COUNT, RTE_FLOW_ACTION_TYPE_RSS, RTE_FLOW_ACTION_TYPE_PHY_PORT,
      RTE_FLOW_ACTION_TYPE_PORT_ID, RTE_FLOW_ACTION_TYPE_METER, RTE_FLOW_ACTION_TYPE_SECURITY,
      RTE_FLOW_ACTION_TYPE_OF_SET_MPLS_TTL, RTE_FLOW_ACTION_TYPE_OF_SET_NW_TTL,
      RTE_FLOW_ACTION_TYPE_OF_PUSH_VLAN, RTE_FLOW_ACTION_TYPE_OF_SET_VLAN_VID,
      RTE_FLOW_ACTION_TYPE_OF_SET_VLAN_PCP, RTE_FLOW_ACTION_TYPE_OF_POP_MPLS,
      RTE_FLOW_ACTION_TYPE_OF_PUSH_MPLS, RTE_FLOW_ACTION_TYPE_VXLAN_ENCAP,
      RTE_FLOW_ACTION_TYPE_NVGRE_ENCAP, RTE_FLOW_ACTION_TYPE_RAW_ENCAP,
      RTE_FLOW_ACTION_TYPE_RAW_DECAP, RTE_FLOW_ACTION_TYPE_SET_IPV4_SRC,
      RTE_FLOW_ACTION_TYPE_SET_IPV4_DST, RTE_FLOW_ACTION_TYPE_SET_IPV6_SRC,
      RTE_FLOW_ACTION_TYPE_SET_IPV6_DST, RTE_FLOW_ACTION_TYPE_SET_TP_SRC,
      RTE_FLOW_ACTION_TYPE_SET_TP_DST, RTE_FLOW_ACTION_TYPE_SET_TTL,
      RTE_FLOW_ACTION_TYPE_SET_MAC_SRC, RTE_FLOW_ACTION_TYPE_SET_MAC_DST,
      RTE_FLOW_ACTION_TYPE_SET_TAG, RTE_FLOW_ACTION_TYPE_SET_META}"

definition validateRteFlowAction :: "'any anypb \<Rightarrow> 'any RteFlowAction \<Rightarrow> check" where
  "validateRteFlowAction A act =
     (if action_Type act = RTE_FLOW_ACTION_TYPE_VF then validateRteFlowActionVf A (action_Conf act)
      else if action_Type act \<in> not_configurable_actions
        then validateRteFlowActionConfigEmpty (action_Conf act)
      else if action_Type act \<in> unchecked_actions then Ok ()
      else Err (Errorf ''invalid action type''))"

text \<open>The body of the loop over the actions in \<^verbatim>\<open>FlowRules.validate\<close>.\<close>

definition validate_action :: "'any anypb \<Rightarrow> nat \<Rightarrow> nat \<Rightarrow> FlowAction \<Rightarrow> check" where
  "validate_action A n i action =
     (case GetFlowActionType (FlowAction_Type action) of
        None \<Rightarrow> Err (Errorf ''action invalid: unknown type'')
      | Some v \<Rightarrow>
          obind (case FlowAction_Conf action of
                   None \<Rightarrow> Ok None
                 | Some r \<Rightarrow>
                     obind (wrap_err ''error'' (GetFlowActionAnyForWebhook A (FlowAction_Type action) (Raw r)))
                       (\<lambda>a. Ok (Some a))) (\<lambda>conf.
          obind (validateRteFlowAction A \<lparr>action_Type = v, action_Conf = conf\<rparr>) (\<lambda>_.
          only_if (i = n - 1)
            (fail_if (FlowAction_Type action \<noteq> ''RTE_FLOW_ACTION_TYPE_END'')
               ''invalid: last action must be RTE_FLOW_ACTION_TYPE_END''))))"

definition FlowRules_validate :: "'any anypb \<Rightarrow> FlowRules \<Rightarrow> check" where
  "FlowRules_validate A rules = checks
     [validateFlowPatterns A (FlowRules_Pattern rules),
      for_each (validate_action A (length (FlowRules_Action rules))) 0 (FlowRules_Action rules),
      validateFlowAttr (FlowRules_Attr rules),
      validatePortId (FlowRules_PortId rules)]"

definition NodeFlowConfig_ValidateCreate :: "'any anypb \<Rightarrow> NodeFlowConfig \<Rightarrow> check" where
  "NodeFlowConfig_ValidateCreate A r = for_each (\<lambda>_ rule. FlowRules_validate A rule) 0 (nfc_Rules r)"

definition NodeFlowConfig_ValidateUpdate :: "'any anypb \<Rightarrow> NodeFlowConfig \<Rightarrow> NodeFlowConfig \<Rightarrow> check" where
  "NodeFlowConfig_ValidateUpdate A r old = for_each (\<lambda>_ rule. FlowRules_validate A rule) 0 (nfc_Rules r)"

definition NodeFlowConfig_ValidateDelete :: "NodeFlowConfig \<Rightarrow> check" where
  "NodeFlowConfig_ValidateDelete r = Ok ()"

section \<open>clusterflowconfig\_webhook.go\<close>

definition validate_cluster_action :: "nat \<Rightarrow> ClusterFlowAction \<Rightarrow> check" where
  "validate_cluster_action i action =
     (if cfa_Type action = ToPodInterface then
        (case cfa_Conf action of
           None \<Rightarrow> Err (Errorf ''action have empty configuration'')
         | Some r \<Rightarrow>
             obind (wrap_err ''unable to unmarshal action raw data''
                      (Unmarshal struct_fields ''ToPodInterfaceConf'' (Raw r))) (\<lambda>fs.
             fail_if (f_str fs ''podInterface'' = []) ''POD network interface name cannot be empty''))
      else Err (Errorf ''invalid action type''))"

definition validateClusterFlowAction :: "ClusterFlowAction list \<Rightarrow> check" where
  "validateClusterFlowAction actions = for_each validate_cluster_action 0 actions"

definition validatePodSelector :: "'x LabelSelector option \<Rightarrow> check" where
  "validatePodSelector podSelector =
     fail_if (podSelector = None) ''PodSelector is undefined, please add it''"

definition ClusterFlowRule_validate :: "'any anypb \<Rightarrow> ClusterFlowRule \<Rightarrow> check" where
  "ClusterFlowRule_validate A rules = checks
     [validateFlowPatterns A (cfr_Pattern rules),
      validateClusterFlowAction (cfr_Action rules),
      validateFlowAttr (cfr_Attr rules)]"

definition ClusterFlowConfig_ValidateCreate :: "'any anypb \<Rightarrow> 'x ClusterFlowConfig \<Rightarrow> check" where
  "ClusterFlowConfig_ValidateCreate A r = checks
     [for_each (\<lambda>_ rule. ClusterFlowRule_validate A rule) 0 (cfc_Rules r),
      validatePodSelector (cfc_PodSelector r)]"

definition ClusterFlowConfig_ValidateUpdate ::
    "'any anypb \<Rightarrow> 'x ClusterFlowConfig \<Rightarrow> 'x ClusterFlowConfig \<Rightarrow> check" where
  "ClusterFlowConfig_ValidateUpdate A r old = checks
     [for_each (\<lambda>_ rule. ClusterFlowRule_validate A rule) 0 (cfc_Rules r),
      validatePodSelector (cfc_PodSelector r)]"

definition ClusterFlowConfig_ValidateDelete :: "'x ClusterFlowConfig \<Rightarrow> check" where
  "ClusterFlowConfig_ValidateDelete r = Ok ()"

end
