(* ===== verification/Flow_Webhook_Facts.thy ===== *)
theory Flow_Webhook_Facts
  imports Flow_Webhook
begin

text \<open>
  What the admission webhooks guarantee. The abstract side is the documentation of the rule
  format (\<^verbatim>\<open>docs/flowconfig-daemon/creating-rules.md\<close>): \<open>msg_limits\<close> pairs every bounded field of a
  message with the largest value the webhook admits, \<open>msg_ranges\<close> pairs the fields of a \<^verbatim>\<open>spec\<close>
  with those of its \<^verbatim>\<open>last\<close>. \<open>item_sound\<close>, \<open>action_sound\<close> and \<open>rule_sound\<close> say what an accepted
  item, action and rule satisfy.
\<close>

section \<open>Field checks\<close>

lemma validateUint32ItemField_Ok_iff:
  "validateUint32ItemField name f s v = Ok () \<longleftrightarrow>
     name = ''spec'' \<or> ((s = 0 \<longrightarrow> v = 0) \<and> (name = ''last'' \<longrightarrow> s \<le> v))"
  by (auto simp: validateUint32ItemField_def not_less)

lemma validateUint32ItemField_no_panic [simp]: "validateUint32ItemField name f s v \<noteq> Panic p"
  by (simp add: validateUint32ItemField_def)

lemma unpack_no_panic: "anypb_spec A \<Longrightarrow> unpack A t n x \<noteq> Panic p"
  by (simp add: unpack_def anypb_specD(2))

lemma unpack_spec_no_panic: "anypb_spec A \<Longrightarrow> unpack_spec A t z n x \<noteq> Panic p"
  by (simp add: unpack_spec_def unpack_no_panic split: option.splits)

section \<open>MAC addresses as 32-bit numbers\<close>

lemma encodeHexMacAddress_eq:
  "encodeHexMacAddress bs =
     (if bs = [] then Err (Wrap ''error parsing mac address'' (Errorf ''invalid syntax''))
      else if 2 ^ 63 \<le> be_val 0 bs
        then Err (Wrap ''error parsing mac address'' (Errorf ''value out of range''))
      else Ok (word_of_int (be_val 0 bs)))"
  by (simp add: encodeHexMacAddress_def ParseInt_hex_def hex_digits_Encode not_le)

lemma encodeHexMacAddress_no_panic [simp]: "encodeHexMacAddress bs \<noteq> Panic p"
  by (simp add: encodeHexMacAddress_eq)

lemma word_of_int_be_val_suffix:
  assumes "length bs = 4"
  shows "(word_of_int (be_val 0 (as @ bs)) :: u32) = word_of_int (be_val 0 bs)"
proof -
  have "be_val 0 (as @ bs) = be_val 0 as * 2 ^ 32 + be_val 0 bs"
    using be_val_shift [of "be_val 0 as" bs] assms by (simp add: be_val_append)
  moreover have "(word_of_int (2 ^ 32) :: u32) = 0"
    by simp
  ultimately show ?thesis
    by (simp only: wi_hom_syms mult_zero_right add_0)
qed

lemma validate_mac_no_panic [simp]: "validate_mac n f s i \<noteq> Panic p"
  by (auto simp: validate_mac_def obind_Panic_iff split: option.splits)

section \<open>The checks of each message\<close>

lemma check_vlan_Ok_iff:
  "check_vlan n s i = Ok () \<longleftrightarrow>
     validateUint32ItemField n ''tci'' (vlan_Tci s) (vlan_Tci i) = Ok () \<and>
     validateUint32ItemField n ''inner_type'' (vlan_InnerType s) (vlan_InnerType i) = Ok () \<and>
     vlan_Tci i \<le> 0xFFFF \<and> vlan_InnerType i \<le> 0xFFFF"
  by (auto simp: check_vlan_def not_less)

lemma check_eth_Ok_iff:
  "check_eth n s i = Ok () \<longleftrightarrow>
     (eth_Type i \<noteq> 0 \<longrightarrow> validateUint32ItemField n ''type'' (eth_Type s) (eth_Type i) = Ok ()) \<and>
     validate_mac n ''dst'' (eth_Dst s) (eth_Dst i) = Ok () \<and>
     validate_mac n ''src'' (eth_Src s) (eth_Src i) = Ok () \<and> eth_Type i \<le> 0xFFFF"
  by (auto simp: check_eth_def not_less)

lemma check_ipv4_Ok_iff:
  "check_ipv4 n s i = Ok () \<longleftrightarrow>
     (\<exists>h. ipv4_Hdr i = Some h \<and> check_ipv4_limits h = Ok () \<and>
        (\<forall>sh. ipv4_Hdr s = Some sh \<longrightarrow> check_ipv4_fields n sh h = Ok ()))"
  by (auto simp: check_ipv4_def split: option.splits)

lemma check_ipv4_limits_Ok_iff:
  "check_ipv4_limits i = Ok () \<longleftrightarrow>
     ip4_VersionIhl i \<le> 0xFF \<and> ip4_TypeOfService i \<le> 0xFF \<and> ip4_TotalLength i \<le> 0xFFFF \<and>
     ip4_PacketId i \<le> 0xFFFF \<and> ip4_FragmentOffset i \<le> 0xFFFF \<and> ip4_TimeToLive i \<le> 0xFF \<and>
     ip4_NextProtoId i \<le> 0xFF \<and> ip4_HdrChecksum i \<le> 0xFF"
  by (auto simp: check_ipv4_limits_def not_less)

lemma check_udp_Ok_iff:
  "check_udp n s i = Ok () \<longleftrightarrow>
     (\<forall>sh. udp_Hdr s = Some sh \<longrightarrow> (\<exists>h. udp_Hdr i = Some h \<and> check_udp_fields n sh h = Ok ())) \<and>
     (\<forall>h. udp_Hdr i = Some h \<longrightarrow> check_udp_limits h = Ok ())"
  by (auto simp: check_udp_def split: option.splits)

lemma check_udp_limits_Ok_iff:
  "check_udp_limits i = Ok () \<longleftrightarrow>
     udp_SrcPort i \<le> 0xFFFF \<and> udp_DstPort i \<le> 0xFFFF \<and> udp_DgramLen i \<le> 0xFFFF \<and>
     udp_DgramCksum i \<le> 0xFFFF"
  by (auto simp: check_udp_limits_def not_less)

lemma check_pppoe_limits:
  "check_pppoe n s i = Ok () \<Longrightarrow>
     pppoe_VersionType i \<le> 0xFF \<and> pppoe_Code i \<le> 0xFF \<and> pppoe_SessionId i \<le> 0xFFFF \<and>
     pppoe_Length i \<le> 0xFFFF"
  by (auto simp: check_pppoe_def not_less)

lemma check_pppoe_proto_Ok_iff:
  "check_pppoe_proto n s i = Ok () \<longleftrightarrow>
     validateUint32ItemField n ''proto_id'' (pppoe_ProtoId s) (pppoe_ProtoId i) = Ok () \<and>
     pppoe_ProtoId i \<le> 0xFFFF"
  by (auto simp: check_pppoe_proto_def not_less)

lemma check_vf_Ok_iff:
  "check_vf c = Ok () \<longleftrightarrow> vf_Id c \<le> 255 \<and> vf_Original c \<le> 1 \<and> vf_Reserved c = 0"
  by (auto simp: check_vf_def not_less word_gt_0)

section \<open>The documented limits and ranges\<close>

fun msg_limits :: "proto_msg \<Rightarrow> (u32 \<times> u32) list" where
  "msg_limits (MsgEth m) = [(eth_Type m, 0xFFFF)]"
| "msg_limits (MsgVlan m) = [(vlan_Tci m, 0xFFFF), (vlan_InnerType m, 0xFFFF)]"
| "msg_limits (MsgIpv4 m) = (case ipv4_Hdr m of None \<Rightarrow> [] | Some h \<Rightarrow>
     [(ip4_VersionIhl h, 0xFF), (ip4_TypeOfService h, 0xFF), (ip4_TotalLength h, 0xFFFF),
      (ip4_PacketId h, 0xFFFF), (ip4_FragmentOffset h, 0xFFFF), (ip4_TimeToLive h, 0xFF),
      (ip4_NextProtoId h, 0xFF), (ip4_HdrChecksum h, 0xFF)])"
| "msg_limits (MsgUdp m) = (case udp_Hdr m of None \<Rightarrow> [] | Some h \<Rightarrow>
     [(udp_SrcPort h, 0xFFFF), (udp_DstPort h, 0xFFFF), (udp_DgramLen h, 0xFFFF),
      (udp_DgramCksum h, 0xFFFF)])"
| "msg_limits (MsgPppoe m) =
     [(pppoe_VersionType m, 0xFF), (pppoe_Code m, 0xFF), (pppoe_SessionId m, 0xFFFF),
      (pppoe_Length m, 0xFFFF)]"
| "msg_limits (MsgPppoeProtoId m) = [(pppoe_ProtoId m, 0xFFFF)]"
| "msg_limits (MsgVf m) = [(vf_Id m, 255), (vf_Original m, 1), (vf_Reserved m, 0)]"
| "msg_limits (MsgOther t fs) = []"

fun msg_ranges :: "proto_msg \<Rightarrow> proto_msg \<Rightarrow> (u32 \<times> u32) list" where
  "msg_ranges (MsgEth s) (MsgEth l) = [(eth_Type s, eth_Type l)]"
| "msg_ranges (MsgVlan s) (MsgVlan l) =
     [(vlan_Tci s, vlan_Tci l), (vlan_InnerType s, vlan_InnerType l)]"
| "msg_ranges (MsgIpv4 s) (MsgIpv4 l) = (case (ipv4_Hdr s, ipv4_Hdr l) of
     (Some a, Some b) \<Rightarrow>
       [(ip4_VersionIhl a, ip4_VersionIhl b), (ip4_TypeOfService a, ip4_TypeOfService b),
        (ip4_TotalLength a, ip4_TotalLength b), (ip4_PacketId a, ip4_PacketId b),
        (ip4_FragmentOffset a, ip4_FragmentOffset b), (ip4_TimeToLive a, ip4_TimeToLive b),
        (ip4_NextProtoId a, ip4_NextProtoId b), (ip4_HdrChecksum a, ip4_HdrChecksum b),
        (ip4_SrcAddr a, ip4_SrcAddr b), (ip4_DstAddr a, ip4_DstAddr b)]
   | _ \<Rightarrow> [])"
| "msg_ranges (MsgUdp s) (MsgUdp l) = (case (udp_Hdr s, udp_Hdr l) of
     (Some a, Some b) \<Rightarrow>
       [(udp_SrcPort a, udp_SrcPort b), (udp_DstPort a, udp_DstPort b),
        (udp_DgramLen a, udp_DgramLen b), (udp_DgramCksum a, udp_DgramCksum b)]
   | _ \<Rightarrow> [])"
| "msg_ranges (MsgPppoe s) (MsgPppoe l) =
     [(pppoe_VersionType s, pppoe_VersionType l), (pppoe_Code s, pppoe_Code l),
      (pppoe_SessionId s, pppoe_SessionId l), (pppoe_Length s, pppoe_Length l)]"
| "msg_ranges (MsgPppoeProtoId s) (MsgPppoeProtoId l) = [(pppoe_ProtoId s, pppoe_ProtoId l)]"
| "msg_ranges _ _ = []"

definition within_limits :: "proto_msg \<Rightarrow> bool" where
  "within_limits m \<longleftrightarrow> list_all (\<lambda>(v, l). v \<le> l) (msg_limits m)"

text \<open>A bound of a range is not below its start, unless it is left out (zero).\<close>

definition range_ok :: "proto_msg \<Rightarrow> proto_msg \<Rightarrow> bool" where
  "range_ok s l \<longleftrightarrow> list_all (\<lambda>(a, b). b = 0 \<or> a \<le> b) (msg_ranges s l)"

lemmas limit_defs = within_limits_def msg_limits.simps
lemmas range_defs = range_ok_def msg_ranges.simps

lemma check_eth_limits: "check_eth n s i = Ok () \<Longrightarrow> within_limits (MsgEth i)"
  by (simp add: check_eth_Ok_iff limit_defs)

lemma check_vlan_limits: "check_vlan n s i = Ok () \<Longrightarrow> within_limits (MsgVlan i)"
  by (simp add: check_vlan_Ok_iff limit_defs)

lemma check_ipv4_within: "check_ipv4 n s i = Ok () \<Longrightarrow> within_limits (MsgIpv4 i)"
  by (auto simp: check_ipv4_Ok_iff check_ipv4_limits_Ok_iff limit_defs)

lemma check_udp_within: "check_udp n s i = Ok () \<Longrightarrow> within_limits (MsgUdp i)"
  by (auto simp: check_udp_Ok_iff check_udp_limits_Ok_iff limit_defs split: option.splits)

lemma check_pppoe_within: "check_pppoe n s i = Ok () \<Longrightarrow> within_limits (MsgPppoe i)"
  using check_pppoe_limits by (simp add: limit_defs)

lemma check_pppoe_proto_within: "check_pppoe_proto n s i = Ok () \<Longrightarrow> within_limits (MsgPppoeProtoId i)"
  by (simp add: check_pppoe_proto_Ok_iff limit_defs)

lemma check_vf_within: "check_vf c = Ok () \<longleftrightarrow> within_limits (MsgVf c)"
  by (auto simp: check_vf_Ok_iff limit_defs)

lemma field_last:
  "validateUint32ItemField ''last'' f s v = Ok () \<Longrightarrow> v = 0 \<or> s \<le> v"
  by (simp add: validateUint32ItemField_Ok_iff)

lemma check_eth_range: "check_eth ''last'' s i = Ok () \<Longrightarrow> range_ok (MsgEth s) (MsgEth i)"
  by (auto simp: check_eth_Ok_iff range_defs dest: field_last)

lemma check_vlan_range: "check_vlan ''last'' s i = Ok () \<Longrightarrow> range_ok (MsgVlan s) (MsgVlan i)"
  by (auto simp: check_vlan_Ok_iff range_defs dest: field_last)

lemma check_ipv4_fields_range:
  "check_ipv4_fields ''last'' a b = Ok () \<Longrightarrow>
     range_ok (MsgIpv4 \<lparr>ipv4_Hdr = Some a\<rparr>) (MsgIpv4 \<lparr>ipv4_Hdr = Some b\<rparr>)"
  unfolding check_ipv4_fields_def
  by (simp add: range_defs, elim conjE, intro conjI; erule field_last)

lemma check_ipv4_range: "check_ipv4 ''last'' s i = Ok () \<Longrightarrow> range_ok (MsgIpv4 s) (MsgIpv4 i)"
proof (cases "ipv4_Hdr s")
  case None
  then show ?thesis by (simp add: range_defs)
next
  case (Some a)
  moreover assume "check_ipv4 ''last'' s i = Ok ()"
  ultimately obtain b where "ipv4_Hdr i = Some b" and "check_ipv4_fields ''last'' a b = Ok ()"
    by (auto simp: check_ipv4_Ok_iff)
  with Some show ?thesis
    using check_ipv4_fields_range [of a b] by (simp add: range_ok_def)
qed

lemma check_udp_range: "check_udp ''last'' s i = Ok () \<Longrightarrow> range_ok (MsgUdp s) (MsgUdp i)"
  by (auto simp: check_udp_Ok_iff range_defs check_udp_fields_def split: option.splits
      dest: field_last)

lemma check_pppoe_range: "check_pppoe ''last'' s i = Ok () \<Longrightarrow> range_ok (MsgPppoe s) (MsgPppoe i)"
  by (auto simp: check_pppoe_def range_defs dest: field_last)

lemma check_pppoe_proto_range:
  "check_pppoe_proto ''last'' s i = Ok () \<Longrightarrow> range_ok (MsgPppoeProtoId s) (MsgPppoeProtoId i)"
  by (auto simp: check_pppoe_proto_Ok_iff range_defs dest: field_last)

lemmas checks_within = check_eth_limits check_vlan_limits check_ipv4_within check_udp_within
  check_pppoe_within check_pppoe_proto_within

lemmas checks_range = check_eth_range check_vlan_range check_ipv4_range check_udp_range
  check_pppoe_range check_pppoe_proto_range

section \<open>One item\<close>

text \<open>The message types the webhook checks belong to one item type each, \<^verbatim>\<open>PPPOES\<close> and \<^verbatim>\<open>PPPOED\<close> apart.\<close>

lemma item_struct_checked:
  "item_struct RTE_FLOW_ITEM_TYPE_ETH = ''RteFlowItemEth''"
  "item_struct RTE_FLOW_ITEM_TYPE_VLAN = ''RteFlowItemVlan''"
  "item_struct RTE_FLOW_ITEM_TYPE_IPV4 = ''RteFlowItemIpv4''"
  "item_struct RTE_FLOW_ITEM_TYPE_UDP = ''RteFlowItemUdp''"
  "item_struct RTE_FLOW_ITEM_TYPE_PPPOES = ''RteFlowItemPppoe''"
  "item_struct RTE_FLOW_ITEM_TYPE_PPPOED = ''RteFlowItemPppoe''"
  "item_struct RTE_FLOW_ITEM_TYPE_PPPOE_PROTO_ID = ''RteFlowItemPppoeProtoId''"
  by code_simp+

definition types_of_struct :: "go_struct \<Rightarrow> int list" where
  "types_of_struct t = (if t = ''RteFlowItemEth'' then [RTE_FLOW_ITEM_TYPE_ETH]
     else if t = ''RteFlowItemVlan'' then [RTE_FLOW_ITEM_TYPE_VLAN]
     else if t = ''RteFlowItemIpv4'' then [RTE_FLOW_ITEM_TYPE_IPV4]
     else if t = ''RteFlowItemUdp'' then [RTE_FLOW_ITEM_TYPE_UDP]
     else if t = ''RteFlowItemPppoe'' then [RTE_FLOW_ITEM_TYPE_PPPOES, RTE_FLOW_ITEM_TYPE_PPPOED]
     else if t = ''RteFlowItemPppoeProtoId'' then [RTE_FLOW_ITEM_TYPE_PPPOE_PROTO_ID]
     else [])"

lemma checked_structs:
  "list_all (\<lambda>p. types_of_struct (item_struct (snd p)) = [] \<or>
     snd p \<in> set (types_of_struct (item_struct (snd p)))) RteFlowItemType_value_table"
  by code_simp

lemma item_types_not_vf:
  "list_all (\<lambda>p. item_struct (snd p) \<noteq> ''RteFlowActionVf'') RteFlowItemType_value_table"
  by code_simp

lemma item_type_of_struct:
  assumes "RteFlowItemType_value s = Some v" and "types_of_struct (item_struct v) \<noteq> []"
  shows "v \<in> set (types_of_struct (item_struct v))"
  using assms checked_structs map_of_SomeD [of RteFlowItemType_value_table s v]
  by (fastforce simp: RteFlowItemType_value_def list_all_iff)

text \<open>
  Accepting one part of an item: the packed message is within its limits, and a \<^verbatim>\<open>last\<close> is not
  below the \<^verbatim>\<open>spec\<close> it was compared with.
\<close>

lemma validateItem_needs_spec:
  "validateItem A v n spec item = Ok () \<Longrightarrow> n \<noteq> ''spec'' \<Longrightarrow> spec \<noteq> None"
  by (auto simp: validateItem_def split: if_splits)

lemma validateItem_within:
  assumes A: "anypb_spec A" and v: "RteFlowItemType_value s = Some v"
    and new: "any_New A m = Ok a" and ty: "msg_type_of m = item_struct v"
    and ok: "validateItem A v n spec (Some a) = Ok ()"
  shows "within_limits m"
proof -
  have un: "UnmarshalTo A (Some a) (msg_type_of m) = Ok m"
    using A new by (rule anypb_specD(4))
  have mem: "types_of_struct (msg_type_of m) \<noteq> [] \<Longrightarrow> v \<in> set (types_of_struct (msg_type_of m))"
    using item_type_of_struct [OF v] ty by simp
  have nvf: "msg_type_of m \<noteq> ''RteFlowActionVf''"
    using item_types_not_vf v ty map_of_SomeD [of RteFlowItemType_value_table s v]
    by (auto simp: RteFlowItemType_value_def list_all_iff)
  show ?thesis
    using ok un mem nvf
    by (cases m) (auto simp: validateItem_def types_of_struct_def validateRteFlowItemEth_def
        validateRteFlowItemVlan_def validateRteFlowItemIpv4_def validateRteFlowItemUdp_def
        validateRteFlowItemPppoe_def validateRteFlowItemPppoeProtoId_def unpack_def
        within_limits_def [of "MsgOther _ _"] intro: checks_within split: if_splits)
qed

lemma validateItem_range:
  assumes A: "anypb_spec A" and v: "RteFlowItemType_value s = Some v"
    and new: "any_New A m = Ok a" and ty: "msg_type_of m = item_struct v"
    and news: "any_New A ms = Ok b" and tys: "msg_type_of ms = item_struct v"
    and ok: "validateItem A v ''last'' (Some b) (Some a) = Ok ()"
  shows "range_ok ms m"
proof -
  have un: "UnmarshalTo A (Some a) (msg_type_of m) = Ok m"
    using A new by (rule anypb_specD(4))
  have uns: "UnmarshalTo A (Some b) (msg_type_of m) = Ok ms"
    using anypb_specD(4) [OF A news] tys ty by simp
  have mem: "types_of_struct (msg_type_of m) \<noteq> [] \<Longrightarrow> v \<in> set (types_of_struct (msg_type_of m))"
    using item_type_of_struct [OF v] ty by simp
  have same: "msg_type_of ms = msg_type_of m"
    using ty tys by simp
  show ?thesis
    using ok un uns mem same
    by (cases m; cases ms) (auto simp: validateItem_def types_of_struct_def validateRteFlowItemEth_def
        validateRteFlowItemVlan_def validateRteFlowItemIpv4_def validateRteFlowItemUdp_def
        validateRteFlowItemPppoe_def validateRteFlowItemPppoeProtoId_def unpack_def unpack_spec_def
        range_ok_def [of "MsgOther _ _"] range_ok_def [of _ "MsgOther _ _"]
        range_ok_def [of "MsgVf _"] intro: checks_range split: if_splits)
qed

section \<open>What an accepted item, action and rule satisfy\<close>

text \<open>\<open>part_msg A t r m\<close>: document \<open>r\<close> of an item of type \<open>t\<close> converts into message \<open>m\<close>.\<close>

definition part_msg :: "'any anypb \<Rightarrow> string \<Rightarrow> RawExtension \<Rightarrow> proto_msg \<Rightarrow> bool" where
  "part_msg A t r m \<longleftrightarrow> (\<exists>v a. RteFlowItemType_value t = Some v \<and> GetFlowItemAny A t (Raw r) = Ok a \<and>
     UnmarshalTo A (Some a) (item_struct v) = Ok m)"

definition parts :: "FlowItem \<Rightarrow> RawExtension list" where
  "parts item = List.map_filter (\<lambda>p. p) [FlowItem_Spec item, FlowItem_Last item, FlowItem_Mask item]"

definition item_sound :: "'any anypb \<Rightarrow> FlowItem \<Rightarrow> bool" where
  "item_sound A item \<longleftrightarrow>
     RteFlowItemType_value (FlowItem_Type item) \<noteq> None \<and>
     (\<forall>r \<in> set (parts item). \<exists>m. part_msg A (FlowItem_Type item) r m \<and> within_limits m) \<and>
     (FlowItem_Spec item = None \<longrightarrow> FlowItem_Last item = None \<and> FlowItem_Mask item = None) \<and>
     (\<forall>s l ms ml. FlowItem_Spec item = Some s \<and> FlowItem_Last item = Some l \<and>
        part_msg A (FlowItem_Type item) s ms \<and> part_msg A (FlowItem_Type item) l ml \<longrightarrow> range_ok ms ml)"

definition action_sound :: "'any anypb \<Rightarrow> FlowAction \<Rightarrow> bool" where
  "action_sound A act \<longleftrightarrow> (\<exists>v. GetFlowActionType (FlowAction_Type act) = Some v \<and>
     v \<in> {RTE_FLOW_ACTION_TYPE_VF} \<union> not_configurable_actions \<union> unchecked_actions \<and>
     (v \<in> not_configurable_actions \<longrightarrow> FlowAction_Conf act = None) \<and>
     (\<forall>r. FlowAction_Conf act = Some r \<longrightarrow> (\<exists>a. GetFlowActionAnyForWebhook A (FlowAction_Type act) (Raw r) = Ok a)) \<and>
     (v = RTE_FLOW_ACTION_TYPE_VF \<longrightarrow> (\<exists>r a m. FlowAction_Conf act = Some r \<and>
        GetFlowActionAnyForWebhook A (FlowAction_Type act) (Raw r) = Ok a \<and>
        UnmarshalTo A (Some a) ''RteFlowActionVf'' = Ok m \<and> within_limits m)))"

definition attr_sound :: "FlowAttr option \<Rightarrow> bool" where
  "attr_sound attr \<longleftrightarrow> (case attr of None \<Rightarrow> False
     | Some a \<Rightarrow> Ingress a \<le> 1 \<and> Egress a \<le> 1 \<and> Transfer a \<le> 1)"

definition patterns_sound :: "'any anypb \<Rightarrow> FlowItem list \<Rightarrow> bool" where
  "patterns_sound A ps \<longleftrightarrow> list_all (item_sound A) ps \<and>
     (ps \<noteq> [] \<longrightarrow> FlowItem_Type (last ps) = ''RTE_FLOW_ITEM_TYPE_END'')"

definition rule_sound :: "'any anypb \<Rightarrow> FlowRules \<Rightarrow> bool" where
  "rule_sound A r \<longleftrightarrow> patterns_sound A (FlowRules_Pattern r) \<and>
     list_all (action_sound A) (FlowRules_Action r) \<and>
     (FlowRules_Action r \<noteq> [] \<longrightarrow> FlowAction_Type (last (FlowRules_Action r)) = ''RTE_FLOW_ACTION_TYPE_END'') \<and>
     attr_sound (FlowRules_Attr r)"

lemma parts_set:
  "set (parts item) = {r. FlowItem_Spec item = Some r \<or> FlowItem_Last item = Some r \<or> FlowItem_Mask item = Some r}"
  by (auto simp: parts_def map_filter_def)

lemma part_msgI:
  assumes "anypb_spec A" and "RteFlowItemType_value t = Some v" and "GetFlowItemAny A t (Raw r) = Ok a"
  obtains m where "part_msg A t r m" and "any_New A m = Ok a" and "msg_type_of m = item_struct v"
proof -
  from assms(3) obtain v' m where m: "RteFlowItemType_value t = Some v'" "any_New A m = Ok a"
      "msg_type_of m = item_struct v'"
    by (rule GetFlowItemAny_Ok)
  with assms have "part_msg A t r m"
    unfolding part_msg_def using anypb_specD(4) [OF assms(1) m(2)] by auto
  with m assms(2) that show thesis by simp
qed

lemma part_msg_unique: "part_msg A t r m \<Longrightarrow> part_msg A t r m' \<Longrightarrow> m = m'"
  by (auto simp: part_msg_def)

lemma validate_part_sound:
  assumes A: "anypb_spec A" and v: "RteFlowItemType_value t = Some v"
    and ok: "validate_part A t v n spec (Some r) = Ok x"
  obtains a m where "x = Some a" and "validateItem A v n spec (Some a) = Ok ()"
    and "part_msg A t r m" and "any_New A m = Ok a" and "msg_type_of m = item_struct v" and "within_limits m"
proof -
  from ok obtain a where a: "GetFlowItemAny A t (Raw r) = Ok a"
      "validateItem A v n spec (Some a) = Ok ()" "x = Some a"
    by (auto simp: validate_part_def)
  from A v a(1) obtain m where m: "part_msg A t r m" "any_New A m = Ok a" "msg_type_of m = item_struct v"
    by (rule part_msgI)
  moreover have "within_limits m"
    using validateItem_within [OF A v m(2,3) a(2)] .
  ultimately show thesis using a that by blast
qed

lemma validate_part_None [simp]: "validate_part A t v n spec None = Ok x \<longleftrightarrow> x = None"
  by (auto simp: validate_part_def)

lemma validateRteFlowItem_sound:
  assumes A: "anypb_spec A" and ok: "validateRteFlowItem A item = Ok ()"
  shows "item_sound A item"
proof -
  let ?t = "FlowItem_Type item"
  from ok obtain v spec x y where v: "RteFlowItemType_value ?t = Some v"
    and sp: "validate_part A ?t v ''spec'' None (FlowItem_Spec item) = Ok spec"
    and la: "validate_part A ?t v ''last'' spec (FlowItem_Last item) = Ok x"
    and ma: "validate_part A ?t v ''mask'' spec (FlowItem_Mask item) = Ok y"
    by (auto simp: validateRteFlowItem_def split: option.splits)
  have lim: "\<exists>m. part_msg A ?t r m \<and> within_limits m" if "validate_part A ?t v n s (Some r) = Ok z" for n s r z
    using validate_part_sound [OF A v that] by metis
  have need: "spec \<noteq> None" if "validate_part A ?t v n spec (Some r) = Ok z" "n \<noteq> ''spec''" for n r z
    using validate_part_sound [OF A v that(1)] validateItem_needs_spec that(2) by metis
  have "range_ok ms ml" if s: "FlowItem_Spec item = Some s" and l: "FlowItem_Last item = Some l"
    and ms: "part_msg A ?t s ms" and ml: "part_msg A ?t l ml" for s l ms ml
  proof -
    from sp s obtain b ms' where b: "spec = Some b" "part_msg A ?t s ms'" "any_New A ms' = Ok b"
        "msg_type_of ms' = item_struct v"
      using validate_part_sound [OF A v] by metis
    from la l obtain a ml' where a: "validateItem A v ''last'' spec (Some a) = Ok ()"
        "part_msg A ?t l ml'" "any_New A ml' = Ok a" "msg_type_of ml' = item_struct v"
      using validate_part_sound [OF A v] by metis
    from a b have "range_ok ms' ml'"
      using validateItem_range [OF A v] by blast
    then show ?thesis
      using ms ml a b part_msg_unique by metis
  qed
  moreover have "\<exists>m. part_msg A ?t r m \<and> within_limits m" if "r \<in> set (parts item)" for r
    using that sp la ma lim by (auto simp: parts_set)
  moreover have "FlowItem_Spec item = None \<longrightarrow> FlowItem_Last item = None \<and> FlowItem_Mask item = None"
    using sp la ma need by (cases "FlowItem_Last item"; cases "FlowItem_Mask item") force+
  ultimately show ?thesis
    unfolding item_sound_def using v by blast
qed

lemma validateFlowPatterns_sound:
  assumes A: "anypb_spec A" and ok: "validateFlowPatterns A ps = Ok ()"
  shows "patterns_sound A ps"
proof -
  from ok have all: "\<forall>j < length ps. validateRteFlowItem A (ps ! j) = Ok () \<and>
      (j = length ps - 1 \<longrightarrow> FlowItem_Type (ps ! j) = ''RTE_FLOW_ITEM_TYPE_END'')"
    by (auto simp: validateFlowPatterns_def for_each_Ok_iff)
  then have "list_all (item_sound A) ps"
    using validateRteFlowItem_sound [OF A] by (auto simp: list_all_length)
  moreover have "ps \<noteq> [] \<longrightarrow> FlowItem_Type (last ps) = ''RTE_FLOW_ITEM_TYPE_END''"
    using all [rule_format, of "length ps - 1"] by (auto simp: last_conv_nth)
  ultimately show ?thesis by (simp add: patterns_sound_def)
qed

lemma validate_action_sound:
  assumes A: "anypb_spec A" and ok: "validate_action A n i act = Ok ()"
  shows "action_sound A act"
proof -
  from ok obtain v conf where v: "GetFlowActionType (FlowAction_Type act) = Some v"
    and conf: "(FlowAction_Conf act = None \<and> conf = None) \<or> (\<exists>r a. FlowAction_Conf act = Some r \<and>
       GetFlowActionAnyForWebhook A (FlowAction_Type act) (Raw r) = Ok a \<and> conf = Some a)"
    and chk: "validateRteFlowAction A \<lparr>action_Type = v, action_Conf = conf\<rparr> = Ok ()"
    by (auto simp: validate_action_def split: option.splits)
  have vf: "within_limits m" if "UnmarshalTo A x ''RteFlowActionVf'' = Ok m" "check_vf (as_vf m) = Ok ()" for x m
    using that check_vf_within anypb_specD(5) [OF A that(1)] by (cases m) (auto simp: limit_defs)
  have nvf: "RTE_FLOW_ACTION_TYPE_VF \<notin> not_configurable_actions"
    by (simp add: not_configurable_actions_def)
  show ?thesis
    unfolding action_sound_def
    using v conf chk vf nvf anypb_specD(3) [OF A]
    by (auto simp: validateRteFlowAction_def validateRteFlowActionVf_def
        validateRteFlowActionConfigEmpty_def split: if_splits)
qed

lemma validateFlowAttr_Ok_iff: "validateFlowAttr attr = Ok () \<longleftrightarrow> attr_sound attr"
  by (cases attr) (auto simp: validateFlowAttr_def validateRteFlowAttr_def copy_attr_def attr_sound_def not_less)

lemma FlowRules_validate_sound:
  assumes A: "anypb_spec A" and ok: "FlowRules_validate A r = Ok ()"
  shows "rule_sound A r"
proof -
  let ?as = "FlowRules_Action r"
  from ok have acts: "\<forall>j < length ?as. validate_action A (length ?as) j (?as ! j) = Ok ()"
    and attr: "attr_sound (FlowRules_Attr r)" and pats: "validateFlowPatterns A (FlowRules_Pattern r) = Ok ()"
    by (auto simp: FlowRules_validate_def for_each_Ok_iff validateFlowAttr_Ok_iff)
  have "list_all (action_sound A) ?as"
    using acts validate_action_sound [OF A] by (auto simp: list_all_length)
  moreover have "?as \<noteq> [] \<longrightarrow> FlowAction_Type (last ?as) = ''RTE_FLOW_ACTION_TYPE_END''"
    using acts [rule_format, of "length ?as - 1"]
    by (auto simp: last_conv_nth validate_action_def split: option.splits)
  ultimately show ?thesis
    using attr validateFlowPatterns_sound [OF A pats] by (simp add: rule_sound_def)
qed

section \<open>When a webhook can panic\<close>

text \<open>
  Three pointers are dereferenced without a test: the attributes of a rule, the header of an IPv4
  item and the header of a UDP item whose \<^verbatim>\<open>spec\<close> has one. A document \<^verbatim>\<open>null\<close> is the fourth case.
\<close>

fun has_hdr :: "proto_msg \<Rightarrow> bool" where
  "has_hdr (MsgIpv4 m) = (ipv4_Hdr m \<noteq> None)"
| "has_hdr (MsgUdp m) = (udp_Hdr m \<noteq> None)"
| "has_hdr (MsgOther t fs) = (t \<noteq> ''RteFlowItemIpv4'' \<and> t \<noteq> ''RteFlowItemUdp'')"
| "has_hdr _ = True"

definition item_safe :: "'any anypb \<Rightarrow> FlowItem \<Rightarrow> bool" where
  "item_safe A item \<longleftrightarrow> (\<forall>r \<in> set (parts item). Raw r \<noteq> Some JNull \<and>
     (\<forall>m. part_msg A (FlowItem_Type item) r m \<longrightarrow> has_hdr m))"

lemma check_no_panic:
  "check_eth n e e' \<noteq> Panic p" "check_vlan n s i \<noteq> Panic p" "check_pppoe n s' i' \<noteq> Panic p"
  "check_pppoe_proto n t j \<noteq> Panic p" "check_ipv4_fields n h k \<noteq> Panic p" "check_ipv4_limits h \<noteq> Panic p"
  "check_udp_fields n u w \<noteq> Panic p" "check_udp_limits u \<noteq> Panic p" "check_vf f \<noteq> Panic p"
  unfolding check_eth_def check_vlan_def check_pppoe_def check_pppoe_proto_def check_ipv4_fields_def
    check_ipv4_limits_def check_udp_fields_def check_udp_limits_def check_vf_def
  by (simp_all add: obind_Panic_iff)

lemma check_ipv4_panic: "check_ipv4 n s i = Panic p \<Longrightarrow> ipv4_Hdr i = None"
  by (auto simp: check_ipv4_def obind_Panic_iff check_no_panic split: option.splits)

lemma check_udp_panic: "check_udp n s i = Panic p \<Longrightarrow> udp_Hdr i = None"
  by (auto simp: check_udp_def obind_Panic_iff check_no_panic split: option.splits)

lemma validateRteFlowItem_panic_free:
  assumes A: "anypb_spec A"
  shows "validateRteFlowItemEth A n spec x \<noteq> Panic p" "validateRteFlowItemVlan A n spec x \<noteq> Panic p"
    "validateRteFlowItemPppoe A n spec x \<noteq> Panic p" "validateRteFlowItemPppoeProtoId A n spec x \<noteq> Panic p"
  by (simp_all add: validateRteFlowItemEth_def validateRteFlowItemVlan_def validateRteFlowItemPppoe_def
      validateRteFlowItemPppoeProtoId_def obind_Panic_iff unpack_no_panic [OF A]
      unpack_spec_no_panic [OF A] check_no_panic)

lemma validateRteFlowItemIpv4_panic:
  assumes A: "anypb_spec A" and p: "validateRteFlowItemIpv4 A n spec x = Panic p"
  shows "\<exists>m. UnmarshalTo A x ''RteFlowItemIpv4'' = Ok m \<and> \<not> has_hdr m"
proof -
  from p obtain s m where m: "UnmarshalTo A x ''RteFlowItemIpv4'' = Ok m"
    and "check_ipv4 n s (as_ipv4 m) = Panic p"
    using unpack_no_panic [OF A] unpack_spec_no_panic [OF A]
    by (auto simp: validateRteFlowItemIpv4_def obind_Panic_iff) (auto simp: unpack_def)
  then have "ipv4_Hdr (as_ipv4 m) = None" by (simp add: check_ipv4_panic)
  then have "\<not> has_hdr m" using anypb_specD(5) [OF A m] by (cases m) auto
  with m show ?thesis by blast
qed

lemma validateRteFlowItemUdp_panic:
  assumes A: "anypb_spec A" and p: "validateRteFlowItemUdp A n spec x = Panic p"
  shows "\<exists>m. UnmarshalTo A x ''RteFlowItemUdp'' = Ok m \<and> \<not> has_hdr m"
proof -
  from p obtain s m where m: "UnmarshalTo A x ''RteFlowItemUdp'' = Ok m"
    and "check_udp n s (as_udp m) = Panic p"
    using unpack_no_panic [OF A] unpack_spec_no_panic [OF A]
    by (auto simp: validateRteFlowItemUdp_def obind_Panic_iff) (auto simp: unpack_def)
  then have "udp_Hdr (as_udp m) = None" by (simp add: check_udp_panic)
  then have "\<not> has_hdr m" using anypb_specD(5) [OF A m] by (cases m) auto
  with m show ?thesis by blast
qed

lemma validateItem_panic:
  assumes A: "anypb_spec A" and p: "validateItem A v n spec (Some a) = Panic p"
  shows "\<exists>m. UnmarshalTo A (Some a) (item_struct v) = Ok m \<and> \<not> has_hdr m"
  using p validateRteFlowItemIpv4_panic [OF A] validateRteFlowItemUdp_panic [OF A] item_struct_checked(3,4)
  by (simp add: validateItem_def validateRteFlowItem_panic_free [OF A] split: if_splits)

lemma validate_part_no_panic:
  assumes A: "anypb_spec A" and v: "RteFlowItemType_value t = Some v"
    and safe: "Raw r \<noteq> Some JNull" "\<And>m. part_msg A t r m \<Longrightarrow> has_hdr m"
  shows "validate_part A t v n spec (Some r) \<noteq> Panic p"
proof
  assume "validate_part A t v n spec (Some r) = Panic p"
  then obtain a where a: "GetFlowItemAny A t (Raw r) = Ok a" "validateItem A v n spec (Some a) = Panic p"
    using GetFlowItemAny_panic [OF A] safe(1) by (auto simp: validate_part_def obind_Panic_iff)
  obtain m where "UnmarshalTo A (Some a) (item_struct v) = Ok m" "\<not> has_hdr m"
    using validateItem_panic [OF A a(2)] by blast
  with a v safe(2) show False by (auto simp: part_msg_def)
qed

lemma validateRteFlowItem_no_panic:
  assumes A: "anypb_spec A" and safe: "item_safe A item"
  shows "validateRteFlowItem A item \<noteq> Panic p"
proof -
  let ?t = "FlowItem_Type item"
  have "validate_part A ?t v n s q \<noteq> Panic p"
    if "RteFlowItemType_value ?t = Some v" "q \<in> {FlowItem_Spec item, FlowItem_Last item, FlowItem_Mask item}"
    for v n s q p
  proof (cases q)
    case None
    then show ?thesis by (simp add: validate_part_def)
  next
    case (Some r)
    with that(2) have "r \<in> set (parts item)" by (auto simp: parts_set)
    with safe show ?thesis
      unfolding Some item_safe_def using validate_part_no_panic [OF A that(1)] by blast
  qed
  then show ?thesis
    by (simp add: validateRteFlowItem_def obind_Panic_iff split: option.splits)
qed

lemma validateFlowPatterns_no_panic:
  "anypb_spec A \<Longrightarrow> list_all (item_safe A) ps \<Longrightarrow> validateFlowPatterns A ps \<noteq> Panic p"
  unfolding validateFlowPatterns_def
  by (rule for_each_no_panic) (auto simp: obind_Panic_iff list_all_iff validateRteFlowItem_no_panic)

lemma validate_action_no_panic: "anypb_spec A \<Longrightarrow> validate_action A n i act \<noteq> Panic p"
  by (auto simp: validate_action_def obind_Panic_iff GetFlowActionAnyForWebhook_no_panic
      validateRteFlowAction_def validateRteFlowActionVf_def validateRteFlowActionConfigEmpty_def
      anypb_specD(2) check_no_panic split: option.splits if_splits)

lemma validateFlowAttr_panic_iff: "(\<exists>p. validateFlowAttr attr = Panic p) \<longleftrightarrow> attr = None"
  by (cases attr) (auto simp: validateFlowAttr_def validateRteFlowAttr_def fail_if_def)

lemma FlowRules_validate_no_panic:
  assumes A: "anypb_spec A" and safe: "list_all (item_safe A) (FlowRules_Pattern r)" "FlowRules_Attr r \<noteq> None"
  shows "FlowRules_validate A r \<noteq> Panic p"
proof -
  have act: "for_each (validate_action A n) 0 acts \<noteq> Panic q" for n acts q
    by (rule for_each_no_panic) (simp add: validate_action_no_panic [OF A])
  have attr: "validateFlowAttr (FlowRules_Attr r) \<noteq> Panic q" for q
    using safe(2) validateFlowAttr_panic_iff [of "FlowRules_Attr r"] by auto
  show ?thesis
    by (simp add: FlowRules_validate_def obind_Panic_iff act attr validateFlowPatterns_no_panic [OF A safe(1)]
        validatePortId_def)
qed

section \<open>Cluster-wide rules\<close>

definition cluster_action_sound :: "ClusterFlowAction \<Rightarrow> bool" where
  "cluster_action_sound act \<longleftrightarrow> cfa_Type act = ToPodInterface \<and>
     (\<exists>r fs. cfa_Conf act = Some r \<and> Unmarshal struct_fields ''ToPodInterfaceConf'' (Raw r) = Ok fs \<and>
        f_str fs ''podInterface'' \<noteq> [])"

definition cluster_rule_sound :: "'any anypb \<Rightarrow> ClusterFlowRule \<Rightarrow> bool" where
  "cluster_rule_sound A r \<longleftrightarrow> patterns_sound A (cfr_Pattern r) \<and>
     list_all cluster_action_sound (cfr_Action r) \<and> attr_sound (cfr_Attr r)"

lemma validate_cluster_action_Ok_iff: "validate_cluster_action i act = Ok () \<longleftrightarrow> cluster_action_sound act"
  by (auto simp: validate_cluster_action_def cluster_action_sound_def split: option.splits)

lemma ClusterFlowRule_validate_sound:
  "anypb_spec A \<Longrightarrow> ClusterFlowRule_validate A r = Ok () \<Longrightarrow> cluster_rule_sound A r"
  by (auto simp: ClusterFlowRule_validate_def validateClusterFlowAction_def for_each_Ok_iff
      validate_cluster_action_Ok_iff cluster_rule_sound_def validateFlowAttr_Ok_iff list_all_length
      intro: validateFlowPatterns_sound)

section \<open>Properties of the webhooks\<close>

text \<open>
  A rule with a VLAN range, an IPv4 destination, a VF action and the two terminators, as the
  documentation writes one.
\<close>

definition doc :: "(string \<times> json) list \<Rightarrow> RawExtension option" where
  "doc fs = Some \<lparr>Raw = Some (JObj fs)\<rparr>"

definition sample_pattern :: "FlowItem list" where
  "sample_pattern =
     [\<lparr>FlowItem_Type = ''RTE_FLOW_ITEM_TYPE_VLAN'', FlowItem_Spec = doc [(''tci'', JNum ''5'')],
       FlowItem_Last = doc [(''tci'', JNum ''9'')], FlowItem_Mask = None\<rparr>,
      \<lparr>FlowItem_Type = ''RTE_FLOW_ITEM_TYPE_IPV4'',
       FlowItem_Spec = doc [(''hdr'', JObj [(''dst_addr'', JStr ''10.0.0.7'')])],
       FlowItem_Last = None, FlowItem_Mask = None\<rparr>,
      \<lparr>FlowItem_Type = ''RTE_FLOW_ITEM_TYPE_END'', FlowItem_Spec = None, FlowItem_Last = None,
       FlowItem_Mask = None\<rparr>]"

definition sample_attr :: FlowAttr where
  "sample_attr = \<lparr>Group = 0, Priority = 0, Ingress = 1, Egress = 0, Transfer = 0, Reserved = 0\<rparr>"

definition sample_rule :: FlowRules where
  "sample_rule = \<lparr>FlowRules_PortId = 0, FlowRules_Attr = Some sample_attr,
     FlowRules_Pattern = sample_pattern,
     FlowRules_Action = [\<lparr>FlowAction_Type = ''RTE_FLOW_ACTION_TYPE_VF'', FlowAction_Conf = doc [(''id'', JNum ''3'')]\<rparr>,
       \<lparr>FlowAction_Type = ''RTE_FLOW_ACTION_TYPE_END'', FlowAction_Conf = None\<rparr>]\<rparr>"

definition sample_nfc :: NodeFlowConfig where
  "sample_nfc = \<lparr>nfc_Key = \<lparr>Namespace = ''ns'', Name = ''node1''\<rparr>, nfc_Rules = [sample_rule], nfc_PortInfo = None\<rparr>"

lemma sample_nfc_accepted: "NodeFlowConfig_ValidateCreate plain_any sample_nfc = Ok ()"
  by code_simp

lemma item_safe_plain:
  "list_all (\<lambda>r. Raw r \<noteq> Some JNull \<and>
     (case GetFlowItemAny plain_any (FlowItem_Type item) (Raw r) of Ok m \<Rightarrow> has_hdr m | _ \<Rightarrow> True)) (parts item)
   \<Longrightarrow> item_safe plain_any item"
  by (auto simp: item_safe_def part_msg_def plain_unmarshal_Ok_iff list_all_iff)

lemma sample_pattern_safe: "list_all (item_safe plain_any) sample_pattern"
proof -
  have "list_all (\<lambda>item. list_all (\<lambda>r. Raw r \<noteq> Some JNull \<and>
     (case GetFlowItemAny plain_any (FlowItem_Type item) (Raw r) of Ok m \<Rightarrow> has_hdr m | _ \<Rightarrow> True)) (parts item))
     sample_pattern"
    by code_simp
  then show ?thesis
    using item_safe_plain unfolding list_all_iff [of _ sample_pattern] by blast
qed



text \<open>
  \<^bold>\<open>C14.\<close> The webhook of a node flow configuration does not panic as long as every rule has attributes
  and every IPv4 and UDP document of its patterns has a header and none is \<^verbatim>\<open>null\<close>, whatever else the
  object contains.
\<close>

theorem NodeFlowConfig_admission_no_panic:
  assumes "anypb_spec A"
    and "\<forall>rule \<in> set (nfc_Rules r). list_all (item_safe A) (FlowRules_Pattern rule) \<and> FlowRules_Attr rule \<noteq> None"
  shows "NodeFlowConfig_ValidateCreate A r \<noteq> Panic p \<and> NodeFlowConfig_ValidateUpdate A r old \<noteq> Panic p"
proof -
  have "for_each (\<lambda>_. FlowRules_validate A) 0 (nfc_Rules r) \<noteq> Panic p"
    by (rule for_each_no_panic) (use assms FlowRules_validate_no_panic in blast)
  then show ?thesis
    by (simp add: NodeFlowConfig_ValidateCreate_def NodeFlowConfig_ValidateUpdate_def)
qed

theorem NodeFlowConfig_admission_no_panic_witness:
  "anypb_spec plain_any \<and> list_all (item_safe plain_any) sample_pattern \<and>
     NodeFlowConfig_ValidateCreate plain_any sample_nfc \<noteq> Panic ''x'' \<and>
     NodeFlowConfig_ValidateUpdate plain_any sample_nfc sample_nfc \<noteq> Panic ''x''"
  using NodeFlowConfig_admission_no_panic [of plain_any sample_nfc] plain_any_spec sample_pattern_safe
  by (simp add: sample_nfc_def sample_rule_def)

text \<open>
  A rule without attributes whose patterns and actions are valid makes the webhook dereference
  a nil pointer: the attributes are optional in the schema and are read without a test.
\<close>

theorem FlowRules_without_attr_panics:
  assumes "validateFlowPatterns A (FlowRules_Pattern r) = Ok ()"
    and "for_each (validate_action A (length (FlowRules_Action r))) 0 (FlowRules_Action r) = Ok ()"
    and "FlowRules_Attr r = None"
  shows "FlowRules_validate A r = Panic ''nil pointer dereference''"
  using assms by (simp add: FlowRules_validate_def validateFlowAttr_def)

theorem FlowRules_without_attr_panics_witness:
  "FlowRules_validate plain_any (sample_rule\<lparr>FlowRules_Attr := None\<rparr>) = Panic ''nil pointer dereference''"
proof (rule FlowRules_without_attr_panics)
  have ok: "FlowRules_validate plain_any sample_rule = Ok ()"
    using sample_nfc_accepted by (simp add: NodeFlowConfig_ValidateCreate_def sample_nfc_def)
  then show "validateFlowPatterns plain_any (FlowRules_Pattern (sample_rule\<lparr>FlowRules_Attr := None\<rparr>)) = Ok ()"
    and "for_each (validate_action plain_any (length (FlowRules_Action (sample_rule\<lparr>FlowRules_Attr := None\<rparr>)))) 0
       (FlowRules_Action (sample_rule\<lparr>FlowRules_Attr := None\<rparr>)) = Ok ()"
    by (simp_all add: FlowRules_validate_def)
qed simp

text \<open>
  \<^bold>\<open>C15.\<close> Soundness of the admission of a cluster flow configuration: a pod selector, sound patterns and
  attributes in every rule, and only \<^verbatim>\<open>to-pod-interface\<close> actions that name an interface.
\<close>

theorem ClusterFlowConfig_admission_sound:
  assumes "anypb_spec A"
    and "ClusterFlowConfig_ValidateCreate A r = Ok () \<or> ClusterFlowConfig_ValidateUpdate A r old = Ok ()"
  shows "cfc_PodSelector r \<noteq> None \<and> list_all (cluster_rule_sound A) (cfc_Rules r)"
  using assms ClusterFlowRule_validate_sound [OF assms(1)]
  by (auto simp: ClusterFlowConfig_ValidateCreate_def ClusterFlowConfig_ValidateUpdate_def for_each_Ok_iff
      list_all_length validatePodSelector_def)

definition sample_cfc :: "unit ClusterFlowConfig" where
  "sample_cfc = \<lparr>cfc_Key = \<lparr>Namespace = ''ns'', Name = ''cfc''\<rparr>,
     cfc_PodSelector = Some \<lparr>MatchLabels = [''app'' \<mapsto> ''upf''], MatchExpressions = ()\<rparr>,
     cfc_Rules = [\<lparr>cfr_Attr = Some sample_attr, cfr_Pattern = sample_pattern,
       cfr_Action = [\<lparr>cfa_Type = ToPodInterface, cfa_Conf = doc [(''podInterface'', JStr ''net1'')]\<rparr>]\<rparr>]\<rparr>"

theorem ClusterFlowConfig_admission_sound_witness:
  "ClusterFlowConfig_ValidateCreate plain_any sample_cfc = Ok () \<and>
     cfc_PodSelector sample_cfc \<noteq> None \<and> list_all (cluster_rule_sound plain_any) (cfc_Rules sample_cfc)"
proof -
  have "validateFlowPatterns plain_any sample_pattern = Ok ()"
    using sample_nfc_accepted
    by (simp add: NodeFlowConfig_ValidateCreate_def sample_nfc_def FlowRules_validate_def sample_rule_def)
  moreover have "validateClusterFlowAction [\<lparr>cfa_Type = ToPodInterface,
      cfa_Conf = doc [(''podInterface'', JStr ''net1'')]\<rparr>] = Ok ()"
    by code_simp
  moreover have "validateFlowAttr (Some sample_attr) = Ok ()"
    by code_simp
  ultimately have "ClusterFlowConfig_ValidateCreate plain_any sample_cfc = Ok ()"
    by (simp add: ClusterFlowConfig_ValidateCreate_def sample_cfc_def ClusterFlowRule_validate_def validatePodSelector_def)
  then show ?thesis
    using ClusterFlowConfig_admission_sound [of plain_any sample_cfc] plain_any_spec by simp
qed

text \<open>
  The MAC addresses of a range are compared as 32-bit numbers: of a six-byte address only the
  last four bytes take part, so two addresses of different vendors compare as equal.
\<close>

theorem encodeHexMacAddress_low_bytes:
  assumes "length vendor = 2" and "length rest = 4"
  shows "encodeHexMacAddress (vendor @ rest) = Ok (word_of_int (be_val 0 rest))"
proof -
  have "be_val 0 (vendor @ rest) < 2 ^ 63"
    using be_val_bounds [of "vendor @ rest"] assms by simp
  then show ?thesis
    using assms word_of_int_be_val_suffix [of rest vendor] by (auto simp: encodeHexMacAddress_eq)
qed

theorem encodeHexMacAddress_low_bytes_witness:
  "encodeHexMacAddress [0x00, 0x1B, 0x21, 0x0A, 0x0B, 0x0C] = Ok 0x210A0B0C \<and>
     encodeHexMacAddress [0xFE, 0x1B, 0x21, 0x0A, 0x0B, 0x0C] = Ok 0x210A0B0C"
  using encodeHexMacAddress_low_bytes [of "[0x00, 0x1B]" "[0x21, 0x0A, 0x0B, 0x0C]"]
    encodeHexMacAddress_low_bytes [of "[0xFE, 0x1B]" "[0x21, 0x0A, 0x0B, 0x0C]"]
  by simp

end
