(* ===== verification/Flow_Sets.thy ===== *)
theory Flow_Sets
  imports Flow_Api
begin

text \<open>
  \<^verbatim>\<open>pkg/flowconfig/flowsets/flowsets.go\<close>: the cache of the flows a node has created, keyed by the
  hash of the request. The map inside may be nil. The locale \<open>flow_cache\<close> is what the node
  controller relies on: a finite map with an \<^verbatim>\<open>Add\<close> that never replaces, and its consequences for a
  run of deletions and additions.
\<close>

section \<open>The cache\<close>

record 'any FlowCreateRecord =
  FlowID :: u32
  FlowRule :: "'any RequestFlowCreate"

definition newFlowCreateRecord :: "u32 \<Rightarrow> 'any RequestFlowCreate \<Rightarrow> 'any FlowCreateRecord" where
  "newFlowCreateRecord i rule = \<lparr>FlowID = i, FlowRule = rule\<rparr>"

record 'any FlowSets =
  data :: "(string \<rightharpoonup> 'any FlowCreateRecord) option"

text \<open>Reading a nil map is reading an empty one.\<close>

definition fs_map :: "'any FlowSets \<Rightarrow> string \<rightharpoonup> 'any FlowCreateRecord" where
  "fs_map s = (case data s of None \<Rightarrow> Map.empty | Some m \<Rightarrow> m)"

definition FlowSets_Add :: "'any FlowSets \<Rightarrow> string \<Rightarrow> u32 \<Rightarrow> 'any RequestFlowCreate \<Rightarrow> 'any FlowSets" where
  "FlowSets_Add s key i rule =
     (let m = (case data s of None \<Rightarrow> Map.empty | Some m \<Rightarrow> m) in
      if m key = None then s\<lparr>data := Some (m(key \<mapsto> newFlowCreateRecord i rule))\<rparr>
      else s\<lparr>data := Some m\<rparr>)"

definition FlowSets_Delete :: "'any FlowSets \<Rightarrow> string \<Rightarrow> 'any FlowSets" where
  "FlowSets_Delete s key =
     (case data s of None \<Rightarrow> s | Some m \<Rightarrow> s\<lparr>data := Some (m(key := None))\<rparr>)"

definition FlowSets_Has :: "'any FlowSets \<Rightarrow> string \<Rightarrow> bool" where
  "FlowSets_Has s key \<longleftrightarrow> fs_map s key \<noteq> None"

definition FlowSets_Size :: "'any FlowSets \<Rightarrow> nat" where
  "FlowSets_Size s = card (dom (fs_map s))"

text \<open>The result of \<^verbatim>\<open>GetCompliments\<close> does not depend on the order in which the map is visited.\<close>

definition FlowSets_GetCompliments ::
    "'any FlowSets \<Rightarrow> string list \<Rightarrow> string \<rightharpoonup> 'any FlowCreateRecord" where
  "FlowSets_GetCompliments s keys = (\<lambda>setKey. if List.member keys setKey then None else fs_map s setKey)"

definition NewFlowSets :: "'any FlowSets" where
  "NewFlowSets = \<lparr>data = Some Map.empty\<rparr>"

section \<open>The interface the node controller uses\<close>

locale flow_cache =
  fixes contents :: "'s \<Rightarrow> string \<rightharpoonup> 'v"
    and new :: 's
    and add :: "string \<Rightarrow> 'v \<Rightarrow> 's \<Rightarrow> 's"
    and del :: "string \<Rightarrow> 's \<Rightarrow> 's"
    and compliments :: "'s \<Rightarrow> string list \<Rightarrow> string \<rightharpoonup> 'v"
  assumes contents_new: "contents new = Map.empty"
    and contents_add: "contents (add k v s) = (if k \<in> dom (contents s) then contents s else (contents s)(k \<mapsto> v))"
    and contents_del: "contents (del k s) = (contents s)(k := None)"
    and compliments_eq: "compliments s ks = contents s |` (- set ks)"
begin

lemma contents_del_all: "contents (fold del ks s) = contents s |` (- set ks)"
proof (induction ks arbitrary: s)
  case Nil
  then show ?case by simp
next
  case (Cons k ks)
  then show ?case
    by (auto simp: contents_del restrict_map_def fun_eq_iff)
qed

lemma dom_contents_add: "dom (contents (add k v s)) = insert k (dom (contents s))"
  by (auto simp: contents_add)

lemma dom_contents_add_all: "dom (contents (fold (\<lambda>k. add k (f k)) ks s)) = set ks \<union> dom (contents s)"
  by (induction ks arbitrary: s) (auto simp: dom_contents_add)

lemma contents_add_all_old:
  "k \<in> dom (contents s) \<Longrightarrow> contents (fold (\<lambda>k. add k (f k)) ks s) k = contents s k"
  by (induction ks arbitrary: s) (auto simp: contents_add)

lemma contents_add_all_new:
  "k \<in> set ks \<Longrightarrow> k \<notin> dom (contents s) \<Longrightarrow> contents (fold (\<lambda>k. add k (f k)) ks s) k = Some (f k)"
proof (induction ks arbitrary: s)
  case Nil
  then show ?case by simp
next
  case (Cons x xs)
  show ?case
  proof (cases "k = x")
    case True
    have "contents (add x (f x) s) x = Some (f x)"
      using Cons.prems(2) True by (simp add: contents_add)
    then show ?thesis
      using contents_add_all_old [of x "add x (f x) s" f xs] True by (simp add: domIff)
  next
    case False
    then show ?thesis
      using Cons by (auto simp: dom_contents_add)
  qed
qed

text \<open>Deleting the complement of a set of keys leaves exactly the records with these keys.\<close>

lemma del_compliments:
  assumes "set dks = dom (compliments s ks)"
  shows "contents (fold del dks s) = contents s |` set ks"
  using assms unfolding contents_del_all compliments_eq
  by (auto simp: restrict_map_def fun_eq_iff dom_def)

text \<open>A synchronisation that deletes the complement and adds the missing keys ends at the keys wanted.\<close>

lemma sync_keys:
  assumes "set dks = dom (compliments s ks)" and "set aks = set ks - dom (contents s)"
  shows "dom (contents (fold (\<lambda>k. add k (f k)) aks (fold del dks s))) = set ks"
  unfolding dom_contents_add_all del_compliments [OF assms(1)] assms(2) by auto

lemma sync_keeps_old:
  assumes "set dks = dom (compliments s ks)" and "k \<in> set ks" and "k \<in> dom (contents s)"
  shows "contents (fold (\<lambda>k. add k (f k)) aks (fold del dks s)) k = contents s k"
proof -
  have "contents (fold del dks s) k = contents s k"
    using del_compliments [OF assms(1)] assms(2) by simp
  then show ?thesis
    using contents_add_all_old [of k "fold del dks s"] assms(3) by (simp add: domIff)
qed

end

section \<open>The cache implements the interface\<close>

lemma fs_map_New [simp]: "fs_map NewFlowSets = Map.empty"
  by (simp add: fs_map_def NewFlowSets_def)

lemma fs_map_Add [simp]:
  "fs_map (FlowSets_Add s k i rule) =
     (if k \<in> dom (fs_map s) then fs_map s else (fs_map s)(k \<mapsto> newFlowCreateRecord i rule))"
  by (auto simp: fs_map_def FlowSets_Add_def Let_def split: option.splits)

lemma fs_map_Delete [simp]: "fs_map (FlowSets_Delete s k) = (fs_map s)(k := None)"
  by (auto simp: fs_map_def FlowSets_Delete_def split: option.splits)

lemma fs_map_GetCompliments: "FlowSets_GetCompliments s ks = fs_map s |` (- set ks)"
  by (auto simp: FlowSets_GetCompliments_def restrict_map_def fun_eq_iff)

lemma GetCompliments_Nil [simp]: "FlowSets_GetCompliments s [] = fs_map s"
  by (simp add: FlowSets_GetCompliments_def)

lemma newFlowCreateRecord_fields [simp]:
  "newFlowCreateRecord (FlowID v) (FlowRule v) = (v :: 'any FlowCreateRecord)"
  by (cases v) (simp add: newFlowCreateRecord_def)

interpretation fc: flow_cache fs_map NewFlowSets "\<lambda>k v s. FlowSets_Add s k (FlowID v) (FlowRule v)"
    "\<lambda>k s. FlowSets_Delete s k" FlowSets_GetCompliments
  by unfold_locales (simp_all add: fs_map_GetCompliments)

lemma finite_fs_Add: "finite (dom (fs_map s)) \<Longrightarrow> finite (dom (fs_map (FlowSets_Add s k i r)))"
  by simp

lemma finite_fs_Delete: "finite (dom (fs_map s)) \<Longrightarrow> finite (dom (fs_map (FlowSets_Delete s k)))"
  by simp

section \<open>Properties of the cache\<close>

text \<open>
  \<^verbatim>\<open>FlowSets\<close> refines a finite map, also from a nil map: \<^verbatim>\<open>Add\<close> stores a record for a new key and keeps
  the one of a known key, \<^verbatim>\<open>Delete\<close> removes exactly its key, \<^verbatim>\<open>Has\<close> is membership, \<^verbatim>\<open>Size\<close> counts the keys,
  and \<^verbatim>\<open>GetCompliments\<close> is the restriction to the keys that are not listed (all of them for an empty list).
\<close>

theorem FlowSets_refines_map:
  "fs_map (FlowSets_Add s k i r) = (if FlowSets_Has s k then fs_map s else (fs_map s)(k \<mapsto> \<lparr>FlowID = i, FlowRule = r\<rparr>)) \<and>
   fs_map (FlowSets_Delete s k) = (fs_map s)(k := None) \<and>
   (FlowSets_Has s k \<longleftrightarrow> k \<in> dom (fs_map s)) \<and>
   FlowSets_Size (FlowSets_Delete s k) = FlowSets_Size s - (if FlowSets_Has s k then 1 else 0) \<and>
   FlowSets_GetCompliments s ks = fs_map s |` (- set ks) \<and>
   FlowSets_GetCompliments s [] = fs_map s"
  by (auto simp: FlowSets_Has_def FlowSets_Size_def newFlowCreateRecord_def fs_map_GetCompliments domIff
      card_Diff_singleton)

end
