(* ===== verification/Go_Path.thy ===== *)
theory Go_Path
  imports Go_Prelude
begin

text \<open>
  The lexical part of Go's \<^verbatim>\<open>path/filepath\<close> on Unix: \<^verbatim>\<open>Clean\<close> removes empty and \<^verbatim>\<open>.\<close> elements and
  resolves \<^verbatim>\<open>..\<close> against the element before it, \<^verbatim>\<open>Join\<close> cleans the concatenation of its arguments,
  \<^verbatim>\<open>Base\<close> and \<^verbatim>\<open>Dir\<close> take a path apart. Paths are strings; \<open>elems\<close> are the elements of a cleaned path.
\<close>

section \<open>Definitions\<close>

abbreviation slash :: char where "slash \<equiv> CHR ''/''"
abbreviation dotdot :: string where "dotdot \<equiv> ''..''"

definition rooted :: "string \<Rightarrow> bool" where
  "rooted p \<longleftrightarrow> (case p of [] \<Rightarrow> False | c # _ \<Rightarrow> c = slash)"

text \<open>The loop of \<^verbatim>\<open>Clean\<close>; \<open>out\<close> holds the elements written so far, the last one first.\<close>

fun clean_elems :: "bool \<Rightarrow> string list \<Rightarrow> string list \<Rightarrow> string list" where
  "clean_elems r out [] = rev out"
| "clean_elems r out (e # es) =
     (if e = [] \<or> e = ''.'' then clean_elems r out es
      else if e = dotdot then
        (case out of
           [] \<Rightarrow> (if r then clean_elems r [] es else clean_elems r [dotdot] es)
         | x # xs \<Rightarrow> (if x = dotdot then clean_elems r (dotdot # out) es else clean_elems r xs es))
      else clean_elems r (e # out) es)"

definition elems :: "string \<Rightarrow> string list" where
  "elems p = clean_elems (rooted p) [] (Split slash p)"

definition Clean :: "string \<Rightarrow> string" where
  "Clean p = (if rooted p then slash # Join ''/'' (elems p)
              else if elems p = [] then ''.'' else Join ''/'' (elems p))"

definition filepath_Join :: "string list \<Rightarrow> string" where
  "filepath_Join es = (case dropWhile (\<lambda>e. e = []) es of [] \<Rightarrow> [] | xs \<Rightarrow> Clean (Join ''/'' xs))"

text \<open>\<^verbatim>\<open>filepath.Base\<close>: the last element, \<^verbatim>\<open>.\<close> for an empty path and \<^verbatim>\<open>/\<close> for slashes only.\<close>

definition strip_slashes :: "string \<Rightarrow> string" where
  "strip_slashes p = rev (dropWhile (\<lambda>c. c = slash) (rev p))"

definition Base :: "string \<Rightarrow> string" where
  "Base p = (if p = [] then ''.''
             else (let q = last (Split slash (strip_slashes p)) in if q = [] then ''/'' else q))"

text \<open>\<^verbatim>\<open>filepath.Dir\<close>: everything up to the last slash, cleaned.\<close>

definition Dir :: "string \<Rightarrow> string" where
  "Dir p = Clean (rev (dropWhile (\<lambda>c. c \<noteq> slash) (rev p)))"

section \<open>Splitting and joining\<close>

definition plain_elem :: "string \<Rightarrow> bool" where
  "plain_elem e \<longleftrightarrow> e \<noteq> [] \<and> e \<noteq> ''.'' \<and> slash \<notin> set e"

lemma Split_append_sep: "Split c (a @ c # b) = Split c a @ Split c b"
proof (induction a)
  case Nil
  then show ?case by simp
next
  case (Cons x a)
  obtain w ws where "Split c a = w # ws" by (cases "Split c a") auto
  with Cons show ?case by simp
qed

lemma Split_no_occ: "c \<notin> set w \<Longrightarrow> Split c w = [w]"
  by (induction w) auto

lemma Split_Join:
  "es \<noteq> [] \<Longrightarrow> (\<And>e. e \<in> set es \<Longrightarrow> c \<notin> set e) \<Longrightarrow> Split c (Join [c] es) = es"
proof (induction es)
  case Nil
  then show ?case by simp
next
  case (Cons x xs)
  then show ?case
    by (cases xs) (auto simp: Split_append_sep Split_no_occ)
qed

lemma Join_append:
  "xs \<noteq> [] \<Longrightarrow> ys \<noteq> [] \<Longrightarrow> Join sep (xs @ ys) = Join sep xs @ sep @ Join sep ys"
proof (induction xs)
  case Nil
  then show ?case by simp
next
  case (Cons x xs)
  then show ?case by (cases xs; cases ys) auto
qed

lemma Join_eq_Nil: "Join sep es = [] \<Longrightarrow> (\<And>e. e \<in> set es \<Longrightarrow> e \<noteq> []) \<Longrightarrow> es = []"
  by (induction sep es rule: Join.induct) auto

lemma Join_no_leading_slash:
  "es \<noteq> [] \<Longrightarrow> plain_elem (hd es) \<Longrightarrow> Join sep es \<noteq> slash # t"
  by (induction sep es rule: Join.induct) (auto simp: plain_elem_def neq_Nil_conv)

section \<open>Cleaned paths\<close>

definition name_elem :: "string \<Rightarrow> bool" where
  "name_elem e \<longleftrightarrow> plain_elem e \<and> e \<noteq> dotdot"

lemma clean_elems_names:
  "list_all name_elem es \<Longrightarrow> clean_elems r out es = rev out @ es"
  by (induction es arbitrary: out) (auto simp: name_elem_def plain_elem_def)

lemma clean_elems_rooted:
  "list_all name_elem out \<Longrightarrow> list_all (\<lambda>e. slash \<notin> set e) es \<Longrightarrow>
     list_all name_elem (clean_elems True out es)"
proof (induction es arbitrary: out)
  case Nil
  then show ?case by (simp add: list_all_iff)
next
  case (Cons e es)
  have pop: "list_all name_elem xs \<and> x \<noteq> dotdot" if "out = x # xs" for x xs
    using that Cons.prems(1) name_elem_def [of x] by simp
  have push: "list_all name_elem (e # out)" if "e \<noteq> []" "e \<noteq> ''.''" "e \<noteq> dotdot"
    using that Cons.prems name_elem_def [of e] plain_elem_def [of e] by simp
  show ?case
    using Cons pop push by (cases out) auto
qed

lemma elems_rooted: "rooted p \<Longrightarrow> list_all name_elem (elems p)"
  using clean_elems_rooted [of "[]" "Split slash p"] Split_no_sep [of _ slash p]
  by (auto simp: elems_def list_all_iff)

lemma rooted_Clean [simp]: "rooted p \<Longrightarrow> rooted (Clean p)"
  by (simp add: Clean_def rooted_def)

lemma names_no_slash: "list_all name_elem es \<Longrightarrow> e \<in> set es \<Longrightarrow> slash \<notin> set e"
  by (auto simp: list_all_iff name_elem_def plain_elem_def)

lemma elems_join:
  assumes "list_all name_elem es"
  shows "elems (slash # Join ''/'' es) = es"
proof (cases "es = []")
  case True
  then show ?thesis by (simp add: elems_def rooted_def)
next
  case False
  then have "Split slash (slash # Join ''/'' es) = [] # es"
    using Split_Join [of es slash] names_no_slash [OF assms] by simp
  then show ?thesis
    using clean_elems_names [OF assms] by (simp add: elems_def rooted_def)
qed

lemma elems_Clean: "rooted p \<Longrightarrow> elems (Clean p) = elems p"
  by (simp add: Clean_def elems_join elems_rooted)

lemma Clean_Clean: "rooted p \<Longrightarrow> Clean (Clean p) = Clean p"
  using elems_Clean [of p] rooted_Clean [of p] by (simp add: Clean_def [of "Clean p"]) (simp add: Clean_def)

lemma filepath_Join_rooted:
  "rooted p \<Longrightarrow> filepath_Join (p # es) = Clean (Join ''/'' (p # es))"
  by (auto simp: filepath_Join_def rooted_def split: list.splits)

lemma rooted_Join: "rooted p \<Longrightarrow> rooted (Join ''/'' (p # es))"
  by (cases es) (auto simp: rooted_def split: list.splits)

section \<open>Staying below a directory\<close>

text \<open>
  The prefix test of the archive readers: for an absolute directory other than the root it accepts a
  cleaned path exactly when the elements of the directory are a proper prefix of its elements.
\<close>

lemma under_directory_iff:
  assumes d: "rooted d" and q: "rooted q"
  shows "HasPrefix (Clean q) (Clean d @ ''/'') \<longleftrightarrow>
     elems d \<noteq> [] \<and> (\<exists>rest. rest \<noteq> [] \<and> elems q = elems d @ rest)"
proof
  let ?D = "elems d" and ?E = "elems q"
  have D: "list_all name_elem ?D" and E: "list_all name_elem ?E"
    using d q by (simp_all add: elems_rooted)
  assume "HasPrefix (Clean q) (Clean d @ ''/'')"
  then obtain t where t: "Join ''/'' ?E = Join ''/'' ?D @ slash # t"
    using d q by (auto simp: Clean_def HasPrefix_iff)
  then have Ene: "?E \<noteq> []" by auto
  then have plain: "plain_elem (hd ?E)"
    using E by (cases ?E) (auto simp: name_elem_def)
  have Dne: "?D \<noteq> []"
    using t Join_no_leading_slash [OF Ene plain] by auto
  have "?E = Split slash (Join ''/'' ?E)"
    using Ene Split_Join [of ?E slash] names_no_slash [OF E] by simp
  also have "\<dots> = ?D @ Split slash t"
    using Dne Split_Join [of ?D slash] names_no_slash [OF D] by (simp add: t Split_append_sep)
  finally show "?D \<noteq> [] \<and> (\<exists>rest. rest \<noteq> [] \<and> ?E = ?D @ rest)"
    using Dne by auto
next
  assume "elems d \<noteq> [] \<and> (\<exists>rest. rest \<noteq> [] \<and> elems q = elems d @ rest)"
  then obtain rest where "elems d \<noteq> []" "rest \<noteq> []" "elems q = elems d @ rest" by blast
  then show "HasPrefix (Clean q) (Clean d @ ''/'')"
    using d q by (simp add: Clean_def HasPrefix_iff Join_append)
qed

end
