(* ===== verification/Sriov_Utils.thy ===== *)
theory Sriov_Utils
  imports Flow_Utils Go_Path
begin

text \<open>
  \<^verbatim>\<open>pkg/flowconfig/sriovutils/sriovutils.go\<close>: reading SR-IOV topology from sysfs. The file system is
  a record of the calls made on it; \<open>NotFound\<close> is the error \<^verbatim>\<open>os.IsNotExist\<close> recognises, and the
  result of \<^verbatim>\<open>Lstat\<close> is whether the mode says symbolic link.
\<close>

record sysfs =
  fs_ReadDir :: "string \<Rightarrow> string list outcome"
  fs_Lstat :: "string \<Rightarrow> bool outcome"
  fs_Glob :: "string \<Rightarrow> string list outcome"
  fs_EvalSymlinks :: "string \<Rightarrow> string outcome"

definition sysBusPci :: string where
  "sysBusPci = ''/bus/pci/devices''"

definition sriov_GetPfName :: "sysfs \<Rightarrow> string \<Rightarrow> string \<Rightarrow> string outcome" where
  "sriov_GetPfName F SysFs pciAddr =
     (case fs_ReadDir F (filepath_Join [SysFs, sysBusPci, pciAddr, ''physfn'', ''net'']) of
        Panic p \<Rightarrow> Panic p
      | Err e \<Rightarrow> Err (Wrap ''error getting PF name for device'' e)
      | Ok [] \<Rightarrow> Err (Errorf ''the PF name is not found for device'')
      | Ok (f # fs) \<Rightarrow> Ok f)"

text \<open>The test of one index in the loop of \<^verbatim>\<open>GetVFID\<close>: the link \<^verbatim>\<open>virtfn<i>\<close> leads to the device.\<close>

definition virtfn_dir :: "string \<Rightarrow> nat \<Rightarrow> string" where
  "virtfn_dir pfDir i = pfDir @ ''/virtfn'' @ Itoa (int i)"

definition virtfn_is :: "sysfs \<Rightarrow> string \<Rightarrow> string \<Rightarrow> nat \<Rightarrow> bool" where
  "virtfn_is F pfDir pciAddr i =
     (case fs_Lstat F (virtfn_dir pfDir i) of
        Ok True \<Rightarrow> (case fs_EvalSymlinks F (virtfn_dir pfDir i) of
                     Ok linkName \<Rightarrow> Contains linkName pciAddr
                   | _ \<Rightarrow> False)
      | _ \<Rightarrow> False)"

primrec find_vf :: "sysfs \<Rightarrow> string \<Rightarrow> string \<Rightarrow> nat list \<Rightarrow> int" where
  "find_vf F pfDir pciAddr [] = -1"
| "find_vf F pfDir pciAddr (i # is) =
     (if virtfn_is F pfDir pciAddr i then int i else find_vf F pfDir pciAddr is)"

definition sriov_GetVFID :: "sysfs \<Rightarrow> string \<Rightarrow> string \<Rightarrow> int outcome" where
  "sriov_GetVFID F SysFs pciAddr =
     (let pfDir = filepath_Join [SysFs, sysBusPci, pciAddr, ''physfn''] in
      case fs_Lstat F pfDir of
        Panic p \<Rightarrow> Panic p
      | Err e \<Rightarrow> (if e = NotFound then Ok (-1)
                  else Err (Wrap ''could not get PF directory information for VF device'' e))
      | Ok _ \<Rightarrow>
          (case fs_Glob F (filepath_Join [pfDir, ''virtfn*'']) of
             Panic p \<Rightarrow> Panic p
           | Err e \<Rightarrow> Err (Wrap ''error reading VF directories'' e)
           | Ok vfDirs \<Rightarrow> Ok (find_vf F pfDir pciAddr [0..<length vfDirs])))"

definition GetSriovUtils :: "sysfs \<Rightarrow> string \<Rightarrow> SriovUtils" where
  "GetSriovUtils F SysFs = \<lparr>GetPfName = sriov_GetPfName F SysFs, GetVFID = sriov_GetVFID F SysFs\<rparr>"

section \<open>Facts\<close>

lemma find_vf_find:
  "find_vf F d a is = (case List.find (virtfn_is F d a) is of None \<Rightarrow> -1 | Some i \<Rightarrow> int i)"
  by (induction "is") auto

lemma find_vf_upt:
  "find_vf F d a [0..<n] = int i \<longleftrightarrow> i < n \<and> virtfn_is F d a i \<and> (\<forall>j < i. \<not> virtfn_is F d a j)"
proof -
  have "List.find (virtfn_is F d a) [0..<n] = Some i \<longleftrightarrow>
      i < n \<and> virtfn_is F d a i \<and> (\<forall>j < i. \<not> virtfn_is F d a j)"
    by (auto simp: find_Some_iff)
  then show ?thesis
    by (cases "List.find (virtfn_is F d a) [0..<n]") (auto simp: find_vf_find)
qed

lemma find_vf_range: "find_vf F d a [0..<n] = -1 \<or> (\<exists>i < n. find_vf F d a [0..<n] = int i)"
proof -
  have "find_vf F d a is = -1 \<or> (\<exists>i \<in> set is. find_vf F d a is = int i)" for "is"
    by (induction "is") auto
  from this [of "[0..<n]"] show ?thesis by auto
qed

section \<open>Properties\<close>

text \<open>
  \<^verbatim>\<open>GetVFID\<close> returns the least index whose \<^verbatim>\<open>virtfn\<close> link leads to the device, and \<^verbatim>\<open>-1\<close> exactly when
  no link does; the index is below the number of \<^verbatim>\<open>virtfn\<close> entries, so it fits the VF field whenever the
  number of entries does.
\<close>

theorem sriov_GetVFID_least:
  assumes "fs_Lstat F (filepath_Join [SysFs, sysBusPci, pciAddr, ''physfn'']) = Ok l"
    and "fs_Glob F (filepath_Join [filepath_Join [SysFs, sysBusPci, pciAddr, ''physfn''], ''virtfn*'']) = Ok vfDirs"
  shows "\<exists>v. sriov_GetVFID F SysFs pciAddr = Ok v \<and>
     (let d = filepath_Join [SysFs, sysBusPci, pciAddr, ''physfn''] in
      if \<exists>i < length vfDirs. virtfn_is F d pciAddr i
      then (\<exists>i < length vfDirs. v = int i \<and> virtfn_is F d pciAddr i \<and> (\<forall>j < i. \<not> virtfn_is F d pciAddr j))
      else v = -1)"
proof -
  let ?d = "filepath_Join [SysFs, sysBusPci, pciAddr, ''physfn'']"
  let ?v = "find_vf F ?d pciAddr [0..<length vfDirs]"
  have "sriov_GetVFID F SysFs pciAddr = Ok ?v"
    using assms by (simp add: sriov_GetVFID_def)
  moreover have "\<exists>i < length vfDirs. ?v = int i \<and> virtfn_is F ?d pciAddr i \<and> (\<forall>j < i. \<not> virtfn_is F ?d pciAddr j)"
    if some: "\<exists>i < length vfDirs. virtfn_is F ?d pciAddr i"
  proof -
    define l where "l = (LEAST i. virtfn_is F ?d pciAddr i)"
    from some obtain i where i: "i < length vfDirs" "virtfn_is F ?d pciAddr i" by blast
    have least: "virtfn_is F ?d pciAddr l" "\<forall>j < l. \<not> virtfn_is F ?d pciAddr j"
      unfolding l_def using i LeastI [of "virtfn_is F ?d pciAddr" i] not_less_Least by auto
    have bound: "l < length vfDirs"
      unfolding l_def using Least_le [of "virtfn_is F ?d pciAddr" i] i by linarith
    have "?v = int l"
      by (intro iffD2 [OF find_vf_upt] conjI bound least)
    then show ?thesis using bound least by blast
  qed
  moreover have "?v = -1" if "\<not> (\<exists>i < length vfDirs. virtfn_is F ?d pciAddr i)"
    using that find_vf_range [of F ?d pciAddr "length vfDirs"] find_vf_upt by blast
  ultimately show ?thesis by (simp add: Let_def)
qed

definition sample_sysfs :: sysfs where
  "sample_sysfs = \<lparr>fs_ReadDir = (\<lambda>_. Ok [''ens1f0'']), fs_Lstat = (\<lambda>_. Ok True),
     fs_Glob = (\<lambda>_. Ok [''virtfn0'', ''virtfn1'']),
     fs_EvalSymlinks = (\<lambda>p. if HasSuffix p ''virtfn1'' then Ok ''/sys/devices/0000:01:01.1''
                           else Ok ''/sys/devices/0000:01:01.0'')\<rparr>"

theorem sriov_GetVFID_least_witness:
  "sriov_GetVFID sample_sysfs ''/sys'' ''0000:01:01.1'' = Ok 1 \<and>
     (\<exists>v. sriov_GetVFID sample_sysfs ''/sys'' ''0000:01:01.1'' = Ok v \<and>
     (let d = filepath_Join [''/sys'', sysBusPci, ''0000:01:01.1'', ''physfn''] in
      if \<exists>i < length [''virtfn0'', ''virtfn1'']. virtfn_is sample_sysfs d ''0000:01:01.1'' i
      then (\<exists>i < length [''virtfn0'', ''virtfn1'']. v = int i \<and> virtfn_is sample_sysfs d ''0000:01:01.1'' i \<and>
        (\<forall>j < i. \<not> virtfn_is sample_sysfs d ''0000:01:01.1'' j))
      else v = -1))"
proof
  show "sriov_GetVFID sample_sysfs ''/sys'' ''0000:01:01.1'' = Ok 1"
    by code_simp
qed (rule sriov_GetVFID_least; simp add: sample_sysfs_def)

end
