(* ===== verification/Go_State.thy ===== *)
theory Go_State
  imports Go_Prelude
begin

text \<open>
  Go code with effects. \<open>('s, 'a) go\<close> is a call that may change a state \<open>'s\<close> and returns like any
  other call: a value, an error or a panic; the state reached so far is kept in all three cases.
  \<open>gfor\<close> is a \<^verbatim>\<open>range\<close> loop that returns at the first error. \<open>attempt\<close> is a call whose error the
  caller keeps as a value (\<^verbatim>\<open>res, err := f()\<close>). \<open>keeps P m\<close> says that \<open>m\<close> preserves \<open>P\<close> however it
  returns.
\<close>

type_synonym ('s, 'a) go = "'s \<Rightarrow> 'a outcome \<times> 's"

section \<open>Composition\<close>

definition ret :: "'a \<Rightarrow> ('s, 'a) go" where
  "ret x s = (Ok x, s)"

definition lift :: "'a outcome \<Rightarrow> ('s, 'a) go" where
  "lift r s = (r, s)"

definition gbind :: "('s, 'a) go \<Rightarrow> ('a \<Rightarrow> ('s, 'b) go) \<Rightarrow> ('s, 'b) go" where
  "gbind m f s =
     (case m s of
        (Ok x, s') \<Rightarrow> f x s'
      | (Err e, s') \<Rightarrow> (Err e, s')
      | (Panic p, s') \<Rightarrow> (Panic p, s'))"

definition modify :: "('s \<Rightarrow> 's) \<Rightarrow> ('s, unit) go" where
  "modify f s = (Ok (), f s)"

definition reading :: "('s \<Rightarrow> 'a) \<Rightarrow> ('s, 'a) go" where
  "reading f s = (Ok (f s), s)"

definition attempt :: "('s, 'a) go \<Rightarrow> ('s, 'a outcome) go" where
  "attempt m s =
     (case m s of
        (Ok x, s') \<Rightarrow> (Ok (Ok x), s')
      | (Err e, s') \<Rightarrow> (Ok (Err e), s')
      | (Panic p, s') \<Rightarrow> (Panic p, s'))"

definition gwrap :: "string \<Rightarrow> ('s, 'a) go \<Rightarrow> ('s, 'a) go" where
  "gwrap msg m s = (case m s of (r, s') \<Rightarrow> (wrap_err msg r, s'))"

primrec gfor :: "('a \<Rightarrow> ('s, unit) go) \<Rightarrow> 'a list \<Rightarrow> ('s, unit) go" where
  "gfor f [] = ret ()"
| "gfor f (x # xs) = gbind (f x) (\<lambda>_. gfor f xs)"

primrec gmap :: "('a \<Rightarrow> ('s, 'b) go) \<Rightarrow> 'a list \<Rightarrow> ('s, 'b list) go" where
  "gmap f [] = ret []"
| "gmap f (x # xs) = gbind (f x) (\<lambda>y. gbind (gmap f xs) (\<lambda>ys. ret (y # ys)))"

text \<open>
  \<open>retry n f\<close> is what \<^verbatim>\<open>wait.ExponentialBackoff\<close> documents for \<open>n\<close> steps: the condition is tried at most \<open>n\<close>
  times, until it holds or fails. The pause between two attempts has no effect.
\<close>

primrec retry :: "nat \<Rightarrow> ('s, bool) go \<Rightarrow> ('s, unit) go" where
  "retry 0 f = lift (Err ErrWaitTimeout)"
| "retry (Suc n) f = gbind f (\<lambda>ok. if ok then ret () else retry n f)"

section \<open>Results\<close>

named_theorems go_simps \<open>how composed calls return\<close>

lemma ret_eq [simp, go_simps]: "ret x s = (r, s') \<longleftrightarrow> r = Ok x \<and> s' = s"
  by (auto simp: ret_def)

lemma lift_eq [simp, go_simps]: "lift o' s = (r, s') \<longleftrightarrow> o' = r \<and> s' = s"
  by (auto simp: lift_def)

lemma modify_eq [simp, go_simps]: "modify f s = (r, s') \<longleftrightarrow> r = Ok () \<and> s' = f s"
  by (auto simp: modify_def)

lemma reading_eq [simp, go_simps]: "reading f s = (r, s') \<longleftrightarrow> r = Ok (f s) \<and> s' = s"
  by (auto simp: reading_def)

lemma gbind_Ok_iff [go_simps]:
  "gbind m f s = (Ok y, s'') \<longleftrightarrow> (\<exists>x s'. m s = (Ok x, s') \<and> f x s' = (Ok y, s''))"
  by (auto simp: gbind_def split: prod.splits outcome.splits)

lemma gbind_Err_iff [go_simps]:
  "gbind m f s = (Err e, s'') \<longleftrightarrow> m s = (Err e, s'') \<or> (\<exists>x s'. m s = (Ok x, s') \<and> f x s' = (Err e, s''))"
  by (auto simp: gbind_def split: prod.splits outcome.splits)

lemma gbind_Panic_iff [go_simps]:
  "gbind m f s = (Panic p, s'') \<longleftrightarrow> m s = (Panic p, s'') \<or> (\<exists>x s'. m s = (Ok x, s') \<and> f x s' = (Panic p, s''))"
  by (auto simp: gbind_def split: prod.splits outcome.splits)

lemma gbind_cases:
  assumes "gbind m f s = (r, s'')"
  obtains (Ok) x s' where "m s = (Ok x, s')" and "f x s' = (r, s'')"
    | (Err) e where "m s = (Err e, s'')" and "r = Err e"
    | (Panic) p where "m s = (Panic p, s'')" and "r = Panic p"
  using assms by (auto simp: gbind_def split: prod.splits outcome.splits)

lemma gbind_ret [simp]: "gbind (ret x) f = f x"
  by (rule ext) (simp add: gbind_def ret_def)

lemma gbind_lift_Ok [simp]: "gbind (lift (Ok x)) f = f x"
  by (rule ext) (simp add: gbind_def lift_def)

lemma gbind_run: "m s = (Ok x, s') \<Longrightarrow> gbind m f s = f x s'"
  by (simp add: gbind_def)

lemma gbind_assoc: "gbind (gbind m f) g = gbind m (\<lambda>x. gbind (f x) g)"
  by (rule ext) (simp add: gbind_def split: prod.splits outcome.splits)

lemma attempt_eq [go_simps]:
  "attempt m s = (Ok r, s') \<longleftrightarrow> m s = (r, s') \<and> (\<forall>p. r \<noteq> Panic p)"
  by (auto simp: attempt_def split: prod.splits outcome.splits)

lemma attempt_Err [simp]: "attempt m s \<noteq> (Err e, s')"
  by (auto simp: attempt_def split: prod.splits outcome.splits)

lemma attempt_Panic [go_simps]: "attempt m s = (Panic p, s') \<longleftrightarrow> m s = (Panic p, s')"
  by (auto simp: attempt_def split: prod.splits outcome.splits)

lemma gwrap_Ok_iff [simp, go_simps]: "gwrap msg m s = (Ok x, s') \<longleftrightarrow> m s = (Ok x, s')"
  by (auto simp: gwrap_def split: prod.splits)

lemma gwrap_Panic_iff [simp, go_simps]: "gwrap msg m s = (Panic p, s') \<longleftrightarrow> m s = (Panic p, s')"
  by (auto simp: gwrap_def split: prod.splits)

lemma gfor_append: "gfor f (xs @ ys) = gbind (gfor f xs) (\<lambda>_. gfor f ys)"
  by (induction xs) (simp_all add: gbind_assoc)

lemma gmap_Ok_length: "gmap f xs s = (Ok ys, s') \<Longrightarrow> length ys = length xs"
  by (induction xs arbitrary: s ys) (auto simp: gbind_Ok_iff)

section \<open>Preservation\<close>

definition keeps :: "('s \<Rightarrow> bool) \<Rightarrow> ('s, 'a) go \<Rightarrow> bool" where
  "keeps P m \<longleftrightarrow> (\<forall>s. P s \<longrightarrow> P (snd (m s)))"

named_theorems keeps_intros \<open>preservation of composed calls\<close>

lemma keepsD: "keeps P m \<Longrightarrow> P s \<Longrightarrow> m s = (r, s') \<Longrightarrow> P s'"
  by (metis keeps_def snd_conv)

lemma keepsI: "(\<And>s r s'. P s \<Longrightarrow> m s = (r, s') \<Longrightarrow> P s') \<Longrightarrow> keeps P m"
  unfolding keeps_def by (metis prod.collapse)

lemma keeps_ret [keeps_intros]: "keeps P (ret x)"
  by (simp add: keeps_def ret_def)

lemma keeps_lift [keeps_intros]: "keeps P (lift r)"
  by (simp add: keeps_def lift_def)

lemma keeps_reading [keeps_intros]: "keeps P (reading f)"
  by (simp add: keeps_def reading_def)

lemma keeps_modify [keeps_intros]: "(\<And>s. P s \<Longrightarrow> P (f s)) \<Longrightarrow> keeps P (modify f)"
  by (simp add: keeps_def modify_def)

lemma keeps_gbind [keeps_intros]:
  "keeps P m \<Longrightarrow> (\<And>x. keeps P (f x)) \<Longrightarrow> keeps P (gbind m f)"
  by (rule keepsI, erule gbind_cases) (auto dest: keepsD)

lemma keeps_attempt [keeps_intros]: "keeps P m \<Longrightarrow> keeps P (attempt m)"
  by (auto simp: keeps_def attempt_def split: prod.splits outcome.splits)

lemma keeps_gwrap [keeps_intros]: "keeps P m \<Longrightarrow> keeps P (gwrap msg m)"
  by (auto simp: keeps_def gwrap_def split: prod.splits)

lemma keeps_gfor [keeps_intros]: "(\<And>x. x \<in> set xs \<Longrightarrow> keeps P (f x)) \<Longrightarrow> keeps P (gfor f xs)"
  by (induction xs) (auto intro: keeps_ret keeps_gbind)

lemma keeps_gmap [keeps_intros]: "(\<And>x. x \<in> set xs \<Longrightarrow> keeps P (f x)) \<Longrightarrow> keeps P (gmap f xs)"
  by (induction xs) (auto intro!: keeps_ret keeps_gbind)

lemma keeps_retry [keeps_intros]: "keeps P f \<Longrightarrow> keeps P (retry n f)"
  by (induction n) (auto intro!: keeps_lift keeps_ret keeps_gbind)

section \<open>Requests that can fail\<close>

text \<open>
  The contract of a call of another system, be it the API server or the kernel: time passes (\<open>tick\<close>), and then it
  either fails as the environment decides (\<open>fault\<close>), without any other effect, or does its work.
\<close>

locale request =
  fixes call :: "('s, 'a) go \<Rightarrow> ('s, 'a) go"
    and tick :: "'s \<Rightarrow> 's"
    and fault :: "'s \<Rightarrow> goerr option"
  assumes call_eq: "call m s = (case fault s of Some e \<Rightarrow> (Err e, tick s) | None \<Rightarrow> m (tick s))"
begin

lemma call_cases:
  assumes "call m s = (r, s')"
  obtains (Fault) e where "r = Err e" and "s' = tick s" | (Run) "m (tick s) = (r, s')"
  using assms by (auto simp: call_eq split: option.splits)

lemma call_keeps:
  assumes "keeps P m" and "\<And>s. P s \<Longrightarrow> P (tick s)"
  shows "keeps P (call m)"
proof (rule keepsI)
  fix s r s' assume "P s" "call m s = (r, s')"
  from this(2) \<open>P s\<close> show "P s'"
    by (cases rule: call_cases) (auto intro: assms(2) keepsD [OF assms(1) assms(2)])
qed

lemma call_no_panic: "(\<And>s s' p. m s \<noteq> (Panic p, s')) \<Longrightarrow> call m s \<noteq> (Panic p, s')"
  by (auto simp: call_eq split: option.splits)

lemma call_answered: "fault s = None \<Longrightarrow> call m s = m (tick s)"
  by (simp add: call_eq)

end

end
