(* ===== verification/Node_Flow_Controller.thy ===== *)
theory Node_Flow_Controller
  imports Flow_Webhook_Facts Flow_Sets Sriov_Utils Go_State
begin

text \<open>
  \<^verbatim>\<open>controllers/flowconfig/nodeflowconfig_controller.go\<close> and \<^verbatim>\<open>dcf_client.go\<close>: the controller on each
  node that turns the rules of its \<^verbatim>\<open>NodeFlowConfig\<close> into flows of the DCF service.

  The DCF service is outside the repository: \<open>grpc_stub\<close> holds the dial and the four remote calls
  the controller makes, over the state \<open>'d\<close> of the service. As the generated client and
  \<^verbatim>\<open>dcf_client.go\<close> do, a call that fails returns a nil response with its error. The reconciler's
  state is its cache of flows, the service, and the list of the calls made so far.
  \<^verbatim>\<open>json.Marshal\<close> of a request and \<^verbatim>\<open>sha256\<close> are parameters of the environment: the controller only
  compares the keys they give. \<open>ro\<close> is the order in which the runtime visits a map.
\<close>

section \<open>dcf\_client.go\<close>

record ('any, 'd) grpc_stub =
  stub_DialContext :: "('d, unit) go"
  stub_Validate :: "'any RequestFlowCreate \<Rightarrow> ('d, ResponseFlow) go"
  stub_Create :: "'any RequestFlowCreate \<Rightarrow> ('d, ResponseFlowCreate) go"
  stub_Destroy :: "RequestFlowofPort \<Rightarrow> ('d, ResponseFlow) go"
  stub_ListPorts :: "('d, PortsInformation list) go"

record ('any, 'd) FlowServiceClient =
  Validate :: "'any RequestFlowCreate \<Rightarrow> ('d, ResponseFlow) go"
  Create :: "'any RequestFlowCreate \<Rightarrow> ('d, ResponseFlowCreate) go"
  Destroy :: "RequestFlowofPort \<Rightarrow> ('d, ResponseFlow) go"
  ListPorts :: "('d, PortsInformation list) go"

definition getDCFFlowClientConn :: "('any, 'd) grpc_stub \<Rightarrow> ('d, unit) go" where
  "getDCFFlowClientConn G = gwrap ''unable to connect to DCF grpc endpoint'' (stub_DialContext G)"

definition dcfClient_Validate :: "('any, 'd) grpc_stub \<Rightarrow> 'any RequestFlowCreate \<Rightarrow> ('d, ResponseFlow) go" where
  "dcfClient_Validate G req = gbind (getDCFFlowClientConn G) (\<lambda>_. stub_Validate G req)"

definition dcfClient_Create :: "('any, 'd) grpc_stub \<Rightarrow> 'any RequestFlowCreate \<Rightarrow> ('d, ResponseFlowCreate) go" where
  "dcfClient_Create G req = gbind (getDCFFlowClientConn G) (\<lambda>_. stub_Create G req)"

definition dcfClient_Destroy :: "('any, 'd) grpc_stub \<Rightarrow> RequestFlowofPort \<Rightarrow> ('d, ResponseFlow) go" where
  "dcfClient_Destroy G req = gbind (getDCFFlowClientConn G) (\<lambda>_. stub_Destroy G req)"

definition dcfClient_ListPorts :: "('any, 'd) grpc_stub \<Rightarrow> ('d, PortsInformation list) go" where
  "dcfClient_ListPorts G = gbind (getDCFFlowClientConn G) (\<lambda>_. stub_ListPorts G)"

definition GetDCFClient :: "('any, 'd) grpc_stub \<Rightarrow> ('any, 'd) FlowServiceClient" where
  "GetDCFClient G = \<lparr>Validate = dcfClient_Validate G, Create = dcfClient_Create G,
     Destroy = dcfClient_Destroy G, ListPorts = dcfClient_ListPorts G\<rparr>"

section \<open>State and environment of the reconciler\<close>

datatype 'any dcf_call =
    CallListPorts
  | CallValidate "'any RequestFlowCreate"
  | CallCreate "'any RequestFlowCreate"
  | CallDestroy RequestFlowofPort
  | StatusUpdate "PortsInformation list"

record ('any, 'd) nfc_state =
  flowSets :: "'any FlowSets"
  dcf :: 'd
  calls :: "'any dcf_call list"

record ('any, 'd) NodeFlowConfigReconciler =
  nodeName :: string
  flowClient :: "('any, 'd) FlowServiceClient"
  sriovUtils :: SriovUtils
  anyLib :: "'any anypb"
  json_Marshal :: "'any RequestFlowCreate \<Rightarrow> byte list option"
  sha256_Sum :: "byte list \<Rightarrow> byte list"

definition GetNodeFlowConfigReconciler ::
    "('any, 'd) FlowServiceClient \<Rightarrow> string \<Rightarrow> sysfs \<Rightarrow> string \<Rightarrow> 'any anypb \<Rightarrow>
     ('any RequestFlowCreate \<Rightarrow> byte list option) \<Rightarrow> (byte list \<Rightarrow> byte list) \<Rightarrow> ('any, 'd) NodeFlowConfigReconciler" where
  "GetNodeFlowConfigReconciler fc name F sysFs A marshal digest =
     \<lparr>nodeName = name, flowClient = fc, sriovUtils = GetSriovUtils F sysFs, anyLib = A,
      json_Marshal = marshal, sha256_Sum = digest\<rparr>"

text \<open>A remote call from the reconciler, recorded in the list of calls.\<close>

definition remote :: "'any dcf_call \<Rightarrow> ('d, 'r) go \<Rightarrow> (('any, 'd) nfc_state, 'r) go" where
  "remote c f s = (case f (dcf s) of (r, d) \<Rightarrow> (r, s\<lparr>dcf := d, calls := calls s @ [c]\<rparr>))"

abbreviation automaticPortId :: u32 where "automaticPortId \<equiv> 0xFFFFFFFF"

section \<open>Event filter\<close>

record ev_object =
  GetName :: string
  GetGeneration :: int

definition CreateFunc :: "string \<Rightarrow> ev_object \<Rightarrow> bool" where
  "CreateFunc node e \<longleftrightarrow> GetName e = node"

definition UpdateFunc :: "string \<Rightarrow> ev_object \<Rightarrow> ev_object \<Rightarrow> bool" where
  "UpdateFunc node old new \<longleftrightarrow> GetGeneration old \<noteq> GetGeneration new \<and> (GetName old = node \<or> GetName new = node)"

definition DeleteFunc :: "string \<Rightarrow> bool \<Rightarrow> ev_object \<Rightarrow> bool" where
  "DeleteFunc node deleteStateUnknown e \<longleftrightarrow> \<not> deleteStateUnknown \<and> GetName e = node"

definition GenericFunc :: "string \<Rightarrow> ev_object \<Rightarrow> bool" where
  "GenericFunc node e \<longleftrightarrow> GetName e = node"

section \<open>Building a request from a rule\<close>

definition listDCFPorts :: "('any, 'd) NodeFlowConfigReconciler \<Rightarrow> (('any, 'd) nfc_state, PortsInformation list) go" where
  "listDCFPorts r = gbind (remote CallListPorts (ListPorts (flowClient r))) (\<lambda>ports.
     ret (map (\<lambda>p. \<lparr>PortId = PortId p, PortPci = PortPci p, PortMode = PortMode p\<rparr>) ports))"

text \<open>The loop of \<^verbatim>\<open>getPortIdFromDCFPort\<close> over the DCF ports.\<close>

primrec match_port :: "SriovUtils \<Rightarrow> string \<Rightarrow> PortsInformation list \<Rightarrow> u32 outcome" where
  "match_port S pfName [] = Err (Errorf ''unable to find DCF port that matches to traffic'')"
| "match_port S pfName (p # ps) =
     obind (wrap_err ''unable to get pfName of VF that handles DCF'' (GetPfName S (PortPci p))) (\<lambda>dcfPfName.
     if pfName = dcfPfName then Ok (PortId p) else match_port S pfName ps)"

definition getPortIdFromDCFPort ::
    "('any, 'd) NodeFlowConfigReconciler \<Rightarrow> string \<Rightarrow> (('any, 'd) nfc_state, u32) go" where
  "getPortIdFromDCFPort r otherVfPciAddress =
     gbind (lift (wrap_err ''unable to get pfName of VF that handles traffic''
                    (GetPfName (sriovUtils r) otherVfPciAddress))) (\<lambda>pfName.
     gbind (gwrap ''unable to get list of DCF ports'' (listDCFPorts r)) (\<lambda>dcfPorts.
     lift (match_port (sriovUtils r) pfName dcfPorts)))"

text \<open>One of the optional documents of a pattern item.\<close>

definition opt_item_any :: "'any anypb \<Rightarrow> string \<Rightarrow> string \<Rightarrow> RawExtension option \<Rightarrow> 'any option \<Rightarrow> 'any option outcome" where
  "opt_item_any A what type part unset =
     (case part of
        None \<Rightarrow> Ok unset
      | Some r \<Rightarrow> obind (wrap_err (''error getting '' @ what @ '' pattern'') (GetFlowItemAny A type (Raw r)))
                   (\<lambda>a. Ok (Some a)))"

text \<open>The body of the loop over the patterns: the value of \<^verbatim>\<open>last\<close> is assigned to \<^verbatim>\<open>Spec\<close>.\<close>

definition getFlowItem :: "'any anypb \<Rightarrow> FlowItem \<Rightarrow> 'any RteFlowItem outcome" where
  "getFlowItem A item =
     (case RteFlowItemType_value (FlowItem_Type item) of
        None \<Rightarrow> Err (Errorf ''invalid flow item type'')
      | Some v \<Rightarrow>
          obind (opt_item_any A ''Spec'' (FlowItem_Type item) (FlowItem_Spec item) None) (\<lambda>spec.
          obind (opt_item_any A ''Last'' (FlowItem_Type item) (FlowItem_Last item) spec) (\<lambda>spec'.
          obind (opt_item_any A ''Mask'' (FlowItem_Type item) (FlowItem_Mask item) None) (\<lambda>mask.
          Ok \<lparr>item_Type = v, item_Spec = spec', item_Last = None, item_Mask = mask\<rparr>))))"

text \<open>The loop over the actions, with the first PCI address seen.\<close>

primrec getFlowActions ::
    "'any anypb \<Rightarrow> SriovUtils \<Rightarrow> string \<Rightarrow> FlowAction list \<Rightarrow> ('any RteFlowAction list \<times> string) outcome" where
  "getFlowActions A S pci [] = Ok ([], pci)"
| "getFlowActions A S pci (action # actions) =
     (case GetFlowActionType (FlowAction_Type action) of
        None \<Rightarrow> Err (Errorf ''invalid action type'')
      | Some v \<Rightarrow>
          obind (case FlowAction_Conf action of
                   None \<Rightarrow> Ok (None, pci)
                 | Some c \<Rightarrow>
                     obind (wrap_err ''error getting Spec pattern'' (GetFlowActionAny A (FlowAction_Type action) (Raw c) S)) (\<lambda>a.
                     if FlowAction_Type action = RTE_FLOW_ACTION_TYPE_VFPCIADDR then
                       obind (wrap_err ''error unmarshalling bytes'' (Unmarshal struct_fields ''VfPciAddr'' (Raw c))) (\<lambda>fs.
                       Ok (Some a, if pci = [] then f_str fs ''addr'' else pci))
                     else Ok (Some a, pci))) (\<lambda>(conf, pci').
          obind (getFlowActions A S pci' actions) (\<lambda>(rest, pci'').
          Ok (\<lparr>action_Type = v, action_Conf = conf\<rparr> # rest, pci''))))"

definition getFlowCreateRequests ::
    "('any, 'd) NodeFlowConfigReconciler \<Rightarrow> FlowRules \<Rightarrow> (('any, 'd) nfc_state, 'any RequestFlowCreate) go" where
  "getFlowCreateRequests r fr =
     gbind (lift (omap (getFlowItem (anyLib r)) (FlowRules_Pattern fr))) (\<lambda>pattern.
     gbind (lift (getFlowActions (anyLib r) (sriovUtils r) [] (FlowRules_Action fr))) (\<lambda>(actions, podPciAddress).
     gbind (if FlowRules_PortId fr \<noteq> automaticPortId then ret (FlowRules_PortId fr)
            else getPortIdFromDCFPort r podPciAddress) (\<lambda>portId.
     ret \<lparr>req_PortId = portId, req_Attr = map_option copy_attr (FlowRules_Attr fr),
          req_Pattern = pattern, req_Action = actions\<rparr>)))"

section \<open>Synchronising the rules\<close>

definition getFlowCreateHash :: "('any, 'd) NodeFlowConfigReconciler \<Rightarrow> 'any RequestFlowCreate \<Rightarrow> string option" where
  "getFlowCreateHash r req =
     (case json_Marshal r req of None \<Rightarrow> None | Some reqBytes \<Rightarrow> Some (hex_Encode (sha256_Sum r reqBytes)))"

text \<open>The loop of \<^verbatim>\<open>getToAddAndDelete\<close>; the key of a request that does not marshal is empty.\<close>

definition key_of :: "('any, 'd) NodeFlowConfigReconciler \<Rightarrow> 'any RequestFlowCreate \<Rightarrow> string" where
  "key_of r req = (case getFlowCreateHash r req of None \<Rightarrow> [] | Some k \<Rightarrow> k)"

primrec collect_reqs ::
    "('any, 'd) NodeFlowConfigReconciler \<Rightarrow> 'any FlowSets \<Rightarrow> 'any RequestFlowCreate list \<Rightarrow>
     string list \<times> (string \<rightharpoonup> 'any RequestFlowCreate) \<Rightarrow> string list \<times> (string \<rightharpoonup> 'any RequestFlowCreate)" where
  "collect_reqs r fs [] acc = acc"
| "collect_reqs r fs (req # reqs) acc =
     (let key = key_of r req; newKeys = fst acc @ [key] in
      if key \<noteq> [] then
        (if FlowSets_Has fs key then collect_reqs r fs reqs (newKeys, snd acc)
         else collect_reqs r fs reqs (newKeys, (snd acc)(key \<mapsto> req)))
      else collect_reqs r fs reqs (newKeys, snd acc))"

definition getToAddAndDelete ::
    "('any, 'd) NodeFlowConfigReconciler \<Rightarrow> 'any FlowSets \<Rightarrow> 'any RequestFlowCreate list \<Rightarrow>
     (string \<rightharpoonup> 'any RequestFlowCreate) \<times> (string \<rightharpoonup> 'any FlowCreateRecord)" where
  "getToAddAndDelete r fs flowReqs =
     (case collect_reqs r fs flowReqs ([], Map.empty) of
        (newKeys, toAdd) \<Rightarrow> (toAdd, FlowSets_GetCompliments fs newKeys))"

text \<open>
  On an error of \<^verbatim>\<open>Destroy\<close> the logging statement reads \<^verbatim>\<open>res.ErrorInfo\<close> of the nil response that comes
  with the error.
\<close>

definition deleteRule ::
    "('any, 'd) NodeFlowConfigReconciler \<Rightarrow> string \<Rightarrow> 'any FlowCreateRecord \<Rightarrow> (('any, 'd) nfc_state, unit) go" where
  "deleteRule r k fr =
     (let delReq = \<lparr>del_PortId = req_PortId (FlowRule fr), del_FlowId = FlowID fr\<rparr> in
      gbind (attempt (remote (CallDestroy delReq) (Destroy (flowClient r) delReq))) (\<lambda>res.
      case res of
        Err e \<Rightarrow> lift (Panic ''nil pointer dereference'')
      | _ \<Rightarrow> modify (\<lambda>s. s\<lparr>flowSets := FlowSets_Delete (flowSets s) k\<rparr>)))"

definition over_map :: "(string \<rightharpoonup> 'v) \<Rightarrow> (string \<Rightarrow> 'v \<Rightarrow> ('s, unit) go) \<Rightarrow> string list \<Rightarrow> ('s, unit) go" where
  "over_map m f ks = gfor (\<lambda>k. case m k of None \<Rightarrow> ret () | Some v \<Rightarrow> f k v) ks"

definition deleteRules ::
    "('any, 'd) NodeFlowConfigReconciler \<Rightarrow> (string set \<Rightarrow> string list) \<Rightarrow> (string \<rightharpoonup> 'any FlowCreateRecord) \<Rightarrow>
     (('any, 'd) nfc_state, unit) go" where
  "deleteRules r ro toDelete = over_map toDelete (deleteRule r) (ro (dom toDelete))"

abbreviation RTE_FLOW_ERROR_TYPE_NONE :: int where "RTE_FLOW_ERROR_TYPE_NONE \<equiv> 0"

definition rte_failed :: "RteFlowError option \<Rightarrow> bool" where
  "rte_failed e \<longleftrightarrow> (case e of None \<Rightarrow> False | Some i \<Rightarrow> err_Type i \<noteq> RTE_FLOW_ERROR_TYPE_NONE)"

definition createRule ::
    "('any, 'd) NodeFlowConfigReconciler \<Rightarrow> string \<Rightarrow> 'any RequestFlowCreate \<Rightarrow> (('any, 'd) nfc_state, unit) go" where
  "createRule r k req =
     gbind (gwrap ''error validating flow create request''
              (remote (CallValidate req) (Validate (flowClient r) req))) (\<lambda>res.
     if rte_failed (res_ErrorInfo res) then lift (Err (Errorf ''received validation error''))
     else gbind (gwrap ''error creating flow rules''
                   (remote (CallCreate req) (Create (flowClient r) req))) (\<lambda>createRes.
     if rte_failed (cres_ErrorInfo createRes) then lift (Err (Errorf ''received flow create error''))
     else modify (\<lambda>s. s\<lparr>flowSets := FlowSets_Add (flowSets s) k (cres_FlowId createRes) req\<rparr>)))"

definition createRules ::
    "('any, 'd) NodeFlowConfigReconciler \<Rightarrow> (string set \<Rightarrow> string list) \<Rightarrow> (string \<rightharpoonup> 'any RequestFlowCreate) \<Rightarrow>
     (('any, 'd) nfc_state, unit) go" where
  "createRules r ro toAdd = over_map toAdd (createRule r) (ro (dom toAdd))"

definition createAndDeleteRules ::
    "('any, 'd) NodeFlowConfigReconciler \<Rightarrow> (string set \<Rightarrow> string list) \<Rightarrow> (string \<rightharpoonup> 'any RequestFlowCreate) \<Rightarrow>
     (string \<rightharpoonup> 'any FlowCreateRecord) \<Rightarrow> (('any, 'd) nfc_state, unit) go" where
  "createAndDeleteRules r ro toAdd toDelete =
     gbind (deleteRules r ro toDelete) (\<lambda>_. gbind (createRules r ro toAdd) (\<lambda>_. ret ()))"

definition deleteAllRules ::
    "('any, 'd) NodeFlowConfigReconciler \<Rightarrow> (string set \<Rightarrow> string list) \<Rightarrow> (('any, 'd) nfc_state, unit) go" where
  "deleteAllRules r ro =
     gbind (reading (\<lambda>s. FlowSets_GetCompliments (flowSets s) [])) (\<lambda>toDelete.
     gbind (attempt (deleteRules r ro toDelete)) (\<lambda>_. ret ()))"

definition syncRules ::
    "('any, 'd) NodeFlowConfigReconciler \<Rightarrow> (string set \<Rightarrow> string list) \<Rightarrow> NodeFlowConfig \<Rightarrow> (('any, 'd) nfc_state, unit) go" where
  "syncRules r ro policy =
     gbind (gmap (getFlowCreateRequests r) (nfc_Rules policy)) (\<lambda>flowReqs.
     gbind (reading (\<lambda>s. getToAddAndDelete r (flowSets s) flowReqs)) (\<lambda>(toAdd, toDelete).
     createAndDeleteRules r ro toAdd toDelete))"

text \<open>The result of the status update is only logged.\<close>

definition updateStatus :: "PortsInformation list \<Rightarrow> (('any, 'd) nfc_state, unit) go" where
  "updateStatus ports = modify (\<lambda>s. s\<lparr>calls := calls s @ [StatusUpdate ports]\<rparr>)"

definition syncFlowConfig ::
    "('any, 'd) NodeFlowConfigReconciler \<Rightarrow> (string set \<Rightarrow> string list) \<Rightarrow> NodeFlowConfig \<Rightarrow> (('any, 'd) nfc_state, unit) go" where
  "syncFlowConfig r ro newPolicy =
     gbind (listDCFPorts r) (\<lambda>portList.
     gbind (if nfc_PortInfo newPolicy \<noteq> Some portList then updateStatus portList else ret ()) (\<lambda>_.
     syncRules r ro (newPolicy\<lparr>nfc_PortInfo := Some portList\<rparr>)))"

text \<open>\<open>got\<close> is what the API server returns for the request.\<close>

definition NodeFlowConfig_Reconcile ::
    "('any, 'd) NodeFlowConfigReconciler \<Rightarrow> (string set \<Rightarrow> string list) \<Rightarrow> NodeFlowConfig outcome \<Rightarrow>
     (('any, 'd) nfc_state, unit) go" where
  "NodeFlowConfig_Reconcile r ro got =
     (case got of
        Panic p \<Rightarrow> lift (Panic p)
      | Err e \<Rightarrow> (if e = NotFound then gbind (attempt (deleteAllRules r ro)) (\<lambda>_. ret ()) else lift (Err e))
      | Ok instance' \<Rightarrow> gbind (attempt (syncFlowConfig r ro instance')) (\<lambda>_. ret ()))"

end
