(* ===== verification/Cluster_Flow_Controller.thy ===== *)
theory Cluster_Flow_Controller
  imports Node_Flow_Controller
begin

text \<open>
  \<^verbatim>\<open>controllers/flowconfig/clusterflowconfig_controller.go\<close>: the controller that turns the rules of a
  \<^verbatim>\<open>ClusterFlowConfig\<close> into rules of the \<^verbatim>\<open>NodeFlowConfig\<close> of every node that runs a selected pod.

  The API server, the label selectors of Kubernetes, the decoding of a network-status annotation
  and the bytes that are hashed are parameters, fields of the reconciler's record. \<open>Conflict\<close> is the
  error whose message says that the object has been modified. The reconciler's state is its map from
  cluster configurations to the hashes of the rules they put on each node, and the API server.
  A \<^verbatim>\<open>NodeFlowConfig\<close> in the map of nodes is a pointer: a failed update leaves its partial result in
  the object, and the model keeps it.
\<close>

section \<open>Data\<close>

record Pod =
  pod_Name :: string
  pod_NodeName :: string
  pod_Labels :: "string \<rightharpoonup> string"
  pod_Annotations :: "string \<rightharpoonup> string"
  pod_Phase :: string

record DeviceInfo =
  di_Type :: string
  di_PciAddress :: "string option"

record NetworkStatus =
  ns_Interface :: string
  ns_DeviceInfo :: "DeviceInfo option"

type_synonym hash_map = "NamespacedName \<rightharpoonup> NamespacedName \<rightharpoonup> string list"

record 'k cfc_state =
  Cluster2NodeRulesHashMap :: hash_map
  kube :: 'k

record ('x, 'sel, 'k) ClusterFlowConfigReconciler =
  kc_Get :: "NamespacedName \<Rightarrow> 'k \<Rightarrow> NodeFlowConfig outcome"
  kc_Update :: "NodeFlowConfig \<Rightarrow> ('k, unit) go"
  kc_Create :: "NodeFlowConfig \<Rightarrow> ('k, unit) go"
  kc_ListPods :: "string \<Rightarrow> 'sel \<Rightarrow> 'k \<Rightarrow> Pod list outcome"
  kc_ListClusterFlowConfigs :: "string option \<Rightarrow> 'k \<Rightarrow> 'x ClusterFlowConfig list outcome"
  LabelSelectorAsSelector :: "'x LabelSelector option \<Rightarrow> 'sel outcome"
  selector_String :: "'sel \<Rightarrow> string"
  rule_Marshal :: "FlowRules \<Rightarrow> byte list option"
  rule_Sum :: "byte list \<Rightarrow> byte list"
  networks_of :: "string \<Rightarrow> NetworkStatus list outcome"

section \<open>Actions\<close>

definition getPodInterfaceNameFromRawExtension :: "RawExtension option \<Rightarrow> string outcome" where
  "getPodInterfaceNameFromRawExtension conf =
     (case conf of
        None \<Rightarrow> Err (Errorf ''action configuration is empty'')
      | Some c \<Rightarrow> obind (wrap_err ''unable to unmarshal action raw data''
                          (Unmarshal struct_fields ''ToPodInterfaceConf'' (Raw c)))
                   (\<lambda>fs. Ok (f_str fs ''podInterface'')))"

text \<open>
  The loop over the networks of a pod. \<^verbatim>\<open>DeviceInfo\<close> and its \<^verbatim>\<open>Pci\<close> are pointers that are dereferenced
  once the interface matches.
\<close>

primrec find_pci :: "string \<Rightarrow> NetworkStatus list \<Rightarrow> string outcome" where
  "find_pci interfaceName [] = Ok []"
| "find_pci interfaceName (network # networks) =
     (if ns_Interface network = interfaceName then
        obind (deref (ns_DeviceInfo network)) (\<lambda>d.
        if di_Type d = ''pci'' then deref (di_PciAddress d) else find_pci interfaceName networks)
      else find_pci interfaceName networks)"

definition network_status_key :: string where
  "network_status_key = ''k8s.v1.cni.cncf.io/network-status''"

definition getNodeActionForPodInterface ::
    "('x, 'sel, 'k) ClusterFlowConfigReconciler \<Rightarrow> RawExtension option \<Rightarrow> Pod option \<Rightarrow> FlowAction outcome" where
  "getNodeActionForPodInterface r conf pod =
     obind (getPodInterfaceNameFromRawExtension conf) (\<lambda>interfaceName.
     case pod of
       None \<Rightarrow> Err (Errorf ''pod object is nil'')
     | Some p \<Rightarrow>
         (case pod_Annotations p network_status_key of
            None \<Rightarrow> Err (Errorf ''pod does not contains network status'')
          | Some ann \<Rightarrow>
              obind (wrap_err ''failed to unmarshal data for pod'' (networks_of r ann)) (\<lambda>networks.
              obind (find_pci interfaceName networks) (\<lambda>pciAddr.
              if pciAddr = [] then Err (Errorf ''pod network status does not contains interface'')
              else Ok \<lparr>FlowAction_Type = RTE_FLOW_ACTION_TYPE_VFPCIADDR,
                       FlowAction_Conf = Some \<lparr>Raw = Some (JObj [(''addr'', JStr pciAddr)])\<rparr>\<rparr>))))"

definition getNodeAction ::
    "('x, 'sel, 'k) ClusterFlowConfigReconciler \<Rightarrow> Pod option \<Rightarrow> ClusterFlowAction \<Rightarrow> FlowAction outcome" where
  "getNodeAction r pod act =
     (if ClusterFlowActionType_String (cfa_Type act) = ClusterFlowActionToString ToPodInterface
      then getNodeActionForPodInterface r (cfa_Conf act) pod
      else Ok \<lparr>FlowAction_Type = (case RteFlowActionType_name (cfa_Type act) of Some n \<Rightarrow> n | None \<Rightarrow> []),
               FlowAction_Conf = cfa_Conf act\<rparr>)"

definition end_action :: FlowAction where
  "end_action = \<lparr>FlowAction_Type = ''RTE_FLOW_ACTION_TYPE_END'', FlowAction_Conf = None\<rparr>"

definition getNodeActionsFromClusterActions ::
    "('x, 'sel, 'k) ClusterFlowConfigReconciler \<Rightarrow> ClusterFlowAction list \<Rightarrow> Pod option \<Rightarrow> FlowAction list outcome" where
  "getNodeActionsFromClusterActions r actions pod =
     obind (omap (getNodeAction r pod) actions) (\<lambda>nodeActions.
     Ok (if 0 < length nodeActions then nodeActions @ [end_action] else nodeActions))"

section \<open>Rules of a node\<close>

definition getFlowRulesHash :: "('x, 'sel, 'k) ClusterFlowConfigReconciler \<Rightarrow> FlowRules \<Rightarrow> string option" where
  "getFlowRulesHash r rule =
     (case rule_Marshal r rule of None \<Rightarrow> None | Some reqBytes \<Rightarrow> Some (hex_Encode (rule_Sum r reqBytes)))"

definition nodeRule ::
    "('x, 'sel, 'k) ClusterFlowConfigReconciler \<Rightarrow> Pod \<Rightarrow> ClusterFlowRule \<Rightarrow> FlowRules outcome" where
  "nodeRule r pod rule =
     obind (getNodeActionsFromClusterActions r (cfr_Action rule) (Some pod)) (\<lambda>actions.
     Ok \<lparr>FlowRules_PortId = automaticPortId, FlowRules_Attr = cfr_Attr rule,
         FlowRules_Pattern = cfr_Pattern rule, FlowRules_Action = actions\<rparr>)"

text \<open>The variables of \<^verbatim>\<open>updateNodeFlowConfigSpec\<close>: the rules of the object, \<^verbatim>\<open>allHashes\<close> and the reconciler's map.\<close>

record upd_state =
  upd_Rules :: "FlowRules list"
  allHashes :: "string set"
  upd_Map :: hash_map

definition add_rule ::
    "('x, 'sel, 'k) ClusterFlowConfigReconciler \<Rightarrow> Pod \<Rightarrow> ClusterFlowRule \<Rightarrow> (upd_state, string) go" where
  "add_rule r pod rule =
     gbind (lift (nodeRule r pod rule)) (\<lambda>newRule.
     case getFlowRulesHash r newRule of
       None \<Rightarrow> lift (Err (Errorf ''Error getting flow rules hash''))
     | Some key \<Rightarrow> (\<lambda>u. (Ok key,
         if key \<in> allHashes u then u
         else u\<lparr>allHashes := insert key (allHashes u), upd_Rules := upd_Rules u @ [newRule]\<rparr>)))"

definition set_hashes :: "hash_map \<Rightarrow> NamespacedName \<Rightarrow> NamespacedName \<Rightarrow> string list \<Rightarrow> hash_map" where
  "set_hashes m cfc nfc hashes =
     m(cfc \<mapsto> (case m cfc of None \<Rightarrow> Map.empty | Some n \<Rightarrow> n)(nfc \<mapsto> hashes))"

definition add_config ::
    "('x, 'sel, 'k) ClusterFlowConfigReconciler \<Rightarrow> Pod \<Rightarrow> NamespacedName \<Rightarrow> 'x ClusterFlowConfig \<Rightarrow> (upd_state, unit) go" where
  "add_config r pod nfc clusterConfig =
     gbind (gmap (add_rule r pod) (cfc_Rules clusterConfig)) (\<lambda>hashes.
     modify (\<lambda>u. u\<lparr>upd_Map := set_hashes (upd_Map u) (cfc_Key clusterConfig) nfc hashes\<rparr>))"

definition updateNodeFlowConfigSpec ::
    "('x, 'sel, 'k) ClusterFlowConfigReconciler \<Rightarrow> Pod \<Rightarrow> NodeFlowConfig \<Rightarrow> 'x ClusterFlowConfig list \<Rightarrow> hash_map \<Rightarrow>
     unit outcome \<times> NodeFlowConfig \<times> hash_map" where
  "updateNodeFlowConfigSpec r pod nodeFlowConfig items m =
     (if items = [] then (Err (Errorf ''ClusterFlowConfig list is empty. Unable to gather rules''), nodeFlowConfig, m)
      else (case gfor (add_config r pod (nfc_Key nodeFlowConfig)) items
                   \<lparr>upd_Rules = [], allHashes = {}, upd_Map = m\<rparr> of
              (x, u) \<Rightarrow> (x, nodeFlowConfig\<lparr>nfc_Rules := upd_Rules u\<rparr>, upd_Map u)))"

section \<open>Removing the rules of a cluster configuration\<close>

text \<open>
  The loop of \<^verbatim>\<open>cleanNodeFlowConfig\<close> over the rules writes the rules it keeps into the slice it reads
  (\<open>xs\<close>), at \<^verbatim>\<open>index\<close>; \<open>i\<close> is the position of the range.
\<close>

function compact :: "(FlowRules \<Rightarrow> bool) \<Rightarrow> FlowRules list \<Rightarrow> nat \<Rightarrow> nat \<Rightarrow> FlowRules list \<times> nat" where
  "compact keep xs i index =
     (if i < length xs then
        (if keep (xs ! i) then compact keep (xs[index := xs ! i]) (Suc i) (Suc index)
         else compact keep xs (Suc i) index)
      else (xs, index))"
  by pat_completeness auto
termination
  by (relation "measure (\<lambda>(keep, xs, i, index). length xs - i)") auto

definition cleanRules :: "('x, 'sel, 'k) ClusterFlowConfigReconciler \<Rightarrow> string list \<Rightarrow> FlowRules list \<Rightarrow> FlowRules list" where
  "cleanRules r hashes rules =
     (case compact (\<lambda>rule. case getFlowRulesHash r rule of None \<Rightarrow> False | Some key \<Rightarrow> key \<notin> set hashes) rules 0 0 of
        (xs, index) \<Rightarrow> take index xs)"

definition on_kube :: "('k, 'a) go \<Rightarrow> ('k cfc_state, 'a) go" where
  "on_kube f s = (case f (kube s) of (x, k) \<Rightarrow> (x, s\<lparr>kube := k\<rparr>))"

definition clean_one ::
    "('x, 'sel, 'k) ClusterFlowConfigReconciler \<Rightarrow> NamespacedName \<Rightarrow> string list \<Rightarrow> ('k cfc_state, unit) go" where
  "clean_one r config hashes =
     gbind (reading (\<lambda>s. kc_Get r config (kube s))) (\<lambda>got.
     case got of
       Panic p \<Rightarrow> lift (Panic p)
     | Err e \<Rightarrow> ret ()
     | Ok object \<Rightarrow>
         gbind (attempt (on_kube (kc_Update r (object\<lparr>nfc_Rules := cleanRules r hashes (nfc_Rules object)\<rparr>)))) (\<lambda>res.
         if res = Err Conflict then lift (Err Conflict) else ret ()))"

definition cleanNodeFlowConfig ::
    "('x, 'sel, 'k) ClusterFlowConfigReconciler \<Rightarrow> (NamespacedName set \<Rightarrow> NamespacedName list) \<Rightarrow> NamespacedName \<Rightarrow>
     ('k cfc_state, unit) go" where
  "cleanNodeFlowConfig r ro req =
     gbind (reading (\<lambda>s. Cluster2NodeRulesHashMap s req)) (\<lambda>nodeConfigs.
     gbind (case nodeConfigs of
              None \<Rightarrow> ret ()
            | Some m \<Rightarrow> gfor (\<lambda>config. case m config of None \<Rightarrow> ret () | Some hashes \<Rightarrow> clean_one r config hashes) (ro (dom m))) (\<lambda>_.
     modify (\<lambda>s. s\<lparr>Cluster2NodeRulesHashMap := (Cluster2NodeRulesHashMap s)(req := None)\<rparr>)))"

section \<open>Synchronising the nodes\<close>

definition getPodsForPodSelector ::
    "('x, 'sel, 'k) ClusterFlowConfigReconciler \<Rightarrow> 'x ClusterFlowConfig \<Rightarrow> ('k cfc_state, Pod list) go" where
  "getPodsForPodSelector r inst =
     gbind (lift (LabelSelectorAsSelector r (cfc_PodSelector inst))) (\<lambda>selector.
     gbind (reading (\<lambda>s. kc_ListPods r (Namespace (cfc_Key inst)) selector (kube s))) lift)"

text \<open>A configuration whose selector does not convert is left out.\<close>

definition getClusterFlowConfigsForPodSelector ::
    "('x, 'sel, 'k) ClusterFlowConfigReconciler \<Rightarrow> 'x ClusterFlowConfig \<Rightarrow> ('k cfc_state, 'x ClusterFlowConfig list) go" where
  "getClusterFlowConfigsForPodSelector r inst =
     gbind (lift (LabelSelectorAsSelector r (cfc_PodSelector inst))) (\<lambda>selector.
     gbind (reading (\<lambda>s. kc_ListClusterFlowConfigs r (Some (Namespace (cfc_Key inst))) (kube s))) (\<lambda>got.
     gbind (lift got) (\<lambda>items.
     ret (filter (\<lambda>cr. case LabelSelectorAsSelector r (cfc_PodSelector cr) of
                         Ok insideSelector \<Rightarrow> selector_String r insideSelector = selector_String r selector
                       | _ \<Rightarrow> False) items))))"

definition getNodeFlowConfig ::
    "('x, 'sel, 'k) ClusterFlowConfigReconciler \<Rightarrow> string \<Rightarrow> string \<Rightarrow> (string \<rightharpoonup> NodeFlowConfig) \<Rightarrow> 'k \<Rightarrow> NodeFlowConfig outcome" where
  "getNodeFlowConfig r nodeName' namespace nodes k =
     (case nodes nodeName' of
        Some c \<Rightarrow> Ok c
      | None \<Rightarrow>
          (let name = \<lparr>Namespace = namespace, Name = nodeName'\<rparr> in
           case kc_Get r name k of
             Ok c \<Rightarrow> Ok c
           | Err e \<Rightarrow> (if e = NotFound then Ok \<lparr>nfc_Key = name, nfc_Rules = [], nfc_PortInfo = None\<rparr> else Err e)
           | Panic p \<Rightarrow> Panic p))"

text \<open>
  The body of the loop over the pods; the state is the map of nodes with the reconciler's state.
  A failed update is skipped, but the object it changed may be the one the map already points to.
\<close>

definition sync_pod ::
    "('x, 'sel, 'k) ClusterFlowConfigReconciler \<Rightarrow> string \<Rightarrow> 'x ClusterFlowConfig list \<Rightarrow> Pod \<Rightarrow>
     ((string \<rightharpoonup> NodeFlowConfig) \<times> 'k cfc_state, unit) go" where
  "sync_pod r namespace items pod = (\<lambda>(nodes, s).
     if pod_NodeName pod = [] then (Ok (), (nodes, s))
     else (case getNodeFlowConfig r (pod_NodeName pod) namespace nodes (kube s) of
             Panic p \<Rightarrow> (Panic p, (nodes, s))
           | Err e \<Rightarrow> (Ok (), (nodes, s))
           | Ok c \<Rightarrow>
               (case updateNodeFlowConfigSpec r pod c items (Cluster2NodeRulesHashMap s) of
                  (Ok _, c', m) \<Rightarrow> (Ok (), (nodes(pod_NodeName pod \<mapsto> c'), s\<lparr>Cluster2NodeRulesHashMap := m\<rparr>))
                | (Err e, c', m) \<Rightarrow>
                    (Ok (), ((if nodes (pod_NodeName pod) = None then nodes else nodes(pod_NodeName pod \<mapsto> c')),
                             s\<lparr>Cluster2NodeRulesHashMap := m\<rparr>))
                | (Panic p, c', m) \<Rightarrow> (Panic p, (nodes, s\<lparr>Cluster2NodeRulesHashMap := m\<rparr>)))))"

definition createOrUpdate_one ::
    "('x, 'sel, 'k) ClusterFlowConfigReconciler \<Rightarrow> NodeFlowConfig \<Rightarrow> ('k cfc_state, unit) go" where
  "createOrUpdate_one r nodeConfig =
     gbind (reading (\<lambda>s. kc_Get r (nfc_Key nodeConfig) (kube s))) (\<lambda>got.
     case got of
       Panic p \<Rightarrow> lift (Panic p)
     | Ok _ \<Rightarrow> gbind (attempt (on_kube (kc_Update r nodeConfig))) (\<lambda>_. ret ())
     | Err _ \<Rightarrow> gbind (attempt (on_kube (kc_Create r nodeConfig))) (\<lambda>_. ret ()))"

definition createOrUpdateNodeFlowConfigs ::
    "('x, 'sel, 'k) ClusterFlowConfigReconciler \<Rightarrow> (string set \<Rightarrow> string list) \<Rightarrow> (string \<rightharpoonup> NodeFlowConfig) \<Rightarrow> ('k cfc_state, unit) go" where
  "createOrUpdateNodeFlowConfigs r ro nodes =
     gfor (\<lambda>nodeName'. case nodes nodeName' of None \<Rightarrow> ret () | Some nodeConfig \<Rightarrow> createOrUpdate_one r nodeConfig) (ro (dom nodes))"

definition sync_pods ::
    "('x, 'sel, 'k) ClusterFlowConfigReconciler \<Rightarrow> string \<Rightarrow> 'x ClusterFlowConfig list \<Rightarrow> Pod list \<Rightarrow>
     ('k cfc_state, string \<rightharpoonup> NodeFlowConfig) go" where
  "sync_pods r namespace items pods s =
     (case gfor (sync_pod r namespace items) pods (Map.empty, s) of
        (Ok _, (nodes, s')) \<Rightarrow> (Ok nodes, s')
      | (Err e, (nodes, s')) \<Rightarrow> (Err e, s')
      | (Panic p, (nodes, s')) \<Rightarrow> (Panic p, s'))"

definition syncClusterConfigForNodes ::
    "('x, 'sel, 'k) ClusterFlowConfigReconciler \<Rightarrow> (NamespacedName set \<Rightarrow> NamespacedName list) \<Rightarrow> (string set \<Rightarrow> string list) \<Rightarrow>
     'x ClusterFlowConfig \<Rightarrow> NamespacedName \<Rightarrow> ('k cfc_state, unit) go" where
  "syncClusterConfigForNodes r ro ro' inst req =
     gbind (getPodsForPodSelector r inst) (\<lambda>podList.
     if length podList = 0 then cleanNodeFlowConfig r ro req
     else gbind (getClusterFlowConfigsForPodSelector r inst) (\<lambda>clusterFlowList.
          gbind (sync_pods r (Namespace (cfc_Key inst)) clusterFlowList podList) (\<lambda>nodes.
          createOrUpdateNodeFlowConfigs r ro' nodes)))"

definition ClusterFlowConfig_Reconcile ::
    "('x, 'sel, 'k) ClusterFlowConfigReconciler \<Rightarrow> (NamespacedName set \<Rightarrow> NamespacedName list) \<Rightarrow> (string set \<Rightarrow> string list) \<Rightarrow>
     NamespacedName \<Rightarrow> 'x ClusterFlowConfig outcome \<Rightarrow> ('k cfc_state, unit) go" where
  "ClusterFlowConfig_Reconcile r ro ro' req got =
     (case got of
        Panic p \<Rightarrow> lift (Panic p)
      | Err e \<Rightarrow> (if e = NotFound then cleanNodeFlowConfig r ro req else lift (Err e))
      | Ok inst \<Rightarrow> syncClusterConfigForNodes r ro ro' inst req)"

section \<open>Pods and events\<close>

text \<open>The counter of \<^verbatim>\<open>mapPodsToRequests\<close>: labels are compared in the order \<open>ks\<close> until one does not match.\<close>

primrec match_count :: "(string \<rightharpoonup> string) \<Rightarrow> (string \<rightharpoonup> string) \<Rightarrow> string list \<Rightarrow> nat" where
  "match_count podLabels selectorLabels [] = 0"
| "match_count podLabels selectorLabels (k # ks) =
     (case podLabels k of
        None \<Rightarrow> 0
      | Some valPod \<Rightarrow> (if Some valPod \<noteq> selectorLabels k then 0
                        else Suc (match_count podLabels selectorLabels ks)))"

definition pod_request :: "(string set \<Rightarrow> string list) \<Rightarrow> Pod \<Rightarrow> 'x ClusterFlowConfig \<Rightarrow> NamespacedName list outcome" where
  "pod_request ro pod inst =
     obind (deref (cfc_PodSelector inst)) (\<lambda>sel.
     Ok (if card (dom (MatchLabels sel)) = match_count (pod_Labels pod) (MatchLabels sel) (ro (dom (MatchLabels sel)))
         then [cfc_Key inst] else []))"

text \<open>\<open>object\<close> is \<open>None\<close> when it is not a pod.\<close>

definition mapPodsToRequests ::
    "('x, 'sel, 'k) ClusterFlowConfigReconciler \<Rightarrow> (string set \<Rightarrow> string list) \<Rightarrow> Pod option \<Rightarrow> 'k \<Rightarrow> NamespacedName list outcome" where
  "mapPodsToRequests r ro object k =
     (case object of
        None \<Rightarrow> Ok []
      | Some pod \<Rightarrow>
          (case kc_ListClusterFlowConfigs r None k of
             Panic p \<Rightarrow> Panic p
           | Err e \<Rightarrow> Ok []
           | Ok items \<Rightarrow> obind (omap (pod_request ro pod) items) (\<lambda>rs. Ok (concat rs))))"

datatype 'x watched = WPod Pod | WClusterFlowConfig "'x ClusterFlowConfig"

definition pod_CreateFunc :: "'x watched \<Rightarrow> bool" where
  "pod_CreateFunc e = (case e of WClusterFlowConfig _ \<Rightarrow> True | WPod _ \<Rightarrow> False)"

definition pod_DeleteFunc :: "'x watched \<Rightarrow> bool" where
  "pod_DeleteFunc e = True"

definition pod_UpdateFunc :: "'x watched \<Rightarrow> 'x watched \<Rightarrow> bool" where
  "pod_UpdateFunc old new =
     (case (old, new) of
        (WPod oldPod, WPod newPod) \<Rightarrow>
          pod_Phase newPod = ''Running'' \<and>
          (pod_Phase oldPod = ''Pending'' \<or> pod_Labels newPod \<noteq> pod_Labels oldPod \<or>
           pod_Annotations newPod \<noteq> pod_Annotations oldPod)
      | (WClusterFlowConfig _, WClusterFlowConfig _) \<Rightarrow> True
      | _ \<Rightarrow> False)"

definition pod_GenericFunc :: "'x watched \<Rightarrow> bool" where
  "pod_GenericFunc e = False"

end
