(* ===== verification/Go_Order.thy ===== *)
theory Go_Order
  imports Go_Prelude "HOL-Library.List_Lexorder" "HOL-Library.Char_ord"
begin

text \<open>
  One order in which a map with string keys can be visited: the lexicographic order of its keys, used
  where a concrete order is evaluated.
\<close>

definition sorted_order :: "string set \<Rightarrow> string list" where
  "sorted_order = sorted_list_of_set"

lemma sorted_order_valid: "valid_order sorted_order"
  by (simp add: valid_order_def sorted_order_def)

lemma sorted_order_simps [simp]: "sorted_order {} = []" "sorted_order {k} = [k]"
  by (simp_all add: sorted_order_def)

end
