(* ===== verification/Node_Flow_Facts.thy ===== *)
theory Node_Flow_Facts
  imports Node_Flow_Controller Go_Order
begin

text \<open>
  What the node controller guarantees: the set of flows it keeps, the calls it makes and their order,
  the invariant of its cache on every path, and how its requests follow from the rules.
\<close>

section \<open>What to add and what to delete\<close>

lemma collect_reqs_keys: "fst (collect_reqs r fs reqs acc) = fst acc @ map (key_of r) reqs"
  by (induction reqs arbitrary: acc) (auto simp: Let_def)

lemma collect_reqs_dom:
  "dom (snd (collect_reqs r fs reqs acc)) =
     dom (snd acc) \<union> {k \<in> key_of r ` set reqs. k \<noteq> [] \<and> \<not> FlowSets_Has fs k}"
  by (induction reqs arbitrary: acc) (auto simp: Let_def)

lemma collect_reqs_value:
  "snd (collect_reqs r fs reqs acc) k = Some q \<Longrightarrow>
     snd acc k = Some q \<or> q \<in> set reqs \<and> key_of r q = k \<and> k \<noteq> [] \<and> \<not> FlowSets_Has fs k"
proof (induction reqs arbitrary: acc)
  case Nil
  then show ?case by simp
next
  case (Cons x xs)
  show ?case
    using Cons.prems Cons.IH by (auto simp: Let_def split: if_splits dest!: Cons.IH)
qed

lemma getToAddAndDelete_eq:
  "getToAddAndDelete r fs reqs =
     (snd (collect_reqs r fs reqs ([], Map.empty)), fs_map fs |` (- key_of r ` set reqs))"
  by (simp add: getToAddAndDelete_def fs_map_GetCompliments collect_reqs_keys [of r fs reqs "([], Map.empty)", simplified]
      split: prod.splits) (metis collect_reqs_keys append_Nil fst_conv list.set_map)

lemma toAdd_dom:
  "getToAddAndDelete r fs reqs = (toAdd, toDelete) \<Longrightarrow>
     dom toAdd = {k \<in> key_of r ` set reqs. k \<noteq> [] \<and> \<not> FlowSets_Has fs k}"
  using collect_reqs_dom [of r fs reqs "([], Map.empty)"] by (auto simp: getToAddAndDelete_eq)

lemma toAdd_value:
  "getToAddAndDelete r fs reqs = (toAdd, toDelete) \<Longrightarrow> toAdd k = Some q \<Longrightarrow>
     q \<in> set reqs \<and> key_of r q = k \<and> k \<noteq> [] \<and> \<not> FlowSets_Has fs k"
  using collect_reqs_value [of r fs reqs "([], Map.empty)" k q] by (auto simp: getToAddAndDelete_eq)

lemma toDelete_eq:
  "getToAddAndDelete r fs reqs = (toAdd, toDelete) \<Longrightarrow> toDelete = fs_map fs |` (- key_of r ` set reqs)"
  by (auto simp: getToAddAndDelete_eq)

section \<open>Successful runs of the two loops\<close>

definition del_req :: "'any FlowCreateRecord \<Rightarrow> RequestFlowofPort" where
  "del_req fr = \<lparr>del_PortId = req_PortId (FlowRule fr), del_FlowId = FlowID fr\<rparr>"

lemma remote_eq:
  "remote c f s = (x, s') \<longleftrightarrow> (\<exists>d. f (dcf s) = (x, d) \<and> s' = s\<lparr>dcf := d, calls := calls s @ [c]\<rparr>)"
  by (auto simp: remote_def split: prod.splits)

lemma deleteRule_Ok:
  assumes "deleteRule r k fr s = (Ok (), s')"
  shows "flowSets s' = FlowSets_Delete (flowSets s) k \<and> calls s' = calls s @ [CallDestroy (del_req fr)]"
proof -
  from assms obtain res s1 where "attempt (remote (CallDestroy (del_req fr)) (Destroy (flowClient r) (del_req fr))) s = (Ok res, s1)"
    and "(case res of Err e \<Rightarrow> lift (Panic ''nil pointer dereference'')
      | _ \<Rightarrow> modify (\<lambda>s. s\<lparr>flowSets := FlowSets_Delete (flowSets s) k\<rparr>)) s1 = (Ok (), s')"
    by (auto simp: deleteRule_def Let_def gbind_Ok_iff del_req_def)
  then show ?thesis
    by (cases res) (auto simp: attempt_eq remote_eq)
qed

lemma createRule_Ok:
  assumes "createRule r k req s = (Ok (), s')"
  shows "\<exists>i. flowSets s' = FlowSets_Add (flowSets s) k i req \<and>
    calls s' = calls s @ [CallValidate req, CallCreate req]"
  using assms
  by (auto simp: createRule_def gbind_Ok_iff remote_eq split: if_splits)

lemma delete_loop_Ok:
  assumes "over_map m (deleteRule r) ks s = (Ok (), s')" and "set ks \<subseteq> dom m"
  shows "flowSets s' = fold (\<lambda>k fs. FlowSets_Delete fs k) ks (flowSets s) \<and>
    calls s' = calls s @ map (\<lambda>k. CallDestroy (del_req (the (m k)))) ks"
  using assms
proof (induction ks arbitrary: s)
  case Nil
  then show ?case by (simp add: over_map_def)
next
  case (Cons k ks)
  from Cons.prems(2) obtain fr where fr: "m k = Some fr" by auto
  with Cons.prems(1) obtain s1 where s1: "deleteRule r k fr s = (Ok (), s1)"
    and rest: "over_map m (deleteRule r) ks s1 = (Ok (), s')"
    by (auto simp: over_map_def gbind_Ok_iff)
  from Cons.IH [OF rest] Cons.prems(2) deleteRule_Ok [OF s1] fr show ?case by simp
qed

lemma create_loop_Ok:
  assumes "over_map m (createRule r) ks s = (Ok (), s')" and "set ks \<subseteq> dom m" and "distinct ks"
  shows "\<exists>g :: string \<Rightarrow> _ FlowCreateRecord. (\<forall>k \<in> set ks. FlowRule (g k) = the (m k)) \<and>
    flowSets s' = fold (\<lambda>k fs. FlowSets_Add fs k (FlowID (g k)) (FlowRule (g k))) ks (flowSets s) \<and>
    calls s' = calls s @ concat (map (\<lambda>k. [CallValidate (the (m k)), CallCreate (the (m k))]) ks)"
  using assms
proof (induction ks arbitrary: s)
  case Nil
  then show ?case by (auto simp: over_map_def)
next
  case (Cons k ks)
  from Cons.prems(2) obtain req where req: "m k = Some req" by auto
  with Cons.prems(1) obtain s1 where s1: "createRule r k req s = (Ok (), s1)"
    and rest: "over_map m (createRule r) ks s1 = (Ok (), s')"
    by (auto simp: over_map_def gbind_Ok_iff)
  obtain i where i: "flowSets s1 = FlowSets_Add (flowSets s) k i req"
      "calls s1 = calls s @ [CallValidate req, CallCreate req]"
    using createRule_Ok [OF s1] by blast
  have sub: "set ks \<subseteq> dom m" and dist: "distinct ks" and k: "k \<notin> set ks"
    using Cons.prems(2,3) by simp_all
  from Cons.IH [OF rest sub dist] obtain g :: "string \<Rightarrow> _ FlowCreateRecord" where g: "\<forall>j \<in> set ks. FlowRule (g j) = the (m j)"
      "flowSets s' = fold (\<lambda>k fs. FlowSets_Add fs k (FlowID (g k)) (FlowRule (g k))) ks (flowSets s1)"
      "calls s' = calls s1 @ concat (map (\<lambda>k. [CallValidate (the (m k)), CallCreate (the (m k))]) ks)"
    by (elim exE conjE)
  let ?g = "g(k := newFlowCreateRecord i req)"
  have cong: "fold (\<lambda>k fs. FlowSets_Add fs k (FlowID (?g k)) (FlowRule (?g k))) ks fs0 =
      fold (\<lambda>k fs. FlowSets_Add fs k (FlowID (g k)) (FlowRule (g k))) ks fs0" for fs0
    using k by (intro fold_cong) auto
  have "flowSets s' = fold (\<lambda>k fs. FlowSets_Add fs k (FlowID (?g k)) (FlowRule (?g k))) (k # ks) (flowSets s)"
    using g(2) i(1) cong by (simp add: newFlowCreateRecord_def)
  moreover have "\<forall>j \<in> set (k # ks). FlowRule (?g j) = the (m j)"
    using g(1) k req by (simp add: newFlowCreateRecord_def)
  moreover have "calls s' = calls s @ concat (map (\<lambda>k. [CallValidate (the (m k)), CallCreate (the (m k))]) (k # ks))"
    using g(3) i(2) req by simp
  ultimately show ?case by (intro exI [of _ ?g] conjI)
qed

section \<open>The two loops together\<close>

definition destroy_calls :: "(string \<rightharpoonup> 'any FlowCreateRecord) \<Rightarrow> string list \<Rightarrow> 'any dcf_call list" where
  "destroy_calls m ks = map (\<lambda>k. CallDestroy (del_req (the (m k)))) ks"

definition create_calls :: "(string \<rightharpoonup> 'any RequestFlowCreate) \<Rightarrow> string list \<Rightarrow> 'any dcf_call list" where
  "create_calls m ks = concat (map (\<lambda>k. [CallValidate (the (m k)), CallCreate (the (m k))]) ks)"

abbreviation cached :: "('any, 'd) nfc_state \<Rightarrow> string \<rightharpoonup> 'any FlowCreateRecord" where
  "cached s \<equiv> fs_map (flowSets s)"

lemma createAndDelete_Ok:
  assumes ord: "valid_order ro" and fin: "finite (dom toAdd)" "finite (dom toDelete)"
    and ok: "createAndDeleteRules r ro toAdd toDelete s = (Ok (), s')"
  shows "\<exists>g :: string \<Rightarrow> _ FlowCreateRecord. (\<forall>k \<in> dom toAdd. FlowRule (g k) = the (toAdd k)) \<and>
    flowSets s' = fold (\<lambda>k fs. FlowSets_Add fs k (FlowID (g k)) (FlowRule (g k))) (ro (dom toAdd))
      (fold (\<lambda>k fs. FlowSets_Delete fs k) (ro (dom toDelete)) (flowSets s)) \<and>
    calls s' = calls s @ destroy_calls toDelete (ro (dom toDelete)) @ create_calls toAdd (ro (dom toAdd))"
proof -
  from ok obtain s1 where d: "over_map toDelete (deleteRule r) (ro (dom toDelete)) s = (Ok (), s1)"
    and c: "over_map toAdd (createRule r) (ro (dom toAdd)) s1 = (Ok (), s')"
    by (auto simp: createAndDeleteRules_def deleteRules_def createRules_def gbind_Ok_iff)
  note od = valid_orderD [OF ord fin(2)] and oa = valid_orderD [OF ord fin(1)]
  have del: "flowSets s1 = fold (\<lambda>k fs. FlowSets_Delete fs k) (ro (dom toDelete)) (flowSets s)"
      "calls s1 = calls s @ destroy_calls toDelete (ro (dom toDelete))"
    using delete_loop_Ok [OF d] od by (simp_all add: destroy_calls_def)
  from create_loop_Ok [OF c] oa obtain g :: "string \<Rightarrow> _ FlowCreateRecord" where
    "\<forall>k \<in> set (ro (dom toAdd)). FlowRule (g k) = the (toAdd k)"
    "flowSets s' = fold (\<lambda>k fs. FlowSets_Add fs k (FlowID (g k)) (FlowRule (g k))) (ro (dom toAdd)) (flowSets s1)"
    "calls s' = calls s1 @ create_calls toAdd (ro (dom toAdd))"
    by (auto simp: create_calls_def)
  then show ?thesis
    using del oa by (intro exI [of _ g]) simp
qed

lemma finite_toAdd: "getToAddAndDelete r fs reqs = (toAdd, toDelete) \<Longrightarrow> finite (dom toAdd)"
  by (simp add: toAdd_dom)

lemma finite_toDelete:
  "getToAddAndDelete r fs reqs = (toAdd, toDelete) \<Longrightarrow> finite (dom (fs_map fs)) \<Longrightarrow> finite (dom toDelete)"
  by (drule toDelete_eq) (simp add: dom_restrict)

text \<open>The keys are usable when every request has a hash.\<close>

definition hashes_ok :: "('any, 'd) NodeFlowConfigReconciler \<Rightarrow> bool" where
  "hashes_ok r \<longleftrightarrow> (\<forall>req. json_Marshal r req \<noteq> None) \<and> (\<forall>b. sha256_Sum r b \<noteq> [])"

lemma key_of_nonempty: "hashes_ok r \<Longrightarrow> key_of r req \<noteq> []"
  by (auto simp: key_of_def getFlowCreateHash_def hashes_ok_def split: option.splits)

lemma sync_requests_Ok:
  assumes ord: "valid_order ro" and fin: "finite (dom (cached s))" and keys: "hashes_ok r"
    and ta: "getToAddAndDelete r (flowSets s) reqs = (toAdd, toDelete)"
    and ok: "createAndDeleteRules r ro toAdd toDelete s = (Ok (), s')"
  shows "dom (cached s') = key_of r ` set reqs"
    and "k \<in> key_of r ` set reqs \<Longrightarrow> k \<in> dom (cached s) \<Longrightarrow> cached s' k = cached s k"
    and "toAdd k = Some q \<Longrightarrow> \<exists>i. cached s' k = Some \<lparr>FlowID = i, FlowRule = q\<rparr>"
    and "calls s' = calls s @ destroy_calls toDelete (ro (dom toDelete)) @ create_calls toAdd (ro (dom toAdd))"
proof -
  let ?ks = "map (key_of r) reqs"
  note fa = finite_toAdd [OF ta] and fd = finite_toDelete [OF ta fin]
  obtain g :: "string \<Rightarrow> _ FlowCreateRecord" where g: "\<forall>k \<in> dom toAdd. FlowRule (g k) = the (toAdd k)"
    and fs: "flowSets s' = fold (\<lambda>k fs. FlowSets_Add fs k (FlowID (g k)) (FlowRule (g k))) (ro (dom toAdd))
      (fold (\<lambda>k fs. FlowSets_Delete fs k) (ro (dom toDelete)) (flowSets s))"
    and calls: "calls s' = calls s @ destroy_calls toDelete (ro (dom toDelete)) @ create_calls toAdd (ro (dom toAdd))"
    using createAndDelete_Ok [OF ord fa fd ok] by blast
  have td: "set (ro (dom toDelete)) = dom (FlowSets_GetCompliments (flowSets s) ?ks)"
    using valid_orderD [OF ord fd] by (simp add: toDelete_eq [OF ta] fs_map_GetCompliments)
  have tad: "set (ro (dom toAdd)) = set ?ks - dom (cached s)"
    using valid_orderD [OF ord fa] key_of_nonempty [OF keys]
    by (auto simp: toAdd_dom [OF ta] FlowSets_Has_def)
  show "dom (cached s') = key_of r ` set reqs"
    using fc.sync_keys [OF td tad, of g] fs by simp
  show "cached s' k = cached s k" if "k \<in> key_of r ` set reqs" "k \<in> dom (cached s)"
    using fc.sync_keeps_old [OF td, of k g "ro (dom toAdd)"] that fs by simp
  show "\<exists>i. cached s' k = Some \<lparr>FlowID = i, FlowRule = q\<rparr>" if "toAdd k = Some q"
  proof -
    have "k \<notin> dom (cached s)" and mem: "k \<in> set (ro (dom toAdd))"
      using that tad valid_orderD [OF ord fa] by auto
    then have "k \<notin> dom (fs_map (fold (\<lambda>k fs. FlowSets_Delete fs k) (ro (dom toDelete)) (flowSets s)))"
      using fc.contents_del_all [of "ro (dom toDelete)" "flowSets s"] by (auto simp: restrict_map_def split: if_splits)
    with mem have "cached s' k = Some (g k)"
      unfolding fs by (rule fc.contents_add_all_new)
    moreover have "FlowRule (g k) = q"
      using g domI [of toAdd k q] that by simp
    ultimately show ?thesis by (intro exI [of _ "FlowID (g k)"]) (cases "g k", simp)
  qed
  show "calls s' = calls s @ destroy_calls toDelete (ro (dom toDelete)) @ create_calls toAdd (ro (dom toAdd))"
    by (rule calls)
qed

section \<open>Building requests does not touch the cache\<close>

lemma keeps_remote: "keeps (\<lambda>s. P (flowSets s)) (remote c f)"
  by (auto simp: keeps_def remote_def split: prod.splits)

lemma keeps_listDCFPorts: "keeps (\<lambda>s. P (flowSets s)) (listDCFPorts r)"
  unfolding listDCFPorts_def by (intro keeps_intros keeps_remote)

lemma keeps_getFlowCreateRequests: "keeps (\<lambda>s. P (flowSets s)) (getFlowCreateRequests r fr)"
  unfolding getFlowCreateRequests_def getPortIdFromDCFPort_def
  by (auto intro!: keeps_intros keeps_listDCFPorts split: prod.splits)

lemma requests_keep_cache:
  "gmap (getFlowCreateRequests r) rules s = (x, s1) \<Longrightarrow> flowSets s1 = flowSets s"
  using keepsD [OF keeps_gmap [of rules "\<lambda>t. flowSets t = flowSets s" "getFlowCreateRequests r"]]
    keeps_getFlowCreateRequests [of "\<lambda>fs. fs = flowSets s" r] by blast

section \<open>The invariant of the cache\<close>

definition cache_ok :: "('any, 'd) NodeFlowConfigReconciler \<Rightarrow> 'any FlowSets \<Rightarrow> bool" where
  "cache_ok r fs \<longleftrightarrow> finite (dom (fs_map fs)) \<and>
     (\<forall>k rec. fs_map fs k = Some rec \<longrightarrow> key_of r (FlowRule rec) = k \<and> k \<noteq> [])"

lemma cache_ok_Add:
  "cache_ok r fs \<Longrightarrow> key_of r q = k \<Longrightarrow> k \<noteq> [] \<Longrightarrow> cache_ok r (FlowSets_Add fs k i q)"
  by (auto simp: cache_ok_def newFlowCreateRecord_def split: if_splits)

lemma cache_ok_Delete: "cache_ok r fs \<Longrightarrow> cache_ok r (FlowSets_Delete fs k)"
  by (auto simp: cache_ok_def split: if_splits)

lemma keeps_deleteRule: "keeps (\<lambda>s. cache_ok r (flowSets s)) (deleteRule r k fr)"
  unfolding deleteRule_def Let_def
  by (auto intro!: keeps_intros keeps_remote cache_ok_Delete split: outcome.splits)

lemma keeps_createRule:
  "key_of r q = k \<Longrightarrow> k \<noteq> [] \<Longrightarrow> keeps (\<lambda>s. cache_ok r (flowSets s)) (createRule r k q)"
  unfolding createRule_def
  by (auto intro!: keeps_intros keeps_remote cache_ok_Add)

lemma keeps_deleteRules: "keeps (\<lambda>s. cache_ok r (flowSets s)) (deleteRules r ro m)"
  unfolding deleteRules_def over_map_def
  by (auto intro!: keeps_intros keeps_deleteRule split: option.splits)

lemma keeps_createRules:
  "\<forall>k q. m k = Some q \<longrightarrow> key_of r q = k \<and> k \<noteq> [] \<Longrightarrow>
     keeps (\<lambda>s. cache_ok r (flowSets s)) (createRules r ro m)"
  unfolding createRules_def over_map_def
  by (intro keeps_gfor) (auto intro: keeps_ret keeps_createRule split: option.split)

lemma keeps_syncRules:
  fixes r :: "('any, 'd) NodeFlowConfigReconciler"
  shows "keeps (\<lambda>s. cache_ok r (flowSets s)) (syncRules r ro p)"
proof -
  have step: "keeps (\<lambda>s. cache_ok r (flowSets s))
      (\<lambda>s. createAndDeleteRules r ro (fst (getToAddAndDelete r (flowSets s) reqs)) (snd (getToAddAndDelete r (flowSets s) reqs)) s)"
    for reqs
  proof (rule keepsI)
    fix s s' :: "('any, 'd) nfc_state" and x
    let ?a = "fst (getToAddAndDelete r (flowSets s) reqs)" and ?d = "snd (getToAddAndDelete r (flowSets s) reqs)"
    assume inv: "cache_ok r (flowSets s)" and run: "createAndDeleteRules r ro ?a ?d s = (x, s')"
    have "keeps (\<lambda>s. cache_ok r (flowSets s)) (createAndDeleteRules r ro ?a ?d)"
      unfolding createAndDeleteRules_def
      by (intro keeps_intros keeps_deleteRules keeps_createRules) (auto dest: toAdd_value [OF surjective_pairing])
    from keepsD [OF this inv run] show "cache_ok r (flowSets s')" .
  qed
  have eq: "gbind (reading (\<lambda>s. getToAddAndDelete r (flowSets s) reqs)) (\<lambda>(a, d). createAndDeleteRules r ro a d) =
      (\<lambda>s. createAndDeleteRules r ro (fst (getToAddAndDelete r (flowSets s) reqs)) (snd (getToAddAndDelete r (flowSets s) reqs)) s)"
    for reqs by (rule ext) (simp add: gbind_def reading_def split_beta)
  show ?thesis
    unfolding syncRules_def eq by (intro keeps_intros keeps_getFlowCreateRequests step)
qed

lemma keeps_Reconcile: "keeps (\<lambda>s. cache_ok r (flowSets s)) (NodeFlowConfig_Reconcile r ro got)"
  unfolding NodeFlowConfig_Reconcile_def deleteAllRules_def syncFlowConfig_def updateStatus_def
  by (auto intro!: keeps_intros keeps_deleteRules keeps_syncRules keeps_listDCFPorts split: outcome.splits)

section \<open>Deleting everything\<close>

definition destroy_ok :: "('any, 'd) NodeFlowConfigReconciler \<Rightarrow> bool" where
  "destroy_ok r \<longleftrightarrow> (\<forall>q d. \<exists>res d'. Destroy (flowClient r) q d = (Ok res, d'))"

lemma deleteRule_total: "destroy_ok r \<Longrightarrow> \<exists>s'. deleteRule r k fr s = (Ok (), s')"
proof -
  assume "destroy_ok r"
  then obtain res d where "Destroy (flowClient r) (del_req fr) (dcf s) = (Ok res, d)"
    unfolding destroy_ok_def by blast
  then show ?thesis
    by (simp add: deleteRule_def Let_def del_req_def gbind_def attempt_def remote_def)
qed

lemma delete_loop_total: "destroy_ok r \<Longrightarrow> \<exists>s'. over_map m (deleteRule r) ks s = (Ok (), s')"
proof (induction ks arbitrary: s)
  case Nil
  then show ?case by (simp add: over_map_def)
next
  case (Cons k ks)
  show ?case
  proof (cases "m k")
    case None
    then show ?thesis using Cons by (simp add: over_map_def)
  next
    case (Some fr)
    obtain s1 where "deleteRule r k fr s = (Ok (), s1)"
      using deleteRule_total [OF Cons.prems] by blast
    then show ?thesis
      using Cons Some by (simp add: over_map_def gbind_def)
  qed
qed

lemma deleteRule_fails:
  assumes "Destroy (flowClient r) (del_req fr) (dcf s) = (Err e, d)"
  shows "\<exists>s'. deleteRule r k fr s = (Panic ''nil pointer dereference'', s') \<and> flowSets s' = flowSets s"
  using assms by (simp add: deleteRule_def Let_def del_req_def gbind_def attempt_def remote_def lift_def)

section \<open>Matching a DCF port\<close>

lemma match_port_Ok_iff:
  "match_port S pf ps = Ok i \<longleftrightarrow>
     (\<exists>n < length ps. PortId (ps ! n) = i \<and> GetPfName S (PortPci (ps ! n)) = Ok pf \<and>
        (\<forall>j < n. \<exists>o'. GetPfName S (PortPci (ps ! j)) = Ok o' \<and> o' \<noteq> pf))"
proof (induction ps)
  case Nil
  then show ?case by simp
next
  case (Cons p ps)
  show ?case (is "?L \<longleftrightarrow> (\<exists>n < length (p # ps). ?Q n)")
  proof (cases "GetPfName S (PortPci p) = Ok pf")
    case True
    then have "?L \<longleftrightarrow> ?Q 0" by simp
    moreover have "\<not> ?Q n" if "n > 0" for n
      using True that by auto
    ultimately show ?thesis by (metis gr0I length_greater_0_conv list.distinct(1))
  next
    case False
    then have "?L \<longleftrightarrow> (\<exists>n. GetPfName S (PortPci p) = Ok n \<and> n \<noteq> pf) \<and> match_port S pf ps = Ok i"
      by auto
    also have "\<dots> \<longleftrightarrow> (\<exists>n < length ps. ?Q (Suc n))"
      unfolding Cons.IH by (auto simp: All_less_Suc2)
    also have "\<dots> \<longleftrightarrow> (\<exists>n < length (p # ps). ?Q n)"
      using False by (auto simp: Ex_less_Suc2)
    finally show ?thesis .
  qed
qed

section \<open>Requests of accepted rules\<close>

lemma GetFlowActionAny_webhook:
  "t \<noteq> RTE_FLOW_ACTION_TYPE_VFPCIADDR \<Longrightarrow> GetFlowActionAny A t b S = GetFlowActionAnyForWebhook A t b"
  by (simp add: GetFlowActionAny_def GetFlowActionAnyForWebhook_def split: option.split)

lemma opt_item_any_sound:
  "(\<And>r. part = Some r \<Longrightarrow> \<exists>m. part_msg A t r m) \<Longrightarrow> \<exists>x. opt_item_any A w t part u = Ok x"
  by (cases part) (auto simp: opt_item_any_def part_msg_def)

lemma getFlowItem_sound: "item_sound A item \<Longrightarrow> \<exists>it. getFlowItem A item = Ok it"
proof -
  assume snd: "item_sound A item"
  let ?t = "FlowItem_Type item"
  have part: "\<exists>m. part_msg A ?t r m" if "r \<in> set (parts item)" for r
    using snd that by (auto simp: item_sound_def)
  have opt: "\<exists>x. opt_item_any A w ?t (FlowItem_Spec item) u = Ok x" "\<exists>x. opt_item_any A w ?t (FlowItem_Last item) u = Ok x"
    "\<exists>x. opt_item_any A w ?t (FlowItem_Mask item) u = Ok x" for w u
    by (rule opt_item_any_sound, rule part, simp add: parts_set)+
  obtain sp where sp: "opt_item_any A ''Spec'' ?t (FlowItem_Spec item) None = Ok sp"
    using opt(1) by blast
  obtain la where la: "opt_item_any A ''Last'' ?t (FlowItem_Last item) sp = Ok la"
    using opt(2) by blast
  obtain ma where "opt_item_any A ''Mask'' ?t (FlowItem_Mask item) None = Ok ma"
    using opt(3) by blast
  moreover obtain v where "RteFlowItemType_value ?t = Some v"
    using snd by (auto simp: item_sound_def)
  ultimately show ?thesis
    using sp la by (simp add: getFlowItem_def)
qed

lemma getFlowActions_sound:
  assumes "list_all (action_sound A) acts"
    and "\<forall>a \<in> set acts. FlowAction_Type a \<noteq> RTE_FLOW_ACTION_TYPE_VFPCIADDR"
  shows "\<exists>out. getFlowActions A S pci acts = Ok (out, pci) \<and> length out = length acts"
  using assms
proof (induction acts)
  case Nil
  then show ?case by simp
next
  case (Cons a acts)
  then obtain out where out: "getFlowActions A S pci acts = Ok (out, pci)" "length out = length acts"
    by auto
  from Cons.prems have a: "action_sound A a" "FlowAction_Type a \<noteq> RTE_FLOW_ACTION_TYPE_VFPCIADDR"
    by auto
  then obtain v where "GetFlowActionType (FlowAction_Type a) = Some v"
    by (auto simp: action_sound_def)
  moreover have "\<exists>x. GetFlowActionAny A (FlowAction_Type a) (Raw c) S = Ok x" if "FlowAction_Conf a = Some c" for c
    unfolding GetFlowActionAny_webhook [OF a(2)] using a(1) that by (auto simp: action_sound_def)
  ultimately show ?case
    using out a(2) by (cases "FlowAction_Conf a") auto
qed

end
