(* ===== verification/Cluster_Flow_Facts.thy ===== *)
theory Cluster_Flow_Facts
  imports Cluster_Flow_Controller Node_Flow_Facts
begin

text \<open>
  What the cluster controller guarantees: the rules it computes for a node against a reference
  definition, their removal, the choice of the configurations to reconcile for a pod, and that the
  rules it generates are accepted by the webhook of the node configuration.
\<close>

section \<open>In-place compaction is filtering\<close>

declare compact.simps [simp del]

lemma compact_filter:
  assumes "compact keep xs i index = (ys, n)" and "index \<le> i" and "i \<le> length xs"
  shows "take n ys = take index xs @ filter keep (drop i xs)"
  using assms
proof (induction keep xs i index arbitrary: ys n rule: compact.induct)
  case (1 keep xs i index)
  show ?case
  proof (cases "i < length xs")
    case False
    then have "ys = xs" and "n = index"
      using 1(3) by (simp_all add: compact.simps [of keep xs])
    with False 1(5) show ?thesis by simp
  next
    case True
    then have drop: "drop i xs = xs ! i # drop (Suc i) xs" by (simp add: Cons_nth_drop_Suc)
    show ?thesis
    proof (cases "keep (xs ! i)")
      case keep: True
      let ?xs = "xs[index := xs ! i]"
      have "compact keep ?xs (Suc i) (Suc index) = (ys, n)"
        using 1(3) True keep by (simp add: compact.simps [of keep xs])
      then have "take n ys = take (Suc index) ?xs @ filter keep (drop (Suc i) ?xs)"
        using 1(1) [OF True keep] 1(4) True by simp
      moreover have "take (Suc index) ?xs = take index xs @ [xs ! i]"
        using 1(4) True by (simp add: take_Suc_conv_app_nth)
      moreover have "drop (Suc i) ?xs = drop (Suc i) xs"
        using 1(4) by simp
      ultimately show ?thesis using drop keep by simp
    next
      case False
      then have "compact keep xs (Suc i) index = (ys, n)"
        using 1(3) True by (simp add: compact.simps [of keep xs])
      then show ?thesis
        using 1(2) [OF True False] 1(4) True drop False by simp
    qed
  qed
qed

lemma cleanRules_filter:
  "cleanRules r hashes rules = filter (\<lambda>rule. \<exists>k. getFlowRulesHash r rule = Some k \<and> k \<notin> set hashes) rules"
proof -
  let ?keep = "\<lambda>rule. case getFlowRulesHash r rule of None \<Rightarrow> False | Some key \<Rightarrow> key \<notin> set hashes"
  obtain ys n where c: "compact ?keep rules 0 0 = (ys, n)" by fastforce
  have "cleanRules r hashes rules = filter ?keep rules"
    using compact_filter [OF c] by (simp add: cleanRules_def c)
  also have "\<dots> = filter (\<lambda>rule. \<exists>k. getFlowRulesHash r rule = Some k \<and> k \<notin> set hashes) rules"
    by (rule filter_cong) (auto split: option.splits)
  finally show ?thesis .
qed

section \<open>The rules of a node against a reference\<close>

text \<open>Keeping the first rule of every hash.\<close>

fun keep_first :: "('r \<Rightarrow> string) \<Rightarrow> string set \<Rightarrow> 'r list \<Rightarrow> 'r list" where
  "keep_first h S [] = []"
| "keep_first h S (x # xs) = (if h x \<in> S then keep_first h S xs else x # keep_first h (insert (h x) S) xs)"

lemma keep_first_append:
  "keep_first h S (xs @ ys) = keep_first h S xs @ keep_first h (S \<union> h ` set xs) ys"
  by (induction xs arbitrary: S) (auto simp: insert_absorb)

lemma keep_first_hashes: "h ` set (keep_first h S xs) = h ` set xs - S"
  by (induction xs arbitrary: S) auto

lemma keep_first_distinct: "distinct (map h (keep_first h S xs))"
proof (induction xs arbitrary: S)
  case Nil
  then show ?case by simp
next
  case (Cons x xs)
  then show ?case
    using keep_first_hashes [of h "insert (h x) S" xs] by auto
qed

lemma keep_first_subset: "set (keep_first h S xs) \<subseteq> set xs"
  by (induction xs arbitrary: S) auto

definition rule_key :: "('x, 'sel, 'k) ClusterFlowConfigReconciler \<Rightarrow> FlowRules \<Rightarrow> string" where
  "rule_key r rule = the (getFlowRulesHash r rule)"

lemma add_rule_Ok:
  assumes "add_rule r pod rule u = (Ok key, u')"
  shows "\<exists>newRule. nodeRule r pod rule = Ok newRule \<and> getFlowRulesHash r newRule = Some key \<and>
    upd_Rules u' = upd_Rules u @ keep_first (rule_key r) (allHashes u) [newRule] \<and>
    allHashes u' = insert key (allHashes u) \<and> upd_Map u' = upd_Map u"
proof -
  from assms obtain newRule where new: "nodeRule r pod rule = Ok newRule"
    and run: "(case getFlowRulesHash r newRule of
       None \<Rightarrow> lift (Err (Errorf ''Error getting flow rules hash''))
     | Some key \<Rightarrow> (\<lambda>u. (Ok key,
         if key \<in> allHashes u then u
         else u\<lparr>allHashes := insert key (allHashes u), upd_Rules := upd_Rules u @ [newRule]\<rparr>))) u = (Ok key, u')"
    by (auto simp: add_rule_def gbind_Ok_iff)
  from run have key: "getFlowRulesHash r newRule = Some key"
    by (cases "getFlowRulesHash r newRule") auto
  with run have "u' = (if key \<in> allHashes u then u
      else u\<lparr>allHashes := insert key (allHashes u), upd_Rules := upd_Rules u @ [newRule]\<rparr>)"
    by simp
  with new key show ?thesis
    by (intro exI [of _ newRule]) (simp add: rule_key_def insert_absorb)
qed

lemma add_rules_Ok:
  assumes "gmap (add_rule r pod) rules u = (Ok keys, u')"
  shows "\<exists>new. omap (nodeRule r pod) rules = Ok new \<and> keys = map (rule_key r) new \<and>
    (\<forall>n \<in> set new. getFlowRulesHash r n = Some (rule_key r n)) \<and>
    upd_Rules u' = upd_Rules u @ keep_first (rule_key r) (allHashes u) new \<and>
    allHashes u' = allHashes u \<union> set keys \<and> upd_Map u' = upd_Map u"
  using assms
proof (induction rules arbitrary: u keys)
  case Nil
  then show ?case by simp
next
  case (Cons x xs)
  from Cons.prems obtain key u1 keys' where x: "add_rule r pod x u = (Ok key, u1)"
    and xs: "gmap (add_rule r pod) xs u1 = (Ok keys', u')" and keys: "keys = key # keys'"
    by (auto simp: gbind_Ok_iff)
  from add_rule_Ok [OF x] obtain n where n: "nodeRule r pod x = Ok n" "getFlowRulesHash r n = Some key"
      "upd_Rules u1 = upd_Rules u @ keep_first (rule_key r) (allHashes u) [n]"
      "allHashes u1 = insert key (allHashes u)" "upd_Map u1 = upd_Map u" by blast
  from Cons.IH [OF xs] obtain new where new: "omap (nodeRule r pod) xs = Ok new" "keys' = map (rule_key r) new"
      "\<forall>n \<in> set new. getFlowRulesHash r n = Some (rule_key r n)"
      "upd_Rules u' = upd_Rules u1 @ keep_first (rule_key r) (allHashes u1) new"
      "allHashes u' = allHashes u1 \<union> set keys'" "upd_Map u' = upd_Map u1" by blast
  have key: "rule_key r n = key" using n(2) by (simp add: rule_key_def)
  show ?case
    using n new keys key keep_first_append [of "rule_key r" "allHashes u" "[n]" new]
    by (intro exI [of _ "n # new"]) (auto simp: insert_absorb)
qed

definition config_rules ::
    "('x, 'sel, 'k) ClusterFlowConfigReconciler \<Rightarrow> Pod \<Rightarrow> 'x ClusterFlowConfig list \<Rightarrow> FlowRules list list \<Rightarrow> bool" where
  "config_rules r pod items rss \<longleftrightarrow>
     list_all2 (\<lambda>cfg rs. omap (nodeRule r pod) (cfc_Rules cfg) = Ok rs \<and>
       (\<forall>n \<in> set rs. getFlowRulesHash r n = Some (rule_key r n))) items rss"

definition record_hashes ::
    "('x, 'sel, 'k) ClusterFlowConfigReconciler \<Rightarrow> NamespacedName \<Rightarrow> ('x ClusterFlowConfig \<times> FlowRules list) list \<Rightarrow> hash_map \<Rightarrow> hash_map" where
  "record_hashes r nfc = fold (\<lambda>(cfg, rs) m. set_hashes m (cfc_Key cfg) nfc (map (rule_key r) rs))"

lemma add_configs_Ok:
  assumes "gfor (add_config r pod nfc) items u = (Ok (), u')"
  shows "\<exists>rss. config_rules r pod items rss \<and>
    upd_Rules u' = upd_Rules u @ keep_first (rule_key r) (allHashes u) (concat rss) \<and>
    upd_Map u' = record_hashes r nfc (zip items rss) (upd_Map u)"
  using assms
proof (induction items arbitrary: u)
  case Nil
  then show ?case by (simp add: config_rules_def record_hashes_def)
next
  case (Cons cfg items)
  from Cons.prems obtain keys u1 where k: "gmap (add_rule r pod) (cfc_Rules cfg) u = (Ok keys, u1)"
    and rest: "gfor (add_config r pod nfc) items (u1\<lparr>upd_Map := set_hashes (upd_Map u1) (cfc_Key cfg) nfc keys\<rparr>) = (Ok (), u')"
    by (auto simp: gbind_Ok_iff add_config_def [of r pod nfc cfg])
  from add_rules_Ok [OF k] obtain new where new: "omap (nodeRule r pod) (cfc_Rules cfg) = Ok new"
      "keys = map (rule_key r) new" "\<forall>n \<in> set new. getFlowRulesHash r n = Some (rule_key r n)"
      "upd_Rules u1 = upd_Rules u @ keep_first (rule_key r) (allHashes u) new"
      "allHashes u1 = allHashes u \<union> set keys" "upd_Map u1 = upd_Map u" by blast
  from Cons.IH [OF rest] obtain rss where rss: "config_rules r pod items rss"
      "upd_Rules u' = upd_Rules u1 @ keep_first (rule_key r) (allHashes u1) (concat rss)"
      "upd_Map u' = record_hashes r nfc (zip items rss) (set_hashes (upd_Map u1) (cfc_Key cfg) nfc keys)"
    by auto
  show ?case
    using new rss keep_first_append [of "rule_key r" "allHashes u" new "concat rss"]
    by (intro exI [of _ "new # rss"]) (auto simp: config_rules_def record_hashes_def)
qed

lemma updateNodeFlowConfigSpec_Ok:
  assumes "updateNodeFlowConfigSpec r pod c items m = (Ok (), c', m')"
  shows "\<exists>rss. config_rules r pod items rss \<and> items \<noteq> [] \<and>
    c' = c\<lparr>nfc_Rules := keep_first (rule_key r) {} (concat rss)\<rparr> \<and>
    m' = record_hashes r (nfc_Key c) (zip items rss) m"
proof -
  from assms have ne: "items \<noteq> []" by (auto simp: updateNodeFlowConfigSpec_def)
  obtain u where u: "gfor (add_config r pod (nfc_Key c)) items \<lparr>upd_Rules = [], allHashes = {}, upd_Map = m\<rparr> = (Ok (), u)"
    and c': "c' = c\<lparr>nfc_Rules := upd_Rules u\<rparr>" and m': "m' = upd_Map u"
    using assms ne by (auto simp: updateNodeFlowConfigSpec_def split: prod.splits)
  from add_configs_Ok [OF u] c' m' ne show ?thesis by auto
qed

lemma config_rules_props:
  assumes "config_rules r pod items rss" and "n \<in> set (concat rss)"
  shows "\<exists>cfg \<in> set items. \<exists>rule \<in> set (cfc_Rules cfg). nodeRule r pod rule = Ok n"
proof -
  from assms(2) obtain rs where rs: "rs \<in> set rss" "n \<in> set rs" by auto
  then obtain i where i: "i < length rss" "rss ! i = rs" by (metis in_set_conv_nth)
  with assms(1) have len: "i < length items"
    and ok: "omap (nodeRule r pod) (cfc_Rules (items ! i)) = Ok rs"
    by (auto simp: config_rules_def list_all2_conv_all_nth)
  from ok have l2: "list_all2 (\<lambda>x y. nodeRule r pod x = Ok y) (cfc_Rules (items ! i)) rs"
    by (simp add: omap_Ok_iff)
  from rs(2) obtain j where "j < length rs" "rs ! j = n" by (metis in_set_conv_nth)
  with l2 have "nodeRule r pod (cfc_Rules (items ! i) ! j) = Ok n" "j < length (cfc_Rules (items ! i))"
    by (auto simp: list_all2_conv_all_nth)
  with len show ?thesis by (meson nth_mem)
qed

lemma config_rules_hash:
  assumes "config_rules r pod items rss" and "n \<in> set (concat rss)"
  shows "getFlowRulesHash r n = Some (rule_key r n)"
proof -
  from assms(2) obtain rs where rs: "rs \<in> set rss" "n \<in> set rs" by auto
  then obtain i where "i < length rss" "rss ! i = rs" by (metis in_set_conv_nth)
  with assms(1) rs(2) show ?thesis
    by (auto simp: config_rules_def list_all2_conv_all_nth)
qed

section \<open>Matching pods\<close>

lemma match_count_takeWhile:
  "match_count p sel ks = length (takeWhile (\<lambda>k. p k \<noteq> None \<and> p k = sel k) ks)"
  by (induction ks) (auto split: option.splits)

lemma match_count_iff:
  assumes "distinct ks" and "set ks = dom sel"
  shows "card (dom sel) = match_count p sel ks \<longleftrightarrow> sel \<subseteq>\<^sub>m p"
proof -
  have "card (dom sel) = length ks"
    using assms distinct_card by fastforce
  then have "card (dom sel) = match_count p sel ks \<longleftrightarrow>
      takeWhile (\<lambda>k. p k \<noteq> None \<and> p k = sel k) ks = ks"
    by (metis match_count_takeWhile takeWhile_eq_take take_all order_refl)
  also have "\<dots> \<longleftrightarrow> (\<forall>k \<in> dom sel. p k \<noteq> None \<and> p k = sel k)"
    unfolding takeWhile_eq_all_conv assms(2) ..
  also have "\<dots> \<longleftrightarrow> sel \<subseteq>\<^sub>m p"
    by (auto simp: map_le_def dom_def)
  finally show ?thesis .
qed

section \<open>Generated rules pass the webhook of the node\<close>

definition pci_addresses_ok :: "('x, 'sel, 'k) ClusterFlowConfigReconciler \<Rightarrow> bool" where
  "pci_addresses_ok r \<longleftrightarrow> (\<forall>ann ns n d a. networks_of r ann = Ok ns \<and> n \<in> set ns \<and>
     ns_DeviceInfo n = Some d \<and> di_PciAddress d = Some a \<longrightarrow> pci_MatchString a)"

lemma find_pci_Ok:
  "find_pci name ns = Ok a \<Longrightarrow> a \<noteq> [] \<Longrightarrow>
     \<exists>n d. n \<in> set ns \<and> ns_DeviceInfo n = Some d \<and> di_PciAddress d = Some a \<and> ns_Interface n = name \<and> di_Type d = ''pci''"
  by (induction ns) (auto split: if_splits)

definition pci_action :: "string \<Rightarrow> FlowAction" where
  "pci_action addr = \<lparr>FlowAction_Type = RTE_FLOW_ACTION_TYPE_VFPCIADDR,
     FlowAction_Conf = Some \<lparr>Raw = Some (JObj [(''addr'', JStr addr)])\<rparr>\<rparr>"

lemma getNodeAction_pod:
  assumes "cfa_Type act = ToPodInterface" and "getNodeAction r (Some pod) act = Ok n" and "pci_addresses_ok r"
  shows "\<exists>addr. n = pci_action addr \<and> pci_MatchString addr"
proof -
  from assms(1,2) obtain name ann ns addr where "networks_of r ann = Ok ns" "find_pci name ns = Ok addr"
      "addr \<noteq> []" "n = pci_action addr"
    by (auto simp: getNodeAction_def ClusterFlowActionType_String_iff getNodeActionForPodInterface_def
        pci_action_def split: option.splits if_splits)
  moreover from this have "pci_MatchString addr"
    using find_pci_Ok [of name ns addr] assms(3) unfolding pci_addresses_ok_def by blast
  ultimately show ?thesis by blast
qed

text \<open>Packing the VF message works.\<close>

definition vf_packs :: "'any anypb \<Rightarrow> bool" where
  "vf_packs A \<longleftrightarrow> (\<exists>a. any_New A (MsgVf \<lparr>vf_Reserved = 0, vf_Original = 0, vf_Id = 0\<rparr>) = Ok a)"

lemma Unmarshal_VfPciAddr:
  "Unmarshal struct_fields ''VfPciAddr'' (Some (JObj [(''addr'', JStr addr)])) = Ok [(''addr'', VStr addr)]"
  by (simp add: Unmarshal_def VfPciAddr_fields zero_struct_def find_field_def get_field_def)

lemma validate_pci_action:
  assumes A: "anypb_spec A" and vf: "vf_packs A" and addr: "pci_MatchString addr" and i: "i \<noteq> n - 1"
  shows "validate_action A n i (pci_action addr) = Ok ()"
proof -
  obtain a where a: "any_New A (MsgVf \<lparr>vf_Reserved = 0, vf_Original = 0, vf_Id = 0\<rparr>) = Ok a"
    using vf by (auto simp: vf_packs_def)
  have "protoActionAny A RTE_FLOW_ACTION_TYPE_VF (vf_id_doc 0) = Ok a"
    using protoActionAny_vf_id [of 0 A] a by simp
  then have "GetFlowActionAnyForWebhook A RTE_FLOW_ACTION_TYPE_VFPCIADDR (Some (JObj [(''addr'', JStr addr)])) = Ok a"
    using addr by (simp add: GetFlowActionAnyForWebhook_def VFPCIADDR_not_proto handleActionVfPciAddr_def
        Unmarshal_VfPciAddr field_readers)
  moreover have "UnmarshalTo A (Some a) ''RteFlowActionVf'' = Ok (MsgVf \<lparr>vf_Reserved = 0, vf_Original = 0, vf_Id = 0\<rparr>)"
    using anypb_specD(4) [OF A a] by simp
  ultimately show ?thesis
    using i by (simp add: validate_action_def pci_action_def GetFlowActionType_VFPCIADDR
        validateRteFlowAction_def validateRteFlowActionVf_def check_vf_def)
qed

lemma END_type: "GetFlowActionType ''RTE_FLOW_ACTION_TYPE_END'' = Some RTE_FLOW_ACTION_TYPE_END"
  by code_simp

lemma validate_end_action: "validate_action A n i end_action = Ok ()"
  by (simp add: validate_action_def end_action_def END_type validateRteFlowAction_def
      not_configurable_actions_def validateRteFlowActionConfigEmpty_def)

text \<open>The shape of a rule generated from an admitted one.\<close>

lemma nodeRule_form:
  assumes A: "anypb_spec A" and pci: "pci_addresses_ok r"
    and rule: "ClusterFlowRule_validate A rule = Ok ()" and new: "nodeRule r pod rule = Ok newRule"
  obtains addrs where "length addrs = length (cfr_Action rule)" and "list_all pci_MatchString addrs"
    and "newRule = \<lparr>FlowRules_PortId = automaticPortId, FlowRules_Attr = cfr_Attr rule, FlowRules_Pattern = cfr_Pattern rule,
      FlowRules_Action = (if addrs \<noteq> [] then map pci_action addrs @ [end_action] else [])\<rparr>"
proof -
  from new obtain ns where ns: "omap (getNodeAction r (Some pod)) (cfr_Action rule) = Ok ns"
    and nr: "newRule = \<lparr>FlowRules_PortId = automaticPortId, FlowRules_Attr = cfr_Attr rule,
      FlowRules_Pattern = cfr_Pattern rule, FlowRules_Action = (if ns \<noteq> [] then ns @ [end_action] else ns)\<rparr>"
    by (auto simp: nodeRule_def getNodeActionsFromClusterActions_def split: if_splits)
  have snd: "cluster_rule_sound A rule"
    using ClusterFlowRule_validate_sound [OF A rule] .
  have "\<exists>addr. ns ! j = pci_action addr \<and> pci_MatchString addr" if "j < length ns" for j
  proof -
    from ns that have "getNodeAction r (Some pod) (cfr_Action rule ! j) = Ok (ns ! j)" "j < length (cfr_Action rule)"
      by (auto simp: omap_Ok_iff list_all2_conv_all_nth)
    moreover from this snd have "cfa_Type (cfr_Action rule ! j) = ToPodInterface"
      by (auto simp: cluster_rule_sound_def cluster_action_sound_def list_all_length)
    ultimately show ?thesis using getNodeAction_pod pci by blast
  qed
  then have "\<forall>x \<in> set ns. \<exists>addr. x = pci_action addr \<and> pci_MatchString addr"
    by (metis in_set_conv_nth)
  then obtain f where f: "\<forall>x \<in> set ns. x = pci_action (f x) \<and> pci_MatchString (f x)" by metis
  have "length (map f ns) = length (cfr_Action rule)"
    using ns by (auto simp: omap_Ok_iff list_all2_conv_all_nth)
  moreover have "list_all pci_MatchString (map f ns)" using f by (simp add: list_all_iff)
  moreover have "map pci_action (map f ns) = ns" using f by (simp add: map_idI)
  ultimately show thesis using nr that [of "map f ns"] by simp
qed

lemma nodeRule_accepted:
  assumes A: "anypb_spec A" and vf: "vf_packs A" and pci: "pci_addresses_ok r"
    and rule: "ClusterFlowRule_validate A rule = Ok ()" and new: "nodeRule r pod rule = Ok newRule"
  shows "FlowRules_validate A newRule = Ok ()"
proof -
  obtain addrs where addrs: "list_all pci_MatchString addrs"
    and nr: "newRule = \<lparr>FlowRules_PortId = automaticPortId, FlowRules_Attr = cfr_Attr rule, FlowRules_Pattern = cfr_Pattern rule,
      FlowRules_Action = (if addrs \<noteq> [] then map pci_action addrs @ [end_action] else [])\<rparr>"
    using nodeRule_form [OF A pci rule new] by metis
  have "validate_action A (length (FlowRules_Action newRule)) j (FlowRules_Action newRule ! j) = Ok ()"
    if "j < length (FlowRules_Action newRule)" for j
    using that addrs validate_pci_action [OF A vf]
    by (auto simp: nr nth_append list_all_length validate_end_action less_Suc_eq split: if_splits)
  then have "for_each (validate_action A (length (FlowRules_Action newRule))) 0 (FlowRules_Action newRule) = Ok ()"
    by (simp add: for_each_Ok_iff)
  then show ?thesis
    using rule by (simp add: FlowRules_validate_def ClusterFlowRule_validate_def nr validatePortId_def)
qed

section \<open>Cleaning over a store of objects\<close>

text \<open>
  An API server that answers every request: \<open>objs\<close> is its map of node configurations, a read finds
  what is there or reports \<open>NotFound\<close>, and a write stores the object under its key.
\<close>

definition store_spec ::
    "('x, 'sel, 'k) ClusterFlowConfigReconciler \<Rightarrow> ('k \<Rightarrow> NamespacedName \<rightharpoonup> NodeFlowConfig) \<Rightarrow> bool" where
  "store_spec r objs \<longleftrightarrow>
     (\<forall>n k. kc_Get r n k = (case objs k n of None \<Rightarrow> Err NotFound | Some c \<Rightarrow> Ok c)) \<and>
     (\<forall>c k. \<exists>k'. kc_Update r c k = (Ok (), k') \<and> objs k' = (objs k)(nfc_Key c \<mapsto> c)) \<and>
     (\<forall>c k. \<exists>k'. kc_Create r c k = (Ok (), k') \<and> objs k' = (objs k)(nfc_Key c \<mapsto> c)) \<and>
     (\<forall>k n c. objs k n = Some c \<longrightarrow> nfc_Key c = n)"

definition cleaned ::
    "('x, 'sel, 'k) ClusterFlowConfigReconciler \<Rightarrow> string list \<Rightarrow> NodeFlowConfig \<Rightarrow> NodeFlowConfig" where
  "cleaned r hs c = c\<lparr>nfc_Rules := cleanRules r hs (nfc_Rules c)\<rparr>"

lemma cleaned_filter:
  "cleaned r hs = (\<lambda>c. c\<lparr>nfc_Rules := filter (\<lambda>rule. \<exists>k. getFlowRulesHash r rule = Some k \<and> k \<notin> set hs) (nfc_Rules c)\<rparr>)"
  by (rule ext) (simp add: cleaned_def cleanRules_filter)

lemma clean_one_store:
  assumes "store_spec r objs"
  shows "\<exists>s'. clean_one r n hs s = (Ok (), s') \<and> Cluster2NodeRulesHashMap s' = Cluster2NodeRulesHashMap s \<and>
    objs (kube s') = (objs (kube s))(n := map_option (cleaned r hs) (objs (kube s) n))"
proof (cases "objs (kube s) n")
  case None
  then have "kc_Get r n (kube s) = Err NotFound"
    using assms by (simp add: store_spec_def)
  then have "clean_one r n hs s = (Ok (), s)"
    by (simp add: clean_one_def gbind_def reading_def ret_def)
  then show ?thesis using None by (auto simp: fun_eq_iff)
next
  case (Some c)
  then have get: "kc_Get r n (kube s) = Ok c" and key: "nfc_Key c = n"
    using assms by (simp_all add: store_spec_def)
  obtain k' where upd: "kc_Update r (cleaned r hs c) (kube s) = (Ok (), k')"
      "objs k' = (objs (kube s))(nfc_Key (cleaned r hs c) \<mapsto> cleaned r hs c)"
    using assms unfolding store_spec_def by blast
  have "clean_one r n hs s = (Ok (), s\<lparr>kube := k'\<rparr>)"
    using get upd(1) by (simp add: clean_one_def gbind_def reading_def ret_def attempt_def on_kube_def cleaned_def)
  moreover have "nfc_Key (cleaned r hs c) = n"
    using key by (simp add: cleaned_def)
  ultimately show ?thesis using upd(2) Some by auto
qed

lemma clean_loop_store:
  assumes "store_spec r objs" and "distinct ks"
  shows "\<exists>s'. gfor (\<lambda>n. case m n of None \<Rightarrow> ret () | Some hs \<Rightarrow> clean_one r n hs) ks s = (Ok (), s') \<and>
    Cluster2NodeRulesHashMap s' = Cluster2NodeRulesHashMap s \<and>
    objs (kube s') = (\<lambda>n. case m n of
       Some hs \<Rightarrow> if n \<in> set ks then map_option (cleaned r hs) (objs (kube s) n) else objs (kube s) n
     | None \<Rightarrow> objs (kube s) n)"
  using assms(2)
proof (induction ks arbitrary: s)
  case Nil
  then show ?case by (auto simp: ret_def fun_eq_iff split: option.splits)
next
  case (Cons k ks)
  obtain s1 where s1: "(case m k of None \<Rightarrow> ret () | Some hs \<Rightarrow> clean_one r k hs) s = (Ok (), s1)"
      "Cluster2NodeRulesHashMap s1 = Cluster2NodeRulesHashMap s"
      "objs (kube s1) = (objs (kube s))(k := (case m k of None \<Rightarrow> objs (kube s) k
         | Some hs \<Rightarrow> map_option (cleaned r hs) (objs (kube s) k)))"
  proof (cases "m k")
    case None
    then show ?thesis by (intro that [of s]) (auto simp: ret_def)
  next
    case (Some hs)
    then show ?thesis using clean_one_store [OF assms(1), of k hs s] that by auto
  qed
  from Cons obtain s' where s': "gfor (\<lambda>n. case m n of None \<Rightarrow> ret () | Some hs \<Rightarrow> clean_one r n hs) ks s1 = (Ok (), s')"
      "Cluster2NodeRulesHashMap s' = Cluster2NodeRulesHashMap s1"
      "objs (kube s') = (\<lambda>n. case m n of
         Some hs \<Rightarrow> if n \<in> set ks then map_option (cleaned r hs) (objs (kube s1) n) else objs (kube s1) n
       | None \<Rightarrow> objs (kube s1) n)"
    using Cons.IH [of s1] by auto
  have "k \<notin> set ks" using Cons.prems by simp
  with s1 s' show ?case
    by (intro exI [of _ s']) (auto simp: gbind_def fun_eq_iff split: option.splits)
qed

end
