(* ===== verification/Node_Flow_Props.thy ===== *)
theory Node_Flow_Props
  imports Node_Flow_Facts
begin

text \<open>
  The properties of the node controller, with a small DCF service for closed examples: it accepts
  every request and numbers the flows it creates.
\<close>

section \<open>A service for the examples\<close>

definition sample_stub :: "(proto_msg, u32) grpc_stub" where
  "sample_stub = \<lparr>stub_DialContext = ret (), stub_Validate = (\<lambda>_. ret \<lparr>res_ErrorInfo = None\<rparr>),
     stub_Create = (\<lambda>_ d. (Ok \<lparr>cres_FlowId = d, cres_ErrorInfo = None\<rparr>, d + 1)),
     stub_Destroy = (\<lambda>_. ret \<lparr>res_ErrorInfo = None\<rparr>), stub_ListPorts = ret []\<rparr>"

definition sample_reconciler :: "(proto_msg, u32) NodeFlowConfigReconciler" where
  "sample_reconciler = \<lparr>nodeName = ''node1'', flowClient = GetDCFClient sample_stub,
     sriovUtils = sample_sriov, anyLib = plain_any,
     json_Marshal = (\<lambda>req. Some [ucast (req_PortId req)]), sha256_Sum = (\<lambda>b. 1 # b)\<rparr>"

definition sample_state :: "(proto_msg, u32) nfc_state" where
  "sample_state = \<lparr>flowSets = NewFlowSets, dcf = 1, calls = []\<rparr>"

lemma sample_anyLib [simp]: "anyLib sample_reconciler = plain_any"
  by (simp add: sample_reconciler_def)

lemma sample_hashes: "hashes_ok sample_reconciler"
  by (simp add: hashes_ok_def sample_reconciler_def)

lemma sample_cached [simp]: "cached sample_state = Map.empty"
  by (simp add: sample_state_def)

lemma sample_destroy: "destroy_ok sample_reconciler"
  by (simp add: destroy_ok_def sample_reconciler_def GetDCFClient_def dcfClient_Destroy_def
      getDCFFlowClientConn_def sample_stub_def gbind_def gwrap_def ret_def)

lemma sample_createRule:
  "createRule sample_reconciler k req s =
     (Ok (), s\<lparr>flowSets := FlowSets_Add (flowSets s) k (dcf s) req, dcf := dcf s + 1,
        calls := calls s @ [CallValidate req, CallCreate req]\<rparr>)"
  by (simp add: createRule_def sample_reconciler_def GetDCFClient_def dcfClient_Create_def
      dcfClient_Validate_def getDCFFlowClientConn_def sample_stub_def gbind_def gwrap_def ret_def
      remote_def rte_failed_def modify_def)

section \<open>From an accepted rule to a request\<close>

lemma sound_rule_converts:
  assumes snd: "rule_sound (anyLib r) rule"
    and "FlowRules_PortId rule \<noteq> automaticPortId"
    and "\<forall>a \<in> set (FlowRules_Action rule). FlowAction_Type a \<noteq> RTE_FLOW_ACTION_TYPE_VFPCIADDR"
  shows "\<exists>req. getFlowCreateRequests r rule s = (Ok req, s) \<and> req_PortId req = FlowRules_PortId rule \<and>
     length (req_Pattern req) = length (FlowRules_Pattern rule) \<and>
     length (req_Action req) = length (FlowRules_Action rule) \<and>
     req_Attr req = map_option copy_attr (FlowRules_Attr rule)"
proof -
  from snd have "list_all (item_sound (anyLib r)) (FlowRules_Pattern rule)"
    and acts: "list_all (action_sound (anyLib r)) (FlowRules_Action rule)"
    by (simp_all add: rule_sound_def patterns_sound_def)
  then have "\<forall>i \<in> set (FlowRules_Pattern rule). \<exists>it. getFlowItem (anyLib r) i = Ok it"
    by (auto simp: list_all_iff intro: getFlowItem_sound)
  then obtain f where "\<forall>i \<in> set (FlowRules_Pattern rule). getFlowItem (anyLib r) i = Ok (f i)"
    by metis
  then have "omap (getFlowItem (anyLib r)) (FlowRules_Pattern rule) = Ok (map f (FlowRules_Pattern rule))"
    by (intro omap_Ok_map) auto
  moreover obtain out where "getFlowActions (anyLib r) (sriovUtils r) [] (FlowRules_Action rule) = Ok (out, [])"
      "length out = length (FlowRules_Action rule)"
    using getFlowActions_sound [OF acts assms(3)] by blast
  ultimately show ?thesis
    using assms(2) by (simp add: getFlowCreateRequests_def ret_def)
qed

text \<open>
  A rule the webhook accepts converts: with a port given and no action by PCI address, the node
  controller builds a request with as many patterns and actions as the rule, the attributes and the port
  of the rule, and makes no remote call for it.
\<close>

theorem accepted_rule_converts:
  assumes "anypb_spec (anyLib r)" and "FlowRules_validate (anyLib r) rule = Ok ()"
    and "FlowRules_PortId rule \<noteq> automaticPortId"
    and "\<forall>a \<in> set (FlowRules_Action rule). FlowAction_Type a \<noteq> RTE_FLOW_ACTION_TYPE_VFPCIADDR"
  shows "\<exists>req. getFlowCreateRequests r rule s = (Ok req, s) \<and> req_PortId req = FlowRules_PortId rule \<and>
     length (req_Pattern req) = length (FlowRules_Pattern rule) \<and>
     length (req_Action req) = length (FlowRules_Action rule) \<and>
     req_Attr req = map_option copy_attr (FlowRules_Attr rule)"
  using sound_rule_converts [OF FlowRules_validate_sound [OF assms(1,2)] assms(3,4)] .

lemma sample_rule_accepted: "FlowRules_validate plain_any sample_rule = Ok ()"
  using sample_nfc_accepted by (simp add: NodeFlowConfig_ValidateCreate_def sample_nfc_def)

lemma sample_rule_sel:
  "FlowRules_PortId sample_rule = 0" "FlowRules_Attr sample_rule = Some sample_attr"
  "length (FlowRules_Pattern sample_rule) = 3" "length (FlowRules_Action sample_rule) = 2"
  "\<forall>a \<in> set (FlowRules_Action sample_rule). FlowAction_Type a \<noteq> RTE_FLOW_ACTION_TYPE_VFPCIADDR"
  by (simp_all add: sample_rule_def sample_pattern_def RTE_FLOW_ACTION_TYPE_VFPCIADDR_def)

theorem accepted_rule_converts_witness:
  "\<exists>req. getFlowCreateRequests sample_reconciler sample_rule sample_state = (Ok req, sample_state) \<and>
     req_PortId req = 0 \<and> length (req_Pattern req) = 3 \<and> length (req_Action req) = 2 \<and>
     req_Attr req = Some (copy_attr sample_attr)"
  using accepted_rule_converts [of sample_reconciler sample_rule sample_state] plain_any_spec sample_rule_accepted
    sample_rule_sel by simp

text \<open>
  The upper bound of a range never reaches the service: when an item has both a \<^verbatim>\<open>spec\<close> and a
  \<^verbatim>\<open>last\<close>, the request carries the message of \<^verbatim>\<open>last\<close> as its \<^verbatim>\<open>Spec\<close> and no \<^verbatim>\<open>Last\<close>.
\<close>

theorem getFlowItem_last_replaces_spec:
  assumes "getFlowItem A item = Ok it" and "FlowItem_Last item = Some l"
  shows "\<exists>a. GetFlowItemAny A (FlowItem_Type item) (Raw l) = Ok a \<and> item_Spec it = Some a \<and> item_Last it = None"
  using assms by (auto simp: getFlowItem_def opt_item_any_def split: option.splits)

theorem getFlowItem_last_replaces_spec_witness:
  "\<exists>it a. getFlowItem plain_any (hd sample_pattern) = Ok it \<and>
     GetFlowItemAny plain_any ''RTE_FLOW_ITEM_TYPE_VLAN'' (Some (JObj [(''tci'', JNum ''9'')])) = Ok a \<and>
     item_Spec it = Some a \<and> item_Last it = None"
proof -
  have "item_sound plain_any (hd sample_pattern)"
    using FlowRules_validate_sound [OF plain_any_spec sample_rule_accepted]
    by (simp add: rule_sound_def patterns_sound_def sample_rule_def sample_pattern_def)
  then obtain it where "getFlowItem plain_any (hd sample_pattern) = Ok it"
    using getFlowItem_sound by blast
  then show ?thesis
    using getFlowItem_last_replaces_spec [of plain_any "hd sample_pattern" it "\<lparr>Raw = Some (JObj [(''tci'', JNum ''9'')])\<rparr>"]
    by (simp add: sample_pattern_def doc_def)
qed

section \<open>Convergence\<close>

text \<open>
  \<^bold>\<open>C2.\<close> A synchronisation that succeeds leaves in the cache exactly the hashes of the requests of the
  policy. Flows that were there already keep their record, each new one has the request it was created
  from, and the calls to the service are: one \<^verbatim>\<open>Destroy\<close> for every obsolete flow, and only then one
  \<^verbatim>\<open>Validate\<close> followed by one \<^verbatim>\<open>Create\<close> for every new one.
\<close>

theorem syncRules_converges:
  assumes "valid_order ro" and "hashes_ok r" and "finite (dom (cached s))"
    and "syncRules r ro p s = (Ok (), s')"
  shows "\<exists>reqs s1 toAdd toDelete. gmap (getFlowCreateRequests r) (nfc_Rules p) s = (Ok reqs, s1) \<and>
     getToAddAndDelete r (flowSets s) reqs = (toAdd, toDelete) \<and>
     dom (cached s') = key_of r ` set reqs \<and>
     (\<forall>k \<in> dom (cached s) \<inter> dom (cached s'). cached s' k = cached s k) \<and>
     (\<forall>k q. toAdd k = Some q \<longrightarrow> (\<exists>i. cached s' k = Some \<lparr>FlowID = i, FlowRule = q\<rparr>)) \<and>
     calls s' = calls s1 @ destroy_calls toDelete (ro (dom toDelete)) @ create_calls toAdd (ro (dom toAdd))"
proof -
  from assms(4) obtain reqs s1 where reqs: "gmap (getFlowCreateRequests r) (nfc_Rules p) s = (Ok reqs, s1)"
    and rest: "(case getToAddAndDelete r (flowSets s1) reqs of (a, d) \<Rightarrow> createAndDeleteRules r ro a d) s1 = (Ok (), s')"
    by (auto simp: syncRules_def gbind_Ok_iff)
  obtain toAdd toDelete where ta: "getToAddAndDelete r (flowSets s1) reqs = (toAdd, toDelete)"
    by fastforce
  with rest have run: "createAndDeleteRules r ro toAdd toDelete s1 = (Ok (), s')" by simp
  have same: "flowSets s1 = flowSets s"
    using reqs by (rule requests_keep_cache)
  have fin: "finite (dom (cached s1))"
    using assms(3) same by simp
  note sync = sync_requests_Ok [OF assms(1) fin assms(2) ta run]
  show ?thesis
    using reqs ta sync same by (intro exI conjI) auto
qed

lemma sample_request:
  "\<exists>req. getFlowCreateRequests sample_reconciler sample_rule s = (Ok req, s)"
proof -
  have "rule_sound (anyLib sample_reconciler) sample_rule"
    using FlowRules_validate_sound [OF plain_any_spec sample_rule_accepted] by simp
  then show ?thesis
    using sound_rule_converts [of sample_reconciler sample_rule s]
    by (auto simp: sample_rule_def RTE_FLOW_ACTION_TYPE_VFPCIADDR_def)
qed

lemma sample_sync:
  obtains req s' where "gmap (getFlowCreateRequests sample_reconciler) (nfc_Rules sample_nfc) sample_state = (Ok [req], sample_state)"
    and "getToAddAndDelete sample_reconciler (flowSets sample_state) [req] = ([key_of sample_reconciler req \<mapsto> req], Map.empty)"
    and "createAndDeleteRules sample_reconciler sorted_order [key_of sample_reconciler req \<mapsto> req] Map.empty sample_state = (Ok (), s')"
    and "syncRules sample_reconciler sorted_order sample_nfc sample_state = (Ok (), s')"
proof -
  obtain req where req: "getFlowCreateRequests sample_reconciler sample_rule sample_state = (Ok req, sample_state)"
    using sample_request by blast
  let ?k = "key_of sample_reconciler req"
  let ?s = "sample_state\<lparr>flowSets := FlowSets_Add NewFlowSets ?k 1 req, dcf := 2, calls := [CallValidate req, CallCreate req]\<rparr>"
  have g: "gmap (getFlowCreateRequests sample_reconciler) (nfc_Rules sample_nfc) sample_state = (Ok [req], sample_state)"
    using req by (simp add: sample_nfc_def gbind_def ret_def)
  have ta: "getToAddAndDelete sample_reconciler (flowSets sample_state) [req] = ([?k \<mapsto> req], Map.empty)"
    using key_of_nonempty [OF sample_hashes, of req]
    by (simp add: getToAddAndDelete_eq FlowSets_Has_def Let_def)
  have run: "createAndDeleteRules sample_reconciler sorted_order [?k \<mapsto> req] Map.empty sample_state = (Ok (), ?s)"
    by (simp add: gbind_def createAndDeleteRules_def deleteRules_def createRules_def over_map_def ret_def
        sample_createRule) (simp add: sample_state_def)
  have "syncRules sample_reconciler sorted_order sample_nfc sample_state = (Ok (), ?s)"
    by (simp add: syncRules_def gbind_def g reading_def ta run)
  with g ta run show thesis by (rule that)
qed

theorem syncRules_converges_witness:
  "\<exists>req s'. syncRules sample_reconciler sorted_order sample_nfc sample_state = (Ok (), s') \<and>
     gmap (getFlowCreateRequests sample_reconciler) (nfc_Rules sample_nfc) sample_state = (Ok [req], sample_state) \<and>
     dom (cached s') = {key_of sample_reconciler req}"
proof (rule sample_sync)
  fix req s'
  assume run: "syncRules sample_reconciler sorted_order sample_nfc sample_state = (Ok (), s')"
    and reqs: "gmap (getFlowCreateRequests sample_reconciler) (nfc_Rules sample_nfc) sample_state = (Ok [req], sample_state)"
  from syncRules_converges [OF sorted_order_valid sample_hashes _ run] reqs
  have "dom (cached s') = {key_of sample_reconciler req}" by auto
  with run reqs show ?thesis by blast
qed

text \<open>
  \<^bold>\<open>C11.\<close> Synchronising the same requests again changes nothing: after a successful run there is nothing to
  add and nothing to delete, and the run makes no call.
\<close>

theorem sync_idempotent:
  assumes "valid_order ro" and "hashes_ok r" and "finite (dom (cached s))"
    and "getToAddAndDelete r (flowSets s) reqs = (toAdd, toDelete)"
    and "createAndDeleteRules r ro toAdd toDelete s = (Ok (), s')"
  shows "getToAddAndDelete r (flowSets s') reqs = (Map.empty, Map.empty) \<and>
     createAndDeleteRules r ro Map.empty Map.empty s' = (Ok (), s')"
proof
  have dom: "dom (cached s') = key_of r ` set reqs"
    using sync_requests_Ok(1) [OF assms(1,3,2,4,5)] .
  obtain a d where ad: "getToAddAndDelete r (flowSets s') reqs = (a, d)" by fastforce
  have "dom a = {}"
    using toAdd_dom [OF ad] dom by (auto simp: FlowSets_Has_def dom_def)
  moreover have "d = Map.empty"
    using toDelete_eq [OF ad] dom by (auto simp: restrict_map_def fun_eq_iff dom_def)
  ultimately show "getToAddAndDelete r (flowSets s') reqs = (Map.empty, Map.empty)"
    using ad by simp
  show "createAndDeleteRules r ro Map.empty Map.empty s' = (Ok (), s')"
    using assms(1) by (simp add: createAndDeleteRules_def deleteRules_def createRules_def over_map_def ret_def)
qed

theorem sync_idempotent_witness:
  "\<exists>req s'. createAndDeleteRules sample_reconciler sorted_order [key_of sample_reconciler req \<mapsto> req] Map.empty sample_state = (Ok (), s') \<and>
     getToAddAndDelete sample_reconciler (flowSets s') [req] = (Map.empty, Map.empty)"
proof (rule sample_sync)
  fix req s'
  assume "getToAddAndDelete sample_reconciler (flowSets sample_state) [req] = ([key_of sample_reconciler req \<mapsto> req], Map.empty)"
    and run: "createAndDeleteRules sample_reconciler sorted_order [key_of sample_reconciler req \<mapsto> req] Map.empty sample_state = (Ok (), s')"
  then have "getToAddAndDelete sample_reconciler (flowSets s') [req] = (Map.empty, Map.empty)"
    using sync_idempotent [OF sorted_order_valid sample_hashes, of sample_state "[req]"] by simp
  with run show ?thesis by blast
qed

text \<open>
  The invariant of the cache: it is finite, and every record is stored under the hash of its
  request. Every reconciliation preserves it, on success and on every error and panic, whatever the API
  server and the DCF service answer.
\<close>

theorem Reconcile_keeps_cache_ok:
  assumes "cache_ok r (flowSets s)" and "NodeFlowConfig_Reconcile r ro got s = (x, s')"
  shows "cache_ok r (flowSets s')"
  using keepsD [OF keeps_Reconcile assms] .

theorem Reconcile_keeps_cache_ok_witness:
  "cache_ok sample_reconciler (flowSets sample_state) \<and>
     cache_ok sample_reconciler (flowSets (snd (NodeFlowConfig_Reconcile sample_reconciler sorted_order (Ok sample_nfc) sample_state)))"
proof -
  have ok: "cache_ok sample_reconciler (flowSets sample_state)"
    by (simp add: cache_ok_def)
  then show ?thesis
    using Reconcile_keeps_cache_ok [OF ok surjective_pairing] by blast
qed

section \<open>Deletion\<close>

text \<open>
  When the object is gone and the service answers every \<^verbatim>\<open>Destroy\<close>, the reconciler returns without
  an error, has asked for the destruction of each cached flow exactly once, and its cache is empty.
\<close>

theorem Reconcile_deleted_clears:
  assumes "valid_order ro" and "finite (dom (cached s))" and "destroy_ok r"
  shows "\<exists>s'. NodeFlowConfig_Reconcile r ro (Err NotFound) s = (Ok (), s') \<and> cached s' = Map.empty \<and>
     calls s' = calls s @ destroy_calls (cached s) (ro (dom (cached s)))"
proof -
  obtain s' where run: "over_map (cached s) (deleteRule r) (ro (dom (cached s))) s = (Ok (), s')"
    using delete_loop_total [OF assms(3)] by blast
  have keys: "set (ro (dom (cached s))) = dom (cached s)"
    using valid_orderD [OF assms(1,2)] by simp
  have "flowSets s' = fold (\<lambda>k fs. FlowSets_Delete fs k) (ro (dom (cached s))) (flowSets s)"
    and calls: "calls s' = calls s @ destroy_calls (cached s) (ro (dom (cached s)))"
    using delete_loop_Ok [OF run] keys by (simp_all add: destroy_calls_def)
  then have "cached s' = Map.empty"
    using fc.contents_del_all [of "ro (dom (cached s))" "flowSets s"] keys
    by (auto simp: restrict_map_def fun_eq_iff dom_def)
  moreover have "FlowSets_GetCompliments (flowSets s) [] = cached s"
    by simp
  then have "NodeFlowConfig_Reconcile r ro (Err NotFound) s = (Ok (), s')"
    using run by (simp add: NodeFlowConfig_Reconcile_def deleteAllRules_def deleteRules_def gbind_def
        attempt_def reading_def ret_def)
  ultimately show ?thesis using calls by blast
qed

definition busy_state :: "(proto_msg, u32) nfc_state" where
  "busy_state = sample_state\<lparr>flowSets := FlowSets_Add NewFlowSets ''a'' 7
     \<lparr>req_PortId = 2, req_Attr = None, req_Pattern = [], req_Action = []\<rparr>\<rparr>"

lemma busy_cached:
  "cached busy_state = [''a'' \<mapsto> \<lparr>FlowID = 7, FlowRule = \<lparr>req_PortId = 2, req_Attr = None, req_Pattern = [], req_Action = []\<rparr>\<rparr>]"
  by (simp add: busy_state_def newFlowCreateRecord_def)

theorem Reconcile_deleted_clears_witness:
  "\<exists>s'. NodeFlowConfig_Reconcile sample_reconciler sorted_order (Err NotFound) busy_state = (Ok (), s') \<and>
     cached s' = Map.empty \<and> calls s' = [CallDestroy \<lparr>del_PortId = 2, del_FlowId = 7\<rparr>]"
  using Reconcile_deleted_clears [OF sorted_order_valid _ sample_destroy, of busy_state]
  by (simp add: busy_cached destroy_calls_def del_req_def) (simp add: busy_state_def sample_state_def)


definition down_stub :: "(proto_msg, u32) grpc_stub" where
  "down_stub = sample_stub\<lparr>stub_DialContext := lift (Err (Errorf ''connection refused''))\<rparr>"


text \<open>
  A failed synchronisation is never reported to the work queue: for an object that exists the
  reconciler returns no error, so nothing is retried until the object changes.
\<close>

theorem Reconcile_swallows_sync_errors:
  "NodeFlowConfig_Reconcile r ro (Ok p) s =
     (case syncFlowConfig r ro p s of
        (Ok _, s1) \<Rightarrow> (Ok (), s1)
      | (Err _, s1) \<Rightarrow> (Ok (), s1)
      | (Panic q, s1) \<Rightarrow> (Panic q, s1))"
  by (cases "syncFlowConfig r ro p s"; cases "fst (syncFlowConfig r ro p s)")
    (auto simp: NodeFlowConfig_Reconcile_def gbind_def attempt_def ret_def)

section \<open>The port of a rule\<close>

text \<open>
  For a rule with the automatic port the controller takes the first DCF port on the physical
  function of the pod's VF: all ports before it are on other functions.
\<close>

theorem getPortIdFromDCFPort_first:
  assumes "getPortIdFromDCFPort r addr s = (Ok i, s')"
  shows "\<exists>pf ports n. GetPfName (sriovUtils r) addr = Ok pf \<and> fst (listDCFPorts r s) = Ok ports \<and>
     n < length ports \<and> PortId (ports ! n) = i \<and> GetPfName (sriovUtils r) (PortPci (ports ! n)) = Ok pf \<and>
     (\<forall>j < n. GetPfName (sriovUtils r) (PortPci (ports ! j)) \<noteq> Ok pf)"
proof -
  from assms obtain pf ports where "GetPfName (sriovUtils r) addr = Ok pf" "listDCFPorts r s = (Ok ports, s')"
      "match_port (sriovUtils r) pf ports = Ok i"
    by (auto simp: getPortIdFromDCFPort_def gbind_Ok_iff)
  then show ?thesis
    unfolding match_port_Ok_iff by fastforce
qed

definition port_stub :: "(proto_msg, u32) grpc_stub" where
  "port_stub = sample_stub\<lparr>stub_ListPorts := ret [\<lparr>PortId = 4, PortPci = ''0000:18:01.0'', PortMode = ''dcf''\<rparr>]\<rparr>"

theorem getPortIdFromDCFPort_first_witness:
  "\<exists>pf ports n. GetPfName sample_sriov ''0000:18:01.5'' = Ok pf \<and>
     fst (listDCFPorts (sample_reconciler\<lparr>flowClient := GetDCFClient port_stub\<rparr>) sample_state) = Ok ports \<and>
     n < length ports \<and> PortId (ports ! n) = 4 \<and> GetPfName sample_sriov (PortPci (ports ! n)) = Ok pf \<and>
     (\<forall>j < n. GetPfName sample_sriov (PortPci (ports ! j)) \<noteq> Ok pf)"
proof -
  let ?r = "sample_reconciler\<lparr>flowClient := GetDCFClient port_stub\<rparr>"
  have "getPortIdFromDCFPort ?r ''0000:18:01.5'' sample_state = (Ok 4, sample_state\<lparr>calls := [CallListPorts]\<rparr>)"
    by (simp add: getPortIdFromDCFPort_def listDCFPorts_def remote_def gbind_def gwrap_def lift_def ret_def
        GetDCFClient_def dcfClient_ListPorts_def getDCFFlowClientConn_def port_stub_def sample_stub_def
        sample_reconciler_def sample_sriov_def sample_state_def)
  from getPortIdFromDCFPort_first [OF this] show ?thesis
    by (simp add: sample_reconciler_def)
qed

end
