(* ===== verification/Cluster_Flow_Props.thy ===== *)
theory Cluster_Flow_Props
  imports Cluster_Flow_Facts Node_Flow_Props
begin

text \<open>
  The properties of the cluster controller, with a small cluster for closed examples: a list of node
  configurations, the latest version first, that answers every request, one cluster configuration and pods on one node.
\<close>

section \<open>A cluster for the examples\<close>

type_synonym store = "NodeFlowConfig list"

definition sample_objs :: "store \<Rightarrow> NamespacedName \<rightharpoonup> NodeFlowConfig" where
  "sample_objs k n = List.find (\<lambda>c. nfc_Key c = n) k"

definition sample_networks :: "string \<Rightarrow> NetworkStatus list outcome" where
  "sample_networks ann =
     (if ann = ''bad'' then Err (Errorf ''invalid character'')
      else Ok [\<lparr>ns_Interface = ''net1'', ns_DeviceInfo = Some \<lparr>di_Type = ''pci'', di_PciAddress = Some ''0000:18:01.1''\<rparr>\<rparr>])"

definition sample_cluster :: "(unit, unit, store) ClusterFlowConfigReconciler" where
  "sample_cluster =
     \<lparr>kc_Get = (\<lambda>n k. case sample_objs k n of None \<Rightarrow> Err NotFound | Some c \<Rightarrow> Ok c),
      kc_Update = (\<lambda>c k. (Ok (), c # k)), kc_Create = (\<lambda>c k. (Ok (), c # k)),
      kc_ListPods = (\<lambda>_ _ _. Ok []), kc_ListClusterFlowConfigs = (\<lambda>_ _. Ok [sample_cfc]),
      LabelSelectorAsSelector = (\<lambda>_. Ok ()), selector_String = (\<lambda>_. []),
      rule_Marshal = (\<lambda>rule. Some [word_of_int (int (length (FlowRules_Action rule)))]), rule_Sum = (\<lambda>b. b),
      networks_of = sample_networks\<rparr>"

definition sample_pod :: "string \<Rightarrow> Pod" where
  "sample_pod ann = \<lparr>pod_Name = ''upf'', pod_NodeName = ''node1'', pod_Labels = [''app'' \<mapsto> ''upf'', ''x'' \<mapsto> ''y''],
     pod_Annotations = [network_status_key \<mapsto> ann], pod_Phase = ''Running''\<rparr>"

definition empty_nfc :: NodeFlowConfig where
  "empty_nfc = \<lparr>nfc_Key = \<lparr>Namespace = ''ns'', Name = ''node1''\<rparr>, nfc_Rules = [], nfc_PortInfo = None\<rparr>"

lemma sample_interface:
  "getPodInterfaceNameFromRawExtension (doc [(''podInterface'', JStr ''net1'')]) = Ok ''net1''"
  by code_simp

definition sample_node_rule :: FlowRules where
  "sample_node_rule = \<lparr>FlowRules_PortId = automaticPortId, FlowRules_Attr = Some sample_attr,
     FlowRules_Pattern = sample_pattern, FlowRules_Action = [pci_action ''0000:18:01.1'', end_action]\<rparr>"

lemma sample_nodeRule:
  assumes "ann \<noteq> ''bad''"
  shows "omap (nodeRule sample_cluster (sample_pod ann)) (cfc_Rules sample_cfc) = Ok [sample_node_rule]"
  using assms sample_interface
  by (simp add: sample_cfc_def nodeRule_def getNodeActionsFromClusterActions_def getNodeAction_def
      ClusterFlowActionType_String_def ClusterFlowActionToString_def getNodeActionForPodInterface_def
      sample_pod_def sample_cluster_def sample_networks_def sample_node_rule_def pci_action_def)

lemma sample_hash: "getFlowRulesHash sample_cluster rule = Some (hex_Encode [word_of_int (int (length (FlowRules_Action rule)))])"
  by (simp add: getFlowRulesHash_def sample_cluster_def)

lemma sample_update:
  assumes "ann \<noteq> ''bad''"
  shows "\<exists>m. updateNodeFlowConfigSpec sample_cluster (sample_pod ann) c [sample_cfc] m0 =
    (Ok (), c\<lparr>nfc_Rules := [sample_node_rule]\<rparr>, m)"
proof -
  obtain x where x: "cfc_Rules sample_cfc = [x]" by (simp add: sample_cfc_def)
  with sample_nodeRule [OF assms] have "nodeRule sample_cluster (sample_pod ann) x = Ok sample_node_rule"
    by simp
  then show ?thesis
    by (simp add: updateNodeFlowConfigSpec_def add_config_def x add_rule_def sample_hash gbind_def lift_def ret_def modify_def)
qed

section \<open>The rules of a node\<close>

text \<open>
  \<^bold>\<open>C3.\<close> An update that succeeds gives the node exactly the converted rules of all the configurations, in
  their order, without the repetitions of a hash; no two rules of the result share a hash, every hash of a
  converted rule is there, every rule has the automatic port, and the list of the hashes of each
  configuration is what is recorded for it.
\<close>

theorem updateNodeFlowConfigSpec_reference:
  assumes "updateNodeFlowConfigSpec r pod c items m = (Ok (), c', m')"
  shows "\<exists>rss. config_rules r pod items rss \<and>
     c' = c\<lparr>nfc_Rules := keep_first (rule_key r) {} (concat rss)\<rparr> \<and>
     m' = record_hashes r (nfc_Key c) (zip items rss) m \<and>
     distinct (map (rule_key r) (nfc_Rules c')) \<and>
     rule_key r ` set (nfc_Rules c') = rule_key r ` set (concat rss) \<and>
     (\<forall>rule \<in> set (nfc_Rules c'). FlowRules_PortId rule = automaticPortId)"
proof -
  obtain rss where rss: "config_rules r pod items rss"
      "c' = c\<lparr>nfc_Rules := keep_first (rule_key r) {} (concat rss)\<rparr>"
      "m' = record_hashes r (nfc_Key c) (zip items rss) m"
    using updateNodeFlowConfigSpec_Ok [OF assms] by blast
  have "FlowRules_PortId rule = automaticPortId" if "rule \<in> set (nfc_Rules c')" for rule
  proof -
    have "rule \<in> set (concat rss)"
      using that rss(2) keep_first_subset [of "rule_key r" "{}" "concat rss"] by auto
    from config_rules_props [OF rss(1) this] show ?thesis
      by (auto simp: nodeRule_def)
  qed
  then show ?thesis
    using rss keep_first_distinct [of "rule_key r" "{}" "concat rss"]
      keep_first_hashes [of "rule_key r" "{}" "concat rss"]
    by (intro exI [of _ rss]) simp
qed

theorem updateNodeFlowConfigSpec_reference_witness:
  "\<exists>c' m'. updateNodeFlowConfigSpec sample_cluster (sample_pod ''ok'') empty_nfc [sample_cfc] Map.empty = (Ok (), c', m') \<and>
     nfc_Rules c' = [sample_node_rule] \<and> distinct (map (rule_key sample_cluster) (nfc_Rules c')) \<and>
     (\<forall>rule \<in> set (nfc_Rules c'). FlowRules_PortId rule = automaticPortId)"
proof -
  obtain m where run: "updateNodeFlowConfigSpec sample_cluster (sample_pod ''ok'') empty_nfc [sample_cfc] Map.empty =
      (Ok (), empty_nfc\<lparr>nfc_Rules := [sample_node_rule]\<rparr>, m)"
    using sample_update [of "''ok''" empty_nfc Map.empty] by auto
  from updateNodeFlowConfigSpec_reference [OF run] run show ?thesis by auto
qed

text \<open>
  \<^bold>\<open>C13.\<close> The rules the cluster controller generates are accepted by the webhook of the node configuration:
  a rule of an admitted cluster configuration, converted for a pod whose network status names well-formed
  PCI addresses, is a rule the node webhook validates.
\<close>

theorem generated_rule_admitted:
  assumes "anypb_spec A" and "vf_packs A" and "pci_addresses_ok r"
    and "ClusterFlowConfig_ValidateCreate A cfc = Ok ()" and "rule \<in> set (cfc_Rules cfc)"
    and "nodeRule r pod rule = Ok newRule"
  shows "FlowRules_validate A newRule = Ok ()"
proof -
  have "ClusterFlowRule_validate A rule = Ok ()"
    using assms(4,5) by (auto simp: ClusterFlowConfig_ValidateCreate_def for_each_Ok_iff in_set_conv_nth)
  then show ?thesis
    using nodeRule_accepted assms(1-3,6) by blast
qed

lemma sample_pci_ok: "pci_addresses_ok sample_cluster"
proof -
  have "pci_MatchString ''0000:18:01.1''" by code_simp
  then show ?thesis
    by (simp add: pci_addresses_ok_def sample_cluster_def sample_networks_def)
qed

lemma sample_cfc_accepted: "ClusterFlowConfig_ValidateCreate plain_any sample_cfc = Ok ()"
proof -
  have "validateFlowPatterns plain_any sample_pattern = Ok ()" "validateFlowAttr (Some sample_attr) = Ok ()"
    using sample_rule_accepted by (simp_all add: FlowRules_validate_def sample_rule_def)
  moreover have "validateClusterFlowAction [\<lparr>cfa_Type = ToPodInterface,
      cfa_Conf = doc [(''podInterface'', JStr ''net1'')]\<rparr>] = Ok ()"
    by code_simp
  ultimately show ?thesis
    by (simp add: ClusterFlowConfig_ValidateCreate_def sample_cfc_def ClusterFlowRule_validate_def validatePodSelector_def)
qed

theorem generated_rule_admitted_witness: "FlowRules_validate plain_any sample_node_rule = Ok ()"
proof -
  obtain x where x: "cfc_Rules sample_cfc = [x]" by (simp add: sample_cfc_def)
  with sample_nodeRule [of "''ok''"] have new: "nodeRule sample_cluster (sample_pod ''ok'') x = Ok sample_node_rule"
    by simp
  show ?thesis
    by (rule generated_rule_admitted [OF plain_any_spec _ sample_pci_ok sample_cfc_accepted _ new])
      (simp_all add: vf_packs_def x)
qed

section \<open>Removing rules\<close>

text \<open>
  \<^bold>\<open>C12.\<close> Deleting a cluster configuration removes from every node it reached exactly the rules whose hash
  was recorded for it there, keeps the others in their order, touches no other node, and forgets the
  configuration; the in-place compaction of the slice is a filter.
\<close>

theorem cleanNodeFlowConfig_removes:
  assumes "store_spec r objs" and "Cluster2NodeRulesHashMap s req = Some m"
    and "distinct (ro (dom m))" and "set (ro (dom m)) = dom m"
  shows "\<exists>s'. cleanNodeFlowConfig r ro req s = (Ok (), s') \<and>
     Cluster2NodeRulesHashMap s' = (Cluster2NodeRulesHashMap s)(req := None) \<and>
     (\<forall>n hs. m n = Some hs \<longrightarrow> objs (kube s') n = map_option (\<lambda>c. c\<lparr>nfc_Rules :=
        filter (\<lambda>rule. \<exists>k. getFlowRulesHash r rule = Some k \<and> k \<notin> set hs) (nfc_Rules c)\<rparr>) (objs (kube s) n)) \<and>
     (\<forall>n. m n = None \<longrightarrow> objs (kube s') n = objs (kube s) n)"
proof -
  obtain s1 where s1: "gfor (\<lambda>n. case m n of None \<Rightarrow> ret () | Some hs \<Rightarrow> clean_one r n hs) (ro (dom m)) s = (Ok (), s1)"
      "Cluster2NodeRulesHashMap s1 = Cluster2NodeRulesHashMap s"
      "objs (kube s1) = (\<lambda>n. case m n of
         Some hs \<Rightarrow> if n \<in> set (ro (dom m)) then map_option (cleaned r hs) (objs (kube s) n) else objs (kube s) n
       | None \<Rightarrow> objs (kube s) n)"
    using clean_loop_store [OF assms(1,3), of m s] by blast
  have "cleanNodeFlowConfig r ro req s = (Ok (), s1\<lparr>Cluster2NodeRulesHashMap := (Cluster2NodeRulesHashMap s)(req := None)\<rparr>)"
    using s1(1,2) assms(2) by (simp add: cleanNodeFlowConfig_def gbind_def reading_def modify_def)
  then show ?thesis
    using s1(3) assms(4)
    by (intro exI [of _ "s1\<lparr>Cluster2NodeRulesHashMap := (Cluster2NodeRulesHashMap s)(req := None)\<rparr>"])
      (auto simp: cleaned_filter domIff)
qed

lemma sample_objs_Cons: "sample_objs (c # k) = (sample_objs k)(nfc_Key c \<mapsto> c)"
  by (auto simp: sample_objs_def fun_eq_iff)

lemma sample_store: "store_spec sample_cluster sample_objs"
  by (auto simp: store_spec_def sample_cluster_def sample_objs_Cons) (auto simp: sample_objs_def find_Some_iff)

definition busy_cluster_state :: "store cfc_state" where
  "busy_cluster_state =
     \<lparr>Cluster2NodeRulesHashMap = [cfc_Key sample_cfc \<mapsto> [nfc_Key empty_nfc \<mapsto> [hex_Encode [2]]]],
      kube = [empty_nfc\<lparr>nfc_Rules := [sample_node_rule]\<rparr>]\<rparr>"

theorem cleanNodeFlowConfig_removes_witness:
  "\<exists>s'. cleanNodeFlowConfig sample_cluster (\<lambda>_. [nfc_Key empty_nfc]) (cfc_Key sample_cfc) busy_cluster_state = (Ok (), s') \<and>
     sample_objs (kube s') (nfc_Key empty_nfc) = Some empty_nfc \<and>
     Cluster2NodeRulesHashMap s' = Map.empty"
proof -
  have hash: "getFlowRulesHash sample_cluster sample_node_rule = Some (hex_Encode [2])"
    by (simp add: getFlowRulesHash_def sample_cluster_def sample_node_rule_def)
  have obj: "sample_objs (kube busy_cluster_state) (nfc_Key empty_nfc) = Some (empty_nfc\<lparr>nfc_Rules := [sample_node_rule]\<rparr>)"
    by (simp add: sample_objs_def busy_cluster_state_def)
  have m: "Cluster2NodeRulesHashMap busy_cluster_state (cfc_Key sample_cfc) = Some [nfc_Key empty_nfc \<mapsto> [hex_Encode [2]]]"
    by (simp add: busy_cluster_state_def)
  have "empty_nfc\<lparr>nfc_Rules := []\<rparr> = empty_nfc" by (simp add: empty_nfc_def)
  then show ?thesis
    using cleanNodeFlowConfig_removes [OF sample_store m, of "\<lambda>_. [nfc_Key empty_nfc]"] obj hash
    by (auto simp: busy_cluster_state_def)
qed

text \<open>
  \<^bold>\<open>C16.\<close> What an update records is enough to undo it: after an update from one configuration, removing the
  hashes recorded for the node leaves none of its rules.
\<close>

theorem update_then_clean:
  assumes "updateNodeFlowConfigSpec r pod c [cfg] m = (Ok (), c', m')"
  shows "\<exists>n hs. m' (cfc_Key cfg) = Some n \<and> n (nfc_Key c) = Some hs \<and> cleanRules r hs (nfc_Rules c') = []"
proof -
  obtain rss where rss: "config_rules r pod [cfg] rss"
      "c' = c\<lparr>nfc_Rules := keep_first (rule_key r) {} (concat rss)\<rparr>"
      "m' = record_hashes r (nfc_Key c) (zip [cfg] rss) m"
    using updateNodeFlowConfigSpec_Ok [OF assms] by blast
  then obtain rs where rs: "rss = [rs]"
    by (auto simp: config_rules_def list_all2_Cons1)
  have "m' = set_hashes m (cfc_Key cfg) (nfc_Key c) (map (rule_key r) rs)"
    using rss(3) rs by (simp add: record_hashes_def)
  moreover have "cleanRules r (map (rule_key r) rs) (nfc_Rules c') = []"
  proof -
    have "getFlowRulesHash r n = Some (rule_key r n)" and "n \<in> set rs" if "n \<in> set (nfc_Rules c')" for n
    proof -
      show mem: "n \<in> set rs"
        using that rss(2) rs keep_first_subset [of "rule_key r" "{}" rs] by auto
      then show "getFlowRulesHash r n = Some (rule_key r n)"
        using config_rules_hash [OF rss(1), of n] rs by simp
    qed
    then show ?thesis
      by (auto simp: cleanRules_filter filter_empty_conv)
  qed
  ultimately show ?thesis
    by (auto simp: set_hashes_def)
qed

theorem update_then_clean_witness:
  "\<exists>c' m' n hs. updateNodeFlowConfigSpec sample_cluster (sample_pod ''ok'') empty_nfc [sample_cfc] Map.empty = (Ok (), c', m') \<and>
     nfc_Rules c' \<noteq> [] \<and> m' (cfc_Key sample_cfc) = Some n \<and> n (nfc_Key empty_nfc) = Some hs \<and>
     cleanRules sample_cluster hs (nfc_Rules c') = []"
proof -
  obtain m where run: "updateNodeFlowConfigSpec sample_cluster (sample_pod ''ok'') empty_nfc [sample_cfc] Map.empty =
      (Ok (), empty_nfc\<lparr>nfc_Rules := [sample_node_rule]\<rparr>, m)"
    using sample_update [of "''ok''" empty_nfc Map.empty] by auto
  from update_then_clean [OF run] run show ?thesis by auto
qed

section \<open>Pods\<close>

text \<open>
  A pod triggers exactly the cluster configurations whose match labels are all among its labels,
  in the order of the list and whatever the order in which the runtime visits the labels.
\<close>

theorem mapPodsToRequests_matching:
  assumes "kc_ListClusterFlowConfigs r None k = Ok items" and "valid_order ro"
    and "\<forall>i \<in> set items. \<exists>sel. cfc_PodSelector i = Some sel \<and> finite (dom (MatchLabels sel))"
  shows "mapPodsToRequests r ro (Some pod) k =
     Ok (map cfc_Key (filter (\<lambda>i. MatchLabels (the (cfc_PodSelector i)) \<subseteq>\<^sub>m pod_Labels pod) items))"
proof -
  let ?match = "\<lambda>i. MatchLabels (the (cfc_PodSelector i)) \<subseteq>\<^sub>m pod_Labels pod"
  have "pod_request ro pod i = Ok (if ?match i then [cfc_Key i] else [])" if i: "i \<in> set items" for i
  proof -
    obtain sel where sel: "cfc_PodSelector i = Some sel" "finite (dom (MatchLabels sel))"
      using assms(3) i by blast
    then show ?thesis
      using match_count_iff [of "ro (dom (MatchLabels sel))" "MatchLabels sel" "pod_Labels pod"]
        valid_orderD [OF assms(2) sel(2)] by (simp add: pod_request_def)
  qed
  then have "omap (pod_request ro pod) items = Ok (map (\<lambda>i. if ?match i then [cfc_Key i] else []) items)"
    by (rule omap_Ok_map)
  moreover have "concat (map (\<lambda>i. if ?match i then [cfc_Key i] else []) items) = map cfc_Key (filter ?match items)"
    by (induction items) auto
  ultimately show ?thesis
    using assms(1) by (simp add: mapPodsToRequests_def)
qed

theorem mapPodsToRequests_matching_witness:
  "mapPodsToRequests sample_cluster sorted_order (Some (sample_pod ''ok'')) [] = Ok [cfc_Key sample_cfc]"
proof -
  have "[''app'' \<mapsto> ''upf''] \<subseteq>\<^sub>m [''app'' \<mapsto> ''upf'', ''x'' \<mapsto> ''y'']"
    by (simp add: map_le_def)
  then show ?thesis
    using mapPodsToRequests_matching [of sample_cluster "[]" "[sample_cfc]" sorted_order "sample_pod ''ok''"]
      sorted_order_valid
    by (simp add: sample_cluster_def) (simp add: sample_cfc_def sample_pod_def)
qed


lemma sample_getNodeFlowConfig: "\<exists>c. getNodeFlowConfig sample_cluster node ns nodes k = Ok c"
  by (auto simp: getNodeFlowConfig_def sample_cluster_def Let_def split: option.splits)


text \<open>
  A pod that is skipped because its rules cannot be converted still destroys the rules computed for
  its node by an earlier pod: the object in the map was emptied before the conversion failed.
\<close>

theorem skipped_pod_wipes_node:
  assumes "pod_NodeName pod \<noteq> []" and "nodes (pod_NodeName pod) = Some c"
    and "cfc_Rules cfg = rule # rules" and "nodeRule r pod rule = Err e"
  shows "\<exists>s'. sync_pod r namespace (cfg # items) pod (nodes, s) =
     (Ok (), (nodes(pod_NodeName pod \<mapsto> c\<lparr>nfc_Rules := []\<rparr>), s'))"
proof -
  have "updateNodeFlowConfigSpec r pod c (cfg # items) m = (Err e, c\<lparr>nfc_Rules := []\<rparr>, m)" for m
    using assms(3,4) by (simp add: updateNodeFlowConfigSpec_def add_config_def add_rule_def gbind_def lift_def)
  then show ?thesis
    using assms(1,2) by (simp add: sync_pod_def getNodeFlowConfig_def)
qed

theorem skipped_pod_wipes_node_witness:
  "\<exists>s'. sync_pod sample_cluster ''ns'' [sample_cfc] (sample_pod ''bad'')
       ([''node1'' \<mapsto> empty_nfc\<lparr>nfc_Rules := [sample_node_rule]\<rparr>], busy_cluster_state) =
     (Ok (), ([''node1'' \<mapsto> empty_nfc], s'))"
proof -
  obtain x where x: "cfc_Rules sample_cfc = [x]" "cfr_Action x = [\<lparr>cfa_Type = ToPodInterface, cfa_Conf = doc [(''podInterface'', JStr ''net1'')]\<rparr>]"
    by (simp add: sample_cfc_def)
  have "\<exists>e. nodeRule sample_cluster (sample_pod ''bad'') x = Err e"
    using sample_interface
    by (simp add: x(2) nodeRule_def getNodeActionsFromClusterActions_def getNodeAction_def
        ClusterFlowActionType_String_def ClusterFlowActionToString_def getNodeActionForPodInterface_def
        sample_pod_def sample_cluster_def sample_networks_def)
  then obtain e where e: "nodeRule sample_cluster (sample_pod ''bad'') x = Err e" by blast
  have node: "pod_NodeName (sample_pod ''bad'') = ''node1''" by (simp add: sample_pod_def)
  have "empty_nfc\<lparr>nfc_Rules := []\<rparr> = empty_nfc" by (simp add: empty_nfc_def)
  then show ?thesis
    using skipped_pod_wipes_node [of "sample_pod ''bad''" "[''node1'' \<mapsto> empty_nfc\<lparr>nfc_Rules := [sample_node_rule]\<rparr>]" _ sample_cfc x "[]"
        sample_cluster e "''ns''" "[]" busy_cluster_state] e x(1)
    unfolding node by simp
qed

end
