(* ===== verification/Flow_Path_Props.thy ===== *)
theory Flow_Path_Props
  imports Cluster_Flow_Props
begin

text \<open>
  The way of a cluster rule to the DCF service, through three components: the webhook of the cluster configuration,
  the cluster controller, which turns the rule into one for the node of a pod, and the node controller, which turns
  that one into a request.
\<close>

section \<open>Actions that name a VF\<close>

text \<open>Packing a VF message works, whatever the index.\<close>

definition any_vf_packs :: "'any anypb \<Rightarrow> bool" where
  "any_vf_packs A \<longleftrightarrow> (\<forall>v. \<exists>a. any_New A (MsgVf v) = Ok a)"

text \<open>The VF behind an address, with an index that fits its field.\<close>

definition vf_known :: "SriovUtils \<Rightarrow> string \<Rightarrow> bool" where
  "vf_known S addr \<longleftrightarrow> (\<exists>n. GetVFID S addr = Ok n \<and> 0 \<le> n \<and> n < 2 ^ 32)"

text \<open>What the service is asked to do for an address: send the traffic to this VF.\<close>

definition to_vf :: "'any anypb \<Rightarrow> SriovUtils \<Rightarrow> string \<Rightarrow> 'any RteFlowAction \<Rightarrow> bool" where
  "to_vf A S addr act \<longleftrightarrow> action_Type act = RTE_FLOW_ACTION_TYPE_VF \<and>
     (\<exists>n a. GetVFID S addr = Ok n \<and> any_New A (MsgVf \<lparr>vf_Reserved = 0, vf_Original = 0, vf_Id = word_of_int n\<rparr>) = Ok a \<and>
        action_Conf act = Some a)"

lemma GetFlowActionAny_known:
  assumes "any_vf_packs A" and "vf_known S addr"
  shows "\<exists>n a. GetVFID S addr = Ok n \<and> any_New A (MsgVf \<lparr>vf_Reserved = 0, vf_Original = 0, vf_Id = word_of_int n\<rparr>) = Ok a \<and>
    GetFlowActionAny A RTE_FLOW_ACTION_TYPE_VFPCIADDR (Some (JObj [(''addr'', JStr addr)])) S = Ok a"
proof -
  obtain n where n: "GetVFID S addr = Ok n" "0 \<le> n" "n < 2 ^ 32" using assms(2) by (auto simp: vf_known_def)
  obtain a where a: "any_New A (MsgVf \<lparr>vf_Reserved = 0, vf_Original = 0, vf_Id = word_of_int n\<rparr>) = Ok a"
    using assms(1) by (auto simp: any_vf_packs_def)
  have "GetFlowActionAny A RTE_FLOW_ACTION_TYPE_VFPCIADDR (Some (JObj [(''addr'', JStr addr)])) S = Ok a"
    using GetFlowActionAny_VfPciAddr [of S addr A] n a by auto
  with n a show ?thesis by blast
qed

lemma getFlowActions_pci:
  assumes "any_vf_packs A" and "\<forall>addr \<in> set addrs. vf_known S addr \<and> addr \<noteq> []"
  shows "\<exists>out. getFlowActions A S pci (map pci_action addrs @ [end_action]) =
      Ok (out @ [\<lparr>action_Type = RTE_FLOW_ACTION_TYPE_END, action_Conf = None\<rparr>],
          if pci = [] \<and> addrs \<noteq> [] then hd addrs else pci) \<and>
    list_all2 (to_vf A S) addrs out"
  using assms(2)
proof (induction addrs arbitrary: pci)
  case Nil
  then show ?case by (simp add: end_action_def END_type)
next
  case (Cons addr addrs)
  obtain n a where a: "GetVFID S addr = Ok n" "any_New A (MsgVf \<lparr>vf_Reserved = 0, vf_Original = 0, vf_Id = word_of_int n\<rparr>) = Ok a"
    "GetFlowActionAny A RTE_FLOW_ACTION_TYPE_VFPCIADDR (Some (JObj [(''addr'', JStr addr)])) S = Ok a"
    using GetFlowActionAny_known [OF assms(1), of S addr] Cons.prems by (metis list.set_intros(1))
  let ?pci = "if pci = [] then addr else pci"
  obtain out where out: "getFlowActions A S ?pci (map pci_action addrs @ [end_action]) =
      Ok (out @ [\<lparr>action_Type = RTE_FLOW_ACTION_TYPE_END, action_Conf = None\<rparr>], if ?pci = [] \<and> addrs \<noteq> [] then hd addrs else ?pci)"
    "list_all2 (to_vf A S) addrs out"
    using Cons.IH [of ?pci] Cons.prems by auto
  let ?act = "\<lparr>action_Type = RTE_FLOW_ACTION_TYPE_VF, action_Conf = Some a\<rparr>"
  have "getFlowActions A S pci (map pci_action (addr # addrs) @ [end_action]) =
      Ok ((?act # out) @ [\<lparr>action_Type = RTE_FLOW_ACTION_TYPE_END, action_Conf = None\<rparr>],
          if pci = [] \<and> addr # addrs \<noteq> [] then hd (addr # addrs) else pci)"
    using out(1) a Cons.prems
    by (simp add: pci_action_def GetFlowActionType_VFPCIADDR Unmarshal_VfPciAddr field_readers split: if_splits)
  moreover have "list_all2 (to_vf A S) (addr # addrs) (?act # out)"
    using out(2) a by (simp add: to_vf_def)
  ultimately show ?case by blast
qed

section \<open>From the cluster to the service\<close>



end
