(* ===== verification/Node_Flow_System.thy ===== *)
theory Node_Flow_System
  imports Node_Flow_Facts
begin

text \<open>
  The daemon of a node together with the DCF service. The service is seen through the flows it has installed; a run is a
  sequence of passes of the reconciler, of passes that crash the program, and of restarts. Every step of the reconciler
  keeps track of the flows that are installed and not in the cache; so do the runs, by induction over their rules.
\<close>

section \<open>The service\<close>

text \<open>
  \<open>V d\<close> are the flows installed in state \<open>d\<close> of the service, by port and number, with the requests they come from.
  The service documents: a flow is created under a number that is not in use on its port, or the answer says that it was
  not; a flow is destroyed, or the answer says that it was not; a call that fails has no effect, and nothing else
  changes the flows.
\<close>

type_synonym ('any, 'd) flow_view = "'d \<Rightarrow> u32 \<times> u32 \<rightharpoonup> 'any RequestFlowCreate"

definition created :: "('any, 'd) flow_view \<Rightarrow> 'any RequestFlowCreate \<Rightarrow> 'd \<Rightarrow> ResponseFlowCreate outcome \<Rightarrow> 'd \<Rightarrow> bool" where
  "created V q d x d' \<longleftrightarrow>
     (case x of
        Ok res \<Rightarrow>
          if rte_failed (cres_ErrorInfo res) then V d' = V d
          else (req_PortId q, cres_FlowId res) \<notin> dom (V d) \<and> V d' = (V d)((req_PortId q, cres_FlowId res) \<mapsto> q)
      | _ \<Rightarrow> V d' = V d)"

definition destroyed :: "('any, 'd) flow_view \<Rightarrow> RequestFlowofPort \<Rightarrow> 'd \<Rightarrow> ResponseFlow outcome \<Rightarrow> 'd \<Rightarrow> bool" where
  "destroyed V q d x d' \<longleftrightarrow>
     V d' = (case x of
        Ok res \<Rightarrow> if rte_failed (res_ErrorInfo res) then V d else (V d)((del_PortId q, del_FlowId q) := None)
      | _ \<Rightarrow> V d)"

definition stub_spec :: "('any, 'd) grpc_stub \<Rightarrow> ('any, 'd) flow_view \<Rightarrow> bool" where
  "stub_spec G V \<longleftrightarrow>
     (\<forall>d. V (snd (stub_DialContext G d)) = V d) \<and> (\<forall>d. V (snd (stub_ListPorts G d)) = V d) \<and>
     (\<forall>q d. V (snd (stub_Validate G q d)) = V d) \<and>
     (\<forall>q d. created V q d (fst (stub_Create G q d)) (snd (stub_Create G q d))) \<and>
     (\<forall>q d. destroyed V q d (fst (stub_Destroy G q d)) (snd (stub_Destroy G q d)))"

text \<open>Every \<^verbatim>\<open>Destroy\<close> that is answered is carried out.\<close>

definition never_refuses :: "('any, 'd) grpc_stub \<Rightarrow> bool" where
  "never_refuses G \<longleftrightarrow> (\<forall>q d res d'. stub_Destroy G q d = (Ok res, d') \<longrightarrow> \<not> rte_failed (res_ErrorInfo res))"

text \<open>The client of \<^verbatim>\<open>dcf_client.go\<close>, which dials before every call, passes this on.\<close>

lemma client_keeps:
  assumes "stub_spec G V"
  shows "keeps (\<lambda>d. V d = v) (dcfClient_Validate G q)" "keeps (\<lambda>d. V d = v) (dcfClient_ListPorts G)"
    "keeps (\<lambda>d. V d = v) (getDCFFlowClientConn G)"
proof -
  show dial: "keeps (\<lambda>d. V d = v) (getDCFFlowClientConn G)"
    unfolding getDCFFlowClientConn_def using assms by (intro keeps_gwrap) (simp add: keeps_def stub_spec_def)
  show "keeps (\<lambda>d. V d = v) (dcfClient_Validate G q)" "keeps (\<lambda>d. V d = v) (dcfClient_ListPorts G)"
    unfolding dcfClient_Validate_def dcfClient_ListPorts_def
    by (intro keeps_gbind dial; use assms in \<open>simp add: keeps_def stub_spec_def\<close>)+
qed

lemma client_dials:
  assumes "stub_spec G V" and "gbind (getDCFFlowClientConn G) (\<lambda>_. m) d = (x, d')"
  obtains (called) d1 where "V d1 = V d" and "m d1 = (x, d')"
    | (not_connected) "V d' = V d" and "\<forall>y. x \<noteq> Ok y"
  using assms(2)
proof (cases rule: gbind_cases)
  case (Ok y d1)
  with keepsD [OF client_keeps(3) [OF assms(1), of "V d"] refl Ok(1)] show ?thesis
    by (intro called) auto
next
  case (Err e)
  with keepsD [OF client_keeps(3) [OF assms(1), of "V d"] refl Err(1)] show ?thesis
    by (intro not_connected) auto
next
  case (Panic p)
  with keepsD [OF client_keeps(3) [OF assms(1), of "V d"] refl Panic(1)] show ?thesis
    by (intro not_connected) auto
qed

lemma client_Create:
  assumes "stub_spec G V" and "dcfClient_Create G q d = (x, d')"
  shows "created V q d x d'"
  using assms unfolding dcfClient_Create_def
proof (cases rule: client_dials)
  case (called d1)
  with assms(1) have "created V q d1 x d'"
    unfolding stub_spec_def by (metis fst_conv snd_conv)
  with called(1) show ?thesis by (cases x) (auto simp: created_def split: if_splits)
next
  case not_connected
  then show ?thesis by (cases x) (simp_all add: created_def)
qed

lemma client_Destroy:
  assumes "stub_spec G V" and "dcfClient_Destroy G q d = (x, d')"
  shows "destroyed V q d x d' \<and> (never_refuses G \<longrightarrow> (\<forall>res. x = Ok res \<longrightarrow> \<not> rte_failed (res_ErrorInfo res)))"
  using assms unfolding dcfClient_Destroy_def
proof (cases rule: client_dials)
  case (called d1)
  with assms(1) have "destroyed V q d1 x d'"
    unfolding stub_spec_def by (metis fst_conv snd_conv)
  with called show ?thesis by (cases x) (auto simp: destroyed_def never_refuses_def)
next
  case not_connected
  then show ?thesis by (cases x) (simp_all add: destroyed_def)
qed

section \<open>Cache and service\<close>

definition flow_key :: "'any FlowCreateRecord \<Rightarrow> u32 \<times> u32" where
  "flow_key rec = (req_PortId (FlowRule rec), FlowID rec)"

abbreviation cached_keys :: "(string \<rightharpoonup> 'any FlowCreateRecord) \<Rightarrow> (u32 \<times> u32) set" where
  "cached_keys m \<equiv> flow_key ` ran m"

text \<open>Every flow in the cache is installed, each under its own number.\<close>

definition backed :: "('any, 'd) flow_view \<Rightarrow> ('any, 'd) nfc_state \<Rightarrow> bool" where
  "backed V s \<longleftrightarrow> finite (dom (cached s)) \<and>
     (\<forall>k rec. cached s k = Some rec \<longrightarrow> V (dcf s) (flow_key rec) = Some (FlowRule rec)) \<and>
     (\<forall>k k' rec rec'. cached s k = Some rec \<longrightarrow> cached s k' = Some rec' \<longrightarrow> flow_key rec = flow_key rec' \<longrightarrow> k = k')"

text \<open>The flows that are installed and not in the cache.\<close>

definition orphans :: "('any, 'd) flow_view \<Rightarrow> ('any, 'd) nfc_state \<Rightarrow> u32 \<times> u32 \<rightharpoonup> 'any RequestFlowCreate" where
  "orphans V s = V (dcf s) |` (- cached_keys (cached s))"

text \<open>What every step keeps: orphans stay (\<open>b = False\<close>), and none are added when \<^verbatim>\<open>Destroy\<close> is never refused.\<close>

definition tracks :: "('any, 'd) flow_view \<Rightarrow> bool \<Rightarrow> (u32 \<times> u32 \<rightharpoonup> 'any RequestFlowCreate) \<Rightarrow> ('any, 'd) nfc_state \<Rightarrow> bool" where
  "tracks V b m s \<longleftrightarrow> backed V s \<and> m \<subseteq>\<^sub>m orphans V s \<and> (b \<longrightarrow> orphans V s = m)"

lemma cached_keys_delete:
  assumes "backed V s" and "cached s k = Some rec"
  shows "cached_keys ((cached s)(k := None)) = cached_keys (cached s) - {flow_key rec}"
proof (intro set_eqI iffI)
  have inj: "j = k" if "cached s j = Some x" "flow_key x = flow_key rec" for j x
    using assms that by (auto simp: backed_def)
  fix f assume "f \<in> cached_keys ((cached s)(k := None))"
  then obtain j x where "f = flow_key x" "j \<noteq> k" "cached s j = Some x"
    by (auto simp: ran_def split: if_splits)
  with inj show "f \<in> cached_keys (cached s) - {flow_key rec}"
    by (auto intro: ranI)
next
  fix f assume "f \<in> cached_keys (cached s) - {flow_key rec}"
  then obtain j x where f: "f = flow_key x" "cached s j = Some x" "f \<noteq> flow_key rec"
    by (auto simp: ran_def)
  with assms(2) have "((cached s)(k := None)) j = Some x" by auto
  then show "f \<in> cached_keys ((cached s)(k := None))"
    unfolding f(1) by (intro imageI ranI)
qed


lemma orphans_delete:
  assumes b: "backed V s" and k: "cached s k = Some rec"
    and d: "destroyed V (del_req rec) (dcf s) x d'"
    and s': "s' = s\<lparr>dcf := d', calls := c, flowSets := FlowSets_Delete (flowSets s) k\<rparr>" and x: "x = Ok res"
  shows "backed V s'"
    and "orphans V s' = (if rte_failed (res_ErrorInfo res) then (orphans V s)(flow_key rec \<mapsto> FlowRule rec) else orphans V s)"
proof -
  have f: "(del_PortId (del_req rec), del_FlowId (del_req rec)) = flow_key rec"
    by (simp add: del_req_def flow_key_def)
  have V: "V d' = (if rte_failed (res_ErrorInfo res) then V (dcf s) else (V (dcf s))(flow_key rec := None))"
    using d by (simp add: destroyed_def x f)
  have c: "cached s' = (cached s)(k := None)"
    by (simp add: s')
  have rec: "V (dcf s) (flow_key rec) = Some (FlowRule rec)"
    using b k by (simp add: backed_def)
  show "backed V s'"
    unfolding backed_def c using b k by (auto simp: s' V backed_def split: if_splits)
  show "orphans V s' = (if rte_failed (res_ErrorInfo res) then (orphans V s)(flow_key rec \<mapsto> FlowRule rec) else orphans V s)"
    unfolding orphans_def c cached_keys_delete [OF b k] using rec k
    by (auto simp: s' V restrict_map_def fun_eq_iff ran_def)
qed

lemma orphans_create:
  assumes b: "backed V s" and k: "cached s k = None"
    and d: "(req_PortId q, i) \<notin> dom (V (dcf s))" "V d' = (V (dcf s))((req_PortId q, i) \<mapsto> q)"
    and s': "s' = s\<lparr>dcf := d', calls := c, flowSets := FlowSets_Add (flowSets s) k i q\<rparr>"
  shows "backed V s'" and "orphans V s' = orphans V s"
proof -
  let ?rec = "newFlowCreateRecord i q"
  have f: "flow_key ?rec = (req_PortId q, i)" "FlowRule ?rec = q"
    by (simp_all add: flow_key_def newFlowCreateRecord_def)
  have c: "cached s' = (cached s)(k \<mapsto> ?rec)"
    using k by (simp add: s' domIff)
  have new: "flow_key rec \<noteq> (req_PortId q, i)" if "cached s j = Some rec" for j rec
    using b that d(1) unfolding backed_def by (metis domI)
  show "backed V s'"
    unfolding backed_def c using b new new [symmetric] by (auto simp: s' d(2) backed_def f split: if_splits)
  have "cached_keys (cached s') = insert (req_PortId q, i) (cached_keys (cached s))"
    using k by (simp add: c f)
  with d(1) show "orphans V s' = orphans V s"
    unfolding orphans_def by (auto simp: s' d(2) restrict_map_def fun_eq_iff)
qed


section \<open>Every step of the reconciler keeps track\<close>

lemma tracks_quiet:
  assumes "tracks V b m s" and "V (dcf s') = V (dcf s)" and "flowSets s' = flowSets s"
  shows "tracks V b m s'"
  using assms by (simp add: tracks_def backed_def orphans_def)

lemma tracks_remote:
  assumes "\<And>v. keeps (\<lambda>d. V d = v) f"
  shows "keeps (tracks V b m) (remote c f)"
proof (rule keepsI)
  fix s x s' assume t: "tracks V b m s" and run: "remote c f s = (x, s')"
  then obtain d where "f (dcf s) = (x, d)" "s' = s\<lparr>dcf := d, calls := calls s @ [c]\<rparr>"
    by (auto simp: remote_eq)
  with keepsD [OF assms refl this(1)] show "tracks V b m s'"
    by (intro tracks_quiet [OF t]) simp_all
qed

lemma tracks_deleteRule:
  assumes G: "flowClient r = GetDCFClient G" "stub_spec G V" "b \<longrightarrow> never_refuses G"
    and t: "tracks V b m s" and k: "cached s k = Some rec" and run: "deleteRule r k rec s = (x, s')"
  shows "tracks V b m s' \<and> cached s' \<subseteq>\<^sub>m cached s \<and> (\<forall>j. j \<noteq> k \<longrightarrow> cached s' j = cached s j)"
proof -
  obtain y d' where d: "dcfClient_Destroy G (del_req rec) (dcf s) = (y, d')"
    by fastforce
  note D = client_Destroy [OF G(2) d]
  have client: "Destroy (flowClient r) = dcfClient_Destroy G"
    by (simp add: G(1) GetDCFClient_def)
  let ?s = "s\<lparr>dcf := d', calls := calls s @ [CallDestroy (del_req rec)]\<rparr>"
  show ?thesis
  proof (cases y)
    case (Ok res)
    let ?s' = "s\<lparr>dcf := d', calls := calls s @ [CallDestroy (del_req rec)], flowSets := FlowSets_Delete (flowSets s) k\<rparr>"
    have s': "s' = ?s'"
      using run d Ok by (simp add: deleteRule_def Let_def del_req_def [symmetric] client gbind_def attempt_def remote_def)
    note o = orphans_delete [OF _ k conjunct1 [OF D] s' Ok]
    have "orphans V s (flow_key rec) = None"
      using k by (auto simp: orphans_def restrict_map_def intro: ranI)
    with t have "m (flow_key rec) = None"
      unfolding tracks_def map_le_def by (metis domIff)
    with t o D G(3) Ok have "tracks V b m s'"
      by (auto simp: tracks_def map_le_def)
    then show ?thesis by (auto simp: s' map_le_def)
  next
    case (Err e)
    then have "s' = ?s"
      using run d by (simp add: deleteRule_def Let_def del_req_def [symmetric] client gbind_def attempt_def remote_def)
    with D Err show ?thesis
      by (auto simp: destroyed_def map_le_def intro: tracks_quiet [OF t])
  next
    case (Panic p)
    then have "s' = ?s"
      using run d by (simp add: deleteRule_def Let_def del_req_def [symmetric] client gbind_def attempt_def remote_def)
    with D Panic show ?thesis
      by (auto simp: destroyed_def map_le_def intro: tracks_quiet [OF t])
  qed
qed


text \<open>The answer of a \<^verbatim>\<open>Destroy\<close> is not looked at: when it says that the flow was not destroyed, the cache loses the flow.\<close>

lemma refused_destroy_is_forgotten:
  assumes G: "flowClient r = GetDCFClient G" "stub_spec G V" and b: "backed V s" and k: "cached s k = Some rec"
    and refused: "dcfClient_Destroy G (del_req rec) (dcf s) = (Ok res, d')" "rte_failed (res_ErrorInfo res)"
  shows "\<exists>s'. deleteRule r k rec s = (Ok (), s') \<and> cached s' k = None \<and> orphans V s' (flow_key rec) = Some (FlowRule rec)"
proof -
  let ?s' = "s\<lparr>dcf := d', calls := calls s @ [CallDestroy (del_req rec)], flowSets := FlowSets_Delete (flowSets s) k\<rparr>"
  have "deleteRule r k rec s = (Ok (), ?s')"
    using refused(1)
    by (simp add: deleteRule_def Let_def del_req_def [symmetric] G(1) GetDCFClient_def gbind_def attempt_def remote_def modify_def)
  with orphans_delete(2) [OF b k conjunct1 [OF client_Destroy [OF G(2) refused(1)]] refl refl] refused(2) show ?thesis
    by (intro exI [of _ ?s']) simp
qed

lemma tracks_deletes:
  assumes G: "flowClient r = GetDCFClient G" "stub_spec G V" "b \<longrightarrow> never_refuses G"
  shows "tracks V b m s \<Longrightarrow> \<forall>k \<in> set ks. k \<in> dom d \<longrightarrow> cached s k = d k \<Longrightarrow> distinct ks \<Longrightarrow>
    over_map d (deleteRule r) ks s = (x, s') \<Longrightarrow> tracks V b m s' \<and> cached s' \<subseteq>\<^sub>m cached s"
proof (induction ks arbitrary: s)
  case Nil
  then show ?case by (simp add: over_map_def)
next
  case (Cons k ks)
  show ?case
  proof (cases "d k")
    case None
    then show ?thesis
      using Cons.IH [OF Cons.prems(1)] Cons.prems(2-4) by (simp add: over_map_def)
  next
    case (Some rec)
    with Cons.prems(2) have k: "cached s k = Some rec" by (metis domI list.set_intros(1))
    from Cons.prems(4) Some
    have "gbind (deleteRule r k rec) (\<lambda>_. over_map d (deleteRule r) ks) s = (x, s')"
      by (simp add: over_map_def)
    then show ?thesis
    proof (cases rule: gbind_cases)
      case (Ok u s1)
      note step = tracks_deleteRule [OF G Cons.prems(1) k Ok(1)]
      have "\<forall>j \<in> set ks. j \<in> dom d \<longrightarrow> cached s1 j = d j"
        using step Cons.prems(2,3) by (metis distinct.simps(2) list.set_intros(2))
      from Cons.IH [OF _ this _ Ok(2)] step Cons.prems(3) show ?thesis
        by (auto intro: map_le_trans)
    qed (use tracks_deleteRule [OF G Cons.prems(1) k] in auto)
  qed
qed

lemma tracks_createRule:
  assumes G: "flowClient r = GetDCFClient G" "stub_spec G V"
    and t: "tracks V b m s" and k: "cached s k = None" and run: "createRule r k q s = (x, s')"
  shows "tracks V b m s' \<and> (\<forall>j. j \<noteq> k \<longrightarrow> cached s' j = cached s j)"
proof -
  have client: "Validate (flowClient r) = dcfClient_Validate G" "Create (flowClient r) = dcfClient_Create G"
    by (simp_all add: G(1) GetDCFClient_def)
  obtain y d1 where v: "dcfClient_Validate G q (dcf s) = (y, d1)" by fastforce
  have V1: "V d1 = V (dcf s)"
    using keepsD [OF client_keeps(1) [OF G(2)] refl v] .
  obtain z d2 where c: "dcfClient_Create G q d1 = (z, d2)" by fastforce
  note C = client_Create [OF G(2) c]
  let ?s1 = "s\<lparr>dcf := d1, calls := calls s @ [CallValidate q]\<rparr>"
  let ?s2 = "?s1\<lparr>dcf := d2, calls := calls s @ [CallValidate q, CallCreate q]\<rparr>"
  have "s' = ?s1 \<or> V d2 = V (dcf s) \<and> s' = ?s2 \<or>
      (\<exists>res. z = Ok res \<and> \<not> rte_failed (cres_ErrorInfo res) \<and>
        s' = ?s2\<lparr>flowSets := FlowSets_Add (flowSets s) k (cres_FlowId res) q\<rparr>)"
    using run v c C V1
    by (cases y; cases z) (auto simp: createRule_def client gbind_def gwrap_def remote_def created_def lift_def modify_def split: if_splits)
  then show ?thesis
  proof (elim disjE conjE exE)
    assume "s' = ?s1"
    with V1 show ?thesis by (auto intro: tracks_quiet [OF t])
  next
    assume "V d2 = V (dcf s)" "s' = ?s2"
    then show ?thesis by (auto intro: tracks_quiet [OF t])
  next
    fix res assume res: "z = Ok res" "\<not> rte_failed (cres_ErrorInfo res)"
      and s': "s' = ?s2\<lparr>flowSets := FlowSets_Add (flowSets s) k (cres_FlowId res) q\<rparr>"
    have "backed V s" using t by (simp add: tracks_def)
    from orphans_create [OF this k, of q "cres_FlowId res" d2] C res V1
    have "backed V s' \<and> orphans V s' = orphans V s"
      by (simp add: created_def s')
    with t k show ?thesis by (auto simp: tracks_def s')
  qed
qed


lemma tracks_creates:
  assumes G: "flowClient r = GetDCFClient G" "stub_spec G V"
  shows "tracks V b m s \<Longrightarrow> \<forall>k \<in> set ks. k \<in> dom d \<longrightarrow> cached s k = None \<Longrightarrow> distinct ks \<Longrightarrow>
    over_map d (createRule r) ks s = (x, s') \<Longrightarrow> tracks V b m s'"
proof (induction ks arbitrary: s)
  case Nil
  then show ?case by (simp add: over_map_def)
next
  case (Cons k ks)
  show ?case
  proof (cases "d k")
    case None
    then show ?thesis
      using Cons.IH [OF Cons.prems(1)] Cons.prems(2-4) by (simp add: over_map_def)
  next
    case (Some q)
    with Cons.prems(2) have k: "cached s k = None" by (metis domI list.set_intros(1))
    from Cons.prems(4) Some
    have "gbind (createRule r k q) (\<lambda>_. over_map d (createRule r) ks) s = (x, s')"
      by (simp add: over_map_def)
    then show ?thesis
    proof (cases rule: gbind_cases)
      case (Ok u s1)
      note step = tracks_createRule [OF G Cons.prems(1) k Ok(1)]
      have "\<forall>j \<in> set ks. j \<in> dom d \<longrightarrow> cached s1 j = None"
        using step Cons.prems(2,3) by (metis distinct.simps(2) list.set_intros(2))
      from Cons.IH [OF _ this _ Ok(2)] step Cons.prems(3) show ?thesis by simp
    qed (use tracks_createRule [OF G Cons.prems(1) k] in auto)
  qed
qed

lemma tracks_sync:
  assumes G: "flowClient r = GetDCFClient G" "stub_spec G V" "b \<longrightarrow> never_refuses G" and ord: "valid_order ro"
    and t: "tracks V b m s" and ta: "getToAddAndDelete r (flowSets s) reqs = (toAdd, toDelete)"
    and run: "createAndDeleteRules r ro toAdd toDelete s = (x, s')"
  shows "tracks V b m s'"
proof -
  have fin: "finite (dom (cached s))"
    using t by (simp add: tracks_def backed_def)
  note oa = valid_orderD [OF ord finite_toAdd [OF ta]] and od = valid_orderD [OF ord finite_toDelete [OF ta fin]]
  have del: "\<forall>k \<in> set (ro (dom toDelete)). k \<in> dom toDelete \<longrightarrow> cached s k = toDelete k"
    by (auto simp: toDelete_eq [OF ta] restrict_map_def split: if_splits)
  have new: "cached s k = None" if "k \<in> dom toAdd" for k
    using that toAdd_dom [OF ta] by (auto simp: FlowSets_Has_def)
  from run show ?thesis
    unfolding createAndDeleteRules_def
  proof (cases rule: gbind_cases)
    case (Ok u s1)
    note d = tracks_deletes [OF G t del conjunct1 [OF od] Ok(1) [unfolded deleteRules_def]]
    have "\<forall>k \<in> set (ro (dom toAdd)). k \<in> dom toAdd \<longrightarrow> cached s1 k = None"
      using new d by (metis domIff map_le_def)
    note c = tracks_creates [OF G(1,2) conjunct1 [OF d] this conjunct1 [OF oa]]
    from Ok(2) show ?thesis
      by (cases rule: gbind_cases) (auto simp: createRules_def dest: c)
  qed (use tracks_deletes [OF G t del conjunct1 [OF od]] in \<open>auto simp: deleteRules_def\<close>)
qed

lemma tracks_syncRules:
  assumes G: "flowClient r = GetDCFClient G" "stub_spec G V" "b \<longrightarrow> never_refuses G" and ord: "valid_order ro"
  shows "keeps (tracks V b m) (syncRules r ro p)"
    and "keeps (tracks V b m) (listDCFPorts r)"
proof -
  show ports: "keeps (tracks V b m) (listDCFPorts r)"
    unfolding listDCFPorts_def
    by (intro keeps_intros tracks_remote) (simp add: G(1) GetDCFClient_def client_keeps [OF G(2)])
  have "keeps (tracks V b m) (getFlowCreateRequests r fr)" for fr
    unfolding getFlowCreateRequests_def getPortIdFromDCFPort_def
    by (auto intro!: keeps_intros ports split: prod.splits)
  moreover have "keeps (tracks V b m)
      (gbind (reading (\<lambda>s. getToAddAndDelete r (flowSets s) reqs)) (\<lambda>(a, d). createAndDeleteRules r ro a d))" for reqs
    by (rule keepsI) (auto simp: gbind_def reading_def split: prod.splits dest: tracks_sync [OF G ord])
  ultimately show "keeps (tracks V b m) (syncRules r ro p)"
    unfolding syncRules_def by (intro keeps_gbind [OF keeps_gmap])
qed

lemma tracks_Reconcile:
  assumes G: "flowClient r = GetDCFClient G" "stub_spec G V" "b \<longrightarrow> never_refuses G" and ord: "valid_order ro"
  shows "keeps (tracks V b m) (NodeFlowConfig_Reconcile r ro got)"
proof -
  have "keeps (tracks V b m) (gbind (reading (\<lambda>s. FlowSets_GetCompliments (flowSets s) [])) (\<lambda>d. gbind (attempt (deleteRules r ro d)) (\<lambda>_. ret ())))"
  proof (rule keepsI)
    fix s x s' assume t: "tracks V b m s"
      and "gbind (reading (\<lambda>s. FlowSets_GetCompliments (flowSets s) [])) (\<lambda>d. gbind (attempt (deleteRules r ro d)) (\<lambda>_. ret ())) s = (x, s')"
    then have run: "gbind (attempt (deleteRules r ro (cached s))) (\<lambda>_. ret ()) s = (x, s')"
      by (simp add: gbind_def reading_def)
    have "distinct (ro (dom (cached s)))"
      using valid_orderD [OF ord] t by (simp add: tracks_def backed_def)
    note d = tracks_deletes [OF G t _ this]
    from run show "tracks V b m s'"
      by (cases rule: gbind_cases) (auto simp: deleteRules_def attempt_eq attempt_Panic dest: d [rotated])
  qed
  moreover have "keeps (tracks V b m) (updateStatus ports)" for ports
    unfolding updateStatus_def by (intro keeps_modify) (auto intro: tracks_quiet)
  ultimately show ?thesis
    unfolding NodeFlowConfig_Reconcile_def deleteAllRules_def syncFlowConfig_def
    by (auto intro!: keeps_intros tracks_syncRules [OF G ord] split: outcome.splits)
qed


lemma delete_loop_no_error: "over_map d (deleteRule r) ks s \<noteq> (Err e, s')"
proof (induction ks arbitrary: s)
  case Nil
  then show ?case by (simp add: over_map_def)
next
  case (Cons k ks)
  have "deleteRule r k rec s \<noteq> (Err e, s1)" for rec s1
    by (auto simp: deleteRule_def Let_def gbind_Err_iff split: outcome.splits)
  with Cons.IH show ?case
    by (cases "d k") (auto simp: over_map_def gbind_Err_iff)
qed

section \<open>Runs of the daemon\<close>

text \<open>
  The program starts with an empty cache (\<^verbatim>\<open>cmd/flowconfig-daemon/main.go\<close>). A pass ends with or without an error; a panic
  ends the program, which is then started again, as it may be at any time between two passes. The service goes on.
\<close>

definition restarted :: "('any, 'd) nfc_state \<Rightarrow> ('any, 'd) nfc_state" where
  "restarted s = s\<lparr>flowSets := NewFlowSets\<rparr>"

datatype flow_event = Passed | Crashed | Restarted

inductive flow_run ::
    "('any, 'd) NodeFlowConfigReconciler \<Rightarrow> ('any, 'd) nfc_state \<Rightarrow> flow_event list \<Rightarrow> ('any, 'd) nfc_state \<Rightarrow> bool"
  for r s where
  begin_run: "flow_run r s [] s"
| pass: "flow_run r s t s1 \<Longrightarrow> valid_order ro \<Longrightarrow> NodeFlowConfig_Reconcile r ro got s1 = (x, s2) \<Longrightarrow> \<forall>p. x \<noteq> Panic p \<Longrightarrow>
    flow_run r s (t @ [Passed]) s2"
| crash: "flow_run r s t s1 \<Longrightarrow> valid_order ro \<Longrightarrow> NodeFlowConfig_Reconcile r ro got s1 = (Panic p, s2) \<Longrightarrow>
    flow_run r s (t @ [Crashed]) (restarted s2)"
| restart: "flow_run r s t s1 \<Longrightarrow> flow_run r s (t @ [Restarted]) (restarted s1)"

lemma restarted_sel [simp]: "cached (restarted s) = Map.empty" "dcf (restarted s) = dcf s"
  by (simp_all add: restarted_def)

lemma backed_restarted [simp]: "backed V (restarted s)"
  by (simp add: backed_def)

lemma orphans_restarted [simp]: "orphans V (restarted s) = V (dcf s)"
  by (simp add: orphans_def restrict_map_def fun_eq_iff)

lemma orphans_installed: "orphans V s \<subseteq>\<^sub>m V (dcf s)"
  by (auto simp: orphans_def map_le_def restrict_map_def dom_def)

lemma tracks_restarted: "tracks V False m s \<Longrightarrow> tracks V False m (restarted s)"
  by (auto simp: tracks_def intro: map_le_trans orphans_installed)

text \<open>Rule induction: what is tracked stays so along every run, and without orphans along runs of passes.\<close>

lemma run_tracks:
  assumes "flow_run r s t s'" and G: "flowClient r = GetDCFClient G" "stub_spec G V"
    and "backed V s"
  shows "tracks V False (orphans V s) s'"
  using assms(1)
proof induction
  case begin_run
  then show ?case using assms(4) by (simp add: tracks_def)
next
  case (pass t s1 ro got x s2)
  from keepsD [OF tracks_Reconcile [OF G _ pass(2)] pass.IH pass(3)] show ?case by simp
next
  case (crash t s1 ro got p s2)
  from keepsD [OF tracks_Reconcile [OF G _ crash(2)] crash.IH crash(3)] show ?case
    by (intro tracks_restarted) simp
next
  case (restart t s1)
  then show ?case by (intro tracks_restarted)
qed

definition in_step :: "('any, 'd) flow_view \<Rightarrow> ('any, 'd) nfc_state \<Rightarrow> bool" where
  "in_step V s \<longleftrightarrow> backed V s \<and> orphans V s = Map.empty"

lemma in_step_iff: "in_step V s \<longleftrightarrow> tracks V True Map.empty s"
  by (auto simp: in_step_def tracks_def)

lemma in_step_installed:
  assumes "in_step V s"
  shows "V (dcf s) f = Some q \<longleftrightarrow> (\<exists>rec \<in> ran (cached s). flow_key rec = f \<and> FlowRule rec = q)"
proof
  assume q: "V (dcf s) f = Some q"
  have "orphans V s f = None"
    using assms by (simp add: in_step_def)
  with q have "f \<in> cached_keys (cached s)"
    by (auto simp: orphans_def restrict_map_def split: if_splits)
  with q assms show "\<exists>rec \<in> ran (cached s). flow_key rec = f \<and> FlowRule rec = q"
    by (auto simp: in_step_def backed_def ran_def)
next
  assume "\<exists>rec \<in> ran (cached s). flow_key rec = f \<and> FlowRule rec = q"
  with assms show "V (dcf s) f = Some q"
    by (auto simp: in_step_def backed_def ran_def)
qed

lemma run_in_step:
  assumes "flow_run r s t s'" and G: "flowClient r = GetDCFClient G" "stub_spec G V" "never_refuses G"
    and "set t \<subseteq> {Passed}" and "in_step V s"
  shows "in_step V s'"
  using assms(1,5)
proof induction
  case begin_run
  then show ?case using assms(6) by simp
next
  case (pass t s1 ro got x s2)
  with keepsD [OF tracks_Reconcile [OF G(1,2) _ pass(2), of True Map.empty] _ pass(3)] G(3) show ?case
    by (simp add: in_step_iff)
qed simp_all

lemma cache_ok_New [simp]: "cache_ok r NewFlowSets"
  by (simp add: cache_ok_def)

lemma run_cache_ok:
  assumes "flow_run r s t s'" and "cache_ok r (flowSets s)"
  shows "cache_ok r (flowSets s')"
  using assms
proof induction
  case (pass t s1 ro got x s2)
  from keepsD [OF keeps_Reconcile pass.IH [OF pass.prems] pass(3)] show ?case .
qed (simp_all add: restarted_def)

end
