(* ===== verification/Flow_Grpc.thy ===== *)
theory Flow_Grpc
  imports Node_Flow_System
begin

text \<open>
  \<^verbatim>\<open>pkg/flowconfig/rpc/v1/flow/flow_grpc.pb.go\<close>: the client and the server side of the service, with the messages that only
  they use. A connection (\<^verbatim>\<open>grpc.ClientConnInterface\<close>) gets the name of the method, the request and the zero value of
  the response, which it fills; a server decodes into the zero value of the request. That a message keeps the type of
  the variable it is decoded into is static in Go; here the other cases panic. The library that connects both sides is
  a parameter: \<open>connected\<close> says that it calls the handler registered under the name of the method, with the request of
  the client, and returns the answer.
\<close>

section \<open>Messages\<close>

record RequestofPort =
  rop_PortId :: u32

record RequestIsolate =
  iso_PortId :: u32
  iso_IsolatedMode :: u32

record RteFlowQueryCount =
  qc_Reset :: u32
  qc_HitsSet :: u32
  qc_BytesSet :: u32
  qc_Reserved :: u32
  qc_Hits :: "64 word"
  qc_Bytes :: "64 word"

record ResponseFlowQuery =
  qres_ErrorInfo :: "RteFlowError option"
  qres_Data :: "RteFlowQueryCount option"

record RteFlowListResult =
  lr_FlowId :: u32
  lr_Description :: string

record ResponseFlowList =
  lres_Results :: "RteFlowListResult list"

record ResponsePortList =
  pres_Ports :: "PortsInformation list"

text \<open>\<^verbatim>\<open>RequestListPorts\<close> has no fields.\<close>

datatype 'any grpc_message =
    M_RequestFlowCreate "'any RequestFlowCreate"
  | M_RequestFlowofPort RequestFlowofPort
  | M_RequestofPort RequestofPort
  | M_RequestIsolate RequestIsolate
  | M_RequestListPorts unit
  | M_ResponseFlow ResponseFlow
  | M_ResponseFlowCreate ResponseFlowCreate
  | M_ResponseFlowQuery ResponseFlowQuery
  | M_ResponseFlowList ResponseFlowList
  | M_ResponsePortList ResponsePortList

section \<open>The client\<close>

record ('any, 'd) ClientConn =
  Invoke :: "string \<Rightarrow> 'any grpc_message \<Rightarrow> 'any grpc_message \<Rightarrow> ('d, 'any grpc_message) go"

abbreviation wrong_type :: "('d, 'a) go" where
  "wrong_type \<equiv> lift (Panic ''interface conversion'')"

definition flowServiceClient_Validate :: "('any, 'd) ClientConn \<Rightarrow> 'any RequestFlowCreate \<Rightarrow> ('d, ResponseFlow) go" where
  "flowServiceClient_Validate cc req =
     gbind (Invoke cc ''/flow.FlowService/Validate'' (M_RequestFlowCreate req) (M_ResponseFlow \<lparr>res_ErrorInfo = None\<rparr>)) (\<lambda>out.
     case out of M_ResponseFlow res \<Rightarrow> ret res | _ \<Rightarrow> wrong_type)"

definition flowServiceClient_Create :: "('any, 'd) ClientConn \<Rightarrow> 'any RequestFlowCreate \<Rightarrow> ('d, ResponseFlowCreate) go" where
  "flowServiceClient_Create cc req =
     gbind (Invoke cc ''/flow.FlowService/Create'' (M_RequestFlowCreate req) (M_ResponseFlowCreate \<lparr>cres_FlowId = 0, cres_ErrorInfo = None\<rparr>)) (\<lambda>out.
     case out of M_ResponseFlowCreate res \<Rightarrow> ret res | _ \<Rightarrow> wrong_type)"

definition flowServiceClient_Destroy :: "('any, 'd) ClientConn \<Rightarrow> RequestFlowofPort \<Rightarrow> ('d, ResponseFlow) go" where
  "flowServiceClient_Destroy cc req =
     gbind (Invoke cc ''/flow.FlowService/Destroy'' (M_RequestFlowofPort req) (M_ResponseFlow \<lparr>res_ErrorInfo = None\<rparr>)) (\<lambda>out.
     case out of M_ResponseFlow res \<Rightarrow> ret res | _ \<Rightarrow> wrong_type)"

definition flowServiceClient_Query :: "('any, 'd) ClientConn \<Rightarrow> RequestFlowofPort \<Rightarrow> ('d, ResponseFlowQuery) go" where
  "flowServiceClient_Query cc req =
     gbind (Invoke cc ''/flow.FlowService/Query'' (M_RequestFlowofPort req) (M_ResponseFlowQuery \<lparr>qres_ErrorInfo = None, qres_Data = None\<rparr>)) (\<lambda>out.
     case out of M_ResponseFlowQuery res \<Rightarrow> ret res | _ \<Rightarrow> wrong_type)"

definition flowServiceClient_List :: "('any, 'd) ClientConn \<Rightarrow> RequestofPort \<Rightarrow> ('d, ResponseFlowList) go" where
  "flowServiceClient_List cc req =
     gbind (Invoke cc ''/flow.FlowService/List'' (M_RequestofPort req) (M_ResponseFlowList \<lparr>lres_Results = []\<rparr>)) (\<lambda>out.
     case out of M_ResponseFlowList res \<Rightarrow> ret res | _ \<Rightarrow> wrong_type)"

definition flowServiceClient_Flush :: "('any, 'd) ClientConn \<Rightarrow> RequestofPort \<Rightarrow> ('d, ResponseFlow) go" where
  "flowServiceClient_Flush cc req =
     gbind (Invoke cc ''/flow.FlowService/Flush'' (M_RequestofPort req) (M_ResponseFlow \<lparr>res_ErrorInfo = None\<rparr>)) (\<lambda>out.
     case out of M_ResponseFlow res \<Rightarrow> ret res | _ \<Rightarrow> wrong_type)"

definition flowServiceClient_Isolate :: "('any, 'd) ClientConn \<Rightarrow> RequestIsolate \<Rightarrow> ('d, ResponseFlow) go" where
  "flowServiceClient_Isolate cc req =
     gbind (Invoke cc ''/flow.FlowService/Isolate'' (M_RequestIsolate req) (M_ResponseFlow \<lparr>res_ErrorInfo = None\<rparr>)) (\<lambda>out.
     case out of M_ResponseFlow res \<Rightarrow> ret res | _ \<Rightarrow> wrong_type)"

definition flowServiceClient_ListPorts :: "('any, 'd) ClientConn \<Rightarrow> unit \<Rightarrow> ('d, ResponsePortList) go" where
  "flowServiceClient_ListPorts cc req =
     gbind (Invoke cc ''/flow.FlowService/ListPorts'' (M_RequestListPorts req) (M_ResponsePortList \<lparr>pres_Ports = []\<rparr>)) (\<lambda>out.
     case out of M_ResponsePortList res \<Rightarrow> ret res | _ \<Rightarrow> wrong_type)"

section \<open>The server\<close>

record ('any, 'd) FlowServiceServer =
  srv_Validate :: "'any RequestFlowCreate \<Rightarrow> ('d, ResponseFlow) go"
  srv_Create :: "'any RequestFlowCreate \<Rightarrow> ('d, ResponseFlowCreate) go"
  srv_Destroy :: "RequestFlowofPort \<Rightarrow> ('d, ResponseFlow) go"
  srv_Query :: "RequestFlowofPort \<Rightarrow> ('d, ResponseFlowQuery) go"
  srv_List :: "RequestofPort \<Rightarrow> ('d, ResponseFlowList) go"
  srv_Flush :: "RequestofPort \<Rightarrow> ('d, ResponseFlow) go"
  srv_Isolate :: "RequestIsolate \<Rightarrow> ('d, ResponseFlow) go"
  srv_ListPorts :: "unit \<Rightarrow> ('d, ResponsePortList) go"

definition UnimplementedFlowServiceServer :: "('any, 'd) FlowServiceServer" where
  "UnimplementedFlowServiceServer =
     \<lparr>srv_Validate = (\<lambda>_. lift (Err (Errorf ''method Validate not implemented''))),
      srv_Create = (\<lambda>_. lift (Err (Errorf ''method Create not implemented''))),
      srv_Destroy = (\<lambda>_. lift (Err (Errorf ''method Destroy not implemented''))),
      srv_Query = (\<lambda>_. lift (Err (Errorf ''method Query not implemented''))),
      srv_List = (\<lambda>_. lift (Err (Errorf ''method List not implemented''))),
      srv_Flush = (\<lambda>_. lift (Err (Errorf ''method Flush not implemented''))),
      srv_Isolate = (\<lambda>_. lift (Err (Errorf ''method Isolate not implemented''))),
      srv_ListPorts = (\<lambda>_. lift (Err (Errorf ''method ListPorts not implemented'')))\<rparr>"

text \<open>The decoder of the library and the interceptor, which gets the name of the method, the request and the handler.\<close>

type_synonym ('any, 'd) unary = "'any grpc_message \<Rightarrow> ('d, 'any grpc_message) go"
type_synonym ('any, 'd) interceptor = "string \<Rightarrow> 'any grpc_message \<Rightarrow> ('any, 'd) unary \<Rightarrow> ('d, 'any grpc_message) go"
type_synonym ('any, 'd) method_handler =
  "('any, 'd) FlowServiceServer \<Rightarrow> ('any, 'd) unary \<Rightarrow> ('any, 'd) interceptor option \<Rightarrow> ('d, 'any grpc_message) go"

definition FlowService_Validate_Handler :: "('any, 'd) method_handler" where
  "FlowService_Validate_Handler srv dec interceptor =
     gbind (dec (M_RequestFlowCreate \<lparr>req_PortId = 0, req_Attr = None, req_Pattern = [], req_Action = []\<rparr>)) (\<lambda>i.
     let handler = (\<lambda>req. case req of M_RequestFlowCreate q \<Rightarrow> gbind (srv_Validate srv q) (\<lambda>res. ret (M_ResponseFlow res)) | _ \<Rightarrow> wrong_type) in
     case interceptor of None \<Rightarrow> handler i | Some f \<Rightarrow> f ''/flow.FlowService/Validate'' i handler)"

definition FlowService_Create_Handler :: "('any, 'd) method_handler" where
  "FlowService_Create_Handler srv dec interceptor =
     gbind (dec (M_RequestFlowCreate \<lparr>req_PortId = 0, req_Attr = None, req_Pattern = [], req_Action = []\<rparr>)) (\<lambda>i.
     let handler = (\<lambda>req. case req of M_RequestFlowCreate q \<Rightarrow> gbind (srv_Create srv q) (\<lambda>res. ret (M_ResponseFlowCreate res)) | _ \<Rightarrow> wrong_type) in
     case interceptor of None \<Rightarrow> handler i | Some f \<Rightarrow> f ''/flow.FlowService/Create'' i handler)"

definition FlowService_Destroy_Handler :: "('any, 'd) method_handler" where
  "FlowService_Destroy_Handler srv dec interceptor =
     gbind (dec (M_RequestFlowofPort \<lparr>del_PortId = 0, del_FlowId = 0\<rparr>)) (\<lambda>i.
     let handler = (\<lambda>req. case req of M_RequestFlowofPort q \<Rightarrow> gbind (srv_Destroy srv q) (\<lambda>res. ret (M_ResponseFlow res)) | _ \<Rightarrow> wrong_type) in
     case interceptor of None \<Rightarrow> handler i | Some f \<Rightarrow> f ''/flow.FlowService/Destroy'' i handler)"

definition FlowService_Query_Handler :: "('any, 'd) method_handler" where
  "FlowService_Query_Handler srv dec interceptor =
     gbind (dec (M_RequestFlowofPort \<lparr>del_PortId = 0, del_FlowId = 0\<rparr>)) (\<lambda>i.
     let handler = (\<lambda>req. case req of M_RequestFlowofPort q \<Rightarrow> gbind (srv_Query srv q) (\<lambda>res. ret (M_ResponseFlowQuery res)) | _ \<Rightarrow> wrong_type) in
     case interceptor of None \<Rightarrow> handler i | Some f \<Rightarrow> f ''/flow.FlowService/Query'' i handler)"

definition FlowService_List_Handler :: "('any, 'd) method_handler" where
  "FlowService_List_Handler srv dec interceptor =
     gbind (dec (M_RequestofPort \<lparr>rop_PortId = 0\<rparr>)) (\<lambda>i.
     let handler = (\<lambda>req. case req of M_RequestofPort q \<Rightarrow> gbind (srv_List srv q) (\<lambda>res. ret (M_ResponseFlowList res)) | _ \<Rightarrow> wrong_type) in
     case interceptor of None \<Rightarrow> handler i | Some f \<Rightarrow> f ''/flow.FlowService/List'' i handler)"

definition FlowService_Flush_Handler :: "('any, 'd) method_handler" where
  "FlowService_Flush_Handler srv dec interceptor =
     gbind (dec (M_RequestofPort \<lparr>rop_PortId = 0\<rparr>)) (\<lambda>i.
     let handler = (\<lambda>req. case req of M_RequestofPort q \<Rightarrow> gbind (srv_Flush srv q) (\<lambda>res. ret (M_ResponseFlow res)) | _ \<Rightarrow> wrong_type) in
     case interceptor of None \<Rightarrow> handler i | Some f \<Rightarrow> f ''/flow.FlowService/Flush'' i handler)"

definition FlowService_Isolate_Handler :: "('any, 'd) method_handler" where
  "FlowService_Isolate_Handler srv dec interceptor =
     gbind (dec (M_RequestIsolate \<lparr>iso_PortId = 0, iso_IsolatedMode = 0\<rparr>)) (\<lambda>i.
     let handler = (\<lambda>req. case req of M_RequestIsolate q \<Rightarrow> gbind (srv_Isolate srv q) (\<lambda>res. ret (M_ResponseFlow res)) | _ \<Rightarrow> wrong_type) in
     case interceptor of None \<Rightarrow> handler i | Some f \<Rightarrow> f ''/flow.FlowService/Isolate'' i handler)"

definition FlowService_ListPorts_Handler :: "('any, 'd) method_handler" where
  "FlowService_ListPorts_Handler srv dec interceptor =
     gbind (dec (M_RequestListPorts ())) (\<lambda>i.
     let handler = (\<lambda>req. case req of M_RequestListPorts q \<Rightarrow> gbind (srv_ListPorts srv q) (\<lambda>res. ret (M_ResponsePortList res)) | _ \<Rightarrow> wrong_type) in
     case interceptor of None \<Rightarrow> handler i | Some f \<Rightarrow> f ''/flow.FlowService/ListPorts'' i handler)"

record ('any, 'd) ServiceDesc =
  ServiceName :: string
  Methods :: "(string \<times> ('any, 'd) method_handler) list"

definition FlowService_ServiceDesc :: "('any, 'd) ServiceDesc" where
  "FlowService_ServiceDesc =
     \<lparr>ServiceName = ''flow.FlowService'',
      Methods = [(''Validate'', FlowService_Validate_Handler),
        (''Create'', FlowService_Create_Handler),
        (''Destroy'', FlowService_Destroy_Handler),
        (''Query'', FlowService_Query_Handler),
        (''List'', FlowService_List_Handler),
        (''Flush'', FlowService_Flush_Handler),
        (''Isolate'', FlowService_Isolate_Handler),
        (''ListPorts'', FlowService_ListPorts_Handler)]\<rparr>"

section \<open>Both sides together\<close>

text \<open>An interceptor that only looks on, as those for logging and metrics.\<close>

definition passes_on :: "('any, 'd) interceptor option \<Rightarrow> bool" where
  "passes_on interceptor \<longleftrightarrow> (\<forall>f. interceptor = Some f \<longrightarrow> (\<forall>m i h. f m i h = h i))"

definition connected ::
    "('any, 'd) ClientConn \<Rightarrow> ('any, 'd) ServiceDesc \<Rightarrow> ('any, 'd) FlowServiceServer \<Rightarrow> ('any, 'd) interceptor option \<Rightarrow> bool" where
  "connected cc desc srv interceptor \<longleftrightarrow>
     (\<forall>name handler i out. map_of (Methods desc) name = Some handler \<longrightarrow>
        Invoke cc (''/'' @ ServiceName desc @ ''/'' @ name) i out = handler srv (\<lambda>_. ret i) interceptor)"

lemma connectedD:
  "connected cc desc srv interceptor \<Longrightarrow> map_of (Methods desc) name = Some handler \<Longrightarrow>
    Invoke cc (''/'' @ ServiceName desc @ ''/'' @ name) i out = handler srv (\<lambda>_. ret i) interceptor"
  by (simp add: connected_def)

lemmas FlowService_handlers =
  FlowService_Validate_Handler_def
  FlowService_Create_Handler_def
  FlowService_Destroy_Handler_def
  FlowService_Query_Handler_def
  FlowService_List_Handler_def
  FlowService_Flush_Handler_def
  FlowService_Isolate_Handler_def
  FlowService_ListPorts_Handler_def

lemmas flowServiceClient_defs =
  flowServiceClient_Validate_def
  flowServiceClient_Create_def
  flowServiceClient_Destroy_def
  flowServiceClient_Query_def
  flowServiceClient_List_def
  flowServiceClient_Flush_def
  flowServiceClient_Isolate_def
  flowServiceClient_ListPorts_def

text \<open>Every method of the client reaches the method of the server, with its request, and returns its answer.\<close>

lemma client_reaches_server:
  assumes "connected cc FlowService_ServiceDesc srv interceptor" and "passes_on interceptor"
  shows "flowServiceClient_Validate cc = srv_Validate srv"
    "flowServiceClient_Create cc = srv_Create srv"
    "flowServiceClient_Destroy cc = srv_Destroy srv"
    "flowServiceClient_Query cc = srv_Query srv"
    "flowServiceClient_List cc = srv_List srv"
    "flowServiceClient_Flush cc = srv_Flush srv"
    "flowServiceClient_Isolate cc = srv_Isolate srv"
    "flowServiceClient_ListPorts cc = srv_ListPorts srv"
proof -
  have bind: "gbind (gbind m (\<lambda>x. ret (f x))) g = gbind m (\<lambda>x. g (f x))" for m :: "('d, 'x) go" and f :: "'x \<Rightarrow> 'y" and g :: "'y \<Rightarrow> ('d, 'z) go"
    by (simp add: gbind_assoc)
  have unit: "gbind m ret = m" for m :: "('d, 'x) go"
    by (rule ext) (simp add: gbind_def ret_def split: prod.splits outcome.splits)

  have "Invoke cc ''/flow.FlowService/Validate'' (M_RequestFlowCreate q) out = gbind (srv_Validate srv q) (\<lambda>res. ret (M_ResponseFlow res))" for q out
    using connectedD [OF assms(1), of "''Validate''" FlowService_Validate_Handler "M_RequestFlowCreate q" out] assms(2)
    by (cases interceptor) (simp_all add: FlowService_ServiceDesc_def FlowService_Validate_Handler_def passes_on_def)
  then show "flowServiceClient_Validate cc = srv_Validate srv"
    by (intro ext [of "flowServiceClient_Validate cc"]) (simp add: flowServiceClient_Validate_def bind unit)
  have "Invoke cc ''/flow.FlowService/Create'' (M_RequestFlowCreate q) out = gbind (srv_Create srv q) (\<lambda>res. ret (M_ResponseFlowCreate res))" for q out
    using connectedD [OF assms(1), of "''Create''" FlowService_Create_Handler "M_RequestFlowCreate q" out] assms(2)
    by (cases interceptor) (simp_all add: FlowService_ServiceDesc_def FlowService_Create_Handler_def passes_on_def)
  then show "flowServiceClient_Create cc = srv_Create srv"
    by (intro ext [of "flowServiceClient_Create cc"]) (simp add: flowServiceClient_Create_def bind unit)
  have "Invoke cc ''/flow.FlowService/Destroy'' (M_RequestFlowofPort q) out = gbind (srv_Destroy srv q) (\<lambda>res. ret (M_ResponseFlow res))" for q out
    using connectedD [OF assms(1), of "''Destroy''" FlowService_Destroy_Handler "M_RequestFlowofPort q" out] assms(2)
    by (cases interceptor) (simp_all add: FlowService_ServiceDesc_def FlowService_Destroy_Handler_def passes_on_def)
  then show "flowServiceClient_Destroy cc = srv_Destroy srv"
    by (intro ext [of "flowServiceClient_Destroy cc"]) (simp add: flowServiceClient_Destroy_def bind unit)
  have "Invoke cc ''/flow.FlowService/Query'' (M_RequestFlowofPort q) out = gbind (srv_Query srv q) (\<lambda>res. ret (M_ResponseFlowQuery res))" for q out
    using connectedD [OF assms(1), of "''Query''" FlowService_Query_Handler "M_RequestFlowofPort q" out] assms(2)
    by (cases interceptor) (simp_all add: FlowService_ServiceDesc_def FlowService_Query_Handler_def passes_on_def)
  then show "flowServiceClient_Query cc = srv_Query srv"
    by (intro ext [of "flowServiceClient_Query cc"]) (simp add: flowServiceClient_Query_def bind unit)
  have "Invoke cc ''/flow.FlowService/List'' (M_RequestofPort q) out = gbind (srv_List srv q) (\<lambda>res. ret (M_ResponseFlowList res))" for q out
    using connectedD [OF assms(1), of "''List''" FlowService_List_Handler "M_RequestofPort q" out] assms(2)
    by (cases interceptor) (simp_all add: FlowService_ServiceDesc_def FlowService_List_Handler_def passes_on_def)
  then show "flowServiceClient_List cc = srv_List srv"
    by (intro ext [of "flowServiceClient_List cc"]) (simp add: flowServiceClient_List_def bind unit)
  have "Invoke cc ''/flow.FlowService/Flush'' (M_RequestofPort q) out = gbind (srv_Flush srv q) (\<lambda>res. ret (M_ResponseFlow res))" for q out
    using connectedD [OF assms(1), of "''Flush''" FlowService_Flush_Handler "M_RequestofPort q" out] assms(2)
    by (cases interceptor) (simp_all add: FlowService_ServiceDesc_def FlowService_Flush_Handler_def passes_on_def)
  then show "flowServiceClient_Flush cc = srv_Flush srv"
    by (intro ext [of "flowServiceClient_Flush cc"]) (simp add: flowServiceClient_Flush_def bind unit)
  have "Invoke cc ''/flow.FlowService/Isolate'' (M_RequestIsolate q) out = gbind (srv_Isolate srv q) (\<lambda>res. ret (M_ResponseFlow res))" for q out
    using connectedD [OF assms(1), of "''Isolate''" FlowService_Isolate_Handler "M_RequestIsolate q" out] assms(2)
    by (cases interceptor) (simp_all add: FlowService_ServiceDesc_def FlowService_Isolate_Handler_def passes_on_def)
  then show "flowServiceClient_Isolate cc = srv_Isolate srv"
    by (intro ext [of "flowServiceClient_Isolate cc"]) (simp add: flowServiceClient_Isolate_def bind unit)
  have "Invoke cc ''/flow.FlowService/ListPorts'' (M_RequestListPorts q) out = gbind (srv_ListPorts srv q) (\<lambda>res. ret (M_ResponsePortList res))" for q out
    using connectedD [OF assms(1), of "''ListPorts''" FlowService_ListPorts_Handler "M_RequestListPorts q" out] assms(2)
    by (cases interceptor) (simp_all add: FlowService_ServiceDesc_def FlowService_ListPorts_Handler_def passes_on_def)
  then show "flowServiceClient_ListPorts cc = srv_ListPorts srv"
    by (intro ext [of "flowServiceClient_ListPorts cc"]) (simp add: flowServiceClient_ListPorts_def bind unit)
qed

text \<open>A connection within one program satisfies the hypothesis.\<close>

definition local_conn ::
    "('any, 'd) ServiceDesc \<Rightarrow> ('any, 'd) FlowServiceServer \<Rightarrow> ('any, 'd) interceptor option \<Rightarrow> ('any, 'd) ClientConn" where
  "local_conn desc srv interceptor =
     \<lparr>Invoke = (\<lambda>m i out.
        case map_of (map (\<lambda>(name, handler). (''/'' @ ServiceName desc @ ''/'' @ name, handler)) (Methods desc)) m of
          Some handler \<Rightarrow> handler srv (\<lambda>_. ret i) interceptor
        | None \<Rightarrow> lift (Err (Errorf ''unknown method'')))\<rparr>"

lemma map_of_prefixed: "map_of (map (\<lambda>(name, x). (p @ name, x)) ms) (p @ name) = map_of ms name"
  by (induction ms) auto

lemma local_connected: "connected (local_conn desc srv interceptor) desc srv interceptor"
  using map_of_prefixed [of "''/'' @ ServiceName desc @ ''/''" "Methods desc"] by (simp add: connected_def local_conn_def)

section \<open>The DCF client over a connection\<close>

text \<open>What \<^verbatim>\<open>dcf_client.go\<close> calls: the dial, and the methods of the client that \<^verbatim>\<open>NewFlowServiceClient\<close> makes.\<close>

definition NewFlowServiceClient :: "('d, unit) go \<Rightarrow> ('any, 'd) ClientConn \<Rightarrow> ('any, 'd) grpc_stub" where
  "NewFlowServiceClient dial cc =
     \<lparr>stub_DialContext = dial, stub_Validate = flowServiceClient_Validate cc, stub_Create = flowServiceClient_Create cc,
      stub_Destroy = flowServiceClient_Destroy cc,
      stub_ListPorts = gbind (flowServiceClient_ListPorts cc ()) (\<lambda>res. ret (pres_Ports res))\<rparr>"

text \<open>A server that keeps the contract of the service on its flows.\<close>

definition flow_server_spec :: "('any, 'd) FlowServiceServer \<Rightarrow> ('any, 'd) flow_view \<Rightarrow> bool" where
  "flow_server_spec srv V \<longleftrightarrow>
     (\<forall>d. V (snd (srv_ListPorts srv () d)) = V d) \<and> (\<forall>q d. V (snd (srv_Validate srv q d)) = V d) \<and>
     (\<forall>q d. created V q d (fst (srv_Create srv q d)) (snd (srv_Create srv q d))) \<and>
     (\<forall>q d. destroyed V q d (fst (srv_Destroy srv q d)) (snd (srv_Destroy srv q d)))"

lemma snd_gbind_ret: "snd (gbind m (\<lambda>x. ret (f x)) d) = snd (m d)"
  by (simp add: gbind_def ret_def split: prod.splits outcome.splits)

lemma connected_stub_spec:
  assumes "connected cc FlowService_ServiceDesc srv interceptor" and "passes_on interceptor"
    and "flow_server_spec srv V" and "\<And>d. V (snd (dial d)) = V d"
  shows "stub_spec (NewFlowServiceClient dial cc) V"
  using assms(3,4)
  by (simp add: stub_spec_def flow_server_spec_def NewFlowServiceClient_def client_reaches_server [OF assms(1,2)] snd_gbind_ret)

lemma unimplemented_stub:
  assumes "connected cc FlowService_ServiceDesc UnimplementedFlowServiceServer interceptor" and "passes_on interceptor"
  shows "stub_Create (NewFlowServiceClient dial cc) q d = (Err (Errorf ''method Create not implemented''), d)"
  by (simp add: NewFlowServiceClient_def client_reaches_server [OF assms] UnimplementedFlowServiceServer_def lift_def)

end
