(* ===== verification/Ethernet_Types.thy ===== *)
theory Ethernet_Types
  imports Go_Prelude
begin

text \<open>
  \<^verbatim>\<open>apis/ethernet/v1\<close>: the configuration of devices for a cluster and for a node, the devices a node
  reports, and the device selector (\<^verbatim>\<open>helper.go\<close>). \<^verbatim>\<open>metav1.Condition\<close> is reduced to the fields the
  daemon sets. Timestamps are numbers.
\<close>

record DeviceSelector =
  sel_VendorID :: string
  sel_DeviceID :: string
  sel_PCIAddress :: string

record DeviceConfig =
  DDPURL :: string
  DDPChecksum :: string
  FWURL :: string
  FWChecksum :: string
  FWUpdateParam :: string

abbreviation empty_DeviceConfig :: DeviceConfig where
  "empty_DeviceConfig \<equiv> \<lparr>DDPURL = [], DDPChecksum = [], FWURL = [], FWChecksum = [], FWUpdateParam = []\<rparr>"

record EthernetClusterConfigSpec =
  NodeSelector :: "string \<rightharpoonup> string"
  ecc_DeviceSelector :: DeviceSelector
  ecc_DeviceConfig :: DeviceConfig
  Priority :: int

record EthernetClusterConfig =
  ecc_Name :: string
  CreationTimestamp :: int
  ecc_Spec :: EthernetClusterConfigSpec

record DeviceNodeConfig =
  dnc_PCIAddress :: string
  dnc_DeviceConfig :: DeviceConfig

record EthernetNodeConfigSpec =
  enc_Config :: "DeviceNodeConfig list"
  DrainSkip :: bool

record FirmwareInfo =
  fw_MAC :: string
  fw_Version :: string

record DDPInfo =
  ddp_PackageName :: string
  ddp_Version :: string
  ddp_TrackID :: string

record Device =
  dev_VendorID :: string
  dev_DeviceID :: string
  dev_PCIAddress :: string
  dev_Name :: string
  dev_Driver :: string
  dev_DriverVersion :: string
  dev_Firmware :: FirmwareInfo
  dev_DDP :: DDPInfo

record status_condition =
  cond_Status :: bool
  cond_Reason :: string
  cond_Message :: string
  cond_ObservedGeneration :: int

record EthernetNodeConfigStatus =
  enc_Conditions :: "string \<rightharpoonup> status_condition"
  enc_Devices :: "Device list"

record EthernetNodeConfig =
  enc_Name :: string
  enc_Namespace :: string
  enc_Generation :: int
  enc_Spec :: EthernetNodeConfigSpec
  enc_Status :: EthernetNodeConfigStatus

definition DeviceSelector_Matches :: "DeviceSelector \<Rightarrow> Device \<Rightarrow> bool" where
  "DeviceSelector_Matches ds d =
     (if sel_VendorID ds \<noteq> [] \<and> sel_VendorID ds \<noteq> dev_VendorID d then False
      else if sel_PCIAddress ds \<noteq> [] \<and> sel_PCIAddress ds \<noteq> dev_PCIAddress d then False
      else if sel_DeviceID ds \<noteq> [] \<and> sel_DeviceID ds \<noteq> dev_DeviceID d then False
      else True)"

text \<open>An empty field of a selector matches every device.\<close>

lemma DeviceSelector_Matches_iff:
  "DeviceSelector_Matches ds d \<longleftrightarrow>
     sel_VendorID ds \<in> {[], dev_VendorID d} \<and> sel_PCIAddress ds \<in> {[], dev_PCIAddress d} \<and>
     sel_DeviceID ds \<in> {[], dev_DeviceID d}"
  by (auto simp: DeviceSelector_Matches_def)

end
