(* ===== verification/Os_Files.thy ===== *)
theory Os_Files
  imports Go_Path Go_State
begin

text \<open>
  The part of package \<^verbatim>\<open>os\<close> the repository uses, over an explicit file system.

  A name (a cleaned path) leads to an inode, a directory or a symbolic link; an inode has contents,
  a number of names and permission bits, and two names of one inode share its contents. Symbolic links are
  followed in the last element of a path (at most 40 of them, as the kernel does); the elements before it
  are taken literally. Every system call can fail: \<open>os_fault\<close> fixes, for the \<open>n\<close>-th system call of a run,
  whether it fails, with which error and, for a write, after how many bytes. Theorems hold for every such
  function, so for every pattern of failures. A directory counts two links, as on the usual file systems.
\<close>

section \<open>State\<close>

datatype dirent = DReg nat | DDir | DLink string

record os_state =
  os_dir :: "string \<rightharpoonup> dirent"
  os_names :: "string list"
  os_data :: "nat \<Rightarrow> byte list"
  os_nlink :: "nat \<Rightarrow> nat"
  os_perm :: "nat \<Rightarrow> u32"
  os_dperm :: "string \<Rightarrow> u32"
  os_next :: nat
  os_time :: nat
  os_fault :: "nat \<Rightarrow> (nat \<times> goerr) option"

datatype handle = HFile nat | HDir

record open_flags =
  fl_write :: bool
  fl_create :: bool
  fl_trunc :: bool

abbreviation O_RDONLY :: open_flags where
  "O_RDONLY \<equiv> \<lparr>fl_write = False, fl_create = False, fl_trunc = False\<rparr>"
abbreviation O_CREATE_RDWR :: open_flags where
  "O_CREATE_RDWR \<equiv> \<lparr>fl_write = True, fl_create = True, fl_trunc = False\<rparr>"
abbreviation O_RDWR_CREATE_TRUNC :: open_flags where
  "O_RDWR_CREATE_TRUNC \<equiv> \<lparr>fl_write = True, fl_create = True, fl_trunc = True\<rparr>"

abbreviation ELOOP :: goerr where "ELOOP \<equiv> Errorf ''too many levels of symbolic links''"
abbreviation EISDIR :: goerr where "EISDIR \<equiv> Errorf ''is a directory''"
abbreviation ENOTDIR :: goerr where "ENOTDIR \<equiv> Errorf ''not a directory''"

section \<open>System calls\<close>

text \<open>A system call that takes effect unless it is due to fail.\<close>

definition sys :: "(os_state, 'a) go \<Rightarrow> (os_state, 'a) go" where
  "sys m s =
     (let s1 = s\<lparr>os_time := Suc (os_time s)\<rparr>
      in case os_fault s (os_time s) of
           Some (k, e) \<Rightarrow> (Err e, s1)
         | None \<Rightarrow> m s1)"

fun resolve :: "nat \<Rightarrow> (string \<rightharpoonup> dirent) \<Rightarrow> string \<Rightarrow> string option" where
  "resolve 0 D p = None"
| "resolve (Suc n) D p =
     (case D p of
        Some (DLink t) \<Rightarrow> resolve n D (if rooted t then Clean t else filepath_Join [Dir p, t])
      | _ \<Rightarrow> Some p)"

definition follow :: "os_state \<Rightarrow> string \<Rightarrow> string option" where
  "follow s p = resolve 41 (os_dir s) (Clean p)"

definition is_dir :: "os_state \<Rightarrow> string \<Rightarrow> bool" where
  "is_dir s p \<longleftrightarrow> (case follow s p of Some q \<Rightarrow> os_dir s q = Some DDir | None \<Rightarrow> False)"

text \<open>Opening a name that is not a symbolic link.\<close>

definition open_name :: "string \<Rightarrow> open_flags \<Rightarrow> u32 \<Rightarrow> (os_state, handle) go" where
  "open_name p flag perm s =
     (case os_dir s p of
        Some (DReg i) \<Rightarrow>
          (Ok (HFile i), if fl_trunc flag then s\<lparr>os_data := (os_data s)(i := [])\<rparr> else s)
      | Some DDir \<Rightarrow> (if fl_write flag \<or> fl_create flag then (Err EISDIR, s) else (Ok HDir, s))
      | Some (DLink t) \<Rightarrow> (Err ELOOP, s)
      | None \<Rightarrow>
          (if fl_create flag \<and> is_dir s (Dir p)
           then (let i = os_next s in
                 (Ok (HFile i),
                  s\<lparr>os_dir := (os_dir s)(p \<mapsto> DReg i), os_names := os_names s @ [p], os_data := (os_data s)(i := []),
                    os_nlink := (os_nlink s)(i := 1), os_perm := (os_perm s)(i := perm),
                    os_next := Suc i\<rparr>))
           else (Err NotFound, s)))"

text \<open>\<^verbatim>\<open>os.OpenFile\<close> with and without \<^verbatim>\<open>O_NOFOLLOW\<close>.\<close>

definition OpenFile_nofollow :: "string \<Rightarrow> open_flags \<Rightarrow> u32 \<Rightarrow> (os_state, handle) go" where
  "OpenFile_nofollow path flag perm = sys (open_name (Clean path) flag perm)"

definition OpenFile :: "string \<Rightarrow> open_flags \<Rightarrow> u32 \<Rightarrow> (os_state, handle) go" where
  "OpenFile path flag perm = sys (\<lambda>s.
     case follow s path of None \<Rightarrow> (Err ELOOP, s) | Some p \<Rightarrow> open_name p flag perm s)"

text \<open>\<^verbatim>\<open>stat\<close>, giving the entry and its number of links.\<close>

definition os_Stat :: "string \<Rightarrow> (os_state, dirent \<times> nat) go" where
  "os_Stat path = sys (\<lambda>s.
     case follow s path of
       None \<Rightarrow> (Err ELOOP, s)
     | Some p \<Rightarrow> (case os_dir s p of
                   None \<Rightarrow> (Err NotFound, s)
                 | Some (DReg i) \<Rightarrow> (Ok (DReg i, os_nlink s i), s)
                 | Some d \<Rightarrow> (Ok (d, 2), s)))"

text \<open>Writing data at the start of an open file: what is beyond the data stays.\<close>

definition overwrite :: "byte list \<Rightarrow> byte list \<Rightarrow> byte list" where
  "overwrite new old = new @ drop (length new) old"

definition write_file :: "handle \<Rightarrow> byte list \<Rightarrow> (os_state, unit) go" where
  "write_file h data s =
     (let s1 = s\<lparr>os_time := Suc (os_time s)\<rparr>
      in case h of
           HDir \<Rightarrow> (Err EISDIR, s1)
         | HFile i \<Rightarrow>
             (case os_fault s (os_time s) of
                Some (k, e) \<Rightarrow> (Err e, s1\<lparr>os_data := (os_data s)(i := overwrite (take k data) (os_data s i))\<rparr>)
              | None \<Rightarrow> (Ok (), s1\<lparr>os_data := (os_data s)(i := overwrite data (os_data s i))\<rparr>)))"

definition read_file :: "handle \<Rightarrow> (os_state, byte list) go" where
  "read_file h = sys (\<lambda>s. case h of HDir \<Rightarrow> (Err EISDIR, s) | HFile i \<Rightarrow> (Ok (os_data s i), s))"

text \<open>\<^verbatim>\<open>io.Copy(f, r)\<close> where the reader gives some bytes and then ends or fails.\<close>

type_synonym reader = "byte list \<times> goerr option"

definition io_Copy :: "handle \<Rightarrow> reader \<Rightarrow> (os_state, unit) go" where
  "io_Copy h r = gbind (write_file h (fst r)) (\<lambda>_. case snd r of None \<Rightarrow> ret () | Some e \<Rightarrow> lift (Err e))"

definition os_ReadFile :: "string \<Rightarrow> (os_state, byte list) go" where
  "os_ReadFile path = gbind (OpenFile path O_RDONLY 0) read_file"

definition os_WriteFile :: "string \<Rightarrow> byte list \<Rightarrow> u32 \<Rightarrow> (os_state, unit) go" where
  "os_WriteFile path data perm = gbind (OpenFile path O_RDWR_CREATE_TRUNC perm) (\<lambda>h. write_file h data)"

text \<open>\<^verbatim>\<open>os.MkdirAll\<close>: the missing directories on the way to an absolute path, from the root.\<close>

definition mkdir_step :: "u32 \<Rightarrow> string \<Rightarrow> (os_state, unit) go" where
  "mkdir_step perm p = sys (\<lambda>s.
     if is_dir s p then (Ok (), s)
     else (case os_dir s p of
             None \<Rightarrow> (Ok (), s\<lparr>os_dir := (os_dir s)(p \<mapsto> DDir), os_names := os_names s @ [p],
                              os_dperm := (os_dperm s)(p := perm)\<rparr>)
           | Some _ \<Rightarrow> (Err ENOTDIR, s)))"

definition ancestors :: "string \<Rightarrow> string list" where
  "ancestors path = map (\<lambda>n. slash # Join ''/'' (take n (elems path))) [1..<Suc (length (elems path))]"

definition os_MkdirAll :: "string \<Rightarrow> u32 \<Rightarrow> (os_state, unit) go" where
  "os_MkdirAll path perm = gfor (mkdir_step perm) (ancestors path)"

text \<open>Names below a directory, and \<^verbatim>\<open>os.RemoveAll\<close>: a file keeps the names it has elsewhere.\<close>

definition is_below :: "string \<Rightarrow> string \<Rightarrow> bool" where
  "is_below d q \<longleftrightarrow> length (elems d) < length (elems q) \<and> take (length (elems d)) (elems q) = elems d"

definition at_or_below :: "string \<Rightarrow> string \<Rightarrow> bool" where
  "at_or_below d q \<longleftrightarrow> q = Clean d \<or> is_below d q"

definition os_RemoveAll :: "string \<Rightarrow> (os_state, unit) go" where
  "os_RemoveAll path = sys (\<lambda>s.
     let gone = filter (at_or_below path) (os_names s) in
     (Ok (), s\<lparr>os_dir := (\<lambda>q. if at_or_below path q then None else os_dir s q),
               os_names := filter (\<lambda>q. \<not> at_or_below path q) (os_names s),
               os_nlink := (\<lambda>i. os_nlink s i - length (filter (\<lambda>q. os_dir s q = Some (DReg i)) gone))\<rparr>))"

text \<open>
  \<^verbatim>\<open>filepath.Walk\<close>: the visited names with the mode of each, as \<^verbatim>\<open>Lstat\<close> reports it; a root that does not
  exist is visited without file information (\<open>None\<close>). The order of the visits is not observed.
\<close>

definition lstat_mode :: "os_state \<Rightarrow> string \<Rightarrow> u32 option" where
  "lstat_mode s q =
     (case os_dir s q of
        None \<Rightarrow> None
      | Some (DReg i) \<Rightarrow> Some (os_perm s i)
      | Some DDir \<Rightarrow> Some (set_bit 31 (os_dperm s q))
      | Some (DLink t) \<Rightarrow> Some (set_bit 27 511))"

definition os_Walk :: "string \<Rightarrow> os_state \<Rightarrow> (string \<times> u32 option) list" where
  "os_Walk root s =
     (case os_dir s (Clean root) of
        None \<Rightarrow> [(root, None)]
      | Some _ \<Rightarrow> map (\<lambda>q. (q, lstat_mode s q)) (filter (at_or_below root) (os_names s)))"

section \<open>Well-formed file systems\<close>

text \<open>
  Inodes in use are below \<open>os_next\<close>, the number of links of an inode is the number of its names, and
  \<open>os_names\<close> lists every name once.
\<close>

definition os_ok :: "os_state \<Rightarrow> bool" where
  "os_ok s \<longleftrightarrow>
     distinct (os_names s) \<and> set (os_names s) = dom (os_dir s) \<and>
     (\<forall>p i. os_dir s p = Some (DReg i) \<longrightarrow> i < os_next s) \<and>
     (\<forall>i < os_next s. os_nlink s i = length (filter (\<lambda>q. os_dir s q = Some (DReg i)) (os_names s)))"

text \<open>What a name leads to, with the contents of a file.\<close>

datatype view = File "byte list" | Directory | Symlink string

definition look :: "os_state \<Rightarrow> string \<Rightarrow> view option" where
  "look s p =
     (case os_dir s p of
        None \<Rightarrow> None
      | Some (DReg i) \<Rightarrow> Some (File (os_data s i))
      | Some DDir \<Rightarrow> Some Directory
      | Some (DLink t) \<Rightarrow> Some (Symlink t))"

end
