(* ===== verification/Os_Utils.thy ===== *)
theory Os_Utils
  imports Os_Files Go_Json Go_Net
begin

text \<open>
  \<^verbatim>\<open>pkg/utils/utils.go\<close>: opening files without links, downloading with a checksum, unpacking
  archives, and the small helpers around them.

  SHA-1, the HTTP client, and the readers of \<^verbatim>\<open>compress/gzip\<close>, \<^verbatim>\<open>archive/tar\<close> and \<^verbatim>\<open>archive/zip\<close>
  (from the bytes of a file to a sequence of entries) are parameters. \<^verbatim>\<open>NewSecureHttpsClient\<close> only
  builds a TLS configuration and is not modelled. Closing files has no effect the code observes.
\<close>

section \<open>Deployment\<close>

abbreviation (input) IeoPrefix :: string where "IeoPrefix \<equiv> ''ETHERNET_''"

definition IsK8sDeployment :: "(string \<Rightarrow> string) \<Rightarrow> bool" where
  "IsK8sDeployment getenv \<longleftrightarrow> ToLower (getenv (IeoPrefix @ ''GENERIC_K8S'')) = ''true''"

text \<open>The topology read from the cluster's \<^verbatim>\<open>Infrastructure\<close> object.\<close>

definition IsOpenshiftSno :: "string outcome \<Rightarrow> bool outcome" where
  "IsOpenshiftSno getTopology =
     (case getTopology of
        Ok topology \<Rightarrow> Ok (topology = ''SingleReplica'')
      | Err e \<Rightarrow> Err (Errorf ''getting resource Infrastructure succeeded but object was empty'')
      | Panic p \<Rightarrow> Panic p)"

definition GetDrainSkip :: "(string \<Rightarrow> string) \<Rightarrow> 'n list \<Rightarrow> string outcome \<Rightarrow> bool outcome" where
  "GetDrainSkip getenv nodes getTopology =
     (if IsK8sDeployment getenv then Ok (length nodes \<le> 1) else IsOpenshiftSno getTopology)"

text \<open>
  The process environment maps the names that are set to their values; \<^verbatim>\<open>os.Setenv\<close> refuses an empty key, a key
  with \<^verbatim>\<open>=\<close> or NUL, and a value with NUL.
\<close>

definition os_Getenv :: "(string \<rightharpoonup> string) \<Rightarrow> string \<Rightarrow> string" where
  "os_Getenv env key = (case env key of None \<Rightarrow> [] | Some v \<Rightarrow> v)"

definition os_Setenv :: "string \<Rightarrow> string \<Rightarrow> (string \<rightharpoonup> string, unit) go" where
  "os_Setenv key val env =
     (if key = [] \<or> CHR ''='' \<in> set key \<or> CHR 0x00 \<in> set key \<or> CHR 0x00 \<in> set val
      then (Err (Errorf ''invalid argument''), env)
      else (Ok (), env(key \<mapsto> val)))"

definition SetOsEnvIfNotSet :: "string \<Rightarrow> string \<Rightarrow> (string \<rightharpoonup> string, unit) go" where
  "SetOsEnvIfNotSet key val env = (if os_Getenv env key \<noteq> [] then (Ok (), env) else os_Setenv key val env)"

section \<open>Firmware search path\<close>

text \<open>The path is returned together with the error.\<close>

definition GetFwSearchPath :: "(os_state, string \<times> goerr option) go" where
  "GetFwSearchPath =
     gbind (attempt (os_ReadFile ''/sys/module/firmware_class/parameters/path'')) (\<lambda>r.
     case r of
       Ok bytes \<Rightarrow>
         (let fwPath = filter (\<lambda>c. c \<noteq> CHR 0x0A) (map (\<lambda>b. char_of (unat b)) bytes)
          in ret (if fwPath = [] then ''/lib/firmware'' else fwPath, None))
     | _ \<Rightarrow> ret (''/lib/firmware'', Some (Errorf ''cannot read file'')))"

definition CreateFullDdpPaths :: "string \<Rightarrow> string \<times> string" where
  "CreateFullDdpPaths fwPath =
     (if HasSuffix fwPath ''/''
      then (fwPath @ ''intel/ice/ddp'', fwPath @ ''updates/intel/ice/ddp'')
      else (fwPath @ ''/'' @ ''intel/ice/ddp'', fwPath @ ''/'' @ ''updates/intel/ice/ddp''))"

section \<open>Opening files\<close>

definition isHardLink :: "string \<Rightarrow> (os_state, bool) go" where
  "isHardLink path = gbind (os_Stat path) (\<lambda>(d, nlink). ret (1 < nlink))"

definition OpenFileNoLinks :: "string \<Rightarrow> open_flags \<Rightarrow> u32 \<Rightarrow> (os_state, handle) go" where
  "OpenFileNoLinks path flag perm =
     gbind (OpenFile_nofollow path flag perm) (\<lambda>file.
     gbind (isHardLink path) (\<lambda>hardLink.
     if hardLink then lift (Err (Errorf ''is a hardlink'')) else ret file))"

definition OpenNoLinks :: "string \<Rightarrow> (os_state, handle) go" where
  "OpenNoLinks path = OpenFileNoLinks path O_RDONLY 0"

text \<open>The permission bits \<^verbatim>\<open>0666\<close> and, below, \<^verbatim>\<open>0644\<close> and \<^verbatim>\<open>0777\<close>, in decimal.\<close>

definition CreateNoLinks :: "string \<Rightarrow> (os_state, handle) go" where
  "CreateNoLinks path = OpenFileNoLinks path O_RDWR_CREATE_TRUNC 438"

definition CreateFolder :: "string \<Rightarrow> (os_state, unit) go" where
  "CreateFolder path =
     gbind (attempt (os_Stat path)) (\<lambda>r.
     case r of
       Ok _ \<Rightarrow> ret ()
     | Err e \<Rightarrow> (if e \<noteq> NotFound then lift (Err e) else os_MkdirAll path 511)
     | Panic p \<Rightarrow> lift (Panic p))"

definition CopyFile :: "string \<Rightarrow> string \<Rightarrow> (os_state, unit) go" where
  "CopyFile src dst = gbind (os_ReadFile src) (\<lambda>data. os_WriteFile dst data 420)"

text \<open>\<^verbatim>\<open>LoadSupportedDevices\<close>; \<open>decode\<close> is \<^verbatim>\<open>json.Unmarshal\<close> into the caller's structure.\<close>

abbreviation (input) configFilesizeLimitInBytes :: nat where "configFilesizeLimitInBytes \<equiv> 10485760"

definition file_Stat_Size :: "handle \<Rightarrow> (os_state, nat) go" where
  "file_Stat_Size h = sys (\<lambda>s. case h of HFile i \<Rightarrow> (Ok (length (os_data s i)), s) | HDir \<Rightarrow> (Ok 4096, s))"

definition LoadSupportedDevices :: "(byte list \<Rightarrow> 'cfg outcome) \<Rightarrow> string \<Rightarrow> (os_state, 'cfg) go" where
  "LoadSupportedDevices decode cfgPath =
     gbind (gwrap ''Failed to open config'' (OpenNoLinks (Clean cfgPath))) (\<lambda>file.
     gbind (gwrap ''Failed to get file stat'' (file_Stat_Size file)) (\<lambda>size.
     if configFilesizeLimitInBytes < size then lift (Err (Errorf ''Config file size exceeds limit''))
     else gbind (attempt (read_file file)) (\<lambda>r.
       case r of
         Ok cfgData \<Rightarrow> (if length cfgData \<noteq> size then lift (Err (Errorf ''Unable to read config''))
                        else lift (wrap_err ''Failed to unmarshal config'' (decode cfgData)))
       | _ \<Rightarrow> lift (Err (Errorf ''Unable to read config'')))))"

section \<open>Download\<close>

definition verifyChecksum :: "(byte list \<Rightarrow> byte list) \<Rightarrow> string \<Rightarrow> string \<Rightarrow> (os_state, bool) go" where
  "verifyChecksum sha1 path expected =
     (if expected = [] then ret False
      else gbind (attempt (OpenNoLinks path)) (\<lambda>r.
        case r of
          Ok f \<Rightarrow>
            gbind (attempt (read_file f)) (\<lambda>r2.
            case r2 of
              Ok data \<Rightarrow> ret (hex_Encode (sha1 data) = ToLower expected)
            | _ \<Rightarrow> lift (Err (Errorf ''failed to copy file to calculate sha-1'')))
        | _ \<Rightarrow> lift (Err (Errorf ''failed to open file to calculate sha-1''))))"

record http_response =
  StatusCode :: int
  Body :: reader

definition DownloadFile ::
    "(byte list \<Rightarrow> byte list) \<Rightarrow> (string \<Rightarrow> http_response outcome) \<Rightarrow> string \<Rightarrow> string \<Rightarrow> string \<Rightarrow> (os_state, unit) go" where
  "DownloadFile sha1 http_Get path url checksum =
     gbind (CreateNoLinks path) (\<lambda>f.
     gbind (lift (wrap_err ''unable to download image'' (http_Get url))) (\<lambda>r.
     if StatusCode r \<noteq> 200 then lift (Err (Errorf ''unable to download image''))
     else gbind (io_Copy f (Body r)) (\<lambda>_.
       if checksum \<noteq> [] then
         gbind (verifyChecksum sha1 path checksum) (\<lambda>match.
         if \<not> match then lift (Err (Errorf ''Checksum mismatch in downloaded file'')) else ret ())
       else ret ())))"

section \<open>Archives\<close>

record tar_header =
  th_Name :: string
  Typeflag :: char
  th_Mode :: u32
  th_Data :: reader

text \<open>What successive calls of \<^verbatim>\<open>tar.Reader.Next\<close> return; the end of the list is \<^verbatim>\<open>io.EOF\<close>.\<close>

datatype tar_next = TarHeader "tar_header option" | TarError goerr

record zip_entry =
  ze_Name :: string
  ze_Mode :: u32
  ze_Open :: "reader outcome"

record archive_lib =
  gzip_tar :: "byte list \<Rightarrow> tar_next list outcome"
  zip_NewReader :: "byte list \<Rightarrow> zip_entry list outcome"
  fp_Glob :: "os_state \<Rightarrow> string \<Rightarrow> string list outcome"

abbreviation (input) TypeReg :: char where "TypeReg \<equiv> CHR ''0''"
abbreviation (input) TypeLink :: char where "TypeLink \<equiv> CHR ''1''"
abbreviation (input) TypeSymlink :: char where "TypeSymlink \<equiv> CHR ''2''"
abbreviation (input) TypeDir :: char where "TypeDir \<equiv> CHR ''5''"

text \<open>The directory traversal test of both archive readers.\<close>

definition legal_path :: "string \<Rightarrow> string \<Rightarrow> bool" where
  "legal_path dstPath nfDst \<longleftrightarrow> HasPrefix nfDst (Clean dstPath @ ''/'')"

text \<open>The body of the loop of \<^verbatim>\<open>Untar\<close>.\<close>

definition untar_entry :: "string \<Rightarrow> tar_next \<Rightarrow> (os_state, unit) go" where
  "untar_entry dstPath next =
     (case next of
        TarError e \<Rightarrow> lift (Err e)
      | TarHeader None \<Rightarrow> lift (Panic ''nil pointer dereference'')
      | TarHeader (Some fh) \<Rightarrow>
          (let nfDst = filepath_Join [dstPath, th_Name fh] in
           if \<not> legal_path dstPath nfDst then lift (Err (Errorf ''illegal file path''))
           else if Typeflag fh = TypeReg then
             gbind (OpenFileNoLinks nfDst O_CREATE_RDWR (th_Mode fh)) (\<lambda>nf. io_Copy nf (th_Data fh))
           else if Typeflag fh = TypeDir then os_MkdirAll nfDst (th_Mode fh)
           else if Typeflag fh = TypeSymlink \<or> Typeflag fh = TypeLink then ret ()
           else lift (Err (Errorf ''unable to untar type''))))"

definition Untar :: "archive_lib \<Rightarrow> string \<Rightarrow> string \<Rightarrow> (os_state, unit) go" where
  "Untar L srcPath dstPath =
     gbind (OpenNoLinks srcPath) (\<lambda>f.
     gbind (read_file f) (\<lambda>bytes.
     gbind (lift (gzip_tar L bytes)) (\<lambda>nexts.
     gfor (untar_entry dstPath) nexts)))"

text \<open>Bits of \<^verbatim>\<open>os.FileMode\<close>.\<close>

abbreviation (input) ModeDir :: nat where "ModeDir \<equiv> 31"
abbreviation (input) ModeSymlink :: nat where "ModeSymlink \<equiv> 27"
abbreviation (input) ModeDevice :: nat where "ModeDevice \<equiv> 26"
abbreviation (input) ModeNamedPipe :: nat where "ModeNamedPipe \<equiv> 25"
abbreviation (input) ModeSocket :: nat where "ModeSocket \<equiv> 24"
abbreviation (input) ModeCharDevice :: nat where "ModeCharDevice \<equiv> 21"
abbreviation (input) ModeIrregular :: nat where "ModeIrregular \<equiv> 19"

definition IsDir :: "u32 \<Rightarrow> bool" where
  "IsDir m \<longleftrightarrow> bit m ModeDir"

definition IsRegular :: "u32 \<Rightarrow> bool" where
  "IsRegular m \<longleftrightarrow> \<not> list_ex (bit m)
     [ModeDir, ModeSymlink, ModeNamedPipe, ModeSocket, ModeDevice, ModeCharDevice, ModeIrregular]"

definition unzipFile :: "zip_entry \<Rightarrow> string \<Rightarrow> u32 \<Rightarrow> (os_state, unit) go" where
  "unzipFile zipFile path mode =
     gbind (OpenFileNoLinks path O_CREATE_RDWR mode) (\<lambda>file.
     gbind (lift (ze_Open zipFile)) (\<lambda>reader.
     io_Copy file reader))"

definition unzip_entry :: "string \<Rightarrow> zip_entry \<Rightarrow> (os_state, unit) go" where
  "unzip_entry dstPath zipFile =
     (let mode = ze_Mode zipFile; nfDst = filepath_Join [dstPath, ze_Name zipFile] in
      if \<not> legal_path dstPath nfDst then lift (Err (Errorf ''illegal file path''))
      else if IsRegular mode then unzipFile zipFile nfDst mode
      else if IsDir mode then os_MkdirAll nfDst mode
      else if bit mode ModeSymlink then ret ()
      else lift (Err (Errorf ''unable to unzip file'')))"

definition Unzip :: "archive_lib \<Rightarrow> string \<Rightarrow> string \<Rightarrow> (os_state, unit) go" where
  "Unzip L srcPath dstPath =
     gbind (OpenNoLinks srcPath) (\<lambda>f.
     gbind (file_Stat_Size f) (\<lambda>_.
     gbind (read_file f) (\<lambda>bytes.
     gbind (lift (zip_NewReader L bytes)) (\<lambda>files.
     gfor (unzip_entry dstPath) files))))"

definition UnpackDDPArchive :: "archive_lib \<Rightarrow> string \<Rightarrow> string \<Rightarrow> (os_state, unit) go" where
  "UnpackDDPArchive L srcPath dstPath =
     gbind (attempt (Unzip L srcPath dstPath)) (\<lambda>r.
     case r of
       Ok _ \<Rightarrow>
         gbind (\<lambda>s. (fp_Glob L s (filepath_Join [dstPath, ''ice_*.zip'']), s)) (\<lambda>matches.
         if length matches \<noteq> 1 then lift (Err (Errorf ''unexpected number of DDP archives''))
         else Unzip L (matches ! 0) dstPath)
     | Err e \<Rightarrow> (if e = ErrFormat then Untar L srcPath dstPath else lift (Err e))
     | Panic p \<Rightarrow> lift (Panic p))"

section \<open>Commands and their output\<close>

text \<open>
  \<open>run\<close> is \<^verbatim>\<open>exec.Command(...).CombinedOutput()\<close> on the world \<open>'w\<close>: it returns the output together
  with an error, if any.
\<close>

type_synonym 'w exec = "string \<Rightarrow> string list \<Rightarrow> 'w \<Rightarrow> (string \<times> goerr option) \<times> 'w"

definition ExecCmd :: "'w exec \<Rightarrow> string list \<Rightarrow> 'w \<Rightarrow> (string \<times> goerr option) \<times> 'w" where
  "ExecCmd run args w =
     (case args of
        [] \<Rightarrow> (([], Some (Errorf ''cmd is empty'')), w)
      | cmd # rest \<Rightarrow> run cmd rest w)"

definition is_space :: "char \<Rightarrow> bool" where
  "is_space c \<longleftrightarrow> c \<in> {CHR '' '', CHR 0x09, CHR 0x0A, CHR 0x0B, CHR 0x0C, CHR 0x0D}"

definition TrimSpace :: "string \<Rightarrow> string" where
  "TrimSpace s = rev (dropWhile is_space (rev (dropWhile is_space s)))"

text \<open>\<^verbatim>\<open>strings.FieldsFunc\<close>: the maximal runs of characters that do not satisfy the predicate.\<close>

fun fields_from :: "(char \<Rightarrow> bool) \<Rightarrow> string \<Rightarrow> string \<Rightarrow> string list" where
  "fields_from f cur [] = (if cur = [] then [] else [rev cur])"
| "fields_from f cur (c # cs) =
     (if f c then (if cur = [] then fields_from f [] cs else rev cur # fields_from f [] cs)
      else fields_from f (c # cur) cs)"

text \<open>\<^verbatim>\<open>LogWriter.Write\<close>: the lines logged and the number of bytes reported as written.\<close>

definition LogWriter_Write :: "string \<Rightarrow> string list \<times> nat" where
  "LogWriter_Write p =
     (map TrimSpace (fields_from (\<lambda>r. r = CHR 0x0A \<or> r = CHR 0x0D) [] (TrimSpace p)), length p)"

end
