(* ===== verification/Fwddp_Inventory.thy ===== *)
theory Fwddp_Inventory
  imports Ethernet_Types Os_Utils
begin

text \<open>
  \<^verbatim>\<open>pkg/fwddp-daemon/inventory.go\<close>: the supported devices of a node with the versions that
  \<^verbatim>\<open>ethtool\<close> and \<^verbatim>\<open>devlink\<close> report. The list of PCI devices and network interfaces (package \<^verbatim>\<open>ghw\<close>) and
  the output of the two commands are parameters. The two regular expressions are modelled by the unique way
  they can match: their parts are separated by characters the parts exclude.
\<close>

section \<open>Regular expressions\<close>

text \<open>White space of \<^verbatim>\<open>\s\<close>.\<close>

definition re_space :: "char \<Rightarrow> bool" where
  "re_space c \<longleftrightarrow> c \<in> {CHR '' '', CHR 0x09, CHR 0x0A, CHR 0x0C, CHR 0x0D}"

definition char_in :: "nat \<Rightarrow> nat \<Rightarrow> char \<Rightarrow> bool" where
  "char_in lo hi c \<longleftrightarrow> lo \<le> of_char c \<and> of_char c \<le> hi"

definition lower_or_dash :: "char \<Rightarrow> bool" where
  "lower_or_dash c \<longleftrightarrow> char_in 97 122 c \<or> c = CHR ''-''"

definition word_or_dot :: "char \<Rightarrow> bool" where
  "word_or_dot c \<longleftrightarrow> char_in 97 122 c \<or> char_in 65 90 c \<or> char_in 48 57 c \<or> c = CHR ''_'' \<or> c = CHR ''.''"

text \<open>\<^verbatim>\<open>^([a-z-]+?)(?:\s*:\s)(.+)$\<close>\<close>

definition ethtoolRegex :: "string \<Rightarrow> (string \<times> string) option" where
  "ethtoolRegex line =
     (let key = takeWhile lower_or_dash line;
          rest = dropWhile re_space (dropWhile lower_or_dash line)
      in if key = [] then None
         else (case rest of
                 c # sp # val \<Rightarrow> (if c = CHR '':'' \<and> re_space sp \<and> val \<noteq> [] then Some (key, val) else None)
               | _ \<Rightarrow> None))"

text \<open>\<^verbatim>\<open>^\s+([\w\.]+) (.+)$\<close>\<close>

definition devlinkRegex :: "string \<Rightarrow> (string \<times> string) option" where
  "devlinkRegex line =
     (let body = dropWhile re_space line;
          key = takeWhile word_or_dot body
      in if body = line \<or> key = [] then None
         else (case dropWhile word_or_dot body of
                 sp # val \<Rightarrow> (if sp = CHR '' '' \<and> val \<noteq> [] then Some (key, val) else None)
               | _ \<Rightarrow> None))"

section \<open>Environment\<close>

record SupportedDevice =
  sd_VendorID :: string
  sd_Class :: string
  sd_SubClass :: string
  sd_DeviceID :: string

record pci_device =
  pci_Address :: string
  pci_VendorID :: string
  pci_ClassID :: string
  pci_SubclassID :: string
  pci_ProductID :: string
  pci_ProductName :: string

record nic =
  nic_Name :: string
  nic_MacAddress :: string
  nic_PCIAddress :: "string option"

record inventory_env =
  compatibilityMap :: "(string \<times> SupportedDevice) list"
  ghw_PCI :: "pci_device option list outcome"
  ghw_Network :: "nic list outcome"
  execEthtool :: "string \<Rightarrow> string outcome"
  execDevlink :: "string \<Rightarrow> string outcome"

section \<open>Operations\<close>

definition getPCIDevices :: "inventory_env \<Rightarrow> pci_device option list outcome" where
  "getPCIDevices I =
     obind (wrap_err ''failed to get PCI info'' (ghw_PCI I)) (\<lambda>devices.
     if devices = [] then Err (Errorf ''got 0 devices'') else Ok devices)"

definition getNetworkInfo :: "inventory_env \<Rightarrow> nic list outcome" where
  "getNetworkInfo I = wrap_err ''failed to get network info'' (ghw_Network I)"

definition isDeviceSupported :: "inventory_env \<Rightarrow> pci_device option \<Rightarrow> bool" where
  "isDeviceSupported I d =
     (case d of
        None \<Rightarrow> False
      | Some d \<Rightarrow>
          list_ex (\<lambda>(_, supported). sd_VendorID supported = pci_VendorID d \<and> sd_Class supported = pci_ClassID d \<and>
                     sd_SubClass supported = pci_SubclassID d \<and> sd_DeviceID supported = pci_ProductID d)
            (compatibilityMap I))"

definition ethtool_line :: "string \<Rightarrow> Device \<Rightarrow> Device" where
  "ethtool_line line device =
     (case ethtoolRegex line of
        None \<Rightarrow> device
      | Some (key, val) \<Rightarrow>
          (if key = ''driver'' then device\<lparr>dev_Driver := val\<rparr>
           else if key = ''version'' then device\<lparr>dev_DriverVersion := val\<rparr>
           else if key = ''firmware-version'' then device\<lparr>dev_Firmware := (dev_Firmware device)\<lparr>fw_Version := val\<rparr>\<rparr>
           else device))"

definition addNetInfo :: "inventory_env \<Rightarrow> Device \<Rightarrow> Device" where
  "addNetInfo I device =
     (case getNetworkInfo I of
        Ok nics \<Rightarrow>
          (case find (\<lambda>n. nic_PCIAddress n = Some (dev_PCIAddress device)) nics of
             None \<Rightarrow> device
           | Some n \<Rightarrow>
               (let device1 = device\<lparr>dev_Firmware := (dev_Firmware device)\<lparr>fw_MAC := nic_MacAddress n\<rparr>\<rparr> in
                if nic_Name n = [] then device1
                else (case execEthtool I (nic_Name n) of
                        Ok out \<Rightarrow> fold ethtool_line (Split (CHR 0x0A) out) device1
                      | _ \<Rightarrow> device1)))
      | _ \<Rightarrow> device)"

definition devlink_line :: "string \<Rightarrow> Device \<Rightarrow> Device" where
  "devlink_line line device =
     (case devlinkRegex line of
        None \<Rightarrow> device
      | Some (key, val) \<Rightarrow>
          (if key = ''fw.app.name'' then device\<lparr>dev_DDP := (dev_DDP device)\<lparr>ddp_PackageName := val\<rparr>\<rparr>
           else if key = ''fw.app'' then device\<lparr>dev_DDP := (dev_DDP device)\<lparr>ddp_Version := val\<rparr>\<rparr>
           else if key = ''fw.app.bundle_id'' then device\<lparr>dev_DDP := (dev_DDP device)\<lparr>ddp_TrackID := val\<rparr>\<rparr>
           else device))"

definition addDDPInfo :: "inventory_env \<Rightarrow> Device \<Rightarrow> Device" where
  "addDDPInfo I device =
     (case execDevlink I (dev_PCIAddress device) of
        Ok out \<Rightarrow> fold devlink_line (Split (CHR 0x0A) out) device
      | _ \<Rightarrow> device)"

definition device_of :: "inventory_env \<Rightarrow> pci_device \<Rightarrow> Device" where
  "device_of I d =
     addDDPInfo I (addNetInfo I
       \<lparr>dev_VendorID = pci_VendorID d, dev_DeviceID = pci_ProductID d, dev_PCIAddress = pci_Address d,
        dev_Name = pci_ProductName d, dev_Driver = [], dev_DriverVersion = [],
        dev_Firmware = \<lparr>fw_MAC = [], fw_Version = []\<rparr>,
        dev_DDP = \<lparr>ddp_PackageName = [], ddp_Version = [], ddp_TrackID = []\<rparr>\<rparr>)"

definition GetInventory :: "inventory_env \<Rightarrow> Device list outcome" where
  "GetInventory I =
     obind (getPCIDevices I) (\<lambda>pciDevices.
     Ok (map (\<lambda>d. device_of I (the d)) (filter (isDeviceSupported I) pciDevices)))"

definition splitPCIAddr :: "string \<Rightarrow> (string \<times> string \<times> string \<times> string) outcome" where
  "splitPCIAddr pciAddr =
     (case Split (CHR '':'') pciAddr of
        [domain, bus, devfn] \<Rightarrow>
          (case Split (CHR ''.'') devfn of
             [dev, fn] \<Rightarrow> Ok (domain, bus, dev, fn)
           | _ \<Rightarrow> Err (Errorf ''Bus and device format issue, cannot split on dot .''))
      | _ \<Rightarrow> Err (Errorf ''PCI Address format issue, cannot split on colon :''))"

section \<open>Facts\<close>

lemma addresses_kept [simp]:
  "dev_PCIAddress (addNetInfo I d) = dev_PCIAddress d" "dev_VendorID (addNetInfo I d) = dev_VendorID d"
  "dev_DeviceID (addNetInfo I d) = dev_DeviceID d" "dev_PCIAddress (addDDPInfo I d) = dev_PCIAddress d"
  "dev_VendorID (addDDPInfo I d) = dev_VendorID d" "dev_DeviceID (addDDPInfo I d) = dev_DeviceID d"
proof -
  have e: "dev_PCIAddress (ethtool_line l x) = dev_PCIAddress x \<and> dev_VendorID (ethtool_line l x) = dev_VendorID x \<and>
      dev_DeviceID (ethtool_line l x) = dev_DeviceID x" for l x
    by (auto simp: ethtool_line_def split: option.splits)
  have v: "dev_PCIAddress (devlink_line l x) = dev_PCIAddress x \<and> dev_VendorID (devlink_line l x) = dev_VendorID x \<and>
      dev_DeviceID (devlink_line l x) = dev_DeviceID x" for l x
    by (auto simp: devlink_line_def split: option.splits)
  have fe: "dev_PCIAddress (fold ethtool_line ls x) = dev_PCIAddress x \<and> dev_VendorID (fold ethtool_line ls x) = dev_VendorID x \<and>
      dev_DeviceID (fold ethtool_line ls x) = dev_DeviceID x" for ls x
    by (induction ls arbitrary: x) (auto simp: e)
  have fv: "dev_PCIAddress (fold devlink_line ls x) = dev_PCIAddress x \<and> dev_VendorID (fold devlink_line ls x) = dev_VendorID x \<and>
      dev_DeviceID (fold devlink_line ls x) = dev_DeviceID x" for ls x
    by (induction ls arbitrary: x) (auto simp: v)
  show "dev_PCIAddress (addNetInfo I d) = dev_PCIAddress d" "dev_VendorID (addNetInfo I d) = dev_VendorID d"
    "dev_DeviceID (addNetInfo I d) = dev_DeviceID d"
    by (auto simp: addNetInfo_def fe Let_def split: outcome.splits option.splits)
  show "dev_PCIAddress (addDDPInfo I d) = dev_PCIAddress d" "dev_VendorID (addDDPInfo I d) = dev_VendorID d"
    "dev_DeviceID (addDDPInfo I d) = dev_DeviceID d"
    by (auto simp: addDDPInfo_def fv split: outcome.splits)
qed

end
