(* ===== verification/Drain_Helper.thy ===== *)
theory Drain_Helper
  imports Go_Json Go_State
begin

text \<open>
  \<^verbatim>\<open>pkg/drainhelper/drainhelper.go\<close>: running a worker function on the elected node, with the node
  cordoned and drained around it.

  The Kubernetes client, \<^verbatim>\<open>kubectl\<close>'s drain package, the leader election and
  \<^verbatim>\<open>wait.ExponentialBackoff\<close> are outside the repository: \<open>drain_env\<close> holds the calls the helper
  makes, over the state \<open>'w\<close> of the world. The helper's own state has the two error variables its
  closures assign (\<^verbatim>\<open>innerErr\<close> of \<^verbatim>\<open>Run\<close> and \<^verbatim>\<open>e\<close> of the two retried functions) and the list of
  the calls made so far, each with its success. \<open>backoff_spec\<close> is what the documentation of
  \<^verbatim>\<open>ExponentialBackoff\<close> says: the condition is tried at most \<^verbatim>\<open>Steps\<close> times, until it returns true or
  an error, and running out of steps gives \<^verbatim>\<open>ErrWaitTimeout\<close>. \<open>elected\<close> says that the node obtains the
  lease and holds it until the callback has cancelled the context.
\<close>

section \<open>Environment and state\<close>

datatype drain_call =
    GetNode bool
  | Cordon bool bool
  | NodeDrain bool
  | Worker bool
  | GetLease bool
  | UpdateLease bool

record LeaderElectionRecord =
  HolderIdentity :: string
  LeaderTransitions :: int

record LeaderElectionConfig =
  lec_Name :: string
  lec_Namespace :: string
  lec_Identity :: string
  ReleaseOnCancel :: bool
  LeaseDuration :: "64 word"
  RenewDeadline :: "64 word"
  RetryPeriod :: "64 word"

record drain_options =
  Force :: bool
  IgnoreAllDaemonSets :: bool
  DeleteEmptyDirData :: bool
  GracePeriodSeconds :: int
  drain_Timeout :: "64 word"

record DrainHelper =
  dh_nodeName :: string
  drainer :: drain_options
  leaderElectionConfig :: LeaderElectionConfig

record 'w dh_state =
  dh_world :: 'w
  innerErr :: "goerr option"
  e_var :: "goerr option"
  dh_calls :: "drain_call list"

record ('n, 'w) drain_env =
  Nodes_Get :: "string \<Rightarrow> ('w, 'n) go"
  RunCordonOrUncordon :: "drain_options \<Rightarrow> 'n \<Rightarrow> bool \<Rightarrow> ('w, unit) go"
  RunNodeDrain :: "drain_options \<Rightarrow> string \<Rightarrow> ('w, unit) go"
  LeaseLock_Get :: "('w, LeaderElectionRecord) go"
  LeaseLock_Update :: "LeaderElectionRecord \<Rightarrow> ('w, unit) go"
  NewLeaderElector :: "LeaderElectionConfig \<Rightarrow> check"
  LeaderElector_Run :: "('w dh_state, unit) go \<Rightarrow> ('w dh_state, unit) go"
  ExponentialBackoff :: "nat \<Rightarrow> ('w dh_state, bool) go \<Rightarrow> ('w dh_state, unit) go"

primrec is_Ok :: "'a outcome \<Rightarrow> bool" where
  "is_Ok (Ok x) = True"
| "is_Ok (Err e) = False"
| "is_Ok (Panic p) = False"

definition dcall :: "('a outcome \<Rightarrow> drain_call) \<Rightarrow> ('w, 'a) go \<Rightarrow> ('w dh_state, 'a) go" where
  "dcall ev m s = (case m (dh_world s) of (r, w) \<Rightarrow> (r, s\<lparr>dh_world := w, dh_calls := dh_calls s @ [ev r]\<rparr>))"

section \<open>Construction\<close>

definition getOsVarOrUseDefault :: "(string \<Rightarrow> string) \<Rightarrow> string \<Rightarrow> int \<Rightarrow> int" where
  "getOsVarOrUseDefault getenv varName defVal =
     (let retValStr = getenv varName in
      if retValStr = [] then defVal
      else (case ParseInt 64 retValStr of None \<Rightarrow> defVal | Some v \<Rightarrow> v))"

text \<open>\<^verbatim>\<open>time.Duration(n) * time.Second\<close> in 64-bit arithmetic.\<close>

definition seconds :: "int \<Rightarrow> 64 word" where
  "seconds n = word_of_int n * 1000000000"

definition NewDrainHelper :: "(string \<Rightarrow> string) \<Rightarrow> string \<Rightarrow> string \<Rightarrow> DrainHelper" where
  "NewDrainHelper getenv nodeName namespace =
     (let drainTimeout = getOsVarOrUseDefault getenv ''DRAIN_TIMEOUT_SECONDS'' 90;
          leaseDur = getOsVarOrUseDefault getenv ''LEASE_DURATION_SECONDS'' 600
      in \<lparr>dh_nodeName = nodeName,
          drainer = \<lparr>Force = True, IgnoreAllDaemonSets = True, DeleteEmptyDirData = True,
            GracePeriodSeconds = -1, drain_Timeout = seconds drainTimeout\<rparr>,
          leaderElectionConfig = \<lparr>lec_Name = ''clv-daemon-lease'', lec_Namespace = namespace,
            lec_Identity = nodeName, ReleaseOnCancel = True, LeaseDuration = seconds leaseDur,
            RenewDeadline = seconds 15, RetryPeriod = seconds 5\<rparr>\<rparr>)"

section \<open>Cordon, drain and uncordon\<close>

text \<open>An attempt whose error is kept in \<^verbatim>\<open>e\<close>.\<close>

definition keep_error :: "goerr \<Rightarrow> ('w dh_state, bool) go" where
  "keep_error err = gbind (modify (e_var_update (\<lambda>_. Some err))) (\<lambda>_. ret False)"

definition drain_attempt :: "('n, 'w) drain_env \<Rightarrow> DrainHelper \<Rightarrow> 'n \<Rightarrow> ('w dh_state, bool) go" where
  "drain_attempt K dh node =
     gbind (attempt (dcall (\<lambda>r. Cordon True (is_Ok r)) (RunCordonOrUncordon K (drainer dh) node True))) (\<lambda>r.
     case r of
       Err err \<Rightarrow> keep_error err
     | _ \<Rightarrow>
       gbind (attempt (dcall (\<lambda>r. NodeDrain (is_Ok r)) (RunNodeDrain K (drainer dh) (dh_nodeName dh)))) (\<lambda>r2.
       case r2 of
         Err err \<Rightarrow> keep_error err
       | _ \<Rightarrow> ret True))"

definition uncordon_attempt :: "('n, 'w) drain_env \<Rightarrow> DrainHelper \<Rightarrow> 'n \<Rightarrow> ('w dh_state, bool) go" where
  "uncordon_attempt K dh node =
     gbind (attempt (dcall (\<lambda>r. Cordon False (is_Ok r)) (RunCordonOrUncordon K (drainer dh) node False))) (\<lambda>r.
     case r of
       Err err \<Rightarrow> keep_error err
     | _ \<Rightarrow> ret True)"

text \<open>
  The shared end of both functions: the retries with five steps, and \<^verbatim>\<open>e\<close> as the error when they
  time out (\<^verbatim>\<open>return e\<close> returns nil when no attempt has failed).
\<close>

definition retried :: "('n, 'w) drain_env \<Rightarrow> ('w dh_state, bool) go \<Rightarrow> ('w dh_state, unit) go" where
  "retried K f =
     gbind (modify (e_var_update (\<lambda>_. None))) (\<lambda>_.
     gbind (attempt (ExponentialBackoff K 5 f)) (\<lambda>r.
     case r of
       Err err \<Rightarrow> (if err = ErrWaitTimeout
                  then gbind (reading e_var) (\<lambda>e. case e of None \<Rightarrow> ret () | Some x \<Rightarrow> lift (Err x))
                  else lift (Err err))
     | _ \<Rightarrow> ret ()))"

definition cordonAndDrain :: "('n, 'w) drain_env \<Rightarrow> DrainHelper \<Rightarrow> ('w dh_state, unit) go" where
  "cordonAndDrain K dh =
     gbind (dcall (\<lambda>r. GetNode (is_Ok r)) (Nodes_Get K (dh_nodeName dh))) (\<lambda>node. retried K (drain_attempt K dh node))"

definition Uncordon :: "('n, 'w) drain_env \<Rightarrow> DrainHelper \<Rightarrow> ('w dh_state, unit) go" where
  "Uncordon K dh =
     gbind (dcall (\<lambda>r. GetNode (is_Ok r)) (Nodes_Get K (dh_nodeName dh))) (\<lambda>node. retried K (uncordon_attempt K dh node))"

section \<open>Run\<close>

text \<open>The closure \<^verbatim>\<open>uncordon\<close> of \<^verbatim>\<open>OnStartedLeading\<close>: an error replaces \<^verbatim>\<open>innerErr\<close>.\<close>

definition uncordon_closure :: "('n, 'w) drain_env \<Rightarrow> DrainHelper \<Rightarrow> ('w dh_state, unit) go" where
  "uncordon_closure K dh =
     gbind (attempt (Uncordon K dh)) (\<lambda>r.
     case r of Err err \<Rightarrow> modify (innerErr_update (\<lambda>_. Some err)) | _ \<Rightarrow> ret ())"

definition run_worker :: "('w \<Rightarrow> bool \<times> 'w) \<Rightarrow> ('w dh_state, bool) go" where
  "run_worker f s = (case f (dh_world s) of (b, w) \<Rightarrow> (Ok b, s\<lparr>dh_world := w, dh_calls := dh_calls s @ [Worker b]\<rparr>))"

definition OnStartedLeading ::
    "('n, 'w) drain_env \<Rightarrow> DrainHelper \<Rightarrow> ('w \<Rightarrow> bool \<times> 'w) \<Rightarrow> bool \<Rightarrow> ('w dh_state, unit) go" where
  "OnStartedLeading K dh f drain =
     gbind (if drain then attempt (cordonAndDrain K dh) else ret (Ok ())) (\<lambda>r.
     case r of
       Err err \<Rightarrow> gbind (modify (innerErr_update (\<lambda>_. Some err))) (\<lambda>_. uncordon_closure K dh)
     | _ \<Rightarrow> gbind (run_worker f) (\<lambda>performUncordon.
            if drain \<and> performUncordon then uncordon_closure K dh else ret ()))"

text \<open>The deferred release of the lease; its errors are only logged.\<close>

definition releaseLock :: "('n, 'w) drain_env \<Rightarrow> ('w dh_state, unit) go" where
  "releaseLock K =
     gbind (attempt (dcall (\<lambda>r. GetLease (is_Ok r)) (LeaseLock_Get K))) (\<lambda>r.
     case r of
       Ok rec \<Rightarrow> gbind (attempt (dcall (\<lambda>r. UpdateLease (is_Ok r)) (LeaseLock_Update K (rec\<lparr>HolderIdentity := []\<rparr>))))
                   (\<lambda>_. ret ())
     | _ \<Rightarrow> ret ())"

definition deferred :: "('s, 'a) go \<Rightarrow> ('s, unit) go \<Rightarrow> ('s, 'a) go" where
  "deferred m d s =
     (case m s of (r, s') \<Rightarrow>
      case d s' of
        (Panic p, s'') \<Rightarrow> (Panic p, s'')
      | (_, s'') \<Rightarrow> (r, s''))"

definition DrainHelper_Run ::
    "('n, 'w) drain_env \<Rightarrow> DrainHelper \<Rightarrow> ('w \<Rightarrow> bool \<times> 'w) \<Rightarrow> bool \<Rightarrow> ('w dh_state, unit) go" where
  "DrainHelper_Run K dh f drain =
     deferred
       (gbind (modify (innerErr_update (\<lambda>_. None))) (\<lambda>_.
        gbind (lift (NewLeaderElector K (leaderElectionConfig dh))) (\<lambda>_.
        gbind (LeaderElector_Run K (OnStartedLeading K dh f drain)) (\<lambda>_.
        gbind (reading innerErr) (\<lambda>e. case e of None \<Rightarrow> ret () | Some err \<Rightarrow> lift (Err err))))))
       (releaseLock K)"

end
