(* ===== verification/Fwddp_Daemon.thy ===== *)
theory Fwddp_Daemon
  imports Fwddp_Inventory Drain_Helper "HOL-Library.Mapping" "HOL-Library.AList_Mapping"
begin

text \<open>
  \<^verbatim>\<open>pkg/fwddp-daemon\<close> (\<^verbatim>\<open>daemon.go\<close>, \<^verbatim>\<open>fwupdater.go\<close>, \<^verbatim>\<open>ddpupdater.go\<close>, \<^verbatim>\<open>deviceupdate.go\<close>): the daemon
  of a node that downloads firmware and DDP packages, applies them on the drained node and reboots.

  The state has the node's file system, the node's configuration object in the API server (with the failures
  of requests to it), the daemon's own copy of that object (\<^verbatim>\<open>nodeConfig\<close>, which every update of the status reads
  again), the two variables the worker function captures, and the list of what the daemon did.
  External programs (\<^verbatim>\<open>nvmupdate64e\<close>, \<^verbatim>\<open>lspci\<close>, the reboot command), SHA-1, HTTP, the archive and XML
  readers, \<^verbatim>\<open>retry.RetryOnConflict\<close> and the inventory's sources are parameters (\<open>daemon_env\<close>). \<open>ro\<close> is the
  order in which the runtime visits the update queue. \<^verbatim>\<open>syscall.Umask\<close> only affects permission bits of
  group and others, which the code never reads, and is left out.
\<close>

section \<open>State and environment\<close>

datatype fd_event =
    SetCondition bool string
  | NvmUpdate string string
  | DdpCopy string
  | Reboot

record fd_state =
  fd_os :: os_state
  fd_object :: "EthernetNodeConfig option"
  fd_time :: nat
  fd_fault :: "nat \<Rightarrow> goerr option"
  fd_nc :: EthernetNodeConfig
  nodeActionErr :: "goerr option"
  rebootRequired :: bool
  fd_events :: "fd_event list"

text \<open>Tokens of \<^verbatim>\<open>xml.Decoder\<close>; a start element carries what \<^verbatim>\<open>DecodeElement\<close> into an \<^verbatim>\<open>int\<close> gives.\<close>

datatype xml_token = XStart string "int outcome" | XOther | XError goerr

record daemon_env =
  de_inventory :: inventory_env
  de_archives :: archive_lib
  de_sha1 :: "byte list \<Rightarrow> byte list"
  de_http_Get :: "string \<Rightarrow> http_response outcome"
  de_xml :: "byte list \<Rightarrow> xml_token list"
  de_xml_budget :: nat
  de_nvmupdate :: "string \<Rightarrow> string list \<Rightarrow> os_state \<Rightarrow> goerr option \<times> os_state"
  de_exec :: "os_state exec"
  RetryOnConflict :: "(fd_state, unit) go \<Rightarrow> (fd_state, unit) go"
  de_nodeName :: string
  de_namespace :: string

definition on_os :: "(os_state, 'a) go \<Rightarrow> (fd_state, 'a) go" where
  "on_os m s = (case m (fd_os s) of (r, f) \<Rightarrow> (r, s\<lparr>fd_os := f\<rparr>))"

definition log_event :: "fd_event \<Rightarrow> (fd_state, unit) go" where
  "log_event e = modify (fd_events_update (\<lambda>es. es @ [e]))"

definition fd_api :: "(fd_state, 'a) go \<Rightarrow> (fd_state, 'a) go" where
  "fd_api m s =
     (let s1 = s\<lparr>fd_time := Suc (fd_time s)\<rparr>
      in case fd_fault s (fd_time s) of Some e \<Rightarrow> (Err e, s1) | None \<Rightarrow> m s1)"

definition fd_Get :: "(fd_state, EthernetNodeConfig) go" where
  "fd_Get = fd_api (\<lambda>s. case fd_object s of None \<Rightarrow> (Err NotFound, s) | Some nc \<Rightarrow> (Ok nc, s))"

definition fd_Create :: "EthernetNodeConfig \<Rightarrow> (fd_state, unit) go" where
  "fd_Create nc = fd_api (\<lambda>s.
     case fd_object s of None \<Rightarrow> (Ok (), s\<lparr>fd_object := Some nc\<rparr>) | Some _ \<Rightarrow> (Err Conflict, s))"

text \<open>An update of the status leaves the specification.\<close>

definition fd_Status_Update :: "EthernetNodeConfigStatus \<Rightarrow> (fd_state, unit) go" where
  "fd_Status_Update st = fd_api (\<lambda>s.
     case fd_object s of
       None \<Rightarrow> (Err NotFound, s)
     | Some nc \<Rightarrow> (Ok (), s\<lparr>fd_object := Some (nc\<lparr>enc_Status := st\<rparr>)\<rparr>))"

abbreviation (input) artifactsFolder :: string where "artifactsFolder \<equiv> ''/tmp/nvmupdate''"
abbreviation (input) UpdateCondition :: string where "UpdateCondition \<equiv> ''Updated''"
abbreviation (input) UpdateInProgress :: string where "UpdateInProgress \<equiv> ''InProgress''"
abbreviation (input) UpdatePostUpdateReboot :: string where "UpdatePostUpdateReboot \<equiv> ''PostUpdateReboot''"
abbreviation (input) UpdateFailed :: string where "UpdateFailed \<equiv> ''Failed''"
abbreviation (input) UpdateNotRequested :: string where "UpdateNotRequested \<equiv> ''NotRequested''"
abbreviation (input) UpdateSucceeded :: string where "UpdateSucceeded \<equiv> ''Succeeded''"

text \<open>\<^verbatim>\<open>LoadConfig\<close> replaces the compatibility map the inventory uses; \<open>decode\<close> is \<^verbatim>\<open>json.Unmarshal\<close>.\<close>

definition LoadConfig ::
    "(byte list \<Rightarrow> (string \<times> SupportedDevice) list outcome) \<Rightarrow> inventory_env \<Rightarrow> (os_state, inventory_env) go" where
  "LoadConfig decode I =
     gbind (LoadSupportedDevices decode ''./devices.json'') (\<lambda>cmpMap. ret (I\<lparr>compatibilityMap := cmpMap\<rparr>))"

section \<open>Result of an update (deviceupdate.go)\<close>

text \<open>
  The loop over the tokens of the result file; \<open>n\<close> iterations remain before the deadline. A token that is nil
  ends the loop without an error, whether the file ended or could not be parsed.
\<close>

fun scan_reboot :: "nat \<Rightarrow> bool \<Rightarrow> xml_token list \<Rightarrow> bool \<times> goerr option" where
  "scan_reboot 0 flag ts = (flag, Some (Errorf ''context deadline exceeded''))"
| "scan_reboot (Suc n) flag [] = (flag, None)"
| "scan_reboot (Suc n) flag (XError e # ts) = (flag, None)"
| "scan_reboot (Suc n) flag (XOther # ts) = scan_reboot n flag ts"
| "scan_reboot (Suc n) flag (XStart name dec # ts) =
     (if name = ''RebootRequired''
      then (case dec of
              Ok r \<Rightarrow> scan_reboot n (r \<noteq> 0) ts
            | Err e \<Rightarrow> (False, Some e)
            | Panic p \<Rightarrow> (False, Some (Errorf p)))
      else scan_reboot n flag ts)"

definition isRebootRequired :: "daemon_env \<Rightarrow> string \<Rightarrow> (os_state, bool \<times> goerr option) go" where
  "isRebootRequired E path =
     gbind (attempt (OpenNoLinks path)) (\<lambda>o1.
     case o1 of
       Ok invf \<Rightarrow>
         gbind (attempt (file_Stat_Size invf)) (\<lambda>o2.
         case o2 of
           Ok sz \<Rightarrow>
             (if 10 < sz div 1024 then ret (True, Some (Errorf ''Update result xml file too large''))
              else gbind (attempt (read_file invf)) (\<lambda>o3.
                case o3 of
                  Ok bytes \<Rightarrow> ret (scan_reboot (de_xml_budget E) False (de_xml E bytes))
                | _ \<Rightarrow> ret (False, None)))
         | Err e \<Rightarrow> ret (True, Some e)
         | Panic p \<Rightarrow> lift (Panic p))
     | Err e \<Rightarrow> ret (True, Some e)
     | Panic p \<Rightarrow> lift (Panic p))"

section \<open>Firmware (fwupdater.go)\<close>

definition nvmupdate64eCfgPath :: "string \<Rightarrow> string" where
  "nvmupdate64eCfgPath p = filepath_Join [p, ''nvmupdate.cfg'']"

definition updateResultPath :: "string \<Rightarrow> string" where
  "updateResultPath p = filepath_Join [p, ''update.xml'']"

definition isExecutable :: "u32 \<Rightarrow> bool" where
  "isExecutable mode \<longleftrightarrow> bit mode 6"

text \<open>
  The walk with its function: a visit without file information dereferences nil. Exactly one match is
  required.
\<close>

definition walk_matches :: "(string \<Rightarrow> u32 \<Rightarrow> bool) \<Rightarrow> string \<Rightarrow> (os_state, string list) go" where
  "walk_matches want root s =
     (let visits = os_Walk root s in
      if \<exists>v \<in> set visits. snd v = None then (Panic ''nil pointer dereference'', s)
      else (Ok (map fst (filter (\<lambda>(q, m). want (Base q) (the m)) visits)), s))"

definition exactly_one :: "string \<Rightarrow> string list \<Rightarrow> string outcome" where
  "exactly_one msg ps = (case ps of [p] \<Rightarrow> Ok p | _ \<Rightarrow> Err (Errorf msg))"

definition findFwExec :: "string \<Rightarrow> (os_state, string) go" where
  "findFwExec targetPath =
     gbind (walk_matches (\<lambda>name mode. HasSuffix name ''nvmupdate64e'' \<and> isExecutable mode) targetPath) (\<lambda>ps.
     lift (exactly_one ''expected to find exactly 1 file starting with nvmupdate64e''
             (map (\<lambda>p. TrimSuffix p ''nvmupdate64e'') ps)))"

definition prepareFirmware :: "daemon_env \<Rightarrow> DeviceNodeConfig \<Rightarrow> (os_state, string) go" where
  "prepareFirmware E config =
     (let dc = dnc_DeviceConfig config in
      if FWURL dc = [] then ret []
      else
        (let targetPath = filepath_Join [artifactsFolder, dnc_PCIAddress config];
             fullPath = filepath_Join [targetPath, Base (FWURL dc)] in
         gbind (CreateFolder targetPath) (\<lambda>_.
         gbind (DownloadFile (de_sha1 E) (de_http_Get E) fullPath (FWURL dc) (FWChecksum dc)) (\<lambda>_.
         gbind (Untar (de_archives E) fullPath targetPath) (\<lambda>_.
         findFwExec targetPath)))))"

text \<open>\<^verbatim>\<open>strconv.ParseInt(s, 16, 32)\<close> with its sign, and \<^verbatim>\<open>%02d\<close> and \<^verbatim>\<open>%03d\<close>.\<close>

definition ParseInt16 :: "string \<Rightarrow> int outcome" where
  "ParseInt16 s =
     (let neg = (s \<noteq> [] \<and> hd s = CHR ''-'');
          body = (if s \<noteq> [] \<and> (hd s = CHR ''-'' \<or> hd s = CHR ''+'') then tl s else s)
      in case (if body = [] then None else hex_digits 0 body) of
           None \<Rightarrow> Err (Errorf ''invalid syntax'')
         | Some n \<Rightarrow> (if neg then (if n \<le> 2 ^ 31 then Ok (- n) else Err (Errorf ''value out of range''))
                     else (if n < 2 ^ 31 then Ok n else Err (Errorf ''value out of range''))))"

definition zero_pad :: "nat \<Rightarrow> string \<Rightarrow> string" where
  "zero_pad w s = replicate (w - length s) (CHR ''0'') @ s"

definition pad_int :: "nat \<Rightarrow> int \<Rightarrow> string" where
  "pad_int w n = (if n < 0 then CHR ''-'' # zero_pad (w - 1) (Itoa (- n)) else zero_pad w (Itoa n))"

definition pciLocation :: "string \<Rightarrow> string outcome" where
  "pciLocation pciAddr =
     obind (splitPCIAddr pciAddr) (\<lambda>(domain, bus, _, _).
     obind (ParseInt16 bus) (\<lambda>bus_dec.
     obind (ParseInt16 domain) (\<lambda>domain_dec.
     Ok (pad_int 2 domain_dec @ '':'' @ pad_int 3 bus_dec))))"

definition fw_class_path :: string where
  "fw_class_path = ''/sys/module/firmware_class/parameters/path''"

definition bytes_string :: "byte list \<Rightarrow> string" where
  "bytes_string bs = map (\<lambda>b. char_of (unat b)) bs"

definition string_bytes :: "string \<Rightarrow> byte list" where
  "string_bytes s = map of_char s"

definition updateFirmware :: "daemon_env \<Rightarrow> string \<Rightarrow> string \<Rightarrow> string \<Rightarrow> (fd_state, int) go" where
  "updateFirmware E pciAddr fwPath fwUpdateParam =
     gbind (attempt (on_os (os_ReadFile fw_class_path))) (\<lambda>alt.
     let altFwPath = (case alt of Ok bytes \<Rightarrow> TrimSuffix (bytes_string bytes) [CHR 0x0A] | _ \<Rightarrow> []) in
     gbind (lift (pciLocation pciAddr)) (\<lambda>location.
     let args = [''-u'', ''-location'', location, ''-c'', nvmupdate64eCfgPath fwPath, ''-o'', updateResultPath fwPath, ''-l'']
                @ (if fwUpdateParam \<noteq> [] then [fwUpdateParam] else []) in
     gbind (log_event (NvmUpdate pciAddr location)) (\<lambda>_.
     gbind (on_os (\<lambda>f. case de_nvmupdate E fwPath args f of (err, f') \<Rightarrow> (Ok err, f'))) (\<lambda>err.
     gbind (if altFwPath \<noteq> [] then attempt (on_os (os_WriteFile fw_class_path (string_bytes altFwPath) 420)) else ret (Ok ())) (\<lambda>_.
     case err of
       None \<Rightarrow> ret 0
     | Some (ExitError code) \<Rightarrow>
         (if code \<noteq> 3 \<and> code \<noteq> 30 \<and> code \<noteq> 50 \<and> code \<noteq> 51 then lift (Err (ExitError code)) else ret code)
     | Some e \<Rightarrow> lift (Err e))))))"

definition handleFWUpdate :: "daemon_env \<Rightarrow> string \<Rightarrow> string \<Rightarrow> string \<Rightarrow> (fd_state, bool) go" where
  "handleFWUpdate E pciAddr fwPath fwUpdateParam =
     (if fwPath = [] then ret False
      else gbind (updateFirmware E pciAddr fwPath fwUpdateParam) (\<lambda>returnCode.
        gbind (if returnCode = 50 \<or> returnCode = 51 then ret (True, None)
               else on_os (isRebootRequired E (updateResultPath fwPath))) (\<lambda>(reboot, err).
        ret (if err \<noteq> None then True else reboot))))"

section \<open>DDP profiles (ddpupdater.go)\<close>

definition findDdpProfile :: "string \<Rightarrow> (os_state, string) go" where
  "findDdpProfile targetPath =
     gbind (walk_matches (\<lambda>name mode. HasSuffix name ''.pkg'' \<and> \<not> bit mode ModeSymlink) targetPath) (\<lambda>ps.
     lift (exactly_one ''expected to find exactly 1 file ending with .pkg'' ps))"

definition prepareDDP :: "daemon_env \<Rightarrow> DeviceNodeConfig \<Rightarrow> (os_state, string) go" where
  "prepareDDP E config =
     (let dc = dnc_DeviceConfig config in
      if DDPURL dc = [] then ret []
      else
        (let targetPath = filepath_Join [artifactsFolder, dnc_PCIAddress config];
             fullPath = filepath_Join [targetPath, Base (DDPURL dc)] in
         gbind (CreateFolder targetPath) (\<lambda>_.
         gbind (DownloadFile (de_sha1 E) (de_http_Get E) fullPath (DDPURL dc) (DDPChecksum dc)) (\<lambda>_.
         gbind (UnpackDDPArchive (de_archives E) fullPath targetPath) (\<lambda>_.
         findDdpProfile targetPath)))))"

definition getDdpUpdatePaths :: "string \<times> string" where
  "getDdpUpdatePaths = CreateFullDdpPaths ''/lib/firmware/''"

definition copy_profile :: "string \<Rightarrow> string \<Rightarrow> string \<Rightarrow> (fd_state, unit) go" where
  "copy_profile devId ddpProfilePath path =
     gbind (on_os (os_MkdirAll path 384)) (\<lambda>_.
     let target = filepath_Join [path, ''ice-'' @ devId @ ''.pkg''] in
     gbind (on_os (CopyFile ddpProfilePath target)) (\<lambda>_. log_event (DdpCopy target)))"

definition updateDDP :: "daemon_env \<Rightarrow> string \<Rightarrow> string \<Rightarrow> (fd_state, unit) go" where
  "updateDDP E pciAddr ddpProfilePath =
     gbind (on_os (\<lambda>f. case ExecCmd (de_exec E) [''sh'', ''-c'', ''lspci -vs '' @ pciAddr @
              '' | awk '/Device Serial/ {print $NF}' | sed s/-//g''] f of
            ((out, None), f') \<Rightarrow> (Ok out, f') | ((_, Some e), f') \<Rightarrow> (Err e, f'))) (\<lambda>out.
     let devId = TrimSuffix out [CHR 0x0A] in
     if devId = [] then lift (Err (Errorf ''failed to extract devId''))
     else gfor (copy_profile devId ddpProfilePath) [fst getDdpUpdatePaths, snd getDdpUpdatePaths])"

definition handleDDPUpdate :: "daemon_env \<Rightarrow> string \<Rightarrow> string \<Rightarrow> (fd_state, bool) go" where
  "handleDDPUpdate E pciAddr ddpPath =
     (if ddpPath = [] then ret False
      else gbind (updateDDP E pciAddr ddpPath) (\<lambda>_. ret True))"

section \<open>Status of the node configuration (daemon.go)\<close>

definition NodeConfig_updateStatus :: "daemon_env \<Rightarrow> (string \<times> status_condition) list \<Rightarrow> (fd_state, unit) go" where
  "NodeConfig_updateStatus E c =
     RetryOnConflict E
       (gbind fd_Get (\<lambda>nc.
        gbind (modify (fd_nc_update (\<lambda>_. nc))) (\<lambda>_.
        gbind (lift (GetInventory (de_inventory E))) (\<lambda>inv.
        let nodeStatus = \<lparr>enc_Conditions = fold (\<lambda>(t, cond) m. m(t \<mapsto> cond)) c Map.empty, enc_Devices = inv\<rparr> in
        gbind (modify (fd_nc_update (enc_Status_update (\<lambda>_. nodeStatus)))) (\<lambda>_.
        fd_Status_Update nodeStatus)))))"

text \<open>An error of the update is only logged; a condition that was stored is recorded.\<close>

definition updateCondition :: "daemon_env \<Rightarrow> bool \<Rightarrow> string \<Rightarrow> string \<Rightarrow> (fd_state, unit) go" where
  "updateCondition E status reason msg =
     gbind (reading (enc_Generation \<circ> fd_nc)) (\<lambda>gen.
     gbind (attempt (NodeConfig_updateStatus E [(UpdateCondition, \<lparr>cond_Status = status, cond_Reason = reason,
              cond_Message = msg, cond_ObservedGeneration = gen\<rparr>)])) (\<lambda>r.
     case r of Ok _ \<Rightarrow> log_event (SetCondition status reason) | _ \<Rightarrow> ret ()))"

definition CreateEmptyNodeConfigIfNeeded :: "daemon_env \<Rightarrow> (fd_state, unit) go" where
  "CreateEmptyNodeConfigIfNeeded E =
     gbind (attempt fd_Get) (\<lambda>r.
     case r of
       Ok _ \<Rightarrow> ret ()
     | Err e \<Rightarrow>
         (if e \<noteq> NotFound then lift (Err e)
          else
            (let st = \<lparr>enc_Conditions = Map.empty, enc_Devices = []\<rparr> in
             gbind (fd_Create \<lparr>enc_Name = de_nodeName E, enc_Namespace = de_namespace E, enc_Generation = 1,
                       enc_Spec = \<lparr>enc_Config = [], DrainSkip = False\<rparr>, enc_Status = st\<rparr>) (\<lambda>_.
             fd_Status_Update st)))
     | Panic p \<Rightarrow> lift (Panic p))"

definition ResourceNamePredicate_Update :: "string \<Rightarrow> string \<Rightarrow> bool" where
  "ResourceNamePredicate_Update requiredName newName = (if newName \<noteq> requiredName then False else True)"

definition ResourceNamePredicate_Create :: "string \<Rightarrow> string \<Rightarrow> bool" where
  "ResourceNamePredicate_Create requiredName objName = (if objName \<noteq> requiredName then False else True)"

definition allDeviceConfigsEmpty :: "DeviceNodeConfig list \<Rightarrow> bool" where
  "allDeviceConfigsEmpty configs = list_all (\<lambda>config. dnc_DeviceConfig config = empty_DeviceConfig) configs"

section \<open>Preparing and applying the update (daemon.go)\<close>

record deviceUpdateArtifacts =
  fwPath :: string
  ddpPath :: string
  dua_fwUpdateParam :: string

definition prepareArtifacts :: "daemon_env \<Rightarrow> DeviceNodeConfig \<Rightarrow> (os_state, deviceUpdateArtifacts) go" where
  "prepareArtifacts E config =
     gbind (prepareFirmware E config) (\<lambda>fw.
     gbind (prepareDDP E config) (\<lambda>ddp.
     ret \<lparr>fwPath = fw, ddpPath = ddp, dua_fwUpdateParam = FWUpdateParam (dnc_DeviceConfig config)\<rparr>))"

type_synonym deviceUpdateQueue = "(string, deviceUpdateArtifacts) mapping"

primrec fill_queue :: "daemon_env \<Rightarrow> DeviceNodeConfig list \<Rightarrow> deviceUpdateQueue \<Rightarrow> (os_state, deviceUpdateQueue) go" where
  "fill_queue E [] q = ret q"
| "fill_queue E (c # cs) q = gbind (prepareArtifacts E c) (\<lambda>a. fill_queue E cs (Mapping.update (dnc_PCIAddress c) a q))"

definition prepareUpdateQueue :: "daemon_env \<Rightarrow> EthernetNodeConfig \<Rightarrow> (os_state, deviceUpdateQueue) go" where
  "prepareUpdateQueue E nodeConfig =
     gbind (lift (GetInventory (de_inventory E))) (\<lambda>inv.
     gbind (os_RemoveAll artifactsFolder) (\<lambda>_.
     fill_queue E (enc_Config (enc_Spec nodeConfig)) Mapping.empty))"

text \<open>The body of the loop of the worker over the update queue; an error leaves the loop.\<close>

definition update_device :: "daemon_env \<Rightarrow> deviceUpdateQueue \<Rightarrow> string \<Rightarrow> (fd_state, unit) go" where
  "update_device E q pciAddr =
     (case Mapping.lookup q pciAddr of
        None \<Rightarrow> ret ()
      | Some artifacts \<Rightarrow>
          gbind (handleFWUpdate E pciAddr (fwPath artifacts) (dua_fwUpdateParam artifacts)) (\<lambda>fwReboot.
          gbind (handleDDPUpdate E pciAddr (ddpPath artifacts)) (\<lambda>ddpReboot.
          modify (rebootRequired_update (\<lambda>b. b \<or> fwReboot \<or> ddpReboot)))))"

definition rebootNode :: "daemon_env \<Rightarrow> (fd_state, goerr option) go" where
  "rebootNode E =
     gbind (log_event Reboot) (\<lambda>_.
     on_os (\<lambda>f. case ExecCmd (de_exec E) [''chroot'', ''--userspec'', ''0'', ''/host'',
                    ''sh'', ''-c'', ''systemctl stop kubelet.service; systemctl reboot''] f of
                  ((_, err), f') \<Rightarrow> (Ok err, f')))"

text \<open>What the worker does after the loop; a failure to remove the artifacts is only logged.\<close>

definition finish_update :: "daemon_env \<Rightarrow> (fd_state, bool) go" where
  "finish_update E =
     gbind (attempt (on_os (os_RemoveAll artifactsFolder))) (\<lambda>_.
     gbind (reading rebootRequired) (\<lambda>reboot.
     if reboot then
       gbind (updateCondition E False UpdatePostUpdateReboot ''Post-update node reboot'') (\<lambda>_.
       gbind (rebootNode E) (\<lambda>err.
       gbind (modify (nodeActionErr_update (\<lambda>_. err))) (\<lambda>_. ret False)))
     else ret True))"

text \<open>
  The worker \<^verbatim>\<open>drainFunc\<close>. Its result is a plain boolean, so an error becomes \<^verbatim>\<open>nodeActionErr\<close>; the calls it
  makes do not panic (\<open>drainFunc_no_panic\<close>), and the two branches for a panic only make it total.
\<close>

definition drainFunc :: "daemon_env \<Rightarrow> (string set \<Rightarrow> string list) \<Rightarrow> deviceUpdateQueue \<Rightarrow> fd_state \<Rightarrow> bool \<times> fd_state" where
  "drainFunc E ro q s =
     (case gfor (update_device E q) (ro (Mapping.keys q)) s of
        (Err e, s1) \<Rightarrow> (True, s1\<lparr>nodeActionErr := Some e\<rparr>)
      | (Panic p, s1) \<Rightarrow> (True, s1\<lparr>nodeActionErr := Some (Errorf p)\<rparr>)
      | (Ok _, s1) \<Rightarrow>
          (case finish_update E s1 of
             (Ok b, s2) \<Rightarrow> (b, s2)
           | (Err e, s2) \<Rightarrow> (True, s2\<lparr>nodeActionErr := Some e\<rparr>)
           | (Panic p, s2) \<Rightarrow> (True, s2\<lparr>nodeActionErr := Some (Errorf p)\<rparr>)))"

section \<open>Reconcile (daemon.go)\<close>

text \<open>
  The reconciler works on the state of the drain helper; its world is that of the Kubernetes client (\<open>'k\<close>)
  together with the daemon's own.
\<close>

type_synonym 'k node_state = "('k \<times> fd_state) dh_state"

definition on_fd :: "(fd_state, 'a) go \<Rightarrow> ('k node_state, 'a) go" where
  "on_fd m s = (case m (snd (dh_world s)) of (r, x) \<Rightarrow> (r, s\<lparr>dh_world := (fst (dh_world s), x)\<rparr>))"

definition worker :: "(fd_state \<Rightarrow> bool \<times> fd_state) \<Rightarrow> 'k \<times> fd_state \<Rightarrow> bool \<times> ('k \<times> fd_state)" where
  "worker f w = (case f (snd w) of (b, x) \<Rightarrow> (b, (fst w, x)))"

definition configureNode ::
    "daemon_env \<Rightarrow> ('n, 'k \<times> fd_state) drain_env \<Rightarrow> DrainHelper \<Rightarrow> (string set \<Rightarrow> string list) \<Rightarrow> deviceUpdateQueue \<Rightarrow> ('k node_state, bool) go" where
  "configureNode E K dh ro updateQueue =
     gbind (on_fd (modify (\<lambda>s. s\<lparr>nodeActionErr := None, rebootRequired := False\<rparr>))) (\<lambda>_.
     gbind (on_fd (reading (DrainSkip \<circ> enc_Spec \<circ> fd_nc))) (\<lambda>skip.
     gbind (DrainHelper_Run K dh (worker (drainFunc E ro updateQueue)) (\<not> skip)) (\<lambda>_.
     gbind (on_fd (reading nodeActionErr)) (\<lambda>err.
     case err of
       Some e \<Rightarrow> lift (Err e)
     | None \<Rightarrow> on_fd (reading rebootRequired)))))"

text \<open>The message of an error.\<close>

primrec error_text :: "goerr \<Rightarrow> string" where
  "error_text (Errorf m) = m"
| "error_text (Wrap m e) = m @ '': '' @ error_text e"
| "error_text NotFound = ''not found''"
| "error_text Conflict = ''conflict''"
| "error_text ErrWaitTimeout = ''timed out waiting for the condition''"
| "error_text ErrFormat = ''zip: not a valid zip file''"
| "error_text (ExitError code) = ''exit status '' @ Itoa code"

datatype reconcile_result = DoNotRequeue | RequeueLater | RequeueNow "goerr option"

primrec err_of :: "'a outcome \<Rightarrow> goerr option" where
  "err_of (Ok x) = None"
| "err_of (Err e) = Some e"
| "err_of (Panic p) = None"

definition finishAfterReboot :: "daemon_env \<Rightarrow> ('n, 'k \<times> fd_state) drain_env \<Rightarrow> DrainHelper \<Rightarrow> ('k node_state, reconcile_result) go" where
  "finishAfterReboot E K dh =
     gbind (attempt (Uncordon K dh)) (\<lambda>r.
     case r of
       Err e \<Rightarrow> ret RequeueLater
     | _ \<Rightarrow> gbind (on_fd (updateCondition E True UpdateSucceeded ''Updated successfully'')) (\<lambda>_. ret DoNotRequeue))"

definition performUpdate ::
    "daemon_env \<Rightarrow> ('n, 'k \<times> fd_state) drain_env \<Rightarrow> DrainHelper \<Rightarrow> (string set \<Rightarrow> string list) \<Rightarrow> ('k node_state, reconcile_result) go" where
  "performUpdate E K dh ro =
     gbind (on_fd (updateCondition E False UpdateInProgress ''Update started'')) (\<lambda>_.
     gbind (on_fd (reading fd_nc)) (\<lambda>nodeConfig.
     gbind (attempt (on_fd (on_os (prepareUpdateQueue E nodeConfig)))) (\<lambda>r.
     case r of
       Ok updateQueue \<Rightarrow>
         gbind (attempt (configureNode E K dh ro updateQueue)) (\<lambda>r2.
         case r2 of
           Ok reboot \<Rightarrow>
             (if \<not> reboot
              then gbind (on_fd (updateCondition E True UpdateSucceeded ''Updated successfully'')) (\<lambda>_. ret DoNotRequeue)
              else ret DoNotRequeue)
         | Err e \<Rightarrow> gbind (on_fd (updateCondition E False UpdateFailed (error_text e))) (\<lambda>_. ret RequeueLater)
         | Panic p \<Rightarrow> lift (Panic p))
     | Err e \<Rightarrow> gbind (on_fd (updateCondition E False UpdateFailed (error_text e))) (\<lambda>_. ret RequeueLater)
     | Panic p \<Rightarrow> lift (Panic p))))"

definition NodeConfig_Reconcile ::
    "daemon_env \<Rightarrow> ('n, 'k \<times> fd_state) drain_env \<Rightarrow> DrainHelper \<Rightarrow> (string set \<Rightarrow> string list) \<Rightarrow> ('k node_state, reconcile_result) go" where
  "NodeConfig_Reconcile E K dh ro =
     gbind (attempt (on_fd fd_Get)) (\<lambda>r.
     case r of
       Ok nodeConfig \<Rightarrow>
         gbind (on_fd (modify (fd_nc_update (\<lambda>_. nodeConfig)))) (\<lambda>_.
         if (case enc_Conditions (enc_Status nodeConfig) UpdateCondition of
               Some condition \<Rightarrow> cond_Reason condition = UpdatePostUpdateReboot | None \<Rightarrow> False)
         then finishAfterReboot E K dh
         else if enc_Config (enc_Spec nodeConfig) = [] \<or> allDeviceConfigsEmpty (enc_Config (enc_Spec nodeConfig))
         then gbind (on_fd (updateCondition E True UpdateNotRequested ''Inventory up to date'')) (\<lambda>_. ret DoNotRequeue)
         else performUpdate E K dh ro)
     | _ \<Rightarrow>
         (if err_of r = Some NotFound
          then gbind (attempt (on_fd (CreateEmptyNodeConfigIfNeeded E))) (\<lambda>c. ret (RequeueNow (err_of c)))
          else ret (RequeueNow (err_of r))))"

end
