(* ===== verification/Drain_Helper_Props.thy ===== *)
theory Drain_Helper_Props
  imports Drain_Helper
begin

text \<open>
  What \<^verbatim>\<open>DrainHelper.Run\<close> does, as a specification of the sequences of calls it may make
  (\<open>run_spec\<close>), the proof that the code refines it, and what follows for the node: the worker runs
  only on a drained node, and the node is left cordoned exactly when the worker asks for it.
\<close>

section \<open>Hypotheses on the environment\<close>

definition backoff_spec :: "('n, 'w) drain_env \<Rightarrow> bool" where
  "backoff_spec K \<longleftrightarrow> (\<forall>n f. ExponentialBackoff K n f = retry n f)"

definition elected :: "('n, 'w) drain_env \<Rightarrow> bool" where
  "elected K \<longleftrightarrow> (\<forall>callback. LeaderElector_Run K callback = callback)"

section \<open>Specification of the calls\<close>

text \<open>
  \<open>tried F S n tr ok\<close>: at most \<open>n\<close> attempts, each with the calls of a failure \<open>F\<close> and, when the
  result is \<open>ok\<close>, a last one with the calls \<open>S\<close>.
\<close>

definition tried :: "(drain_call list \<Rightarrow> bool) \<Rightarrow> drain_call list \<Rightarrow> nat \<Rightarrow> drain_call list \<Rightarrow> bool \<Rightarrow> bool" where
  "tried F S n tr ok \<longleftrightarrow>
     (\<exists>ts. (\<forall>t \<in> set ts. F t) \<and>
       (if ok then length ts < n \<and> tr = concat ts @ S else length ts = n \<and> tr = concat ts))"

definition phase :: "(drain_call list \<Rightarrow> bool) \<Rightarrow> drain_call list \<Rightarrow> drain_call list \<Rightarrow> check \<Rightarrow> bool" where
  "phase F S tr r \<longleftrightarrow>
     (\<exists>e. r = Err e \<and> tr = [GetNode False]) \<or>
     (\<exists>t. tr = GetNode True # t \<and> (r = Ok () \<and> tried F S 5 t True \<or> (\<exists>e. r = Err e) \<and> tried F S 5 t False))"

definition drain_failure :: "drain_call list \<Rightarrow> bool" where
  "drain_failure t \<longleftrightarrow> t = [Cordon True False] \<or> t = [Cordon True True, NodeDrain False]"

definition uncordon_failure :: "drain_call list \<Rightarrow> bool" where
  "uncordon_failure t \<longleftrightarrow> t = [Cordon False False]"

abbreviation drain_phase :: "drain_call list \<Rightarrow> check \<Rightarrow> bool" where
  "drain_phase \<equiv> phase drain_failure [Cordon True True, NodeDrain True]"

abbreviation uncordon_phase :: "drain_call list \<Rightarrow> check \<Rightarrow> bool" where
  "uncordon_phase \<equiv> phase uncordon_failure [Cordon False True]"

inductive run_spec :: "bool \<Rightarrow> drain_call list \<Rightarrow> check \<Rightarrow> bool" where
  no_drain: "run_spec False [Worker b] (Ok ())"
| stay_cordoned: "drain_phase t (Ok ()) \<Longrightarrow> run_spec True (t @ [Worker False]) (Ok ())"
| uncordoned: "drain_phase t (Ok ()) \<Longrightarrow> uncordon_phase u r \<Longrightarrow> run_spec True (t @ Worker True # u) r"
| not_drained: "drain_phase t (Err e) \<Longrightarrow> uncordon_phase u (Ok ()) \<Longrightarrow> run_spec True (t @ u) (Err e)"
| not_restored: "drain_phase t (Err e) \<Longrightarrow> uncordon_phase u (Err e') \<Longrightarrow> run_spec True (t @ u) (Err e')"

inductive_simps run_spec_no_drain: "run_spec False tr r"

definition lease_calls :: "drain_call list \<Rightarrow> bool" where
  "lease_calls t \<longleftrightarrow> t = [GetLease False] \<or> (\<exists>ok. t = [GetLease True, UpdateLease ok])"

section \<open>The code refines the specification\<close>

lemma dcall_eq:
  "dcall ev m s = (r, s') \<longleftrightarrow>
     (\<exists>w. m (dh_world s) = (r, w) \<and> s' = s\<lparr>dh_world := w, dh_calls := dh_calls s @ [ev r]\<rparr>)"
  by (auto simp: dcall_def split: prod.splits)

lemma is_Ok_iff: "is_Ok r \<longleftrightarrow> (\<exists>x. r = Ok x)"
  by (cases r) auto

text \<open>What the retries need of an attempt.\<close>

definition attempts :: "(drain_call list \<Rightarrow> bool) \<Rightarrow> drain_call list \<Rightarrow> ('w dh_state, bool) go \<Rightarrow> bool" where
  "attempts F S f \<longleftrightarrow> (\<forall>s r s'. f s = (r, s') \<longrightarrow>
     (\<exists>p. r = Panic p) \<or>
     innerErr s' = innerErr s \<and>
     (r = Ok True \<and> dh_calls s' = dh_calls s @ S \<or>
      r = Ok False \<and> e_var s' \<noteq> None \<and> (\<exists>t. F t \<and> dh_calls s' = dh_calls s @ t)))"

lemma attempts_drain: "attempts drain_failure [Cordon True True, NodeDrain True] (drain_attempt K dh node)"
  unfolding attempts_def
proof (intro allI impI)
  fix s r and s' :: "'a dh_state"
  assume run: "drain_attempt K dh node s = (r, s')"
  obtain c w where c: "RunCordonOrUncordon K (drainer dh) node True (dh_world s) = (c, w)" by fastforce
  obtain d v where d: "RunNodeDrain K (drainer dh) (dh_nodeName dh) w = (d, v)" by fastforce
  show "(\<exists>p. r = Panic p) \<or> innerErr s' = innerErr s \<and>
      (r = Ok True \<and> dh_calls s' = dh_calls s @ [Cordon True True, NodeDrain True] \<or>
       r = Ok False \<and> e_var s' \<noteq> None \<and> (\<exists>t. drain_failure t \<and> dh_calls s' = dh_calls s @ t))"
    using run c d by (cases c; cases d)
      (auto simp: drain_attempt_def keep_error_def drain_failure_def gbind_def attempt_def dcall_def modify_def ret_def)
qed

lemma attempts_uncordon: "attempts uncordon_failure [Cordon False True] (uncordon_attempt K dh node)"
  unfolding attempts_def
proof (intro allI impI)
  fix s r and s' :: "'a dh_state"
  assume run: "uncordon_attempt K dh node s = (r, s')"
  obtain c w where c: "RunCordonOrUncordon K (drainer dh) node False (dh_world s) = (c, w)" by fastforce
  show "(\<exists>p. r = Panic p) \<or> innerErr s' = innerErr s \<and>
      (r = Ok True \<and> dh_calls s' = dh_calls s @ [Cordon False True] \<or>
       r = Ok False \<and> e_var s' \<noteq> None \<and> (\<exists>t. uncordon_failure t \<and> dh_calls s' = dh_calls s @ t))"
    using run c by (cases c)
      (auto simp: uncordon_attempt_def keep_error_def uncordon_failure_def gbind_def attempt_def dcall_def modify_def ret_def)
qed

lemma tried_0: "tried F S 0 [] False"
  by (auto simp: tried_def)

lemma tried_success: "tried F S (Suc n) S True"
  by (auto simp: tried_def intro: exI [of _ "[]"])

lemma tried_failure: "F t \<Longrightarrow> tried F S n tr ok \<Longrightarrow> tried F S (Suc n) (t @ tr) ok"
  unfolding tried_def by (elim exE) (rule_tac x = "t # ts" in exI, auto)

text \<open>
  The contract of the two phases, draining and uncordoning: every attempt makes the calls \<open>S\<close> and succeeds, or those
  of a failure \<open>F\<close> and keeps the error. What the retries of such an attempt do follows once for both.
\<close>

locale attempted =
  fixes F :: "drain_call list \<Rightarrow> bool" and S :: "drain_call list" and f :: "'n \<Rightarrow> ('w dh_state, bool) go"
  assumes each: "attempts F S (f node)"
begin

lemma retry_tried:
  assumes run: "retry n (f node) s = (r, s')"
  shows "(\<exists>p. r = Panic p) \<or> innerErr s' = innerErr s \<and>
     (\<exists>t. dh_calls s' = dh_calls s @ t \<and>
       (r = Ok () \<and> tried F S n t True \<or>
        r = Err ErrWaitTimeout \<and> tried F S n t False \<and> (n = 0 \<or> e_var s' \<noteq> None)))"
  using run
proof (induction n arbitrary: s)
  case 0
  then show ?case by (auto simp: tried_0)
next
  case (Suc n)
  from Suc.prems have "gbind (f node) (\<lambda>ok. if ok then ret () else retry n (f node)) s = (r, s')" by simp
  then show ?case
  proof (cases rule: gbind_cases)
    case (Ok ok s1)
    with each [of node] have "innerErr s1 = innerErr s"
      and or: "ok \<and> dh_calls s1 = dh_calls s @ S \<or>
        \<not> ok \<and> e_var s1 \<noteq> None \<and> (\<exists>t. F t \<and> dh_calls s1 = dh_calls s @ t)"
      unfolding attempts_def by (fastforce, fastforce)
    with Ok(2) Suc.IH [of s1] show ?thesis
    proof (cases ok)
      case True
      with Ok(2) or \<open>innerErr s1 = innerErr s\<close> show ?thesis by (auto intro: tried_success)
    next
      case False
      with or obtain t where t: "F t" "dh_calls s1 = dh_calls s @ t" "e_var s1 \<noteq> None" by blast
      from False Ok(2) have run: "retry n (f node) s1 = (r, s')" by simp
      show ?thesis
        using Suc.IH [OF run] t \<open>innerErr s1 = innerErr s\<close> run tried_failure [of F t S 0 "[]" False, OF t(1) tried_0]
        by (cases n) (auto intro: tried_failure)
    qed
  next
    case (Err e)
    with each [of node] show ?thesis unfolding attempts_def by fastforce
  qed auto
qed

lemma retried_phase:
  assumes "backoff_spec K" and "retried K (f node) s = (r, s')"
  shows "(\<exists>p. r = Panic p) \<or> innerErr s' = innerErr s \<and>
     (\<exists>t. dh_calls s' = dh_calls s @ t \<and>
       (r = Ok () \<and> tried F S 5 t True \<or> (\<exists>e. r = Err e) \<and> tried F S 5 t False))"
proof -
  obtain r1 s1 where run: "retry 5 (f node) (s\<lparr>e_var := None\<rparr>) = (r1, s1)" by fastforce
  from retry_tried [OF run] run assms show ?thesis
    by (cases r1) (auto simp: retried_def backoff_spec_def gbind_def attempt_def modify_def reading_def
        ret_def lift_def split: option.splits)
qed

lemma node_phase:
  assumes "backoff_spec K"
    and "gbind (dcall (\<lambda>r. GetNode (is_Ok r)) m) (\<lambda>node. retried K (f node)) s = (r, s')"
  shows "(\<exists>p. r = Panic p) \<or> innerErr s' = innerErr s \<and> (\<exists>t. dh_calls s' = dh_calls s @ t \<and> phase F S t r)"
  using assms(2)
proof (cases rule: gbind_cases)
  case (Ok node s1)
  then have "dh_calls s1 = dh_calls s @ [GetNode True]" "innerErr s1 = innerErr s"
    by (auto simp: dcall_eq)
  with retried_phase [OF assms(1) Ok(2)] show ?thesis
    by (auto simp: phase_def)
qed (auto simp: dcall_eq phase_def)

end

interpretation draining: attempted drain_failure "[Cordon True True, NodeDrain True]" "drain_attempt K dh" for K dh
  by unfold_locales (rule attempts_drain)

interpretation uncordoning: attempted uncordon_failure "[Cordon False True]" "uncordon_attempt K dh" for K dh
  by unfold_locales (rule attempts_uncordon)

lemma cordonAndDrain_phase:
  "backoff_spec K \<Longrightarrow> cordonAndDrain K dh s = (r, s') \<Longrightarrow>
     (\<exists>p. r = Panic p) \<or> innerErr s' = innerErr s \<and> (\<exists>t. dh_calls s' = dh_calls s @ t \<and> drain_phase t r)"
  unfolding cordonAndDrain_def by (rule draining.node_phase)

lemma Uncordon_phase:
  "backoff_spec K \<Longrightarrow> Uncordon K dh s = (r, s') \<Longrightarrow>
     (\<exists>p. r = Panic p) \<or> innerErr s' = innerErr s \<and> (\<exists>t. dh_calls s' = dh_calls s @ t \<and> uncordon_phase t r)"
  unfolding Uncordon_def by (rule uncordoning.node_phase)

lemma uncordon_closure_phase:
  assumes "backoff_spec K" and "uncordon_closure K dh s = (r, s')"
  shows "(\<exists>p. r = Panic p) \<or> r = Ok () \<and>
     (\<exists>u. dh_calls s' = dh_calls s @ u \<and>
       (uncordon_phase u (Ok ()) \<and> innerErr s' = innerErr s \<or>
        (\<exists>e. uncordon_phase u (Err e) \<and> innerErr s' = Some e)))"
proof -
  obtain r1 s1 where run: "Uncordon K dh s = (r1, s1)" by fastforce
  from Uncordon_phase [OF assms(1) run] run assms(2) show ?thesis
    by (cases r1) (auto simp: uncordon_closure_def gbind_def attempt_def modify_def ret_def)
qed

lemma OnStartedLeading_spec:
  assumes "backoff_spec K" and "OnStartedLeading K dh f drain s = (r, s')" and "innerErr s = None"
  shows "(\<exists>p. r = Panic p) \<or> r = Ok () \<and>
     (\<exists>t. dh_calls s' = dh_calls s @ t \<and>
        run_spec drain t (case innerErr s' of None \<Rightarrow> Ok () | Some e \<Rightarrow> Err e))"
proof (cases drain)
  case False
  with assms(2,3) show ?thesis
    by (auto simp: OnStartedLeading_def run_worker_def gbind_def ret_def run_spec_no_drain split: prod.splits)
next
  case True
  obtain r1 s1 where cd: "cordonAndDrain K dh s = (r1, s1)" by fastforce
  note ph = cordonAndDrain_phase [OF assms(1) cd]
  show ?thesis
  proof (cases r1)
    case (Ok x)
    obtain b s2 where w: "run_worker f s1 = (Ok b, s2)" "dh_calls s2 = dh_calls s1 @ [Worker b]" "innerErr s2 = innerErr s1"
      by (cases "f (dh_world s1)") (auto simp: run_worker_def)
    from ph Ok obtain t where t: "dh_calls s1 = dh_calls s @ t" "drain_phase t (Ok ())" "innerErr s1 = None"
      using assms(3) by auto
    from True Ok cd w have run: "(if b then uncordon_closure K dh else ret ()) s2 = (r, s')"
      using assms(2) by (simp add: OnStartedLeading_def gbind_def attempt_def)
    show ?thesis
    proof (cases b)
      case True
      with uncordon_closure_phase [OF assms(1), of dh s2 r s'] run w t \<open>drain\<close> show ?thesis
        by (auto intro: uncordoned)
    next
      case False
      with run w t \<open>drain\<close> show ?thesis by (auto intro: stay_cordoned)
    qed
  next
    case (Err e)
    from ph Err obtain t where t: "dh_calls s1 = dh_calls s @ t" "drain_phase t (Err e)" by auto
    from True Err cd have run: "uncordon_closure K dh (s1\<lparr>innerErr := Some e\<rparr>) = (r, s')"
      using assms(2) by (simp add: OnStartedLeading_def gbind_def attempt_def modify_def)
    from uncordon_closure_phase [OF assms(1) run] t True show ?thesis
      by (auto intro: not_drained not_restored)
  next
    case (Panic p)
    with True cd assms(2) show ?thesis
      by (auto simp: OnStartedLeading_def gbind_def attempt_def)
  qed
qed

lemma releaseLock_calls:
  assumes "releaseLock K s = (r, s')"
  shows "(\<exists>p. r = Panic p) \<or> r = Ok () \<and> (\<exists>t. dh_calls s' = dh_calls s @ t \<and> lease_calls t)"
  using assms unfolding releaseLock_def lease_calls_def
  by (elim gbind_cases)
    (auto simp: attempt_eq attempt_Panic dcall_eq split: outcome.splits elim!: gbind_cases)

lemma Run_eq:
  assumes "elected K" and "NewLeaderElector K (leaderElectionConfig dh) = Ok ()"
    and "OnStartedLeading K dh f drain (s\<lparr>innerErr := None\<rparr>) = (r1, s1)" and "releaseLock K s1 = (r2, s2)"
  shows "DrainHelper_Run K dh f drain s =
      (case r1 of
         Panic p \<Rightarrow> (case r2 of Panic q \<Rightarrow> (Panic q, s2) | _ \<Rightarrow> (Panic p, s2))
       | Err e \<Rightarrow> (case r2 of Panic q \<Rightarrow> (Panic q, s2) | _ \<Rightarrow> (Err e, s2))
       | Ok _ \<Rightarrow> (case r2 of Panic q \<Rightarrow> (Panic q, s2)
                  | _ \<Rightarrow> ((case innerErr s1 of None \<Rightarrow> Ok () | Some e \<Rightarrow> Err e), s2)))"
  using assms
  by (auto simp: DrainHelper_Run_def deferred_def gbind_def modify_def lift_def reading_def ret_def elected_def
      split: outcome.splits option.splits)

lemma Run_spec:
  assumes "backoff_spec K" and "elected K" and "NewLeaderElector K (leaderElectionConfig dh) = Ok ()"
    and "DrainHelper_Run K dh f drain s = (r, s')"
  shows "(\<exists>p. r = Panic p) \<or>
     (\<exists>t l. dh_calls s' = dh_calls s @ t @ l \<and> run_spec drain t r \<and> lease_calls l)"
proof -
  obtain r1 s1 where lead: "OnStartedLeading K dh f drain (s\<lparr>innerErr := None\<rparr>) = (r1, s1)" by fastforce
  obtain r2 s2 where rel: "releaseLock K s1 = (r2, s2)" by fastforce
  note eq = Run_eq [OF assms(2,3) lead rel]
  from OnStartedLeading_spec [OF assms(1) lead] releaseLock_calls [OF rel] eq assms(4) show ?thesis
    by (cases r1; cases r2) auto
qed

section \<open>What it means for the node\<close>

text \<open>Whether the node is cordoned after some calls: the last successful request decides.\<close>

primrec cordon_step :: "drain_call \<Rightarrow> bool \<Rightarrow> bool" where
  "cordon_step (GetNode ok) c = c"
| "cordon_step (Cordon desired ok) c = (if ok then desired else c)"
| "cordon_step (NodeDrain ok) c = c"
| "cordon_step (Worker b) c = c"
| "cordon_step (GetLease ok) c = c"
| "cordon_step (UpdateLease ok) c = c"

definition cordoned :: "drain_call list \<Rightarrow> bool" where
  "cordoned tr = fold cordon_step tr False"

lemma fold_cordon_unchanged:
  "(\<And>d ok. Cordon d ok \<notin> set tr) \<Longrightarrow> fold cordon_step tr c = c"
proof (induction tr arbitrary: c)
  case (Cons x xs)
  then show ?case by (cases x) auto
qed simp

lemma lease_calls_step [simp]: "lease_calls l \<Longrightarrow> fold cordon_step l c = c"
  by (auto simp: lease_calls_def)

lemma drain_phase_cordons: "drain_phase t (Ok ()) \<Longrightarrow> fold cordon_step t c"
  by (auto simp: phase_def tried_def)

lemma uncordon_phase_releases: "uncordon_phase t (Ok ()) \<Longrightarrow> \<not> fold cordon_step t c"
  by (auto simp: phase_def tried_def)

lemma drain_phase_last: "drain_phase t (Ok ()) \<Longrightarrow> \<exists>p. t = p @ [Cordon True True, NodeDrain True]"
  by (force simp: phase_def tried_def)

lemma phase_calls:
  assumes "phase F S tr r" and "\<And>t. F t \<Longrightarrow> c \<notin> set t" and "c \<notin> set S" and "\<And>ok. c \<noteq> GetNode ok"
  shows "c \<notin> set tr"
proof -
  have "c \<notin> set t" if "tried F S n t ok" for n t ok
  proof -
    from that obtain ts where "\<forall>t \<in> set ts. F t" and "t = concat ts @ S \<or> t = concat ts"
      unfolding tried_def by metis
    with assms(2,3) show ?thesis by auto
  qed
  with assms(1,4) show ?thesis by (auto simp: phase_def)
qed

lemma phase_no_worker:
  shows "drain_phase t r \<Longrightarrow> Worker b \<notin> set t" and "uncordon_phase t r \<Longrightarrow> Worker b \<notin> set t"
  by (erule phase_calls; auto simp: drain_failure_def uncordon_failure_def)+

lemma lease_no_worker [simp]: "lease_calls l \<Longrightarrow> Worker b \<notin> set l"
  by (auto simp: lease_calls_def)


text \<open>A cluster whose drain fails once, and whose lease can be released.\<close>

definition sample_kube :: "(string, nat) drain_env" where
  "sample_kube =
     \<lparr>Nodes_Get = (\<lambda>n. ret n),
      RunCordonOrUncordon = (\<lambda>_ _ _. ret ()),
      RunNodeDrain = (\<lambda>_ _ w. if w = 0 then (Err (Errorf ''eviction refused''), 1) else (Ok (), w)),
      LeaseLock_Get = ret \<lparr>HolderIdentity = ''node1'', LeaderTransitions = 0\<rparr>,
      LeaseLock_Update = (\<lambda>_. ret ()),
      NewLeaderElector = (\<lambda>_. Ok ()),
      LeaderElector_Run = (\<lambda>m. m),
      ExponentialBackoff = retry\<rparr>"

definition sample_helper :: DrainHelper where
  "sample_helper = NewDrainHelper (\<lambda>_. []) ''node1'' ''operators''"

definition sample_dh_state :: "nat dh_state" where
  "sample_dh_state = \<lparr>dh_world = 0, innerErr = None, e_var = None, dh_calls = []\<rparr>"

definition sample_calls :: "bool \<Rightarrow> drain_call list" where
  "sample_calls b =
     [GetNode True, Cordon True True, NodeDrain False, Cordon True True, NodeDrain True, Worker b] @
     (if b then [GetNode True, Cordon False True] else []) @ [GetLease True, UpdateLease True]"

lemma sample_run:
  "\<exists>s'. DrainHelper_Run sample_kube sample_helper (\<lambda>w. (b, w)) True sample_dh_state = (Ok (), s') \<and>
     dh_calls s' = sample_calls b"
proof -
  let ?run = "\<lambda>b. DrainHelper_Run sample_kube sample_helper (\<lambda>w. (b, w)) True sample_dh_state"
  have "fst (?run True) = Ok ()" and "dh_calls (snd (?run True)) = sample_calls True"
    and "fst (?run False) = Ok ()" and "dh_calls (snd (?run False)) = sample_calls False"
    by code_simp+
  then show ?thesis by (cases b) (metis prod.collapse)+
qed

lemma sample_kube_ok [simp]:
  "backoff_spec sample_kube" "elected sample_kube"
  "NewLeaderElector sample_kube (leaderElectionConfig sample_helper) = Ok ()"
  by (simp_all add: backoff_spec_def elected_def sample_kube_def)




section \<open>What happens to the world\<close>

text \<open>
  A part \<open>v\<close> of the world that none of the environment's calls touches is changed by the worker only.
\<close>

definition quiet :: "('n, 'w) drain_env \<Rightarrow> ('w \<Rightarrow> 'v) \<Rightarrow> bool" where
  "quiet K v \<longleftrightarrow> (\<forall>w. (\<forall>n. v (snd (Nodes_Get K n w)) = v w) \<and>
     (\<forall>o' n d. v (snd (RunCordonOrUncordon K o' n d w)) = v w) \<and>
     (\<forall>o' n. v (snd (RunNodeDrain K o' n w)) = v w) \<and>
     v (snd (LeaseLock_Get K w)) = v w \<and> (\<forall>l. v (snd (LeaseLock_Update K l w)) = v w))"

lemma keeps_dcall [keeps_intros]:
  "(\<And>w. v (snd (m w)) = v w) \<Longrightarrow> keeps (\<lambda>s. v (dh_world s) = c) (dcall ev m)"
  by (auto simp: keeps_def dcall_def split: prod.splits) (metis snd_conv)

lemma keeps_world_update [keeps_intros]:
  "keeps (\<lambda>s. v (dh_world s) = c) (modify (e_var_update g))"
  "keeps (\<lambda>s. v (dh_world s) = c) (modify (innerErr_update g))"
  by (rule keeps_modify, simp)+

lemma keeps_phase:
  assumes "quiet K v" and "backoff_spec K"
  shows "keeps (\<lambda>s. v (dh_world s) = c) (cordonAndDrain K dh)"
    and "keeps (\<lambda>s. v (dh_world s) = c) (Uncordon K dh)"
    and "keeps (\<lambda>s. v (dh_world s) = c) (uncordon_closure K dh)"
    and "keeps (\<lambda>s. v (dh_world s) = c) (releaseLock K)"
proof -
  have d: "keeps (\<lambda>s. v (dh_world s) = c) (drain_attempt K dh node)"
    and u: "keeps (\<lambda>s. v (dh_world s) = c) (uncordon_attempt K dh node)" for node
    using assms(1) unfolding drain_attempt_def uncordon_attempt_def keep_error_def quiet_def
    by (auto intro!: keeps_intros split: outcome.splits)
  have r: "keeps (\<lambda>s. v (dh_world s) = c) (retried K f)" if "keeps (\<lambda>s. v (dh_world s) = c) f" for f
    using that assms(2) unfolding retried_def backoff_spec_def
    by (auto intro!: keeps_intros split: outcome.splits option.splits)
  show "keeps (\<lambda>s. v (dh_world s) = c) (cordonAndDrain K dh)"
    and U: "keeps (\<lambda>s. v (dh_world s) = c) (Uncordon K dh)"
    using assms(1) unfolding cordonAndDrain_def Uncordon_def quiet_def by (auto intro!: keeps_intros r d u)
  then show "keeps (\<lambda>s. v (dh_world s) = c) (uncordon_closure K dh)"
    unfolding uncordon_closure_def by (auto intro!: keeps_intros split: outcome.splits)
  show "keeps (\<lambda>s. v (dh_world s) = c) (releaseLock K)"
    using assms(1) unfolding releaseLock_def quiet_def by (auto intro!: keeps_intros split: outcome.splits)
qed

text \<open>\<open>ran v f w0 t w1\<close>: either the calls \<open>t\<close> have no worker and \<open>v\<close> is as before, or the worker made the change.\<close>

definition ran :: "('w \<Rightarrow> 'v) \<Rightarrow> ('w \<Rightarrow> bool \<times> 'w) \<Rightarrow> 'w \<Rightarrow> drain_call list \<Rightarrow> 'w \<Rightarrow> bool" where
  "ran v f w0 t w1 \<longleftrightarrow>
     (\<forall>b. Worker b \<notin> set t) \<and> v w1 = v w0 \<or>
     (\<exists>b w w'. Worker b \<in> set t \<and> (\<forall>b'. Worker b' \<in> set t \<longrightarrow> b' = b) \<and> v w = v w0 \<and> f w = (b, w') \<and> v w1 = v w')"

lemma ran_cong: "v w2 = v w1 \<Longrightarrow> ran v f w0 t w1 \<Longrightarrow> ran v f w0 t w2"
  by (simp add: ran_def)

lemma OnStartedLeading_ran:
  assumes q: "quiet K v" and bo: "backoff_spec K" and run: "OnStartedLeading K dh f drain s = (r, s')"
  shows "(\<exists>p. r = Panic p) \<or> (\<exists>t. dh_calls s' = dh_calls s @ t \<and> ran v f (dh_world s) t (dh_world s'))"
proof -
  have work: "(\<exists>p. r = Panic p) \<or> (\<exists>t. dh_calls s' = dh_calls s @ t \<and> ran v f (dh_world s) t (dh_world s'))"
    if go: "gbind (run_worker f) (\<lambda>b. if drain \<and> b then uncordon_closure K dh else ret ()) s1 = (r, s')"
      and s1: "dh_calls s1 = dh_calls s @ t" "\<And>b. Worker b \<notin> set t" "v (dh_world s1) = v (dh_world s)" for s1 t
  proof -
    obtain b w where f: "f (dh_world s1) = (b, w)" by fastforce
    let ?s2 = "s1\<lparr>dh_world := w, dh_calls := dh_calls s1 @ [Worker b]\<rparr>"
    from go f have u: "(if drain \<and> b then uncordon_closure K dh else ret ()) ?s2 = (r, s')"
      by (simp add: gbind_def run_worker_def)
    have end': ?thesis if u: "dh_calls s' = dh_calls ?s2 @ u" "\<And>b. Worker b \<notin> set u" "v (dh_world s') = v w" for u
    proof -
      have "ran v f (dh_world s) (t @ Worker b # u) (dh_world s')"
        using s1(2,3) u(2,3) f unfolding ran_def
        by (intro disjI2 exI [of _ b] exI [of _ "dh_world s1"] exI [of _ w]) auto
      with u(1) s1(1) show ?thesis by auto
    qed
    show ?thesis
    proof (cases "drain \<and> b")
      case True
      with u have c: "uncordon_closure K dh ?s2 = (r, s')" by simp
      have "v (dh_world s') = v w"
        using keepsD [OF keeps_phase(3) [OF q bo] _ c, of "v w"] by simp
      with uncordon_closure_phase [OF bo c] phase_no_worker(2) end' show ?thesis by blast
    next
      case False
      with u end' [of "[]"] show ?thesis by auto
    qed
  qed
  show ?thesis
  proof (cases drain)
    case False
    with run have "gbind (run_worker f) (\<lambda>b. if drain \<and> b then uncordon_closure K dh else ret ()) s = (r, s')"
      by (simp add: OnStartedLeading_def)
    from work [OF this, of "[]"] show ?thesis by simp
  next
    case True
    obtain r1 s1 where cd: "cordonAndDrain K dh s = (r1, s1)" by fastforce
    have v1: "v (dh_world s1) = v (dh_world s)"
      using keepsD [OF keeps_phase(1) [OF q bo] _ cd] by blast
    show ?thesis
    proof (cases r1)
      case (Ok x)
      from cordonAndDrain_phase [OF bo cd] Ok obtain t where t: "dh_calls s1 = dh_calls s @ t" "drain_phase t (Ok ())"
        by auto
      from True Ok cd run have "gbind (run_worker f) (\<lambda>b. if drain \<and> b then uncordon_closure K dh else ret ()) s1 = (r, s')"
        by (simp add: OnStartedLeading_def gbind_def attempt_def)
      from work [OF this t(1) phase_no_worker(1) [OF t(2)] v1] show ?thesis .
    next
      case (Err e)
      from cordonAndDrain_phase [OF bo cd] Err obtain t where t: "dh_calls s1 = dh_calls s @ t" "drain_phase t (Err e)"
        by auto
      from True Err cd run have u: "uncordon_closure K dh (s1\<lparr>innerErr := Some e\<rparr>) = (r, s')"
        by (simp add: OnStartedLeading_def gbind_def attempt_def modify_def)
      from uncordon_closure_phase [OF bo u] keepsD [OF keeps_phase(3) [OF q bo] _ u, of "v (dh_world s)"] v1 t show ?thesis
        by (auto simp: ran_def phase_no_worker)
    next
      case (Panic p)
      with True cd run show ?thesis by (auto simp: OnStartedLeading_def gbind_def attempt_def)
    qed
  qed
qed

lemma Run_ran:
  assumes q: "quiet K v" and bo: "backoff_spec K" and el: "elected K"
    and le: "NewLeaderElector K (leaderElectionConfig dh) = Ok ()"
    and run: "DrainHelper_Run K dh f drain s = (r, s')" and np: "\<forall>p. r \<noteq> Panic p"
  shows "\<exists>t l. dh_calls s' = dh_calls s @ t @ l \<and> run_spec drain t r \<and> lease_calls l \<and> ran v f (dh_world s) t (dh_world s')"
proof -
  obtain r1 s1 where lead: "OnStartedLeading K dh f drain (s\<lparr>innerErr := None\<rparr>) = (r1, s1)" by fastforce
  obtain r2 s2 where rel: "releaseLock K s1 = (r2, s2)" by fastforce
  have eq: "DrainHelper_Run K dh f drain s =
      (case r1 of
         Panic p \<Rightarrow> (case r2 of Panic q \<Rightarrow> (Panic q, s2) | _ \<Rightarrow> (Panic p, s2))
       | Err e \<Rightarrow> (case r2 of Panic q \<Rightarrow> (Panic q, s2) | _ \<Rightarrow> (Err e, s2))
       | Ok _ \<Rightarrow> (case r2 of Panic q \<Rightarrow> (Panic q, s2)
                  | _ \<Rightarrow> ((case innerErr s1 of None \<Rightarrow> Ok () | Some e \<Rightarrow> Err e), s2)))"
    by (rule Run_eq [OF el le lead rel])
  have v2: "v (dh_world s2) = v (dh_world s1)"
    using keepsD [OF keeps_phase(4) [OF q bo] _ rel] by blast
  have r1: "\<forall>p. r1 \<noteq> Panic p" and r2: "\<forall>p. r2 \<noteq> Panic p"
    using eq run np by (auto split: outcome.splits)
  obtain t where t: "dh_calls s1 = dh_calls s @ t" "run_spec drain t (case innerErr s1 of None \<Rightarrow> Ok () | Some e \<Rightarrow> Err e)"
      "r1 = Ok ()"
    using OnStartedLeading_spec [OF bo lead] r1 by auto
  then have "ran v f (dh_world s) t (dh_world s1)"
    using OnStartedLeading_ran [OF q bo lead] r1 by auto
  moreover obtain l where l: "dh_calls s2 = dh_calls s1 @ l" "lease_calls l" "r2 = Ok ()"
    using releaseLock_calls [OF rel] r2 by auto
  moreover have "s' = s2" "r = (case innerErr s1 of None \<Rightarrow> Ok () | Some e \<Rightarrow> Err e)"
    using eq run t(3) l(3) by simp_all
  ultimately show ?thesis
    using t ran_cong [of v, OF v2] by (intro exI [of _ t] exI [of _ l]) simp
qed

end
