(* ===== verification/Os_Utils_Props.thy ===== *)
theory Os_Utils_Props
  imports Os_Utils
begin

text \<open>
  What the file helpers of \<^verbatim>\<open>pkg/utils\<close> guarantee: unpacking never touches a file outside the
  destination, an opened file is no link, a download that succeeds has the contents the checksum
  vouches for, and two defects of the way files are opened.
\<close>

section \<open>Effects on one name\<close>

text \<open>\<open>only_at p s s'\<close>: from \<open>s\<close> to \<open>s'\<close> at most the name \<open>p\<close> and its contents have changed.\<close>

definition only_at :: "string \<Rightarrow> os_state \<Rightarrow> os_state \<Rightarrow> bool" where
  "only_at p s s' \<longleftrightarrow> os_ok s' \<and> (\<forall>q. q \<noteq> p \<longrightarrow> look s' q = look s q)"

lemma only_at_refl: "os_ok s \<Longrightarrow> only_at p s s"
  by (simp add: only_at_def)

lemma only_at_trans: "only_at p s s' \<Longrightarrow> only_at p s' s'' \<Longrightarrow> only_at p s s''"
  by (auto simp: only_at_def)

lemma os_ok_time [simp]: "os_ok (s\<lparr>os_time := t\<rparr>) = os_ok s"
  by (simp add: os_ok_def)

lemma look_time [simp]: "look (s\<lparr>os_time := t\<rparr>) = look s"
  by (auto simp: look_def fun_eq_iff split: option.splits dirent.splits)

lemma os_ok_data [simp]: "os_ok (s\<lparr>os_data := D\<rparr>) = os_ok s"
  by (simp add: os_ok_def)

lemma follow_time [simp]: "follow (s\<lparr>os_time := t\<rparr>) = follow s"
  by (simp add: follow_def fun_eq_iff)

lemma is_dir_time [simp]: "is_dir (s\<lparr>os_time := t\<rparr>) = is_dir s"
  by (auto simp: is_dir_def fun_eq_iff split: option.splits)

interpretation os_call: request sys "\<lambda>s. s\<lparr>os_time := Suc (os_time s)\<rparr>" "\<lambda>s. map_option snd (os_fault s (os_time s))"
  by unfold_locales (auto simp: sys_def Let_def split: option.splits)

lemmas sys_cases = os_call.call_cases

lemma look_data:
  "look (s\<lparr>os_data := (os_data s)(i := d)\<rparr>) q = (if os_dir s q = Some (DReg i) then Some (File d) else look s q)"
  by (auto simp: look_def split: dirent.splits option.splits)

lemma resolve_plain: "(\<And>t. D p \<noteq> Some (DLink t)) \<Longrightarrow> resolve (Suc n) D p = Some p"
  by (auto split: option.splits dirent.splits)

lemma follow_plain: "(\<And>t. os_dir s (Clean p) \<noteq> Some (DLink t)) \<Longrightarrow> follow s p = Some (Clean p)"
  using resolve_plain [of "os_dir s" "Clean p" 40] by (simp add: follow_def eval_nat_numeral)

section \<open>Opening without links\<close>

lemma os_ok_names: "os_ok s \<Longrightarrow> q \<in> set (os_names s) \<longleftrightarrow> os_dir s q \<noteq> None"
  by (auto simp: os_ok_def)

lemma os_ok_one_name:
  assumes "os_ok s" and "os_dir s p = Some (DReg i)" and "os_nlink s i \<le> 1" and "os_dir s q = Some (DReg i)"
  shows "q = p"
proof (rule ccontr)
  let ?L = "filter (\<lambda>q. os_dir s q = Some (DReg i)) (os_names s)"
  assume "q \<noteq> p"
  moreover have "{p, q} \<subseteq> set ?L" and "distinct ?L" and "length ?L \<le> 1"
    using assms by (auto simp: os_ok_def)
  ultimately have "card {p, q} \<le> 1"
    by (metis List.finite_set card_mono distinct_card order_trans)
  with \<open>q \<noteq> p\<close> show False by simp
qed

text \<open>Adding a name.\<close>

lemma os_ok_new_file:
  assumes "os_ok s" and "os_dir s p = None"
  shows "os_ok (s\<lparr>os_dir := (os_dir s)(p \<mapsto> DReg (os_next s)), os_names := os_names s @ [p], os_data := D,
      os_nlink := (os_nlink s)(os_next s := 1), os_perm := M, os_next := Suc (os_next s)\<rparr>)"
proof -
  have p: "p \<notin> set (os_names s)" using assms by (simp add: os_ok_names)
  have "filter (\<lambda>q. (if q = p then Some (DReg (os_next s)) else os_dir s q) = Some (DReg i)) (os_names s) =
      filter (\<lambda>q. os_dir s q = Some (DReg i)) (os_names s)" for i
    using p by (intro filter_cong) auto
  moreover have "filter (\<lambda>q. os_dir s q = Some (DReg (os_next s))) (os_names s) = []"
    using assms(1) by (auto simp: os_ok_def filter_empty_conv)
  ultimately show ?thesis
    using assms p by (auto simp: os_ok_def less_Suc_eq fun_upd_def)
qed

lemma os_ok_new_dir:
  assumes "os_ok s" and "os_dir s p = None"
  shows "os_ok (s\<lparr>os_dir := (os_dir s)(p \<mapsto> DDir), os_names := os_names s @ [p], os_dperm := P\<rparr>)"
proof -
  have p: "p \<notin> set (os_names s)" using assms by (simp add: os_ok_names)
  have "filter (\<lambda>q. (if q = p then Some DDir else os_dir s q) = Some (DReg i)) (os_names s) =
      filter (\<lambda>q. os_dir s q = Some (DReg i)) (os_names s)" for i
    using p by (intro filter_cong) auto
  then show ?thesis
    using assms p by (auto simp: os_ok_def fun_upd_def)
qed

text \<open>Opening without truncation changes at most the opened name.\<close>

lemma open_name_only_at:
  assumes "open_name p flag perm s = (r, s')" and "os_ok s" and "\<not> fl_trunc flag"
  shows "only_at p s s'"
proof -
  have "only_at p s (s\<lparr>os_dir := (os_dir s)(p \<mapsto> DReg (os_next s)), os_names := os_names s @ [p],
      os_data := (os_data s)(os_next s := []), os_nlink := (os_nlink s)(os_next s := 1),
      os_perm := (os_perm s)(os_next s := perm), os_next := Suc (os_next s)\<rparr>)"
    if "os_dir s p = None"
    using os_ok_new_file [OF assms(2) that] assms(2) unfolding only_at_def look_def
    by (auto simp: os_ok_def split: option.splits dirent.splits)
  with assms show ?thesis
    by (auto simp: open_name_def Let_def only_at_refl split: option.splits dirent.splits if_splits)
qed

lemma open_name_Ok:
  assumes "open_name p flag perm s = (Ok h, s')"
  shows "(\<exists>i. h = HFile i \<and> os_dir s' p = Some (DReg i)) \<or> h = HDir \<and> os_dir s' p = Some DDir"
  using assms by (auto simp: open_name_def Let_def split: option.splits dirent.splits if_splits)

lemma os_Stat_state: "os_Stat p s = (r, s') \<Longrightarrow> s' = s\<lparr>os_time := Suc (os_time s)\<rparr>"
  unfolding os_Stat_def by (erule sys_cases) (auto split: option.splits dirent.splits)

lemma os_Stat_Ok:
  assumes "os_Stat p s = (Ok (d, n), s')" and "os_dir s (Clean p) = Some e" and "\<And>t. e \<noteq> DLink t"
  shows "d = e \<and> n = (case e of DReg i \<Rightarrow> os_nlink s i | _ \<Rightarrow> 2)"
  using assms(1) unfolding os_Stat_def
proof (cases rule: sys_cases)
  case Run
  with assms(2,3) follow_plain [of s p] show ?thesis by (auto split: dirent.splits)
qed simp

lemma isHardLink_eq:
  "isHardLink p s = (r, s') \<longleftrightarrow>
     (\<exists>d n. os_Stat p s = (Ok (d, n), s') \<and> r = Ok (1 < n)) \<or>
     (\<exists>e. os_Stat p s = (Err e, s') \<and> r = Err e) \<or> (\<exists>q. os_Stat p s = (Panic q, s') \<and> r = Panic q)"
  by (auto simp: isHardLink_def gbind_def ret_def split: prod.splits outcome.splits)

text \<open>A file opened by \<^verbatim>\<open>OpenFileNoLinks\<close> is a regular file with one name.\<close>

lemma OpenFileNoLinks_Ok:
  assumes "OpenFileNoLinks path flag perm s = (Ok h, s')"
  shows "\<exists>i. h = HFile i \<and> os_dir s' (Clean path) = Some (DReg i) \<and> os_nlink s' i \<le> 1"
proof -
  from assms obtain s1 where op: "OpenFile_nofollow path flag perm s = (Ok h, s1)"
    and link: "isHardLink path s1 = (Ok False, s')"
    by (auto simp: OpenFileNoLinks_def gbind_Ok_iff split: if_splits)
  then obtain d n where st: "os_Stat path s1 = (Ok (d, n), s')" and n: "n \<le> 1"
    by (auto simp: isHardLink_eq)
  from op obtain s0 where "open_name (Clean path) flag perm s0 = (Ok h, s1)"
    unfolding OpenFile_nofollow_def by (auto elim!: sys_cases)
  from open_name_Ok [OF this] st n os_Stat_Ok [OF st] os_Stat_state [OF st] show ?thesis
    by fastforce
qed

lemma OpenFileNoLinks_only_at:
  assumes "OpenFileNoLinks path flag perm s = (r, s')" and "os_ok s" and "\<not> fl_trunc flag"
  shows "only_at (Clean path) s s'"
proof -
  have op: "only_at (Clean path) s s1" if "OpenFile_nofollow path flag perm s = (r1, s1)" for r1 s1
    using that open_name_only_at [of "Clean path" flag perm "s\<lparr>os_time := Suc (os_time s)\<rparr>" r1 s1] assms(2,3)
    unfolding OpenFile_nofollow_def by (auto elim!: sys_cases simp: only_at_def)
  from assms(1) show ?thesis
    unfolding OpenFileNoLinks_def
  proof (cases rule: gbind_cases)
    case (Ok h s1)
    then have "\<exists>t. s' = s1\<lparr>os_time := t\<rparr>"
      by (auto elim!: gbind_cases simp: isHardLink_eq dest!: os_Stat_state split: if_splits)
    then show ?thesis
      using op [OF Ok(1)] by (auto simp: only_at_def)
  qed (use op in auto)
qed

lemma write_file_only_at:
  assumes "write_file (HFile i) data s = (r, s')" and "os_ok s"
    and "os_dir s p = Some (DReg i)" and "os_nlink s i \<le> 1"
  shows "only_at p s s'"
proof -
  have "q = p" if "os_dir s q = Some (DReg i)" for q
    using os_ok_one_name [OF assms(2-4) that] .
  then have "look (s\<lparr>os_time := t, os_data := (os_data s)(i := d)\<rparr>) q = look s q" if "q \<noteq> p" for t d q
    using that look_data [of s i d q] by (auto simp: look_def split: option.splits dirent.splits)
  then show ?thesis
    using assms(1,2) by (auto simp: write_file_def only_at_def Let_def split: option.splits)
qed

lemma io_Copy_only_at:
  assumes "io_Copy (HFile i) rd s = (r, s')" and "os_ok s"
    and "os_dir s p = Some (DReg i)" and "os_nlink s i \<le> 1"
  shows "only_at p s s'"
  using assms(1) unfolding io_Copy_def
  by (elim gbind_cases) (auto split: option.splits intro: write_file_only_at [OF _ assms(2-4)])

text \<open>Writing a file that was opened without links.\<close>

lemma copy_into_only_at:
  assumes "gbind (OpenFileNoLinks path O_CREATE_RDWR perm) (\<lambda>nf. gbind (lift g) (\<lambda>rd. io_Copy nf rd)) s = (r, s')"
    and "os_ok s"
  shows "only_at (Clean path) s s'"
  using assms(1)
proof (cases rule: gbind_cases)
  case (Ok h s1)
  note o = OpenFileNoLinks_only_at [OF Ok(1) assms(2), simplified]
  from OpenFileNoLinks_Ok [OF Ok(1)] obtain i where i: "h = HFile i" "os_dir s1 (Clean path) = Some (DReg i)"
      "os_nlink s1 i \<le> 1"
    by blast
  from Ok(2) show ?thesis
  proof (cases rule: gbind_cases)
    case (Ok rd s2)
    then have "io_Copy (HFile i) rd s1 = (r, s')" using i by simp
    from only_at_trans [OF o io_Copy_only_at [OF this _ i(2,3)]] o show ?thesis by (simp add: only_at_def)
  qed (use o in auto)
qed (use OpenFileNoLinks_only_at [OF _ assms(2)] in auto)

section \<open>Unpacking stays below the destination\<close>

text \<open>
  Outside of \<open>d\<close> nothing has changed, except that \<open>d\<close> and the directories above it may have been
  created.
\<close>

definition confined :: "string \<Rightarrow> os_state \<Rightarrow> os_state \<Rightarrow> bool" where
  "confined d s s' \<longleftrightarrow> os_ok s' \<and>
     (\<forall>q. \<not> is_below d q \<longrightarrow>
        look s' q = look s q \<or> look s q = None \<and> look s' q = Some Directory \<and> q \<in> set (ancestors d))"

lemma is_below_iff: "is_below d q \<longleftrightarrow> (\<exists>rest. rest \<noteq> [] \<and> elems q = elems d @ rest)"
  unfolding is_below_def by (metis append_eq_conv_conj append_take_drop_id drop_eq_Nil not_less)

lemma confined_refl: "os_ok s \<Longrightarrow> confined d s s"
  by (simp add: confined_def)

lemma confined_trans: "confined d s s' \<Longrightarrow> confined d s' s'' \<Longrightarrow> confined d s s''"
  unfolding confined_def by (metis option.distinct(1))

lemma confined_only_at: "only_at p s s' \<Longrightarrow> is_below d p \<Longrightarrow> confined d s s'"
  by (auto simp: only_at_def confined_def)

lemma confined_time: "os_ok s \<Longrightarrow> confined d s (s\<lparr>os_time := t\<rparr>)"
  by (simp add: confined_def)

lemma legal_path_below:
  assumes "rooted d" and "legal_path d (filepath_Join [d, name])"
  shows "is_below d (filepath_Join [d, name])" and "Clean (filepath_Join [d, name]) = filepath_Join [d, name]"
    and "rooted (filepath_Join [d, name])"
proof -
  let ?q = "Join ''/'' [d, name]"
  have q: "rooted ?q" and j: "filepath_Join [d, name] = Clean ?q"
    using assms(1) rooted_Join [of d "[name]"] filepath_Join_rooted [of d "[name]"] by simp_all
  show "is_below d (filepath_Join [d, name])"
    using assms(2) under_directory_iff [OF assms(1) q] elems_Clean [OF q]
    unfolding legal_path_def is_below_iff j by auto
  show "Clean (filepath_Join [d, name]) = filepath_Join [d, name]" "rooted (filepath_Join [d, name])"
    using Clean_Clean [OF q] q by (simp_all add: j)
qed

lemma mkdir_step_confined:
  assumes "mkdir_step perm p s = (r, s')" and "os_ok s" and "is_below d p \<or> p \<in> set (ancestors d)"
  shows "confined d s s'"
  using assms(1) unfolding mkdir_step_def
proof (cases rule: sys_cases)
  case Fault
  then show ?thesis using assms(2) by (simp add: confined_time)
next
  case Run
  have "confined d s (s\<lparr>os_time := t, os_dir := (os_dir s)(p \<mapsto> DDir), os_names := os_names s @ [p],
      os_dperm := (os_dperm s)(p := perm)\<rparr>)" if "os_dir s p = None" for t
    using os_ok_new_dir [of "s\<lparr>os_time := t\<rparr>" p] that assms(2,3) unfolding confined_def look_def
    by (auto split: option.splits dirent.splits)
  with Run assms(2) show ?thesis
    by (auto split: if_splits option.splits simp: confined_time)
qed

lemma ancestors_iff:
  "p \<in> set (ancestors q) \<longleftrightarrow> (\<exists>n. 1 \<le> n \<and> n \<le> length (elems q) \<and> p = slash # Join ''/'' (take n (elems q)))"
  by (auto simp: ancestors_def less_Suc_eq_le simp del: upt_Suc)

lemma ancestors_below:
  assumes "rooted q" and "is_below d q" and "p \<in> set (ancestors q)"
  shows "is_below d p \<or> p \<in> set (ancestors d)"
proof -
  from assms(3) obtain n where n: "1 \<le> n" "n \<le> length (elems q)" "p = slash # Join ''/'' (take n (elems q))"
    by (auto simp: ancestors_iff)
  have "list_all name_elem (take n (elems q))"
    using elems_rooted [OF assms(1)] by (auto simp: list_all_iff dest: in_set_takeD)
  with n have p: "elems p = take n (elems q)" by (simp add: elems_join)
  from assms(2) obtain rest where rest: "elems q = elems d @ rest" by (auto simp: is_below_iff)
  show ?thesis
  proof (cases "n \<le> length (elems d)")
    case True
    with n rest show ?thesis
      by (intro disjI2) (auto simp: ancestors_iff)
  next
    case False
    with n rest p show ?thesis by (auto simp: is_below_iff)
  qed
qed

definition confines :: "string \<Rightarrow> (os_state, 'a) go \<Rightarrow> bool" where
  "confines d m \<longleftrightarrow> (\<forall>s r s'. os_ok s \<longrightarrow> m s = (r, s') \<longrightarrow> confined d s s')"

lemma confinesI: "(\<And>s r s'. os_ok s \<Longrightarrow> m s = (r, s') \<Longrightarrow> confined d s s') \<Longrightarrow> confines d m"
  by (simp add: confines_def)

lemma confinesD: "confines d m \<Longrightarrow> os_ok s \<Longrightarrow> m s = (r, s') \<Longrightarrow> confined d s s'"
  by (simp add: confines_def)

lemma confines_quiet: "(\<And>s r s'. m s = (r, s') \<Longrightarrow> \<exists>t. s' = s\<lparr>os_time := t\<rparr>) \<Longrightarrow> confines d m"
  by (rule confinesI) (metis confined_time)

lemma confines_lift [intro]: "confines d (lift x)"
  by (rule confinesI) (auto intro: confined_refl)

lemma confines_ret [intro]: "confines d (ret x)"
  by (rule confinesI) (auto intro: confined_refl)

lemma confines_gbind [intro]:
  assumes m: "confines d m" and f: "\<And>x. confines d (f x)"
  shows "confines d (gbind m f)"
proof (rule confinesI)
  fix s r s'
  assume ok: "os_ok s" and "gbind m f s = (r, s')"
  from this(2) show "confined d s s'"
  proof (cases rule: gbind_cases)
    case (Ok x s1)
    have a: "confined d s s1" by (rule confinesD [OF m ok Ok(1)])
    then have "os_ok s1" by (simp add: confined_def)
    from confined_trans [OF a confinesD [OF f this Ok(2)]] show ?thesis .
  qed (use confinesD [OF m ok] in auto)
qed

lemma confines_attempt [intro]: "confines d m \<Longrightarrow> confines d (attempt m)"
  unfolding confines_def attempt_def by (auto split: prod.splits outcome.splits)

lemma confines_gfor [intro]: "(\<And>x. x \<in> set xs \<Longrightarrow> confines d (f x)) \<Longrightarrow> confines d (gfor f xs)"
  by (induction xs) auto

lemma MkdirAll_confines:
  assumes "rooted q" and "is_below d q"
  shows "confines d (os_MkdirAll q perm)"
  unfolding os_MkdirAll_def
  by (intro confines_gfor confinesI) (use mkdir_step_confined ancestors_below [OF assms] in blast)

lemma untar_entry_confined:
  assumes "untar_entry d x s = (r, s')" and "os_ok s" and "rooted d"
  shows "confined d s s'"
proof (cases "\<exists>fh. x = TarHeader (Some fh) \<and> legal_path d (filepath_Join [d, th_Name fh]) \<and> Typeflag fh \<in> {TypeReg, TypeDir}")
  case True
  then obtain fh where fh: "x = TarHeader (Some fh)" "legal_path d (filepath_Join [d, th_Name fh])"
      "Typeflag fh \<in> {TypeReg, TypeDir}"
    by blast
  let ?q = "filepath_Join [d, th_Name fh]"
  note q = legal_path_below [OF assms(3) fh(2)]
  show ?thesis
  proof (cases "Typeflag fh = TypeReg")
    case True
    with assms(1) fh
    have "gbind (OpenFileNoLinks ?q O_CREATE_RDWR (th_Mode fh)) (\<lambda>nf. gbind (lift (Ok (th_Data fh))) (\<lambda>rd. io_Copy nf rd)) s = (r, s')"
      by (simp add: untar_entry_def)
    from copy_into_only_at [OF this assms(2)] show ?thesis
      using q confined_only_at by simp
  next
    case False
    with assms(1) fh have "os_MkdirAll ?q (th_Mode fh) s = (r, s')" by (simp add: untar_entry_def)
    with confinesD [OF MkdirAll_confines assms(2)] q show ?thesis by blast
  qed
next
  case False
  with assms(1) have "s' = s"
    by (auto simp: untar_entry_def Let_def split: tar_next.splits option.splits if_splits)
  then show ?thesis using assms(2) by (simp add: confined_refl)
qed

lemma unzip_entry_confined:
  assumes "unzip_entry d x s = (r, s')" and "os_ok s" and "rooted d"
  shows "confined d s s'"
proof (cases "legal_path d (filepath_Join [d, ze_Name x]) \<and> (IsRegular (ze_Mode x) \<or> IsDir (ze_Mode x))")
  case True
  let ?q = "filepath_Join [d, ze_Name x]"
  note q = legal_path_below [OF assms(3) conjunct1 [OF True]]
  show ?thesis
  proof (cases "IsRegular (ze_Mode x)")
    case reg: True
    with assms(1) True
    have "gbind (OpenFileNoLinks ?q O_CREATE_RDWR (ze_Mode x)) (\<lambda>nf. gbind (lift (ze_Open x)) (\<lambda>rd. io_Copy nf rd)) s = (r, s')"
      by (simp add: unzip_entry_def unzipFile_def)
    from copy_into_only_at [OF this assms(2)] show ?thesis
      using q confined_only_at by simp
  next
    case False
    with assms(1) True have "os_MkdirAll ?q (ze_Mode x) s = (r, s')" by (simp add: unzip_entry_def)
    with confinesD [OF MkdirAll_confines assms(2)] q show ?thesis by blast
  qed
next
  case False
  with assms(1) have "s' = s"
    by (auto simp: unzip_entry_def Let_def split: if_splits)
  then show ?thesis using assms(2) by (simp add: confined_refl)
qed

lemma OpenNoLinks_state: "OpenNoLinks path s = (r, s') \<Longrightarrow> \<exists>t. s' = s\<lparr>os_time := t\<rparr>"
  unfolding OpenNoLinks_def OpenFileNoLinks_def OpenFile_nofollow_def
  by (elim gbind_cases sys_cases)
    (auto simp: isHardLink_eq open_name_def dest!: os_Stat_state split: if_splits option.splits dirent.splits
      elim!: gbind_cases)

lemma read_file_state: "read_file h s = (r, s') \<Longrightarrow> \<exists>t. s' = s\<lparr>os_time := t\<rparr>"
  unfolding read_file_def by (auto elim!: sys_cases split: handle.splits)

lemma file_Stat_Size_state: "file_Stat_Size h s = (r, s') \<Longrightarrow> \<exists>t. s' = s\<lparr>os_time := t\<rparr>"
  unfolding file_Stat_Size_def by (auto elim!: sys_cases split: handle.splits)

lemma Untar_confines: "rooted d \<Longrightarrow> confines d (Untar L src d)"
  unfolding Untar_def
  by (intro confines_gbind confines_lift confines_gfor confinesI [of "untar_entry d _"] confines_quiet
      OpenNoLinks_state read_file_state untar_entry_confined)

lemma Unzip_confines: "rooted d \<Longrightarrow> confines d (Unzip L src d)"
  unfolding Unzip_def
  by (intro confines_gbind confines_lift confines_gfor confinesI [of "unzip_entry d _"] confines_quiet
      OpenNoLinks_state read_file_state file_Stat_Size_state unzip_entry_confined)

lemma UnpackDDPArchive_confines:
  assumes "rooted dst"
  shows "confines dst (UnpackDDPArchive L src dst)"
proof -
  have glob: "confines dst (\<lambda>s. (g s, s))" for g :: "os_state \<Rightarrow> string list outcome"
    by (rule confinesI) (auto intro: confined_refl)
  show ?thesis
    unfolding UnpackDDPArchive_def
    using Unzip_confines [OF assms] Untar_confines [OF assms] glob
    by (intro confines_gbind confines_attempt) (auto split: outcome.splits intro!: confines_gbind [OF glob])
qed


text \<open>A host with an artifact archive, and an archive format with entries given outright.\<close>

definition sample_os :: os_state where
  "sample_os = \<lparr>os_dir = [''/'' \<mapsto> DDir, ''/host'' \<mapsto> DDir, ''/host/ddp'' \<mapsto> DDir, ''/host/ddp.zip'' \<mapsto> DReg 0,
       ''/host/passwd'' \<mapsto> DReg 1, ''/host/ddp/old'' \<mapsto> DReg 2],
     os_names = [''/'', ''/host'', ''/host/ddp'', ''/host/ddp.zip'', ''/host/passwd'', ''/host/ddp/old''],
     os_data = (\<lambda>i. if i = 0 then [80] else if i = 1 then [7, 7] else [1, 2, 3]),
     os_nlink = (\<lambda>_. 1), os_perm = (\<lambda>_. 420), os_dperm = (\<lambda>_. 493), os_next = 3, os_time = 0, os_fault = (\<lambda>_. None)\<rparr>"

definition zip_of :: "zip_entry list \<Rightarrow> archive_lib" where
  "zip_of es = \<lparr>gzip_tar = (\<lambda>_. Err ErrFormat), zip_NewReader = (\<lambda>_. Ok es), fp_Glob = (\<lambda>_ _. Ok [])\<rparr>"

definition zip_file :: "string \<Rightarrow> byte list \<Rightarrow> zip_entry" where
  "zip_file name data = \<lparr>ze_Name = name, ze_Mode = 420, ze_Open = Ok (data, None)\<rparr>"

lemma sample_os_ok: "os_ok sample_os"
  by (auto simp: os_ok_def sample_os_def less_Suc_eq numeral_3_eq_3 split: if_splits)

lemma look_sample: "rooted ''/host/ddp''" "look sample_os ''/host/passwd'' = Some (File [7, 7])"
  by code_simp+


section \<open>Links\<close>

lemma open_name_ok:
  assumes "open_name p flag perm s = (r, s')" and "os_ok s"
  shows "os_ok s'"
proof (cases "\<exists>i. os_dir s p = Some (DReg i)")
  case True
  with assms show ?thesis by (auto simp: open_name_def split: if_splits)
next
  case False
  then have "open_name p flag perm s = open_name p (flag\<lparr>fl_trunc := False\<rparr>) perm s"
    by (auto simp: open_name_def split: option.splits dirent.splits)
  with open_name_only_at [of p "flag\<lparr>fl_trunc := False\<rparr>" perm s r s'] assms show ?thesis
    by (simp add: only_at_def)
qed

lemma OpenFileNoLinks_ok:
  assumes "OpenFileNoLinks path flag perm s = (r, s')" and "os_ok s"
  shows "os_ok s'"
proof -
  have op: "os_ok s1" if "OpenFile_nofollow path flag perm s = (r1, s1)" for r1 s1
    using that assms(2) unfolding OpenFile_nofollow_def by (auto elim!: sys_cases dest: open_name_ok)
  from assms(1) show ?thesis
    unfolding OpenFileNoLinks_def
  proof (cases rule: gbind_cases)
    case (Ok h s1)
    then have "\<exists>t. s' = s1\<lparr>os_time := t\<rparr>"
      by (auto elim!: gbind_cases simp: isHardLink_eq dest!: os_Stat_state split: if_splits)
    then show ?thesis using op [OF Ok(1)] by auto
  qed (use op in auto)
qed

text \<open>
  A file handle from \<^verbatim>\<open>OpenFileNoLinks\<close> always belongs to a regular file that the given path
  names directly and that has no other name.
\<close>

theorem OpenFileNoLinks_no_links:
  assumes "os_ok s" and "OpenFileNoLinks path flag perm s = (Ok h, s')"
  shows "\<exists>i. h = HFile i \<and> os_dir s' (Clean path) = Some (DReg i) \<and>
     (\<forall>q. os_dir s' q = Some (DReg i) \<longrightarrow> q = Clean path)"
proof -
  obtain i where i: "h = HFile i" "os_dir s' (Clean path) = Some (DReg i)" "os_nlink s' i \<le> 1"
    using OpenFileNoLinks_Ok [OF assms(2)] by blast
  then show ?thesis
    using os_ok_one_name [OF OpenFileNoLinks_ok [OF assms(2,1)] i(2,3)] by blast
qed

theorem OpenFileNoLinks_no_links_witness:
  "fst (OpenFileNoLinks ''/host/passwd'' O_RDONLY 0 sample_os) = Ok (HFile 1) \<and>
   (\<exists>i. HFile 1 = HFile i \<and>
     (\<forall>q. os_dir (snd (OpenFileNoLinks ''/host/passwd'' O_RDONLY 0 sample_os)) q = Some (DReg i) \<longrightarrow> q = Clean ''/host/passwd''))"
proof
  show run: "fst (OpenFileNoLinks ''/host/passwd'' O_RDONLY 0 sample_os) = Ok (HFile 1)"
    by code_simp
  show "\<exists>i. HFile 1 = HFile i \<and>
     (\<forall>q. os_dir (snd (OpenFileNoLinks ''/host/passwd'' O_RDONLY 0 sample_os)) q = Some (DReg i) \<longrightarrow> q = Clean ''/host/passwd'')"
    using OpenFileNoLinks_no_links [OF sample_os_ok, of "''/host/passwd''" O_RDONLY 0 "HFile 1"] run
    by (metis prod.collapse)
qed

text \<open>
  \<^verbatim>\<open>CreateNoLinks\<close> refuses a hard link only after it has emptied the file: the link count is read
  after the file was opened with \<^verbatim>\<open>O_TRUNC\<close>, so the contents are lost under all its names.
\<close>

theorem CreateNoLinks_empties_hard_link:
  assumes "os_dir s (Clean path) = Some (DReg i)" and "1 < os_nlink s i" and "\<forall>n. os_fault s n = None"
  shows "\<exists>s'. CreateNoLinks path s = (Err (Errorf ''is a hardlink''), s') \<and>
     (\<forall>q. os_dir s q = Some (DReg i) \<longrightarrow> look s' q = Some (File []))"
proof -
  let ?s1 = "s\<lparr>os_time := Suc (os_time s), os_data := (os_data s)(i := [])\<rparr>"
  have op: "OpenFile_nofollow path O_RDWR_CREATE_TRUNC 438 s = (Ok (HFile i), ?s1)"
    using assms by (simp add: OpenFile_nofollow_def sys_def open_name_def)
  have "follow ?s1 path = Some (Clean path)"
    using assms(1) by (intro follow_plain) simp
  then have "isHardLink path ?s1 = (Ok True, ?s1\<lparr>os_time := Suc (Suc (os_time s))\<rparr>)"
    using assms by (simp add: isHardLink_def os_Stat_def sys_def gbind_def follow_def ret_def)
  with op show ?thesis
    by (auto simp: CreateNoLinks_def OpenFileNoLinks_def gbind_def lift_def look_def)
qed

definition linked_os :: os_state where
  "linked_os = sample_os\<lparr>os_dir := (os_dir sample_os)(''/host/shadow'' \<mapsto> DReg 1),
     os_names := os_names sample_os @ [''/host/shadow''], os_nlink := (\<lambda>i. if i = 1 then 2 else 1)\<rparr>"

theorem CreateNoLinks_empties_hard_link_witness:
  "\<exists>s'. CreateNoLinks ''/host/shadow'' linked_os = (Err (Errorf ''is a hardlink''), s') \<and>
     look linked_os ''/host/passwd'' = Some (File [7, 7]) \<and> look s' ''/host/passwd'' = Some (File [])"
proof -
  have "Clean ''/host/shadow'' = ''/host/shadow''" by code_simp
  with CreateNoLinks_empties_hard_link [of linked_os "''/host/shadow''" 1] show ?thesis
    by (auto simp: linked_os_def sample_os_def look_def)
qed

section \<open>Download\<close>

lemma open_name_trunc:
  "open_name p O_RDWR_CREATE_TRUNC perm s = (Ok (HFile i), s') \<Longrightarrow> os_data s' i = [] \<and> os_dir s' p = Some (DReg i)"
  by (auto simp: open_name_def Let_def split: option.splits dirent.splits if_splits)

lemma CreateNoLinks_Ok:
  assumes "CreateNoLinks path s = (Ok h, s')"
  shows "\<exists>i. h = HFile i \<and> os_dir s' (Clean path) = Some (DReg i) \<and> os_data s' i = []"
proof -
  from assms obtain s1 where op: "OpenFile_nofollow path O_RDWR_CREATE_TRUNC 438 s = (Ok h, s1)"
    and "isHardLink path s1 = (Ok False, s')"
    by (auto simp: CreateNoLinks_def OpenFileNoLinks_def gbind_Ok_iff split: if_splits)
  then have s': "\<exists>t. s' = s1\<lparr>os_time := t\<rparr>"
    by (auto simp: isHardLink_eq dest!: os_Stat_state)
  obtain i where i: "h = HFile i"
    using OpenFileNoLinks_Ok assms unfolding CreateNoLinks_def by blast
  from op i have "os_data s1 i = [] \<and> os_dir s1 (Clean path) = Some (DReg i)"
    unfolding OpenFile_nofollow_def by (auto elim!: sys_cases dest: open_name_trunc)
  with s' i show ?thesis by auto
qed

lemma io_Copy_Ok:
  assumes "io_Copy (HFile i) rd s = (Ok u, s')"
  shows "snd rd = None \<and> os_dir s' = os_dir s \<and> os_data s' i = overwrite (fst rd) (os_data s i)"
  using assms by (auto simp: io_Copy_def gbind_Ok_iff write_file_def Let_def split: option.splits)

lemma verifyChecksum_state: "verifyChecksum sha1 path cs s = (r, s') \<Longrightarrow> \<exists>t. s' = s\<lparr>os_time := t\<rparr>"
  unfolding verifyChecksum_def
  by (auto simp: ret_def attempt_eq attempt_Panic split: if_splits outcome.splits elim!: gbind_cases
      dest!: OpenNoLinks_state read_file_state)
    (rule exI [of _ "os_time s"], simp, blast+)

lemma verifyChecksum_True:
  assumes "verifyChecksum sha1 path cs s = (Ok True, s')" and "os_dir s (Clean path) = Some (DReg i)"
  shows "hex_Encode (sha1 (os_data s i)) = ToLower cs"
proof -
  obtain r1 s1 where o: "OpenNoLinks path s = (r1, s1)" by fastforce
  with assms(1) obtain h where h: "OpenNoLinks path s = (Ok h, s1)"
    by (cases r1) (auto simp: verifyChecksum_def gbind_def attempt_def split: if_split_asm)
  obtain r2 s2 where "read_file h s1 = (r2, s2)" by fastforce
  with assms(1) h obtain data where rd: "read_file h s1 = (Ok data, s2)" and sum: "hex_Encode (sha1 data) = ToLower cs"
    by (cases r2) (auto simp: verifyChecksum_def gbind_def attempt_def split: if_split_asm)
  obtain t where t: "s1 = s\<lparr>os_time := t\<rparr>" using OpenNoLinks_state [OF h] by blast
  from OpenFileNoLinks_Ok h assms(2) t have "h = HFile i"
    unfolding OpenNoLinks_def by fastforce
  with rd t have "data = os_data s i"
    unfolding read_file_def by (auto elim!: sys_cases)
  with sum show ?thesis by simp
qed

text \<open>
  \<^bold>\<open>C22.\<close> A download that succeeds leaves exactly the body of a response with status 200 at the path, and
  when a checksum is given, that body has this SHA-1 sum (compared without regard to case).
\<close>

theorem DownloadFile_contents:
  assumes "DownloadFile sha1 http_Get path url checksum s = (Ok (), s')"
  shows "\<exists>resp data. http_Get url = Ok resp \<and> StatusCode resp = 200 \<and> Body resp = (data, None) \<and>
     look s' (Clean path) = Some (File data) \<and>
     (checksum \<noteq> [] \<longrightarrow> hex_Encode (sha1 data) = ToLower checksum)"
proof -
  from assms obtain h s1 resp s2 where h: "CreateNoLinks path s = (Ok h, s1)" and resp: "http_Get url = Ok resp"
      "StatusCode resp = 200" and cp: "io_Copy h (Body resp) s1 = (Ok (), s2)"
    and sum: "checksum \<noteq> [] \<Longrightarrow> verifyChecksum sha1 path checksum s2 = (Ok True, s')" "checksum = [] \<Longrightarrow> s' = s2"
    by (cases "checksum = []") (auto simp: DownloadFile_def gbind_Ok_iff split: if_split_asm)
  from CreateNoLinks_Ok [OF h] obtain i where i: "h = HFile i" "os_dir s1 (Clean path) = Some (DReg i)" "os_data s1 i = []"
    by blast
  from io_Copy_Ok [OF cp [unfolded i(1)]] i
  have c: "snd (Body resp) = None" "os_dir s2 (Clean path) = Some (DReg i)" "os_data s2 i = fst (Body resp)"
    by (simp_all add: overwrite_def)
  have "\<exists>t. s2 = s2\<lparr>os_time := t\<rparr>" by (rule exI [of _ "os_time s2"]) simp
  with sum verifyChecksum_state [of sha1 path checksum s2 "Ok True" s'] have "\<exists>t. s' = s2\<lparr>os_time := t\<rparr>"
    by (cases "checksum = []") auto
  moreover have "checksum \<noteq> [] \<longrightarrow> hex_Encode (sha1 (os_data s2 i)) = ToLower checksum"
    using verifyChecksum_True [OF sum(1) c(2)] by blast
  ultimately
  show ?thesis
    using resp c by (intro exI [of _ resp] exI [of _ "fst (Body resp)"]) (auto simp: look_def prod_eq_iff)
qed

theorem DownloadFile_contents_witness:
  "\<exists>s'. DownloadFile (\<lambda>d. [171, 205]) (\<lambda>_. Ok \<lparr>StatusCode = 200, Body = ([9, 8], None)\<rparr>) ''/host/fw.tgz'' ''https://x'' ''ABcd'' sample_os = (Ok (), s') \<and>
     (\<exists>resp data. Ok \<lparr>StatusCode = 200, Body = ([9, 8], None)\<rparr> = Ok resp \<and> Body resp = (data, None) \<and>
       look s' (Clean ''/host/fw.tgz'') = Some (File data))"
proof -
  let ?run = "DownloadFile (\<lambda>d. [171, 205]) (\<lambda>_. Ok \<lparr>StatusCode = 200, Body = ([9, 8], None)\<rparr>) ''/host/fw.tgz'' ''https://x'' ''ABcd'' sample_os"
  have "fst ?run = Ok ()" by code_simp
  then have run: "?run = (Ok (), snd ?run)" by (metis prod.collapse)
  from DownloadFile_contents [OF run] run show ?thesis by blast
qed

section \<open>Unpacking over existing files\<close>

text \<open>
  Unpacking over an existing file leaves what lies beyond the new contents: the file is opened
  without \<^verbatim>\<open>O_TRUNC\<close>, so a shorter entry keeps the tail of the old file and the call reports success.
\<close>

theorem unzipFile_keeps_tail:
  assumes "os_dir s (Clean path) = Some (DReg i)" and "os_nlink s i \<le> 1" and "\<forall>n. os_fault s n = None"
    and "ze_Open z = Ok (data, None)"
  shows "\<exists>s'. unzipFile z path mode s = (Ok (), s') \<and>
     look s' (Clean path) = Some (File (data @ drop (length data) (os_data s i)))"
proof -
  let ?s1 = "s\<lparr>os_time := Suc (os_time s)\<rparr>"
  have op: "OpenFile_nofollow path O_CREATE_RDWR mode s = (Ok (HFile i), ?s1)"
    using assms by (simp add: OpenFile_nofollow_def sys_def open_name_def)
  have "follow ?s1 path = Some (Clean path)"
    using assms(1) by (intro follow_plain) simp
  then have "isHardLink path ?s1 = (Ok False, ?s1\<lparr>os_time := Suc (Suc (os_time s))\<rparr>)"
    using assms by (simp add: isHardLink_def os_Stat_def sys_def gbind_def follow_def ret_def)
  with op assms show ?thesis
    by (simp add: unzipFile_def OpenFileNoLinks_def gbind_def lift_def look_def ret_def io_Copy_def write_file_def
        overwrite_def)
qed

theorem unzipFile_keeps_tail_witness:
  "\<exists>s'. unzipFile (zip_file ''old'' [9]) ''/host/ddp/old'' 420 sample_os = (Ok (), s') \<and>
     look s' ''/host/ddp/old'' = Some (File [9, 2, 3])"
proof -
  have "Clean ''/host/ddp/old'' = ''/host/ddp/old''" by code_simp
  with unzipFile_keeps_tail [of sample_os "''/host/ddp/old''" 2 "zip_file ''old'' [9]" "[9]" 420] show ?thesis
    by (auto simp: sample_os_def zip_file_def)
qed

end
