(* ===== verification/Fwddp_Facts.thy ===== *)
theory Fwddp_Facts
  imports Fwddp_Daemon Drain_Helper_Props Os_Utils_Props
begin

text \<open>
  Lemmas about the daemon: what each step adds to the record of what the daemon did, and what the worker
  function reports to the drain helper. \<open>retry_spec\<close> is what the documentation of
  \<^verbatim>\<open>retry.RetryOnConflict\<close> with \<^verbatim>\<open>retry.DefaultBackoff\<close> says: at most four attempts, repeated only after a
  conflict, and the last error is returned.
\<close>

section \<open>Hypotheses on the environment\<close>

fun retry_conflict :: "nat \<Rightarrow> ('s, unit) go \<Rightarrow> ('s, unit) go" where
  "retry_conflict 0 f = ret ()"
| "retry_conflict (Suc 0) f = f"
| "retry_conflict (Suc (Suc n)) f =
     gbind (attempt f) (\<lambda>r. if r = Err Conflict then retry_conflict (Suc n) f else lift r)"

definition retry_spec :: "daemon_env \<Rightarrow> bool" where
  "retry_spec E \<longleftrightarrow> (\<forall>f. RetryOnConflict E f = retry_conflict 4 f)"

lemma keeps_retry_conflict [keeps_intros]: "keeps P f \<Longrightarrow> keeps P (retry_conflict n f)"
  by (induction n f rule: retry_conflict.induct) (auto intro!: keeps_intros)

section \<open>Events\<close>

text \<open>\<open>logs A m\<close>: the events that \<open>m\<close> adds are all in \<open>A\<close>.\<close>

definition logs :: "fd_event set \<Rightarrow> (fd_state, 'a) go \<Rightarrow> bool" where
  "logs A m \<longleftrightarrow> (\<forall>s. \<exists>es. fd_events (snd (m s)) = fd_events s @ es \<and> set es \<subseteq> A)"

named_theorems logs_intros \<open>events of composed calls\<close>

lemma logsD: "logs A m \<Longrightarrow> m s = (r, s') \<Longrightarrow> \<exists>es. fd_events s' = fd_events s @ es \<and> set es \<subseteq> A"
  by (metis logs_def snd_conv)

lemma logsI: "(\<And>s r s'. m s = (r, s') \<Longrightarrow> \<exists>es. fd_events s' = fd_events s @ es \<and> set es \<subseteq> A) \<Longrightarrow> logs A m"
  unfolding logs_def by (metis prod.collapse)

lemma logs_ret [logs_intros]: "logs A (ret x)"
  by (simp add: logs_def ret_def)

lemma logs_lift [logs_intros]: "logs A (lift x)"
  by (simp add: logs_def lift_def)

lemma logs_reading [logs_intros]: "logs A (reading f)"
  by (simp add: logs_def reading_def)

lemma logs_modify [logs_intros]: "(\<And>s. fd_events (f s) = fd_events s) \<Longrightarrow> logs A (modify f)"
  by (simp add: logs_def modify_def)

lemma logs_log_event [logs_intros]: "e \<in> A \<Longrightarrow> logs A (log_event e)"
  by (simp add: logs_def log_event_def modify_def)

lemma logs_on_os [logs_intros]: "logs A (on_os m)"
  by (auto simp: logs_def on_os_def split: prod.splits)

lemma logs_gbind [logs_intros]:
  assumes "logs A m" and "\<And>x. logs A (f x)"
  shows "logs A (gbind m f)"
proof (rule logsI)
  fix s r s'
  assume "gbind m f s = (r, s')"
  then show "\<exists>es. fd_events s' = fd_events s @ es \<and> set es \<subseteq> A"
  proof (cases rule: gbind_cases)
    case (Ok x s1)
    with logsD [OF assms(1) Ok(1)] logsD [OF assms(2) Ok(2)] show ?thesis by force
  qed (use logsD [OF assms(1)] in auto)
qed

lemma logs_attempt [logs_intros]: "logs A m \<Longrightarrow> logs A (attempt m)"
  by (rule logsI) (auto simp: attempt_def split: prod.splits outcome.splits dest: logsD)

lemma logs_gfor [logs_intros]: "(\<And>x. logs A (f x)) \<Longrightarrow> logs A (gfor f xs)"
  by (induction xs) (auto intro!: logs_intros)

interpretation fd_call: request fd_api "\<lambda>s. s\<lparr>fd_time := Suc (fd_time s)\<rparr>" "\<lambda>s. fd_fault s (fd_time s)"
  by unfold_locales (simp add: fd_api_def Let_def)

lemma logs_fd_api [logs_intros]: "logs A m \<Longrightarrow> logs A (fd_api m)"
  by (rule logsI, erule fd_call.call_cases) (auto dest: logsD)

lemma logs_retry_conflict [logs_intros]: "logs A f \<Longrightarrow> logs A (retry_conflict n f)"
  by (induction n f rule: retry_conflict.induct) (auto intro!: logs_intros)

lemma logs_mono: "logs A m \<Longrightarrow> A \<subseteq> B \<Longrightarrow> logs B m"
  by (fastforce simp: logs_def)

abbreviation updates :: "fd_event set" where
  "updates \<equiv> {e. (\<exists>p l. e = NvmUpdate p l) \<or> (\<exists>t. e = DdpCopy t)}"

lemma logs_update_device: "logs updates (update_device E q a)"
  unfolding update_device_def handleFWUpdate_def updateFirmware_def handleDDPUpdate_def updateDDP_def copy_profile_def Let_def
  by (auto intro!: logs_intros split: option.splits goerr.splits prod.splits)

lemma logs_NodeConfig_updateStatus: "retry_spec E \<Longrightarrow> logs A (NodeConfig_updateStatus E c)"
  unfolding NodeConfig_updateStatus_def retry_spec_def fd_Get_def fd_Status_Update_def Let_def
  by (auto intro!: logs_intros) (auto simp: logs_def split: option.splits)

lemma logs_updateCondition: "retry_spec E \<Longrightarrow> SetCondition b r \<in> A \<Longrightarrow> logs A (updateCondition E b r msg)"
  unfolding updateCondition_def
  by (intro logs_intros logs_NodeConfig_updateStatus; assumption?) (auto intro!: logs_intros split: outcome.splits)


text \<open>What a single update of a condition records: the condition, or nothing when the update failed.\<close>

definition condition_set :: "bool \<Rightarrow> string \<Rightarrow> fd_event list \<Rightarrow> bool" where
  "condition_set b reason es \<longleftrightarrow> es = [] \<or> es = [SetCondition b reason]"

lemma updateCondition_events:
  assumes "retry_spec E" and run: "updateCondition E b reason msg s = (r, s')"
  shows "\<exists>c. fd_events s' = fd_events s @ c \<and> condition_set b reason c"
proof -
  let ?c = "[(UpdateCondition, \<lparr>cond_Status = b, cond_Reason = reason, cond_Message = msg,
    cond_ObservedGeneration = enc_Generation (fd_nc s)\<rparr>)]"
  obtain r1 s1 where u: "NodeConfig_updateStatus E ?c s = (r1, s1)" by fastforce
  have "fd_events s1 = fd_events s"
    using logsD [OF logs_NodeConfig_updateStatus [OF assms(1)] u, of "{}"] by simp
  with run u show ?thesis
    by (cases r1) (auto simp: updateCondition_def gbind_def attempt_def reading_def log_event_def modify_def ret_def condition_set_def)
qed

lemma keeps_fd_api [keeps_intros]:
  "keeps P m \<Longrightarrow> (\<And>s t. P s \<Longrightarrow> P (s\<lparr>fd_time := t\<rparr>)) \<Longrightarrow> keeps P (fd_api m)"
  by (rule fd_call.call_keeps)

lemma keeps_updateCondition:
  assumes "retry_spec E"
  shows "keeps (\<lambda>s. rebootRequired s = c) (updateCondition E b reason msg)"
    and "keeps (\<lambda>s. nodeActionErr s = e) (updateCondition E b reason msg)"
    and "keeps (\<lambda>s. fd_os s = f) (updateCondition E b reason msg)"
  using assms
  unfolding updateCondition_def NodeConfig_updateStatus_def retry_spec_def fd_Get_def fd_Status_Update_def log_event_def Let_def
  by (auto intro!: keeps_intros split: outcome.splits) (auto simp: keeps_def split: option.splits)

section \<open>Panics\<close>

text \<open>\<open>calm m\<close>: the call returns a value or an error.\<close>

definition calm :: "('s, 'a) go \<Rightarrow> bool" where
  "calm m \<longleftrightarrow> (\<forall>s s' p. m s \<noteq> (Panic p, s'))"

named_theorems calm_intros \<open>calls that do not panic\<close>

lemma calm_basic [calm_intros]:
  "calm (ret x)" "calm (lift (Ok x))" "calm (lift (Err e))" "calm (reading g)" "calm (modify h)"
  by (auto simp: calm_def)

lemma calm_lift [calm_intros]: "(\<And>p. r \<noteq> Panic p) \<Longrightarrow> calm (lift r)"
  by (auto simp: calm_def)

lemma calm_gbind [calm_intros]: "calm m \<Longrightarrow> (\<And>x. calm (f x)) \<Longrightarrow> calm (gbind m f)"
  by (auto simp: calm_def gbind_Panic_iff)

lemma calm_attempt [calm_intros]: "calm m \<Longrightarrow> calm (attempt m)"
  by (auto simp: calm_def attempt_Panic)

lemma calm_try:
  "calm m \<Longrightarrow> (\<And>x. calm (f (Ok x))) \<Longrightarrow> (\<And>e. calm (f (Err e))) \<Longrightarrow> calm (gbind (attempt m) f)"
  unfolding calm_def gbind_Panic_iff attempt_Panic attempt_eq by (metis outcome.exhaust)

lemma calm_gfor [calm_intros]: "(\<And>x. calm (f x)) \<Longrightarrow> calm (gfor f xs)"
  by (induction xs) (auto intro!: calm_intros)

lemma calm_sys [calm_intros]: "calm m \<Longrightarrow> calm (sys m)"
  unfolding calm_def by (blast intro: os_call.call_no_panic [THEN notE, rotated])

lemma calm_on_os [calm_intros]: "calm m \<Longrightarrow> calm (on_os m)"
  by (auto simp: calm_def on_os_def split: prod.splits)

lemma calm_fd_api [calm_intros]: "calm m \<Longrightarrow> calm (fd_api m)"
  unfolding calm_def by (blast intro: fd_call.call_no_panic [THEN notE, rotated])

lemma calm_log_event [calm_intros]: "calm (log_event e)"
  by (simp add: log_event_def calm_intros)

lemma calm_retry_conflict [calm_intros]: "calm f \<Longrightarrow> calm (retry_conflict n f)"
proof (induction n f rule: retry_conflict.induct)
  case (3 n f)
  then show ?case by (auto simp: calm_def gbind_Panic_iff attempt_eq attempt_Panic)
qed (auto intro: calm_intros)

lemma calm_open [calm_intros]: "calm (OpenFile path flag perm)" "calm (OpenFileNoLinks path flag perm)"
proof -
  have o: "calm (open_name p flag perm)" for p
    by (auto simp: calm_def open_name_def Let_def split: option.splits dirent.splits if_splits)
  have "calm (\<lambda>s. case follow s path of None \<Rightarrow> (Err ELOOP, s) | Some p \<Rightarrow> open_name p flag perm s)"
    using o by (auto simp: calm_def split: option.splits)
  then show "calm (OpenFile path flag perm)"
    by (auto simp: OpenFile_def intro: calm_intros)
  have "calm (isHardLink path)"
    unfolding isHardLink_def os_Stat_def
    by (intro calm_intros) (auto simp: calm_def split: option.splits dirent.splits)
  with o show "calm (OpenFileNoLinks path flag perm)"
    by (auto simp: OpenFileNoLinks_def OpenFile_nofollow_def intro!: calm_intros)
qed

lemma calm_files [calm_intros]:
  "calm (write_file h data)" "calm (read_file h)" "calm (os_ReadFile path)" "calm (os_WriteFile path data perm)"
  "calm (os_MkdirAll path perm)" "calm (os_RemoveAll path)" "calm (file_Stat_Size h)" "calm (CopyFile src dst)"
proof -
  show w: "calm (write_file h data)" for h data
    by (auto simp: calm_def write_file_def Let_def split: option.splits handle.splits)
  show r: "calm (read_file h)" for h
    unfolding read_file_def by (intro calm_intros) (auto simp: calm_def split: handle.splits)
  show rf: "calm (os_ReadFile path)" and wf: "calm (os_WriteFile path data perm)" for path data perm
    unfolding os_ReadFile_def os_WriteFile_def by (intro calm_intros r w)+
  have "calm (mkdir_step perm p)" for p
    unfolding mkdir_step_def by (rule calm_sys) (auto simp: calm_def split: option.splits)
  then show "calm (os_MkdirAll path perm)"
    unfolding os_MkdirAll_def by (auto intro: calm_intros)
  show "calm (os_RemoveAll path)"
    unfolding os_RemoveAll_def by (auto simp: calm_def sys_def Let_def split: option.splits)
  show "calm (file_Stat_Size h)"
    unfolding file_Stat_Size_def by (intro calm_intros) (auto simp: calm_def split: handle.splits)
  show "calm (CopyFile src dst)"
    unfolding CopyFile_def by (intro calm_intros rf wf)
qed

lemma splitPCIAddr_not_Panic: "splitPCIAddr a \<noteq> Panic p"
  by (simp add: splitPCIAddr_def split: list.splits)

lemma pciLocation_not_Panic: "pciLocation a \<noteq> Panic p"
  by (auto simp: pciLocation_def ParseInt16_def Let_def obind_Panic_iff splitPCIAddr_not_Panic split: option.splits if_splits)

lemma calm_update_device [calm_intros]: "calm (update_device E q a)"
proof -
  have e: "calm (case err of None \<Rightarrow> ret 0 | Some (ExitError code) \<Rightarrow>
      (if code \<noteq> 3 \<and> code \<noteq> 30 \<and> code \<noteq> 50 \<and> code \<noteq> 51 then lift (Err (ExitError code)) else ret code)
      | Some e \<Rightarrow> lift (Err e))" for err
    by (auto intro!: calm_intros split: option.splits goerr.splits)
  have x: "calm (\<lambda>f. case de_nvmupdate E fp args f of (err, f') \<Rightarrow> (Ok err, f'))" for fp args
    by (auto simp: calm_def split: prod.splits)
  have fw: "calm (updateFirmware E pa fp up)" for pa fp up
    unfolding updateFirmware_def Let_def
    by (rule calm_gbind, intro calm_intros, rule calm_gbind, intro calm_intros pciLocation_not_Panic)
      (auto intro!: calm_intros e x)
  have reb: "calm (isRebootRequired E path)" for path
    unfolding isRebootRequired_def OpenNoLinks_def
    by (rule calm_try, intro calm_intros, simp, rule calm_try, intro calm_intros)
      (auto intro!: calm_intros split: outcome.splits)
  have "calm (handleFWUpdate E pa fp up)" for pa fp up
    unfolding handleFWUpdate_def by (auto intro!: calm_intros fw reb split: prod.splits)
  moreover have "calm (\<lambda>f. case ExecCmd (de_exec E) args f of
      ((out, None), f') \<Rightarrow> (Ok out, f') | ((_, Some e), f') \<Rightarrow> (Err e, f'))" for args
    by (auto simp: calm_def split: prod.splits option.splits)
  then have "calm (handleDDPUpdate E pa dp)" for pa dp
    unfolding handleDDPUpdate_def updateDDP_def copy_profile_def Let_def
    by (auto intro!: calm_intros)
  ultimately show ?thesis
    unfolding update_device_def by (auto intro!: calm_intros split: option.splits)
qed

text \<open>Reading the inventory returns devices or an error.\<close>

definition inventory_calm :: "daemon_env \<Rightarrow> bool" where
  "inventory_calm E \<longleftrightarrow> (\<forall>p. ghw_PCI (de_inventory E) \<noteq> Panic p)"

lemma GetInventory_not_Panic: "inventory_calm E \<Longrightarrow> GetInventory (de_inventory E) \<noteq> Panic p"
  by (auto simp: inventory_calm_def GetInventory_def getPCIDevices_def obind_Panic_iff)

lemma calm_updateCondition:
  assumes "retry_spec E" and "inventory_calm E"
  shows "calm (updateCondition E b reason msg)"
proof -
  have "calm fd_Get"
    unfolding fd_Get_def by (rule calm_fd_api) (auto simp: calm_def split: option.splits)
  moreover have "calm (fd_Status_Update st)" for st
    unfolding fd_Status_Update_def by (rule calm_fd_api) (auto simp: calm_def split: option.splits)
  ultimately have "calm (NodeConfig_updateStatus E c)" for c
    using assms unfolding NodeConfig_updateStatus_def retry_spec_def Let_def
    by (auto intro!: calm_intros GetInventory_not_Panic)
  then show ?thesis
    unfolding updateCondition_def by (auto intro!: calm_intros split: outcome.splits)
qed

lemma updateCondition_returns:
  assumes "retry_spec E" and "inventory_calm E" and run: "updateCondition E b reason msg s = (r, s')"
  shows "r = Ok ()"
proof (cases r)
  case (Err e)
  have "(case x of Ok _ \<Rightarrow> log_event (SetCondition b reason) | _ \<Rightarrow> ret ()) t \<noteq> (Err e, t')" for x :: check and t t'
    by (cases x) (auto simp: log_event_def)
  with run Err show ?thesis
    by (auto simp: updateCondition_def gbind_Err_iff)
qed (use calm_updateCondition [OF assms(1,2)] run in \<open>auto simp: calm_def\<close>)

section \<open>The worker\<close>

lemma rebootNode_run:
  "\<exists>err s'. rebootNode E s = (Ok err, s') \<and> fd_events s' = fd_events s @ [Reboot] \<and> rebootRequired s' = rebootRequired s"
  by (auto simp: rebootNode_def gbind_def log_event_def modify_def on_os_def split: prod.splits)

definition rebooted :: "fd_event list \<Rightarrow> bool" where
  "rebooted es \<longleftrightarrow> (\<exists>c. condition_set False UpdatePostUpdateReboot c \<and> es = c @ [Reboot])"

lemma finish_update_events:
  assumes env: "retry_spec E" "inventory_calm E" and run: "finish_update E s = (r, s')"
  shows "r = Ok True \<and> fd_events s' = fd_events s \<and> \<not> rebootRequired s' \<or>
    (\<exists>es. r = Ok False \<and> fd_events s' = fd_events s @ es \<and> rebooted es \<and> rebootRequired s')"
proof -
  obtain r0 s0 where rm: "on_os (os_RemoveAll artifactsFolder) s = (r0, s0)" by fastforce
  then have s0: "fd_events s0 = fd_events s"
    by (auto simp: on_os_def split: prod.splits)
  have r0: "\<forall>p. r0 \<noteq> Panic p"
    using rm calm_on_os [OF calm_files(6), of artifactsFolder] by (auto simp: calm_def)
  obtain s1 where uc: "updateCondition E False UpdatePostUpdateReboot ''Post-update node reboot'' s0 = (Ok (), s1)"
    using updateCondition_returns [OF env] by (metis prod.collapse)
  obtain err s2 where rb: "rebootNode E s1 = (Ok err, s2)" "fd_events s2 = fd_events s1 @ [Reboot]"
      "rebootRequired s2 = rebootRequired s1"
    using rebootNode_run by blast
  obtain c where c: "fd_events s1 = fd_events s @ c" "condition_set False UpdatePostUpdateReboot c"
    using updateCondition_events [OF env(1) uc] s0 by auto
  have rr: "rebootRequired s1 = rebootRequired s0"
    using keepsD [OF keeps_updateCondition(1) [OF env(1)] _ uc] by blast
  show ?thesis
    using run rm uc rb c rr r0 s0
    by (cases r0; cases "rebootRequired s0")
      (auto simp: finish_update_def gbind_def attempt_def reading_def modify_def ret_def rebooted_def condition_set_def)
qed

text \<open>
  What the worker did, by what it reports: true after nothing but updates, false after it asked for the
  reboot that the updates require.
\<close>

definition worked :: "bool \<Rightarrow> fd_event list \<Rightarrow> fd_state \<Rightarrow> bool" where
  "worked b es s' \<longleftrightarrow>
     (if b then set es \<subseteq> updates \<and> (nodeActionErr s' = None \<longrightarrow> \<not> rebootRequired s')
      else (\<exists>us c. set us \<subseteq> updates \<and> rebooted c \<and> es = us @ c) \<and> rebootRequired s')"

text \<open>None of the calls of the worker panics, so its two branches for a panic are never taken.\<close>

lemma drainFunc_no_panic:
  assumes "retry_spec E" and "inventory_calm E"
  shows "fst (gfor (update_device E q) as s) \<noteq> Panic p" and "fst (finish_update E s) \<noteq> Panic p"
proof -
  show "fst (gfor (update_device E q) as s) \<noteq> Panic p"
    using calm_gfor [where f = "update_device E q" and xs = as, OF calm_update_device]
    by (cases "gfor (update_device E q) as s") (auto simp: calm_def)
  show "fst (finish_update E s) \<noteq> Panic p"
    using finish_update_events [OF assms, of s] by (cases "finish_update E s") auto
qed

lemma drainFunc_worked:
  assumes env: "retry_spec E" "inventory_calm E" and run: "drainFunc E ro q s = (b, s')"
  shows "\<exists>es. fd_events s' = fd_events s @ es \<and> worked b es s'"
proof -
  obtain r1 s1 where loop: "gfor (update_device E q) (ro (Mapping.keys q)) s = (r1, s1)" by fastforce
  obtain r2 s2 where fin: "finish_update E s1 = (r2, s2)" by fastforce
  obtain us where us: "fd_events s1 = fd_events s @ us" "set us \<subseteq> updates"
    using logsD [OF logs_gfor [OF logs_update_device] loop] by blast
  show ?thesis
  proof (cases r1)
    case (Ok x)
    with finish_update_events [OF env fin] us(1) consider
        "r2 = Ok True" "fd_events s2 = fd_events s @ us" "\<not> rebootRequired s2"
      | c where "r2 = Ok False" "fd_events s2 = fd_events s @ us @ c" "rebooted c" "rebootRequired s2"
      by auto
    then show ?thesis
    proof cases
      case 1
      with Ok run loop fin us show ?thesis by (simp add: drainFunc_def worked_def)
    next
      case 2
      with Ok run loop fin have "b = False" "s' = s2" by (auto simp: drainFunc_def)
      with 2 us(2) show ?thesis by (auto simp: worked_def)
    qed
  next
    case (Err e)
    with run loop us show ?thesis by (auto simp: drainFunc_def worked_def)
  next
    case (Panic p)
    with drainFunc_no_panic(1) [OF env, of q "ro (Mapping.keys q)" s p] loop show ?thesis by simp
  qed
qed

end
