(* ===== verification/Fwddp_Props.thy ===== *)
theory Fwddp_Props
  imports Fwddp_Facts
begin

text \<open>
  Properties of the firmware and DDP daemon: how an update of the node is ordered with draining, rebooting and
  the reported conditions, and how a reboot is recognised and completed.
\<close>

section \<open>Updating a drained node\<close>

abbreviation daemon :: "'k node_state \<Rightarrow> fd_state" where
  "daemon s \<equiv> snd (dh_world s)"

definition env_ok :: "daemon_env \<Rightarrow> ('n, 'k \<times> fd_state) drain_env \<Rightarrow> DrainHelper \<Rightarrow> bool" where
  "env_ok E K dh \<longleftrightarrow> retry_spec E \<and> inventory_calm E \<and> backoff_spec K \<and> elected K \<and>
     NewLeaderElector K (leaderElectionConfig dh) = Ok () \<and> quiet K snd"

lemma worker_eqD: "worker f w = (b, w') \<Longrightarrow> f (snd w) = (b, snd w')"
  by (cases "f (snd w)") (auto simp: worker_def)

lemma configureNode_eq:
  assumes "DrainHelper_Run K dh (worker (drainFunc E ro q)) (\<not> DrainSkip (enc_Spec (fd_nc (daemon s))))
      (s\<lparr>dh_world := (fst (dh_world s), (daemon s)\<lparr>nodeActionErr := None, rebootRequired := False\<rparr>)\<rparr>) = (r, s')"
  shows "configureNode E K dh ro q s =
    (case r of
       Ok _ \<Rightarrow> (case nodeActionErr (daemon s') of Some e \<Rightarrow> Err e | None \<Rightarrow> Ok (rebootRequired (daemon s')), s')
     | Err e \<Rightarrow> (Err e, s')
     | Panic p \<Rightarrow> (Panic p, s'))"
  using assms
  by (cases r; cases s')
    (auto simp: configureNode_def gbind_def on_fd_def modify_def reading_def lift_def split: option.splits)

text \<open>
  The combined account of a run: either the worker did not run, or it ran on the state before, with what
  it reports deciding whether the node is released.
\<close>

abbreviation fresh :: "fd_state \<Rightarrow> fd_state" where
  "fresh d \<equiv> d\<lparr>nodeActionErr := None, rebootRequired := False\<rparr>"

lemma configureNode_worker:
  assumes env: "env_ok E K dh" and run: "configureNode E K dh ro q s = (r, s')" and np: "\<forall>p. r \<noteq> Panic p"
    and drain: "drain = (\<not> DrainSkip (enc_Spec (fd_nc (daemon s))))"
  shows "\<exists>t l r1. dh_calls s' = dh_calls s @ t @ l \<and> run_spec drain t r1 \<and> lease_calls l \<and>
    r = (case r1 of Ok _ \<Rightarrow> (case nodeActionErr (daemon s') of Some e \<Rightarrow> Err e | None \<Rightarrow> Ok (rebootRequired (daemon s')))
         | Err e \<Rightarrow> Err e | Panic p \<Rightarrow> Panic p) \<and>
    ((\<forall>b. Worker b \<notin> set t) \<and> daemon s' = fresh (daemon s) \<or>
     (\<exists>b. Worker b \<in> set t \<and> (\<forall>b'. Worker b' \<in> set t \<longrightarrow> b' = b) \<and> drainFunc E ro q (fresh (daemon s)) = (b, daemon s')))"
proof -
  let ?f = "worker (drainFunc E ro q) :: 'b \<times> fd_state \<Rightarrow> bool \<times> ('b \<times> fd_state)"
  let ?s0 = "s\<lparr>dh_world := (fst (dh_world s), fresh (daemon s))\<rparr>"
  obtain r1 s1 where dr: "DrainHelper_Run K dh ?f drain ?s0 = (r1, s1)" by fastforce
  have eq: "configureNode E K dh ro q s =
    (case r1 of
       Ok _ \<Rightarrow> (case nodeActionErr (daemon s1) of Some e \<Rightarrow> Err e | None \<Rightarrow> Ok (rebootRequired (daemon s1)), s1)
     | Err e \<Rightarrow> (Err e, s1)
     | Panic p \<Rightarrow> (Panic p, s1))"
    using configureNode_eq dr drain by blast
  with run have s1: "s1 = s'"
    and r: "r = (case r1 of Ok _ \<Rightarrow> (case nodeActionErr (daemon s') of Some e \<Rightarrow> Err e | None \<Rightarrow> Ok (rebootRequired (daemon s')))
         | Err e \<Rightarrow> Err e | Panic p \<Rightarrow> Panic p)"
    by (auto split: outcome.splits option.splits)
  from r np have np1: "\<forall>p. r1 \<noteq> Panic p" by auto
  obtain t l where tl: "dh_calls s' = dh_calls s @ t @ l" "run_spec drain t r1" "lease_calls l"
      "ran snd ?f (dh_world ?s0) t (dh_world s')"
    using Run_ran [of K snd dh ?f drain ?s0 r1 s1] env dr np1 s1 by (auto simp: env_ok_def)
  from tl(4) have "(\<forall>b. Worker b \<notin> set t) \<and> daemon s' = fresh (daemon s) \<or>
     (\<exists>b. Worker b \<in> set t \<and> (\<forall>b'. Worker b' \<in> set t \<longrightarrow> b' = b) \<and> drainFunc E ro q (fresh (daemon s)) = (b, daemon s'))"
    unfolding ran_def
  proof
    assume "\<exists>b w w'. Worker b \<in> set t \<and> (\<forall>b'. Worker b' \<in> set t \<longrightarrow> b' = b) \<and> snd w = snd (dh_world ?s0) \<and>
      ?f w = (b, w') \<and> snd (dh_world s') = snd w'"
    then obtain b w w' where w: "Worker b \<in> set t" "\<forall>b'. Worker b' \<in> set t \<longrightarrow> b' = b"
        "snd w = snd (dh_world ?s0)" "?f w = (b, w')" "daemon s' = snd w'"
      by blast
    have "drainFunc E ro q (snd (dh_world ?s0)) = (b, daemon s')"
      using worker_eqD [OF w(4)] unfolding w(3) w(5) .
    then have "drainFunc E ro q (fresh (daemon s)) = (b, daemon s')" by simp
    with w(1,2) show ?thesis by blast
  qed auto
  with tl r show ?thesis by blast
qed

lemma configureNode_run:
  assumes env: "env_ok E K dh" and run: "configureNode E K dh ro q s = (r, s')" and np: "\<forall>p. r \<noteq> Panic p"
    and drain: "drain = (\<not> DrainSkip (enc_Spec (fd_nc (daemon s))))"
  shows "\<exists>t l r1. dh_calls s' = dh_calls s @ t @ l \<and> run_spec drain t r1 \<and> lease_calls l \<and>
    r = (case r1 of Ok _ \<Rightarrow> (case nodeActionErr (daemon s') of Some e \<Rightarrow> Err e | None \<Rightarrow> Ok (rebootRequired (daemon s')))
         | Err e \<Rightarrow> Err e | Panic p \<Rightarrow> Panic p) \<and>
    ((\<forall>b. Worker b \<notin> set t) \<and> fd_events (daemon s') = fd_events (daemon s) \<or>
     (\<exists>b es. Worker b \<in> set t \<and> (\<forall>b'. Worker b' \<in> set t \<longrightarrow> b' = b) \<and>
        fd_events (daemon s') = fd_events (daemon s) @ es \<and> worked b es (daemon s')))"
proof -
  have w: "\<exists>es. fd_events d = fd_events (daemon s) @ es \<and> worked b es d" if "drainFunc E ro q (fresh (daemon s)) = (b, d)" for b d
    using drainFunc_worked [OF _ _ that] env by (simp add: env_ok_def)
  obtain t l r1 where "dh_calls s' = dh_calls s @ t @ l" "run_spec drain t r1" "lease_calls l"
    "r = (case r1 of Ok _ \<Rightarrow> (case nodeActionErr (daemon s') of Some e \<Rightarrow> Err e | None \<Rightarrow> Ok (rebootRequired (daemon s')))
         | Err e \<Rightarrow> Err e | Panic p \<Rightarrow> Panic p)"
    and ran: "(\<forall>b. Worker b \<notin> set t) \<and> daemon s' = fresh (daemon s) \<or>
     (\<exists>b. Worker b \<in> set t \<and> (\<forall>b'. Worker b' \<in> set t \<longrightarrow> b' = b) \<and> drainFunc E ro q (fresh (daemon s)) = (b, daemon s'))"
    using configureNode_worker [OF assms] by blast
  moreover from ran have "(\<forall>b. Worker b \<notin> set t) \<and> fd_events (daemon s') = fd_events (daemon s) \<or>
     (\<exists>b es. Worker b \<in> set t \<and> (\<forall>b'. Worker b' \<in> set t \<longrightarrow> b' = b) \<and>
        fd_events (daemon s') = fd_events (daemon s) @ es \<and> worked b es (daemon s'))"
  proof
    assume "(\<forall>b. Worker b \<notin> set t) \<and> daemon s' = fresh (daemon s)"
    then show ?thesis by simp
  next
    assume "\<exists>b. Worker b \<in> set t \<and> (\<forall>b'. Worker b' \<in> set t \<longrightarrow> b' = b) \<and> drainFunc E ro q (fresh (daemon s)) = (b, daemon s')"
    then show ?thesis using w by meson
  qed
  ultimately show ?thesis by blast
qed

text \<open>
  \<^bold>\<open>C30.\<close> An update is ordered with draining and rebooting. When the configuration asks for draining, a device
  is updated only after the node was cordoned and drained; the node is rebooted only while it is cordoned;
  \<^verbatim>\<open>configureNode\<close> reports a reboot only when the reboot command was the last thing the daemon did, with the node
  left cordoned; and when it reports that no reboot is needed, none was asked for and the node is not cordoned.
\<close>

theorem configureNode_protocol:
  assumes env: "env_ok E K dh" and run: "configureNode E K dh ro q s = (r, s')" and np: "\<forall>p. r \<noteq> Panic p"
    and init: "dh_calls s = []" "fd_events (daemon s) = []"
  shows "(\<not> DrainSkip (enc_Spec (fd_nc (daemon s))) \<longrightarrow>
       (fd_events (daemon s') \<noteq> [] \<longrightarrow>
          (\<exists>p b l. dh_calls s' = p @ [Cordon True True, NodeDrain True, Worker b] @ l)) \<and>
       (Reboot \<in> set (fd_events (daemon s')) \<longrightarrow> cordoned (dh_calls s'))) \<and>
     (r = Ok True \<longrightarrow> (\<exists>es. fd_events (daemon s') = es @ [Reboot])) \<and>
     (r = Ok False \<longrightarrow> Reboot \<notin> set (fd_events (daemon s')) \<and> \<not> cordoned (dh_calls s'))"
proof -
  let ?drain = "\<not> DrainSkip (enc_Spec (fd_nc (daemon s)))" and ?es = "fd_events (daemon s')"
  obtain t l r1 where t: "dh_calls s' = t @ l" "run_spec ?drain t r1" "lease_calls l"
    and r: "r = (case r1 of Ok _ \<Rightarrow> (case nodeActionErr (daemon s') of Some e \<Rightarrow> Err e | None \<Rightarrow> Ok (rebootRequired (daemon s')))
         | Err e \<Rightarrow> Err e | Panic p \<Rightarrow> Panic p)"
    and es: "(\<forall>b. Worker b \<notin> set t) \<and> ?es = [] \<or>
     (\<exists>b. Worker b \<in> set t \<and> (\<forall>b'. Worker b' \<in> set t \<longrightarrow> b' = b) \<and> worked b ?es (daemon s'))"
    using configureNode_run [OF env run np refl] unfolding init append_Nil by blast
  have reboots: "worked b ?es (daemon s') \<Longrightarrow> if b then Reboot \<notin> set ?es \<and> (nodeActionErr (daemon s') = None \<longrightarrow> \<not> rebootRequired (daemon s'))
      else (\<exists>e. ?es = e @ [Reboot]) \<and> rebootRequired (daemon s')" for b
    by (auto simp: worked_def rebooted_def condition_set_def)
  have ran: "worked b ?es (daemon s')" if "Worker b \<in> set t" for b
    using es that by blast
  have c: "cordoned (dh_calls s') = cordoned t"
    using t(1,3) by (simp add: cordoned_def)
  from t(2) show ?thesis
  proof (cases rule: run_spec.cases)
    case (no_drain b)
    with ran have "worked b ?es (daemon s')" by simp
    with no_drain reboots [of b] r c show ?thesis
      by (cases b) (auto simp: cordoned_def split: option.splits)
  next
    case (stay_cordoned t')
    with ran have "worked False ?es (daemon s')" by simp
    moreover obtain p where "t' = p @ [Cordon True True, NodeDrain True]"
      using drain_phase_last [OF stay_cordoned(4)] by blast
    ultimately show ?thesis
      using stay_cordoned reboots [of False] r c t(1) drain_phase_cordons [OF stay_cordoned(4)]
      by (auto simp: cordoned_def split: option.splits)
  next
    case (uncordoned t' u)
    with ran have "worked True ?es (daemon s')" by simp
    moreover obtain p where "t' = p @ [Cordon True True, NodeDrain True]"
      using drain_phase_last [OF uncordoned(3)] by blast
    ultimately show ?thesis
      using uncordoned reboots [of True] r c t(1) uncordon_phase_releases [of u]
      by (cases r1) (auto simp: cordoned_def split: option.splits)
  next
    case (not_drained t' e u)
    then have "?es = []" using es phase_no_worker by auto
    with not_drained r show ?thesis by auto
  next
    case (not_restored t' e u e')
    then have "?es = []" using es phase_no_worker by auto
    with not_restored r show ?thesis by auto
  qed
qed

text \<open>
  A node with one supported device, whose firmware update asks for a reboot (exit status 50), in a cluster
  whose first drain fails.
\<close>

definition sample_inventory :: inventory_env where
  "sample_inventory =
     \<lparr>compatibilityMap = [(''E810'', \<lparr>sd_VendorID = ''8086'', sd_Class = ''02'', sd_SubClass = ''00'', sd_DeviceID = ''1593''\<rparr>)],
      ghw_PCI = Ok [Some \<lparr>pci_Address = ''0000:18:00.0'', pci_VendorID = ''8086'', pci_ClassID = ''02'', pci_SubclassID = ''00'',
                          pci_ProductID = ''1593'', pci_ProductName = ''E810-C''\<rparr>],
      ghw_Network = Ok [], execEthtool = (\<lambda>_. Err NotFound), execDevlink = (\<lambda>_. Err NotFound)\<rparr>"

definition sample_daemon :: "goerr option \<Rightarrow> daemon_env" where
  "sample_daemon status =
     \<lparr>de_inventory = sample_inventory, de_archives = zip_of [], de_sha1 = (\<lambda>bs. bs),
      de_http_Get = (\<lambda>_. Err NotFound), de_xml = (\<lambda>_. []), de_xml_budget = 100,
      de_nvmupdate = (\<lambda>_ _ f. (status, f)), de_exec = (\<lambda>_ _ f. (([], None), f)),
      RetryOnConflict = retry_conflict 4, de_nodeName = ''node1'', de_namespace = ''operators''\<rparr>"

definition sample_node_kube :: "(string, nat \<times> fd_state) drain_env" where
  "sample_node_kube =
     \<lparr>Nodes_Get = (\<lambda>n. ret n),
      RunCordonOrUncordon = (\<lambda>_ _ _. ret ()),
      RunNodeDrain = (\<lambda>_ _ (w, d). if w = 0 then (Err (Errorf ''eviction refused''), (1, d)) else (Ok (), (w, d))),
      LeaseLock_Get = ret \<lparr>HolderIdentity = ''node1'', LeaderTransitions = 0\<rparr>,
      LeaseLock_Update = (\<lambda>_. ret ()),
      NewLeaderElector = (\<lambda>_. Ok ()),
      LeaderElector_Run = (\<lambda>m. m),
      ExponentialBackoff = retry\<rparr>"

definition sample_nc :: "string \<Rightarrow> EthernetNodeConfig" where
  "sample_nc reason =
     \<lparr>enc_Name = ''node1'', enc_Namespace = ''operators'', enc_Generation = 2,
      enc_Spec = \<lparr>enc_Config = [\<lparr>dnc_PCIAddress = ''0000:18:00.0'', dnc_DeviceConfig = empty_DeviceConfig\<lparr>FWUpdateParam := ''-f''\<rparr>\<rparr>],
                  DrainSkip = False\<rparr>,
      enc_Status = \<lparr>enc_Conditions = [UpdateCondition \<mapsto> \<lparr>cond_Status = False, cond_Reason = reason, cond_Message = [],
                                       cond_ObservedGeneration = 2\<rparr>], enc_Devices = []\<rparr>\<rparr>"

definition sample_node :: "string \<Rightarrow> nat node_state" where
  "sample_node reason =
     \<lparr>dh_world = (0, \<lparr>fd_os = sample_os, fd_object = Some (sample_nc reason), fd_time = 0, fd_fault = (\<lambda>_. None),
        fd_nc = sample_nc reason, nodeActionErr = None, rebootRequired = False, fd_events = []\<rparr>),
      innerErr = None, e_var = None, dh_calls = []\<rparr>"

lemma sample_env_ok: "env_ok (sample_daemon status) sample_node_kube sample_helper"
proof -
  have "quiet sample_node_kube snd"
    by (auto simp: quiet_def sample_node_kube_def ret_def split: prod.splits)
  then show ?thesis
    by (simp add: env_ok_def retry_spec_def inventory_calm_def sample_daemon_def sample_inventory_def backoff_spec_def
        elected_def sample_node_kube_def)
qed

definition sample_queue :: deviceUpdateQueue where
  "sample_queue = Mapping.update ''0000:18:00.0'' \<lparr>fwPath = ''/host/'', ddpPath = [], dua_fwUpdateParam = ''-f''\<rparr> Mapping.empty"

lemma sample_configureNode:
  fixes run
  defines "run \<equiv> configureNode (sample_daemon (Some (ExitError 50))) sample_node_kube sample_helper
    (\<lambda>_. [''0000:18:00.0'']) sample_queue (sample_node UpdateInProgress)"
  shows "fst run = Ok True"
    and "fd_events (daemon (snd run)) =
      [NvmUpdate ''0000:18:00.0'' ''00:024'', SetCondition False UpdatePostUpdateReboot, Reboot]"
  unfolding run_def by code_simp+

theorem configureNode_protocol_witness:
  "\<exists>s'. configureNode (sample_daemon (Some (ExitError 50))) sample_node_kube sample_helper (\<lambda>_. [''0000:18:00.0''])
       sample_queue (sample_node UpdateInProgress) = (Ok True, s') \<and>
     fd_events (daemon s') = [NvmUpdate ''0000:18:00.0'' ''00:024'', SetCondition False UpdatePostUpdateReboot, Reboot] \<and>
     cordoned (dh_calls s')"
proof -
  let ?run = "configureNode (sample_daemon (Some (ExitError 50))) sample_node_kube sample_helper (\<lambda>_. [''0000:18:00.0''])
       sample_queue (sample_node UpdateInProgress)"
  have "cordoned (dh_calls (snd ?run))"
    using configureNode_protocol [OF sample_env_ok, of "Some (ExitError 50)" "\<lambda>_. [''0000:18:00.0'']" sample_queue
        "sample_node UpdateInProgress" "Ok True" "snd ?run"] sample_configureNode
    by (cases ?run) (simp add: sample_node_def sample_nc_def)
  then show ?thesis
    using sample_configureNode by (metis prod.collapse)
qed

section \<open>Reconcile\<close>

lemma on_fd_eq:
  "on_fd m s = (r, s') \<longleftrightarrow> (\<exists>x. m (daemon s) = (r, x) \<and> s' = s\<lparr>dh_world := (fst (dh_world s), x)\<rparr>)"
  by (auto simp: on_fd_def split: prod.splits)

lemma on_condition:
  assumes "env_ok E K dh"
  shows "\<exists>s' c. on_fd (updateCondition E b reason msg) s = (Ok (), s') \<and> dh_calls s' = dh_calls s \<and>
    fd_events (daemon s') = fd_events (daemon s) @ c \<and> condition_set b reason c"
proof -
  obtain r x where u: "updateCondition E b reason msg (daemon s) = (r, x)" by fastforce
  with updateCondition_returns updateCondition_events assms show ?thesis
    by (fastforce simp: on_fd_eq env_ok_def)
qed

lemma configureNode_events:
  assumes env: "env_ok E K dh" and run: "configureNode E K dh ro q s = (r, s')"
  shows "(\<exists>p. r = Panic p) \<or>
    (\<exists>us rb. fd_events (daemon s') = fd_events (daemon s) @ us @ rb \<and> set us \<subseteq> updates \<and>
       (rb = [] \<and> r \<noteq> Ok True \<or> rebooted rb \<and> r \<noteq> Ok False))"
proof (cases "\<exists>p. r = Panic p")
  case False
  let ?drain = "\<not> DrainSkip (enc_Spec (fd_nc (daemon s)))"
  from False obtain t r1 where t: "run_spec ?drain t r1"
    and r: "r = (case r1 of Ok _ \<Rightarrow> (case nodeActionErr (daemon s') of Some e \<Rightarrow> Err e | None \<Rightarrow> Ok (rebootRequired (daemon s')))
         | Err e \<Rightarrow> Err e | Panic p \<Rightarrow> Panic p)"
    and es: "(\<forall>b. Worker b \<notin> set t) \<and> fd_events (daemon s') = fd_events (daemon s) \<or>
     (\<exists>b es. fd_events (daemon s') = fd_events (daemon s) @ es \<and> worked b es (daemon s'))"
    using configureNode_run [OF env run _ refl] by blast
  have ok: "r1 = Ok () \<Longrightarrow> \<exists>b. Worker b \<in> set t"
    using t by (cases rule: run_spec.cases) auto
  from es show ?thesis
  proof
    assume none: "(\<forall>b. Worker b \<notin> set t) \<and> fd_events (daemon s') = fd_events (daemon s)"
    with ok have "r1 \<noteq> Ok ()" by blast
    with r have "r \<noteq> Ok True" by (cases r1) auto
    with none show ?thesis by (intro disjI2 exI [of _ "[]"]) simp
  next
    assume "\<exists>b es. fd_events (daemon s') = fd_events (daemon s) @ es \<and> worked b es (daemon s')"
    then obtain b es where e: "fd_events (daemon s') = fd_events (daemon s) @ es" "worked b es (daemon s')" by blast
    show ?thesis
    proof (cases b)
      case True
      with e r have "set es \<subseteq> updates" "r \<noteq> Ok True"
        by (auto simp: worked_def split: outcome.splits option.splits)
      with e show ?thesis by (intro disjI2 exI [of _ es] exI [of _ "[]"]) simp
    next
      case False
      with e obtain us c where "set us \<subseteq> updates" "rebooted c" "es = us @ c" "rebootRequired (daemon s')"
        by (auto simp: worked_def)
      with e(1) r show ?thesis
        by (intro disjI2 exI [of _ us] exI [of _ c]) (auto split: outcome.splits option.splits)
    qed
  qed
qed simp

text \<open>What a pass of the reconciler may do, by the object it finds.\<close>

definition awaits_reboot :: "EthernetNodeConfig \<Rightarrow> bool" where
  "awaits_reboot nc \<longleftrightarrow>
     (\<exists>c. enc_Conditions (enc_Status nc) UpdateCondition = Some c \<and> cond_Reason c = UpdatePostUpdateReboot)"

definition requests_update :: "EthernetNodeConfig \<Rightarrow> bool" where
  "requests_update nc \<longleftrightarrow> (\<exists>c \<in> set (enc_Config (enc_Spec nc)). dnc_DeviceConfig c \<noteq> empty_DeviceConfig)"

inductive update_spec :: "reconcile_result \<Rightarrow> fd_event list \<Rightarrow> bool" where
  updated: "set us \<subseteq> updates \<Longrightarrow> condition_set True UpdateSucceeded c \<Longrightarrow> update_spec DoNotRequeue (us @ c)"
| rebooting: "set us \<subseteq> updates \<Longrightarrow> rebooted rb \<Longrightarrow> update_spec DoNotRequeue (us @ rb)"
| failed: "set us \<subseteq> updates \<Longrightarrow> condition_set False UpdateFailed c \<Longrightarrow> update_spec RequeueLater (us @ c)"
| not_rebooted: "set us \<subseteq> updates \<Longrightarrow> rebooted rb \<Longrightarrow> condition_set False UpdateFailed c \<Longrightarrow>
    update_spec RequeueLater (us @ rb @ c)"

inductive reconcile_spec :: "EthernetNodeConfig option \<Rightarrow> reconcile_result \<Rightarrow> fd_event list \<Rightarrow> bool" where
  not_read: "reconcile_spec object (RequeueNow e) []"
| resumed: "awaits_reboot nc \<Longrightarrow> condition_set True UpdateSucceeded c \<Longrightarrow> reconcile_spec (Some nc) DoNotRequeue c"
| not_resumed: "awaits_reboot nc \<Longrightarrow> reconcile_spec (Some nc) RequeueLater []"
| idle: "\<not> awaits_reboot nc \<Longrightarrow> \<not> requests_update nc \<Longrightarrow> condition_set True UpdateNotRequested c \<Longrightarrow>
    reconcile_spec (Some nc) DoNotRequeue c"
| started: "\<not> awaits_reboot nc \<Longrightarrow> requests_update nc \<Longrightarrow> condition_set False UpdateInProgress c \<Longrightarrow>
    update_spec res es \<Longrightarrow> reconcile_spec (Some nc) res (c @ es)"

lemma try_run: "m s = (r, s') \<Longrightarrow> \<forall>p. r \<noteq> Panic p \<Longrightarrow> gbind (attempt m) f s = f r s'"
  by (cases r) (simp_all add: gbind_def attempt_def)

lemma try_panic: "m s = (Panic p, s') \<Longrightarrow> gbind (attempt m) f s = (Panic p, s')"
  by (simp add: gbind_def attempt_def)

lemma reading_fd_run: "gbind (on_fd (reading g)) f s = f (g (daemon s)) s"
  by (simp add: gbind_def on_fd_def reading_def)

lemma performUpdate_spec:
  assumes env: "env_ok E K dh" and run: "performUpdate E K dh ro s = (Ok res, s')"
  shows "\<exists>c es. fd_events (daemon s') = fd_events (daemon s) @ c @ es \<and> condition_set False UpdateInProgress c \<and> update_spec res es"
proof -
  obtain s1 c where c: "on_fd (updateCondition E False UpdateInProgress ''Update started'') s = (Ok (), s1)"
      "fd_events (daemon s1) = fd_events (daemon s) @ c" "condition_set False UpdateInProgress c"
    using on_condition [OF env] by blast
  obtain r2 s2 where p: "on_fd (on_os (prepareUpdateQueue E (fd_nc (daemon s1)))) s1 = (r2, s2)" by fastforce
  then have s2: "fd_events (daemon s2) = fd_events (daemon s1)"
    by (auto simp: on_fd_eq on_os_def split: prod.splits)
  have cond: "\<exists>es. fd_events (daemon s') = fd_events (daemon t) @ es \<and> condition_set b reason es \<and> res = x"
    if "gbind (on_fd (updateCondition E b reason msg)) (\<lambda>_. ret x) t = (Ok res, s')" for t b reason msg x
    using that on_condition [OF env, of b reason msg t] by (auto simp: gbind_Ok_iff)
  have rest: ?thesis if "\<exists>es. fd_events (daemon s') = fd_events (daemon s2) @ es \<and> update_spec res es"
    using that c s2 by auto
  note steps = performUpdate_def gbind_run [where m = "on_fd (updateCondition E False UpdateInProgress ''Update started'')", OF c(1)]
    reading_fd_run
  show ?thesis
  proof (cases r2)
    case (Ok q)
    obtain r3 s3 where cn: "configureNode E K dh ro q s2 = (r3, s3)" by fastforce
    from run p Ok cn have np: "\<forall>p. r3 \<noteq> Panic p"
      by (auto simp: steps try_run try_panic)
    from configureNode_events [OF env cn] np obtain us rb where
        us: "fd_events (daemon s3) = fd_events (daemon s2) @ us @ rb" "set us \<subseteq> updates"
          "rb = [] \<and> r3 \<noteq> Ok True \<or> rebooted rb \<and> r3 \<noteq> Ok False"
      by auto
    show ?thesis
    proof (cases r3)
      case (Ok b)
      with run p \<open>r2 = Ok q\<close> cn np have end': "(if \<not> b
          then gbind (on_fd (updateCondition E True UpdateSucceeded ''Updated successfully'')) (\<lambda>_. ret DoNotRequeue)
          else ret DoNotRequeue) s3 = (Ok res, s')"
        by (simp add: steps try_run)
      show ?thesis
      proof (cases b)
        case True
        with end' us Ok show ?thesis by (intro rest) (auto intro: update_spec.rebooting)
      next
        case False
        with end' have "gbind (on_fd (updateCondition E True UpdateSucceeded ''Updated successfully'')) (\<lambda>_. ret DoNotRequeue) s3 = (Ok res, s')"
          by simp
        from cond [OF this] us Ok False show ?thesis
          by (intro rest) (auto intro: update_spec.updated)
      qed
    next
      case (Err e)
      with run p \<open>r2 = Ok q\<close> cn np have
        "gbind (on_fd (updateCondition E False UpdateFailed (error_text e))) (\<lambda>_. ret RequeueLater) s3 = (Ok res, s')"
        by (simp add: steps try_run)
      from cond [OF this] us show ?thesis
        by (intro rest) (auto intro: update_spec.failed update_spec.not_rebooted)
    qed (use np in auto)
  next
    case (Err e)
    with run p have "gbind (on_fd (updateCondition E False UpdateFailed (error_text e))) (\<lambda>_. ret RequeueLater) s2 = (Ok res, s')"
      by (simp add: steps try_run)
    from cond [OF this] show ?thesis
      by (intro rest) (use update_spec.failed [of "[]"] in auto)
  next
    case (Panic x)
    with run p show ?thesis by (simp add: steps try_panic)
  qed
qed

lemma nothing_requested:
  "enc_Config (enc_Spec nc) = [] \<or> allDeviceConfigsEmpty (enc_Config (enc_Spec nc)) \<longleftrightarrow> \<not> requests_update nc"
  by (auto simp: allDeviceConfigsEmpty_def requests_update_def list_all_iff)

lemma awaits_reboot_case:
  "(case enc_Conditions (enc_Status nc) UpdateCondition of
      Some condition \<Rightarrow> cond_Reason condition = UpdatePostUpdateReboot | None \<Rightarrow> False) \<longleftrightarrow> awaits_reboot nc"
  by (auto simp: awaits_reboot_def split: option.splits)

definition hold :: "EthernetNodeConfig \<Rightarrow> 'k node_state \<Rightarrow> 'k node_state" where
  "hold nc s = s\<lparr>dh_world := (fst (dh_world s), (daemon s)\<lparr>fd_nc := nc\<rparr>)\<rparr>"

lemma Reconcile_found:
  assumes "on_fd fd_Get s = (Ok nc, s1)"
  shows "NodeConfig_Reconcile E K dh ro s =
    (if awaits_reboot nc then finishAfterReboot E K dh
     else if requests_update nc then performUpdate E K dh ro
     else gbind (on_fd (updateCondition E True UpdateNotRequested ''Inventory up to date'')) (\<lambda>_. ret DoNotRequeue))
      (hold nc s1)"
proof -
  have "gbind (on_fd (modify (fd_nc_update (\<lambda>_. nc)))) f s1 = f () (hold nc s1)" for f :: "unit \<Rightarrow> ('a node_state, reconcile_result) go"
    by (simp add: gbind_def on_fd_def modify_def hold_def)
  with assms show ?thesis
    by (simp add: NodeConfig_Reconcile_def try_run awaits_reboot_case nothing_requested del: disj_not1)
qed

lemma fd_Get_run:
  assumes "on_fd fd_Get s = (r, s1)"
  shows "fd_events (daemon s1) = fd_events (daemon s)" and "r = Ok nc \<Longrightarrow> fd_object (daemon s) = Some nc"
    and "r \<noteq> Panic p"
  using assms by (auto simp: on_fd_eq fd_Get_def fd_api_def Let_def split: option.splits)

lemma finishAfterReboot_events:
  assumes env: "env_ok E K dh" and run: "finishAfterReboot E K dh s = (Ok res, s')"
  shows "\<exists>es. fd_events (daemon s') = fd_events (daemon s) @ es \<and>
    (res = RequeueLater \<and> es = [] \<or> res = DoNotRequeue \<and> condition_set True UpdateSucceeded es)"
proof -
  obtain r1 s1 where u: "Uncordon K dh s = (r1, s1)" by fastforce
  have q: "daemon s1 = daemon s"
    using keepsD [OF keeps_phase(2) [of K snd "daemon s" dh] _ u] env by (auto simp: env_ok_def)
  show ?thesis
  proof (cases r1)
    case (Ok x)
    with run u have "gbind (on_fd (updateCondition E True UpdateSucceeded ''Updated successfully'')) (\<lambda>_. ret DoNotRequeue) s1 = (Ok res, s')"
      by (simp add: finishAfterReboot_def try_run)
    with on_condition [OF env, of True UpdateSucceeded "''Updated successfully''" s1] q show ?thesis
      by (auto simp: gbind_Ok_iff)
  qed (use run u q in \<open>auto simp: finishAfterReboot_def try_run try_panic\<close>)
qed

lemma calm_CreateEmpty: "keeps (\<lambda>s. fd_events s = es) (CreateEmptyNodeConfigIfNeeded E)"
  unfolding CreateEmptyNodeConfigIfNeeded_def fd_Get_def fd_Create_def fd_Status_Update_def Let_def
  by (auto intro!: keeps_intros split: outcome.splits) (auto simp: keeps_def split: option.splits)


lemma sample_reconcile:
  fixes run
  defines "run \<equiv> NodeConfig_Reconcile (sample_daemon None) sample_node_kube sample_helper (\<lambda>_. [''0000:18:00.0'']) (sample_node UpdateFailed)"
  shows "fst run = Ok DoNotRequeue"
    and "fd_events (daemon (snd run)) = [SetCondition False UpdateInProgress, SetCondition True UpdateSucceeded]"
  unfolding run_def by code_simp+


section \<open>Completion after the reboot\<close>

lemma updateCondition_faultless:
  assumes "retry_spec E" and "\<forall>n. fd_fault s n = None" and "fd_object s = Some nc"
    and "GetInventory (de_inventory E) = Ok devs"
  shows "\<exists>s'. updateCondition E b reason msg s = (Ok (), s') \<and> fd_events s' = fd_events s @ [SetCondition b reason] \<and>
    fd_object s' = Some (nc\<lparr>enc_Status := \<lparr>enc_Conditions = [UpdateCondition \<mapsto> \<lparr>cond_Status = b, cond_Reason = reason,
      cond_Message = msg, cond_ObservedGeneration = enc_Generation (fd_nc s)\<rparr>], enc_Devices = devs\<rparr>\<rparr>)"
  using assms
  by (simp add: updateCondition_def NodeConfig_updateStatus_def retry_spec_def numeral_eq_Suc fd_Get_def fd_Status_Update_def fd_api_def
      Let_def log_event_def gbind_def attempt_def reading_def modify_def lift_def ret_def)

definition releases :: "('n, 'w) drain_env \<Rightarrow> bool" where
  "releases K \<longleftrightarrow> (\<forall>n w. \<exists>v w'. Nodes_Get K n w = (Ok v, w')) \<and>
     (\<forall>o' n w. \<exists>w'. RunCordonOrUncordon K o' n False w = (Ok (), w'))"

lemma Uncordon_releases:
  assumes "backoff_spec K" and "releases K"
  shows "\<exists>s'. Uncordon K dh s = (Ok (), s') \<and> dh_calls s' = dh_calls s @ [GetNode True, Cordon False True]"
proof -
  obtain v w where n: "Nodes_Get K (dh_nodeName dh) (dh_world s) = (Ok v, w)"
    using assms(2) unfolding releases_def by blast
  obtain w' where "RunCordonOrUncordon K (drainer dh) v False w = (Ok (), w')"
    using assms(2) unfolding releases_def by blast
  with n assms(1) show ?thesis
    by (simp add: Uncordon_def retried_def uncordon_attempt_def backoff_spec_def numeral_eq_Suc dcall_def gbind_def
        attempt_def modify_def ret_def)
qed

text \<open>
  \<^bold>\<open>C31.\<close> An update that needed a reboot is completed. When the daemon finds the object that waits for the reboot,
  the node can be released and no request fails, the pass ends with the node uncordoned and the object reported as
  updated, with a fresh inventory and an unchanged specification; no device is updated, and the object no longer
  waits, so the next pass starts over from its specification.
\<close>

theorem Reconcile_completes_after_reboot:
  assumes env: "env_ok E K dh" and obj: "fd_object (daemon s) = Some nc" and wait: "awaits_reboot nc"
    and up: "releases K" "\<forall>n. fd_fault (daemon s) n = None" and devs: "GetInventory (de_inventory E) = Ok devs"
  shows "\<exists>s' nc' c. NodeConfig_Reconcile E K dh ro s = (Ok DoNotRequeue, s') \<and>
    dh_calls s' = dh_calls s @ [GetNode True, Cordon False True] \<and>
    fd_events (daemon s') = fd_events (daemon s) @ [SetCondition True UpdateSucceeded] \<and>
    fd_object (daemon s') = Some nc' \<and> enc_Spec nc' = enc_Spec nc \<and> enc_Devices (enc_Status nc') = devs \<and>
    enc_Conditions (enc_Status nc') UpdateCondition = Some c \<and> cond_Status c \<and>
    cond_ObservedGeneration c = enc_Generation nc \<and> \<not> awaits_reboot nc'"
proof -
  obtain s1 where g: "on_fd fd_Get s = (Ok nc, s1)" and s1: "dh_calls s1 = dh_calls s" "fd_object (daemon s1) = Some nc"
      "fd_fault (daemon s1) = fd_fault (daemon s)" "fd_events (daemon s1) = fd_events (daemon s)"
    using obj up(2) by (simp add: on_fd_def fd_Get_def fd_api_def)
  let ?h = "hold nc s1"
  obtain s2 where u: "Uncordon K dh ?h = (Ok (), s2)" "dh_calls s2 = dh_calls ?h @ [GetNode True, Cordon False True]"
    using Uncordon_releases up(1) env by (metis env_ok_def)
  have d2: "daemon s2 = daemon ?h"
    using keepsD [OF keeps_phase(2) [of K snd "daemon ?h" dh] _ u(1)] env by (auto simp: env_ok_def)
  obtain x where x: "updateCondition E True UpdateSucceeded ''Updated successfully'' (daemon s2) = (Ok (), x)"
      "fd_events x = fd_events (daemon s2) @ [SetCondition True UpdateSucceeded]"
      "fd_object x = Some (nc\<lparr>enc_Status := \<lparr>enc_Conditions = [UpdateCondition \<mapsto> \<lparr>cond_Status = True, cond_Reason = UpdateSucceeded,
        cond_Message = ''Updated successfully'', cond_ObservedGeneration = enc_Generation nc\<rparr>], enc_Devices = devs\<rparr>\<rparr>)"
    using updateCondition_faultless [of E "daemon s2" nc devs True UpdateSucceeded "''Updated successfully''"] env up(2) devs s1 d2
    by (auto simp: env_ok_def hold_def)
  have "finishAfterReboot E K dh ?h = (Ok DoNotRequeue, s2\<lparr>dh_world := (fst (dh_world s2), x)\<rparr>)"
    using u(1) x(1) by (simp add: finishAfterReboot_def gbind_def attempt_def on_fd_def ret_def)
  with Reconcile_found [OF g, of E K dh ro] wait u(2) x(2,3) d2 s1 show ?thesis
    by (simp add: hold_def awaits_reboot_def)
qed

lemma sample_GetInventory: "\<exists>devs. GetInventory (de_inventory (sample_daemon status)) = Ok devs"
  by (simp add: sample_daemon_def sample_inventory_def GetInventory_def getPCIDevices_def)

theorem Reconcile_completes_after_reboot_witness:
  "\<exists>s'. NodeConfig_Reconcile (sample_daemon None) sample_node_kube sample_helper (\<lambda>_. []) (sample_node UpdatePostUpdateReboot) =
       (Ok DoNotRequeue, s') \<and> fd_events (daemon s') = [SetCondition True UpdateSucceeded]"
proof -
  obtain devs where devs: "GetInventory (de_inventory (sample_daemon None)) = Ok devs"
    using sample_GetInventory by blast
  have "fd_object (daemon (sample_node UpdatePostUpdateReboot)) = Some (sample_nc UpdatePostUpdateReboot)"
    and "awaits_reboot (sample_nc UpdatePostUpdateReboot)" and "releases sample_node_kube"
    and "\<forall>n. fd_fault (daemon (sample_node UpdatePostUpdateReboot)) n = None"
    and "fd_events (daemon (sample_node UpdatePostUpdateReboot)) = []"
    by (auto simp: sample_node_def sample_nc_def awaits_reboot_def releases_def sample_node_kube_def ret_def)
  from Reconcile_completes_after_reboot [OF sample_env_ok this(1-4) devs, of "\<lambda>_. []"] this(5) show ?thesis
    by auto
qed

section \<open>Recognising that a reboot is needed\<close>

text \<open>
  What the result file says: the elements up to the first token that cannot be read count, an element that is
  not a number counts as a demand, and otherwise the last element decides.
\<close>

fun demands_reboot :: "bool \<Rightarrow> xml_token list \<Rightarrow> bool" where
  "demands_reboot flag [] = flag"
| "demands_reboot flag (XError e # ts) = flag"
| "demands_reboot flag (XOther # ts) = demands_reboot flag ts"
| "demands_reboot flag (XStart name (Ok r) # ts) = demands_reboot (if name = ''RebootRequired'' then r \<noteq> 0 else flag) ts"
| "demands_reboot flag (XStart name (Err e) # ts) = (name = ''RebootRequired'' \<or> demands_reboot flag ts)"
| "demands_reboot flag (XStart name (Panic p) # ts) = (name = ''RebootRequired'' \<or> demands_reboot flag ts)"

lemma scan_reboot_demands:
  "length ts < n \<Longrightarrow> snd (scan_reboot n flag ts) \<noteq> None \<or> fst (scan_reboot n flag ts) \<longleftrightarrow> demands_reboot flag ts"
proof (induction flag ts arbitrary: n rule: demands_reboot.induct)
  case (4 flag name r ts)
  then show ?case by (cases n; cases "name = ''RebootRequired''") simp_all
next
  case (5 flag name e ts)
  then show ?case by (cases n; cases "name = ''RebootRequired''") simp_all
next
  case (6 flag name p ts)
  then show ?case by (cases n; cases "name = ''RebootRequired''") simp_all
qed (case_tac n; simp)+

definition result_demands :: "daemon_env \<Rightarrow> os_state \<Rightarrow> handle outcome \<Rightarrow> bool" where
  "result_demands E f h =
     (case h of
        Ok (HFile i) \<Rightarrow> 10 < length (os_data f i) div 1024 \<or> demands_reboot False (de_xml E (os_data f i))
      | Ok HDir \<Rightarrow> False
      | _ \<Rightarrow> True)"

definition no_faults :: "os_state \<Rightarrow> bool" where
  "no_faults f \<longleftrightarrow> (\<forall>n. os_fault f n = None)"

lemma keeps_no_faults_OpenNoLinks: "keeps no_faults (OpenNoLinks path)"
proof -
  have o: "keeps no_faults (OpenFile_nofollow path O_RDONLY 0)"
    unfolding OpenFile_nofollow_def
    by (rule keepsI)
      (auto simp: sys_def Let_def open_name_def no_faults_def split: option.splits dirent.splits if_splits)
  have h: "keeps no_faults (isHardLink path)"
    unfolding isHardLink_def os_Stat_def
    by (rule keepsI)
      (auto simp: sys_def Let_def no_faults_def gbind_def ret_def split: option.splits dirent.splits prod.splits)
  show ?thesis
    unfolding OpenNoLinks_def OpenFileNoLinks_def by (auto intro!: keeps_intros o h)
qed

lemma isRebootRequired_demands:
  assumes "no_faults f" and "\<And>bs. length (de_xml E bs) < de_xml_budget E" and "OpenNoLinks path f = (h, f1)"
  shows "\<exists>b err f2. isRebootRequired E path f = (Ok (b, err), f2) \<and> (err \<noteq> None \<or> b \<longleftrightarrow> result_demands E f1 h)"
proof -
  have nf: "\<forall>n. os_fault f1 n = None"
    using keepsD [OF keeps_no_faults_OpenNoLinks assms(1,3)] by (simp add: no_faults_def)
  have np: "\<forall>p. h \<noteq> Panic p"
    using calm_open(2) [of path O_RDONLY 0] assms(3) by (auto simp: calm_def OpenNoLinks_def)
  show ?thesis
  proof (cases h)
    case (Ok h')
    show ?thesis
    proof (cases h')
      case (HFile i)
      let ?ts = "de_xml E (os_data f1 i)"
      have "snd (scan_reboot (de_xml_budget E) False ?ts) \<noteq> None \<or> fst (scan_reboot (de_xml_budget E) False ?ts)
          \<longleftrightarrow> demands_reboot False ?ts"
        using scan_reboot_demands [OF assms(2), of False "os_data f1 i"] by simp
      with Ok HFile assms(3) nf show ?thesis
        by (cases "scan_reboot (de_xml_budget E) False ?ts")
          (auto simp: isRebootRequired_def gbind_def attempt_def file_Stat_Size_def read_file_def sys_def Let_def ret_def
            result_demands_def)
    next
      case HDir
      with Ok assms(3) nf show ?thesis
        by (auto simp: isRebootRequired_def gbind_def attempt_def file_Stat_Size_def read_file_def sys_def Let_def ret_def
            result_demands_def)
    qed
  next
    case (Err e)
    with assms(3) show ?thesis
      by (auto simp: isRebootRequired_def gbind_def attempt_def ret_def result_demands_def)
  qed (use np in auto)
qed

text \<open>
  When a firmware update that did not fail asks for a reboot: exactly when the tool's status is 50 or 51, or
  the result file cannot be opened without following links, is larger than ten kilobytes, or demands it. The
  hypotheses are that the file can be read once it is opened and that parsing ends before the deadline.
\<close>

theorem handleFWUpdate_reports:
  assumes "fp \<noteq> []" and "updateFirmware E pa fp up s = (Ok code, s1)"
    and "OpenNoLinks (updateResultPath fp) (fd_os s1) = (h, f1)"
    and "no_faults (fd_os s1)" and "\<And>bs. length (de_xml E bs) < de_xml_budget E"
  shows "fst (handleFWUpdate E pa fp up s) = Ok (code = 50 \<or> code = 51 \<or> result_demands E f1 h)"
proof (cases "code = 50 \<or> code = 51")
  case True
  with assms(1,2) show ?thesis
    by (auto simp: handleFWUpdate_def gbind_def ret_def)
next
  case False
  obtain b err f2 where "isRebootRequired E (updateResultPath fp) (fd_os s1) = (Ok (b, err), f2)"
      "err \<noteq> None \<or> b \<longleftrightarrow> result_demands E f1 h"
    using isRebootRequired_demands [OF assms(4,5,3)] by blast
  with False assms(1,2) show ?thesis
    by (auto simp: handleFWUpdate_def gbind_def ret_def on_os_def)
qed

text \<open>
  A result file that is broken before the element is read as one that demands nothing: the token is nil for a parse
  error as well, and that is tested before the error, so the fail-safe for unreadable results is not reached.
\<close>

lemma broken_result_no_reboot:
  "scan_reboot (Suc (Suc n)) False [XOther, XError e, XStart ''RebootRequired'' (Ok 1)] = (False, None)" if "0 < n"
  using that by (cases n) simp_all

definition sample_fd :: fd_state where
  "sample_fd = daemon (sample_node UpdateInProgress)"

lemma sample_updateFirmware:
  "fst (updateFirmware (sample_daemon (Some (ExitError 3))) ''0000:18:00.0'' ''/host/'' [] sample_fd) = Ok 3"
  "fst (OpenNoLinks (updateResultPath ''/host/'')
     (fd_os (snd (updateFirmware (sample_daemon (Some (ExitError 3))) ''0000:18:00.0'' ''/host/'' [] sample_fd)))) = Err NotFound"
  "os_fault (fd_os (snd (updateFirmware (sample_daemon (Some (ExitError 3))) ''0000:18:00.0'' ''/host/'' [] sample_fd))) n = None"
  by code_simp+

theorem handleFWUpdate_reports_witness:
  "fst (handleFWUpdate (sample_daemon (Some (ExitError 3))) ''0000:18:00.0'' ''/host/'' [] sample_fd) = Ok True"
proof -
  let ?u = "updateFirmware (sample_daemon (Some (ExitError 3))) ''0000:18:00.0'' ''/host/'' [] sample_fd"
  obtain s1 where u: "?u = (Ok 3, s1)"
    using sample_updateFirmware(1) by (metis prod.collapse)
  moreover obtain f1 where "OpenNoLinks (updateResultPath ''/host/'') (fd_os s1) = (Err NotFound, f1)"
    using sample_updateFirmware(2) u by (metis prod.collapse snd_conv)
  moreover have "no_faults (fd_os s1)"
    using sample_updateFirmware(3) u by (simp add: no_faults_def)
  moreover have "length (de_xml (sample_daemon (Some (ExitError 3))) bs) < de_xml_budget (sample_daemon (Some (ExitError 3)))" for bs
    by (simp add: sample_daemon_def)
  ultimately show ?thesis
    using handleFWUpdate_reports [of "''/host/''" "sample_daemon (Some (ExitError 3))" "''0000:18:00.0''" "[]" sample_fd 3 s1]
    by (simp add: result_demands_def)
qed

end
