(* ===== verification/Fwddp_Prepare_Props.thy ===== *)
theory Fwddp_Prepare_Props
  imports Fwddp_Facts
begin

text \<open>
  Preparing an update: everything that is downloaded and unpacked for the devices of a node stays below the
  daemon's working directory.
\<close>

section \<open>Directories without shared files\<close>

text \<open>\<open>tidy d s\<close>: a file below \<open>d\<close> has no other name. The daemon starts from a removed directory.\<close>

definition tidy :: "string \<Rightarrow> os_state \<Rightarrow> bool" where
  "tidy d s \<longleftrightarrow> os_ok s \<and> (\<forall>q i. is_below d q \<longrightarrow> os_dir s q = Some (DReg i) \<longrightarrow> os_nlink s i \<le> 1)"

lemma tidy_ok: "tidy d s \<Longrightarrow> os_ok s"
  by (simp add: tidy_def)

lemma tidy_updates [simp]:
  "tidy d (s\<lparr>os_time := t\<rparr>) = tidy d s" "tidy d (s\<lparr>os_data := D\<rparr>) = tidy d s"
  by (simp_all add: tidy_def)

lemma keeps_tidy_sys [keeps_intros]: "keeps (tidy d) m \<Longrightarrow> keeps (tidy d) (sys m)"
proof (rule keepsI)
  fix s r s'
  assume m: "keeps (tidy d) m" and t: "tidy d s" and "sys m s = (r, s')"
  from this(3) show "tidy d s'"
  proof (cases rule: sys_cases)
    case Run
    with keepsD [OF m _ Run] t show ?thesis by simp
  qed (use t in simp)
qed

lemma keeps_tidy_quiet: "(\<And>s r s'. m s = (r, s') \<Longrightarrow> \<exists>t. s' = s\<lparr>os_time := t\<rparr>) \<Longrightarrow> keeps (tidy d) m"
  by (rule keepsI) fastforce

lemma keeps_tidy_open_name: "keeps (tidy d) (open_name p flag perm)"
proof (rule keepsI)
  fix s r s'
  assume t: "tidy d s" and "open_name p flag perm s = (r, s')"
  then consider "s' = s" | "\<exists>i. s' = s\<lparr>os_data := (os_data s)(i := [])\<rparr>"
    | "os_dir s p = None" "s' = s\<lparr>os_dir := (os_dir s)(p \<mapsto> DReg (os_next s)), os_names := os_names s @ [p],
        os_data := (os_data s)(os_next s := []), os_nlink := (os_nlink s)(os_next s := 1),
        os_perm := (os_perm s)(os_next s := perm), os_next := Suc (os_next s)\<rparr>"
    by (auto simp: open_name_def Let_def split: option.splits dirent.splits if_splits)
  then show "tidy d s'"
  proof cases
    case 3
    with t os_ok_new_file [of s p, where D = "(os_data s)(os_next s := [])" and M = "(os_perm s)(os_next s := perm)"] show ?thesis
      unfolding tidy_def by auto
  qed (use t in auto)
qed

lemma keeps_tidy_files [keeps_intros]:
  "keeps (tidy d) (OpenFileNoLinks path flag perm)" "keeps (tidy d) (os_Stat path)"
  "keeps (tidy d) (write_file h data)" "keeps (tidy d) (read_file h)" "keeps (tidy d) (file_Stat_Size h)"
  "keeps (tidy d) (os_MkdirAll path perm)"
proof -
  show "keeps (tidy d) (os_Stat path)" "keeps (tidy d) (read_file h)" "keeps (tidy d) (file_Stat_Size h)" for path h
    by (rule keeps_tidy_quiet, blast dest: os_Stat_state read_file_state file_Stat_Size_state)+
  then show "keeps (tidy d) (OpenFileNoLinks path flag perm)"
    unfolding OpenFileNoLinks_def OpenFile_nofollow_def isHardLink_def
    by (auto intro!: keeps_intros keeps_tidy_open_name split: prod.splits)
  show "keeps (tidy d) (write_file h data)"
    by (rule keepsI) (auto simp: write_file_def Let_def split: option.splits handle.splits)
  have "keeps (tidy d) (mkdir_step perm p)" for p
    unfolding mkdir_step_def
  proof (rule keeps_tidy_sys, rule keepsI)
    fix s r s'
    assume t: "tidy d s" and "(if is_dir s p then (Ok (), s)
      else case os_dir s p of None \<Rightarrow> (Ok (), s\<lparr>os_dir := (os_dir s)(p \<mapsto> DDir), os_names := os_names s @ [p],
          os_dperm := (os_dperm s)(p := perm)\<rparr>) | Some x \<Rightarrow> (Err ENOTDIR, s)) = (r, s')"
    then show "tidy d s'"
      using os_ok_new_dir [of s p] by (auto simp: tidy_def split: if_splits option.splits)
  qed
  then show "keeps (tidy d) (os_MkdirAll path perm)"
    unfolding os_MkdirAll_def by (auto intro: keeps_intros)
qed

lemma keeps_tidy_copy [keeps_intros]: "keeps (tidy d) (io_Copy h rd)"
  unfolding io_Copy_def by (auto intro!: keeps_intros split: option.splits)

lemma keeps_tidy_archives [keeps_intros]:
  "keeps (tidy d) (Untar L src dst)" "keeps (tidy d) (Unzip L src dst)" "keeps (tidy d) (UnpackDDPArchive L src dst)"
proof -
  have "keeps (tidy d) (untar_entry dst x)" for x
    unfolding untar_entry_def Let_def by (auto intro!: keeps_intros split: tar_next.splits option.splits)
  then show u: "keeps (tidy d) (Untar L src dst)"
    unfolding Untar_def OpenNoLinks_def by (auto intro!: keeps_intros)
  have "keeps (tidy d) (unzip_entry dst x)" for x
    unfolding unzip_entry_def unzipFile_def Let_def by (auto intro!: keeps_intros)
  then show z: "keeps (tidy d) (Unzip L src dst)" for src
    unfolding Unzip_def OpenNoLinks_def by (auto intro!: keeps_intros)
  have "keeps (tidy d) (\<lambda>s. (g s, s))" for g :: "os_state \<Rightarrow> string list outcome"
    by (rule keepsI) auto
  with u z show "keeps (tidy d) (UnpackDDPArchive L src dst)"
    unfolding UnpackDDPArchive_def by (auto intro!: keeps_intros split: outcome.splits)
qed

section \<open>Staying in a tidy directory\<close>

definition contained :: "string \<Rightarrow> (os_state, 'a) go \<Rightarrow> bool" where
  "contained d m \<longleftrightarrow> (\<forall>s r s'. tidy d s \<longrightarrow> m s = (r, s') \<longrightarrow> confined d s s' \<and> tidy d s')"

named_theorems contained_intros \<open>calls that stay in a tidy directory\<close>

lemma containedD: "contained d m \<Longrightarrow> tidy d s \<Longrightarrow> m s = (r, s') \<Longrightarrow> confined d s s' \<and> tidy d s'"
  by (simp add: contained_def)

lemma contained_of: "confines d m \<Longrightarrow> keeps (tidy d) m \<Longrightarrow> contained d m"
  unfolding contained_def by (meson confinesD keepsD tidy_ok)

lemma contained_lift [contained_intros]: "contained d (lift x)"
  by (simp add: contained_of confines_lift keeps_lift)

lemma contained_ret [contained_intros]: "contained d (ret x)"
  by (simp add: contained_of confines_ret keeps_ret)

lemma contained_quiet: "(\<And>s r s'. m s = (r, s') \<Longrightarrow> \<exists>t. s' = s\<lparr>os_time := t\<rparr>) \<Longrightarrow> contained d m"
  by (rule contained_of [OF confines_quiet keeps_tidy_quiet])

lemma contained_same: "(\<And>s r s'. m s = (r, s') \<Longrightarrow> s' = s) \<Longrightarrow> contained d m"
  unfolding contained_def by (metis confined_refl tidy_ok)

lemma contained_gbind [contained_intros]:
  assumes m: "contained d m" and f: "\<And>x. contained d (f x)"
  shows "contained d (gbind m f)"
  unfolding contained_def
proof (intro allI impI)
  fix s r s'
  assume t: "tidy d s" and "gbind m f s = (r, s')"
  from this(2) show "confined d s s' \<and> tidy d s'"
  proof (cases rule: gbind_cases)
    case (Ok x s1)
    with containedD [OF m t] containedD [OF f] show ?thesis by (metis confined_trans)
  qed (use containedD [OF m t] in auto)
qed

lemma contained_attempt [contained_intros]: "contained d m \<Longrightarrow> contained d (attempt m)"
  unfolding contained_def attempt_def by (auto split: prod.splits outcome.splits)

text \<open>A directory below another: what is confined to it is confined to the other.\<close>

lemma is_below_trans: "is_below d t \<Longrightarrow> is_below t q \<Longrightarrow> is_below d q"
  by (auto simp: is_below_iff)

lemma confined_mono:
  assumes "rooted t" and "is_below d t" and "confined t s s'"
  shows "confined d s s'"
  using assms(3) is_below_trans [OF assms(2)] ancestors_below [OF assms(1,2)]
  unfolding confined_def by blast

lemma contained_mono: "rooted t \<Longrightarrow> is_below d t \<Longrightarrow> confines t m \<Longrightarrow> keeps (tidy d) m \<Longrightarrow> contained d m"
  by (rule contained_of) (auto simp: confines_def dest: confined_mono)

section \<open>Downloading\<close>

lemma create_only_at:
  assumes t: "tidy d s" and p: "is_below d p" and run: "open_name p flag perm s = (r, s')"
  shows "only_at p s s'"
proof (cases "\<exists>i. os_dir s p = Some (DReg i)")
  case True
  then obtain i where i: "os_dir s p = Some (DReg i)" by blast
  with t p have "os_nlink s i \<le> 1" by (simp add: tidy_def)
  with os_ok_one_name [OF tidy_ok [OF t] i] have "q \<noteq> p \<Longrightarrow> os_dir s q \<noteq> Some (DReg i)" for q by blast
  with i run t look_data [of s i "[]"] show ?thesis
    by (auto simp: open_name_def only_at_def tidy_ok split: if_splits)
next
  case False
  with run have "open_name p (flag\<lparr>fl_trunc := False\<rparr>) perm s = (r, s')"
    by (auto simp: open_name_def Let_def split: option.splits dirent.splits if_splits)
  from open_name_only_at [OF this tidy_ok [OF t]] show ?thesis by simp
qed

lemma CreateNoLinks_only_at:
  assumes t: "tidy d s" and p: "is_below d (Clean path)" and run: "CreateNoLinks path s = (r, s')"
  shows "only_at (Clean path) s s' \<and> tidy d s'"
proof -
  have op: "only_at (Clean path) s s1" if "OpenFile_nofollow path flag perm s = (r1, s1)" for flag perm r1 s1
    using that create_only_at [of d "s\<lparr>os_time := Suc (os_time s)\<rparr>" "Clean path" flag perm r1 s1] t p tidy_ok [OF t]
    unfolding OpenFile_nofollow_def by (auto elim!: sys_cases simp: only_at_def)
  have "only_at (Clean path) s s'"
    using run unfolding CreateNoLinks_def OpenFileNoLinks_def
  proof (cases rule: gbind_cases)
    case (Ok h s1)
    then have "\<exists>t. s' = s1\<lparr>os_time := t\<rparr>"
      by (auto elim!: gbind_cases simp: isHardLink_eq dest!: os_Stat_state split: if_splits)
    then show ?thesis
      using op [OF Ok(1)] by (auto simp: only_at_def)
  qed (use op in auto)
  moreover have "tidy d s'"
    using keepsD [OF keeps_tidy_files(1) t] run by (simp add: CreateNoLinks_def)
  ultimately show ?thesis by blast
qed

lemma contained_OpenNoLinks [contained_intros]: "contained d (OpenNoLinks path)"
  by (rule contained_quiet) (rule OpenNoLinks_state)

lemma contained_read_file [contained_intros]: "contained d (read_file h)"
  by (rule contained_quiet) (rule read_file_state)

lemma contained_verifyChecksum [contained_intros]: "contained d (verifyChecksum sha1 path expected)"
  unfolding verifyChecksum_def by (auto intro!: contained_intros split: outcome.splits)

lemma contained_DownloadFile:
  assumes p: "is_below d (Clean path)"
  shows "contained d (DownloadFile sha1 get path url checksum)"
  unfolding contained_def
proof (intro allI impI)
  fix s r s'
  assume t: "tidy d s" and run: "DownloadFile sha1 get path url checksum s = (r, s')"
  let ?check = "if checksum \<noteq> [] then gbind (verifyChecksum sha1 path checksum) (\<lambda>match.
      if \<not> match then lift (Err (Errorf ''Checksum mismatch in downloaded file'')) else ret ()) else ret ()"
  have check: "contained d ?check"
    by (auto intro!: contained_intros)
  from run show "confined d s s' \<and> tidy d s'"
    unfolding DownloadFile_def
  proof (cases rule: gbind_cases)
    case (Ok h s1)
    have c1: "confined d s s1" "tidy d s1"
      using CreateNoLinks_only_at [OF t p Ok(1)] confined_only_at [OF _ p] by blast+
    from OpenFileNoLinks_Ok Ok(1) obtain i where i: "h = HFile i" "os_dir s1 (Clean path) = Some (DReg i)" "os_nlink s1 i \<le> 1"
      unfolding CreateNoLinks_def by blast
    from Ok(2) show ?thesis
    proof (cases rule: gbind_cases)
      case (Ok resp s2)
      then have s2: "s2 = s1" by simp
      show ?thesis
      proof (cases "StatusCode resp \<noteq> 200")
        case True
        with Ok c1 show ?thesis by simp
      next
        case False
        with Ok s2 i(1) have "gbind (io_Copy (HFile i) (Body resp)) (\<lambda>_. ?check) s1 = (r, s')" by simp
        then show ?thesis
        proof (cases rule: gbind_cases)
          case (Ok u s3)
          have "confined d s1 s3"
            using confined_only_at [OF io_Copy_only_at [OF Ok(1) tidy_ok [OF c1(2)] i(2,3)] p] .
          moreover have "tidy d s3"
            by (rule keepsD [OF keeps_tidy_copy c1(2) Ok(1)])
          ultimately show ?thesis
            using c1 containedD [OF check _ Ok(2)] confined_trans by blast
        next
          case (Err e)
          have "confined d s1 s'"
            using confined_only_at [OF io_Copy_only_at [OF Err(1) tidy_ok [OF c1(2)] i(2,3)] p] .
          then show ?thesis
            using c1 confined_trans keepsD [OF keeps_tidy_copy c1(2) Err(1)] by blast
        next
          case (Panic e)
          have "confined d s1 s'"
            using confined_only_at [OF io_Copy_only_at [OF Panic(1) tidy_ok [OF c1(2)] i(2,3)] p] .
          then show ?thesis
            using c1 confined_trans keepsD [OF keeps_tidy_copy c1(2) Panic(1)] by blast
        qed
      qed
    qed (use c1 in auto)
  next
    case (Err e)
    then show ?thesis
      using CreateNoLinks_only_at [OF t p Err(1)] confined_only_at [OF _ p] by blast
  next
    case (Panic e)
    then show ?thesis
      using CreateNoLinks_only_at [OF t p Panic(1)] confined_only_at [OF _ p] by blast
  qed
qed

lemma contained_CreateFolder:
  assumes "rooted path" and "is_below d path"
  shows "contained d (CreateFolder path)"
proof -
  have "contained d (os_Stat path)" by (rule contained_quiet) (blast dest: os_Stat_state)
  moreover have "contained d (os_MkdirAll path 511)"
    by (rule contained_of [OF MkdirAll_confines [OF assms] keeps_tidy_files(6)])
  ultimately show ?thesis
    unfolding CreateFolder_def by (auto intro!: contained_intros split: outcome.splits)
qed

section \<open>One device\<close>

text \<open>The names the configuration contributes are plain names: they have no slash and are not dots.\<close>

definition named :: "DeviceNodeConfig \<Rightarrow> bool" where
  "named c \<longleftrightarrow> name_elem (dnc_PCIAddress c) \<and>
     (FWURL (dnc_DeviceConfig c) \<noteq> [] \<longrightarrow> name_elem (Base (FWURL (dnc_DeviceConfig c)))) \<and>
     (DDPURL (dnc_DeviceConfig c) \<noteq> [] \<longrightarrow> name_elem (Base (DDPURL (dnc_DeviceConfig c))))"

lemma join_name:
  assumes "rooted d" and "name_elem n"
  shows "rooted (filepath_Join [d, n])" and "elems (filepath_Join [d, n]) = elems d @ [n]"
    and "Clean (filepath_Join [d, n]) = filepath_Join [d, n]" and "is_below d (filepath_Join [d, n])"
proof -
  let ?q = "Join ''/'' [d, n]"
  have q: "rooted ?q" and j: "filepath_Join [d, n] = Clean ?q"
    using assms(1) rooted_Join [of d "[n]"] filepath_Join_rooted [of d "[n]"] by simp_all
  show "rooted (filepath_Join [d, n])" "Clean (filepath_Join [d, n]) = filepath_Join [d, n]"
    using Clean_Clean [OF q] q by (simp_all add: j)
  have n: "slash \<notin> set n" "n \<noteq> []" "n \<noteq> ''.''" "n \<noteq> dotdot"
    using assms(2) by (auto simp: name_elem_def plain_elem_def)
  have "clean_elems r out (es @ [n]) = clean_elems r out es @ [n]" for r out es
    using n by (induction r out es rule: clean_elems.induct) (auto split: list.splits)
  moreover have "Split slash ?q = Split slash d @ [n]"
    using n Split_append_sep [of slash d n] Split_no_occ [OF n(1)] by simp
  ultimately have "elems ?q = elems d @ [n]"
    using assms(1) q unfolding elems_def by (simp del: Join.simps)
  then show e: "elems (filepath_Join [d, n]) = elems d @ [n]"
    by (simp add: j elems_Clean [OF q] del: Join.simps)
  then show "is_below d (filepath_Join [d, n])"
    by (simp add: is_below_iff)
qed

lemma artifacts_rooted [simp]: "rooted artifactsFolder"
  by (simp add: rooted_def)

lemma target_of:
  assumes "named c"
  shows "rooted (filepath_Join [artifactsFolder, dnc_PCIAddress c])"
    and "is_below artifactsFolder (filepath_Join [artifactsFolder, dnc_PCIAddress c])"
    and "name_elem n \<Longrightarrow> is_below artifactsFolder (Clean (filepath_Join [filepath_Join [artifactsFolder, dnc_PCIAddress c], n]))"
proof -
  let ?t = "filepath_Join [artifactsFolder, dnc_PCIAddress c]"
  have "name_elem (dnc_PCIAddress c)"
    using assms by (simp add: named_def)
  note t = join_name [OF artifacts_rooted this]
  show "rooted ?t" "is_below artifactsFolder ?t" by (rule t)+
  assume "name_elem n"
  note tn = join_name [OF t(1) this]
  show "is_below artifactsFolder (Clean (filepath_Join [?t, n]))"
    using is_below_trans [OF t(4) tn(4)] tn(3) by simp
qed

lemma contained_walk: "contained d (gbind (walk_matches want root) (\<lambda>ps. lift (g ps)))"
proof -
  have "contained d (walk_matches want root)"
    by (rule contained_same) (auto simp: walk_matches_def Let_def split: if_splits)
  then show ?thesis by (auto intro!: contained_intros)
qed

lemma contained_prepareArtifacts:
  assumes "named c"
  shows "contained artifactsFolder (prepareArtifacts E c)"
proof -
  note t = target_of [OF assms]
  have "contained artifactsFolder (prepareFirmware E c)"
    unfolding prepareFirmware_def findFwExec_def Let_def
    using assms unfolding named_def
    by (auto intro!: contained_intros contained_walk contained_CreateFolder contained_DownloadFile t
        contained_mono [OF t(1,2) Untar_confines [OF t(1)] keeps_tidy_archives(1)])
  moreover have "contained artifactsFolder (prepareDDP E c)"
    unfolding prepareDDP_def findDdpProfile_def Let_def
    using assms unfolding named_def
    by (auto intro!: contained_intros contained_walk contained_CreateFolder contained_DownloadFile t
        contained_mono [OF t(1,2) UnpackDDPArchive_confines [OF t(1)] keeps_tidy_archives(3)])
  ultimately show ?thesis
    unfolding prepareArtifacts_def by (auto intro!: contained_intros)
qed

lemma contained_fill_queue:
  "(\<And>c. c \<in> set cs \<Longrightarrow> named c) \<Longrightarrow> contained artifactsFolder (fill_queue E cs q)"
  by (induction cs arbitrary: q) (auto intro!: contained_intros contained_prepareArtifacts)

section \<open>The removed directory\<close>

lemma RemoveAll_tidy:
  assumes ok: "os_ok s" and run: "os_RemoveAll d s = (Ok u, s')"
  shows "tidy d s'" and "\<not> at_or_below d q \<Longrightarrow> look s' q = look s q"
proof -
  let ?s = "s\<lparr>os_time := Suc (os_time s)\<rparr>"
  have s': "s' = ?s\<lparr>os_dir := (\<lambda>q. if at_or_below d q then None else os_dir s q),
       os_names := filter (\<lambda>q. \<not> at_or_below d q) (os_names s),
       os_nlink := (\<lambda>i. os_nlink s i - length (filter (\<lambda>q. os_dir s q = Some (DReg i)) (filter (at_or_below d) (os_names s))))\<rparr>"
    using run unfolding os_RemoveAll_def by (auto elim!: sys_cases simp: Let_def cong: if_cong)
  have count: "length (filter P xs) - length (filter P (filter B xs)) = length (filter P (filter (\<lambda>x. \<not> B x) xs))"
    for P B and xs :: "string list"
  proof -
    have "length (filter P xs) = length (filter P (filter B xs)) + length (filter P (filter (\<lambda>x. \<not> B x) xs))"
      by (induction xs) auto
    then show ?thesis by simp
  qed
  have "os_ok s'"
    unfolding os_ok_def
  proof (intro conjI allI impI)
    show "distinct (os_names s')" "set (os_names s') = dom (os_dir s')"
      using ok by (auto simp: s' os_ok_def split: if_splits)
    show "i < os_next s'" if "os_dir s' p = Some (DReg i)" for p i
      using that ok by (auto simp: s' os_ok_def split: if_splits)
    fix i assume "i < os_next s'"
    then have "os_nlink s' i = length (filter (\<lambda>q. os_dir s q = Some (DReg i)) (filter (\<lambda>q. \<not> at_or_below d q) (os_names s)))"
      using ok unfolding s' os_ok_def count [symmetric] by simp
    also have "\<dots> = length (filter (\<lambda>q. os_dir s' q = Some (DReg i)) (os_names s'))"
      by (rule arg_cong [where f = length], rule filter_cong) (auto simp: s')
    finally show "os_nlink s' i = length (filter (\<lambda>q. os_dir s' q = Some (DReg i)) (os_names s'))" .
  qed
  then show "tidy d s'"
    by (auto simp: tidy_def s' at_or_below_def)
  show "look s' q = look s q" if "\<not> at_or_below d q"
    using that by (auto simp: look_def s' split: option.splits dirent.splits)
qed

text \<open>
  \<^bold>\<open>C32.\<close> Preparing the update of a node never touches anything outside \<^verbatim>\<open>/tmp/nvmupdate\<close>, whatever is downloaded,
  whatever the archives contain, whatever that directory held before and whichever system calls fail: every
  other name keeps its kind and contents, except that \<^verbatim>\<open>/tmp\<close> may be created. The names that the configuration
  contributes, PCI addresses and the last elements of the URLs, have to be plain names.
\<close>

theorem prepareUpdateQueue_confined:
  assumes "os_ok s" and "\<And>c. c \<in> set (enc_Config (enc_Spec nc)) \<Longrightarrow> named c"
    and run: "prepareUpdateQueue E nc s = (r, s')" and q: "\<not> at_or_below artifactsFolder q"
  shows "look s' q = look s q \<or> q = ''/tmp'' \<and> look s q = None \<and> look s' q = Some Directory"
  using run unfolding prepareUpdateQueue_def
proof (cases rule: gbind_cases)
  case (Ok devs s0)
  then have s0: "s0 = s" by simp
  from Ok(2) show ?thesis
    unfolding s0
  proof (cases rule: gbind_cases)
    case (Ok u s1)
    note rm = RemoveAll_tidy [OF assms(1) Ok(1)]
    have "confined artifactsFolder s1 s'"
      using containedD [OF contained_fill_queue [OF assms(2)] rm(1) Ok(2)] by blast
    moreover have "\<not> is_below artifactsFolder q" and "q \<in> set (ancestors artifactsFolder) \<Longrightarrow> q = ''/tmp''"
    proof -
      have "set (ancestors artifactsFolder) = {''/tmp'', ''/tmp/nvmupdate''}" and "Clean artifactsFolder = artifactsFolder"
        by code_simp+
      with q show "\<not> is_below artifactsFolder q" and "q \<in> set (ancestors artifactsFolder) \<Longrightarrow> q = ''/tmp''"
        by (auto simp: at_or_below_def)
    qed
    ultimately show ?thesis
      using rm(2) [OF q] by (auto simp: confined_def)
  qed (auto simp: os_RemoveAll_def elim!: sys_cases)
qed auto

text \<open>A node whose working directory holds a second name of a system file from an earlier run.\<close>

definition linked_artifacts :: os_state where
  "linked_artifacts =
     \<lparr>os_dir = [''/'' \<mapsto> DDir, ''/tmp'' \<mapsto> DDir, ''/passwd'' \<mapsto> DReg 0, ''/tmp/nvmupdate'' \<mapsto> DDir,
        ''/tmp/nvmupdate/fw.tgz'' \<mapsto> DReg 0],
      os_names = [''/'', ''/tmp'', ''/passwd'', ''/tmp/nvmupdate'', ''/tmp/nvmupdate/fw.tgz''],
      os_data = (\<lambda>i. [7, 7]), os_nlink = (\<lambda>_. 2), os_perm = (\<lambda>_. 420), os_dperm = (\<lambda>_. 493), os_next = 1, os_time = 0,
      os_fault = (\<lambda>_. None)\<rparr>"

definition download_env :: daemon_env where
  "download_env =
     \<lparr>de_inventory = \<lparr>compatibilityMap = [], ghw_PCI = Ok [None], ghw_Network = Ok [], execEthtool = (\<lambda>_. Err NotFound),
        execDevlink = (\<lambda>_. Err NotFound)\<rparr>,
      de_archives = \<lparr>gzip_tar = (\<lambda>_. Ok [TarHeader (Some \<lparr>th_Name = ''../../../passwd'', Typeflag = TypeReg, th_Mode = 493, th_Data = ([0], None)\<rparr>)]),
        zip_NewReader = (\<lambda>_. Err ErrFormat), fp_Glob = (\<lambda>_ _. Ok [])\<rparr>,
      de_sha1 = (\<lambda>bs. bs), de_http_Get = (\<lambda>_. Ok \<lparr>StatusCode = 200, Body = ([1], None)\<rparr>), de_xml = (\<lambda>_. []), de_xml_budget = 100,
      de_nvmupdate = (\<lambda>_ _ f. (None, f)), de_exec = (\<lambda>_ _ f. (([], None), f)), RetryOnConflict = retry_conflict 4,
      de_nodeName = ''node1'', de_namespace = ''operators''\<rparr>"

definition download_nc :: EthernetNodeConfig where
  "download_nc =
     \<lparr>enc_Name = ''node1'', enc_Namespace = ''operators'', enc_Generation = 1,
      enc_Spec = \<lparr>enc_Config = [\<lparr>dnc_PCIAddress = ''0000:18:00.0'',
          dnc_DeviceConfig = empty_DeviceConfig\<lparr>FWURL := ''http://host/fw.tgz''\<rparr>\<rparr>], DrainSkip = False\<rparr>,
      enc_Status = \<lparr>enc_Conditions = Map.empty, enc_Devices = []\<rparr>\<rparr>"

lemma linked_artifacts_ok: "os_ok linked_artifacts"
  by (auto simp: os_ok_def linked_artifacts_def split: if_splits)

lemma download_named: "c \<in> set (enc_Config (enc_Spec download_nc)) \<Longrightarrow> named c"
proof -
  have "name_elem ''0000:18:00.0''" "name_elem (Base ''http://host/fw.tgz'')"
    by code_simp+
  then show "c \<in> set (enc_Config (enc_Spec download_nc)) \<Longrightarrow> named c"
    by (simp add: download_nc_def named_def)
qed

theorem prepareUpdateQueue_confined_witness:
  "fst (prepareUpdateQueue download_env download_nc linked_artifacts) = Err (Errorf ''illegal file path'') \<and>
   look (snd (prepareUpdateQueue download_env download_nc linked_artifacts)) ''/passwd'' = Some (File [7, 7])"
proof
  let ?run = "prepareUpdateQueue download_env download_nc linked_artifacts"
  show "fst ?run = Err (Errorf ''illegal file path'')"
    by code_simp
  have "\<not> at_or_below artifactsFolder ''/passwd''" and "look linked_artifacts ''/passwd'' = Some (File [7, 7])"
    by code_simp+
  then show "look (snd ?run) ''/passwd'' = Some (File [7, 7])"
    using prepareUpdateQueue_confined [OF linked_artifacts_ok download_named, where E = download_env and r = "fst ?run" and s' = "snd ?run"
        and q = "''/passwd''"]
    by auto
qed

end
