(* ===== verification/Fwddp_Update_Props.thy ===== *)
theory Fwddp_Update_Props
  imports Fwddp_Props Fwddp_Prepare_Props Go_Order
begin

text \<open>
  What an update of the node amounts to for its devices: from the specification of the node's object through the
  queue of artifacts to the calls of the update tool and the copies of DDP profiles.
\<close>

section \<open>Updates in the record\<close>

text \<open>The devices that the update tool was run for, in order, and the number of copied profiles.\<close>

fun flashed :: "fd_event list \<Rightarrow> string list" where
  "flashed [] = []"
| "flashed (NvmUpdate a l # es) = a # flashed es"
| "flashed (_ # es) = flashed es"

fun copies :: "fd_event list \<Rightarrow> nat" where
  "copies [] = 0"
| "copies (DdpCopy t # es) = Suc (copies es)"
| "copies (_ # es) = copies es"

lemma flashed_append [simp]: "flashed (xs @ ys) = flashed xs @ flashed ys"
  by (induction xs rule: flashed.induct) simp_all

lemma copies_append [simp]: "copies (xs @ ys) = copies xs + copies ys"
  by (induction xs rule: copies.induct) simp_all

lemma condition_no_update: "condition_set b reason es \<Longrightarrow> flashed es = [] \<and> copies es = 0"
  by (auto simp: condition_set_def)

lemma rebooted_no_update: "rebooted es \<Longrightarrow> flashed es = [] \<and> copies es = 0"
  by (auto simp: rebooted_def dest: condition_no_update)

text \<open>\<open>does l n m\<close>: when \<open>m\<close> succeeds, it ran the tool for the devices \<open>l\<close> and copied \<open>n\<close> profiles.\<close>

definition does :: "string list \<Rightarrow> nat \<Rightarrow> (fd_state, 'a) go \<Rightarrow> bool" where
  "does l n m \<longleftrightarrow> (\<forall>s x s'. m s = (Ok x, s') \<longrightarrow>
     (\<exists>es. fd_events s' = fd_events s @ es \<and> flashed es = l \<and> copies es = n))"

named_theorems does_intros \<open>updates of composed calls\<close>

lemma doesD: "does l n m \<Longrightarrow> m s = (Ok x, s') \<Longrightarrow> \<exists>es. fd_events s' = fd_events s @ es \<and> flashed es = l \<and> copies es = n"
  by (auto simp: does_def)

lemma does_eq: "does l n m \<Longrightarrow> l = l' \<Longrightarrow> n = n' \<Longrightarrow> does l' n' m"
  by simp

lemma does_gbind:
  assumes "does l n m" and "\<And>x. does l' n' (f x)"
  shows "does (l @ l') (n + n') (gbind m f)"
  unfolding does_def
proof (intro allI impI)
  fix s y s'' assume "gbind m f s = (Ok y, s'')"
  then obtain x s' where "m s = (Ok x, s')" "f x s' = (Ok y, s'')"
    by (auto simp: gbind_Ok_iff)
  with doesD [OF assms(1)] doesD [OF assms(2)] obtain es es' where
      "fd_events s' = fd_events s @ es" "flashed es = l" "copies es = n"
      "fd_events s'' = fd_events s' @ es'" "flashed es' = l'" "copies es' = n'"
    by meson
  then show "\<exists>es. fd_events s'' = fd_events s @ es \<and> flashed es = l @ l' \<and> copies es = n + n'"
    by (intro exI [of _ "es @ es'"]) simp
qed

lemma does_quiet: "logs {} m \<Longrightarrow> does [] 0 m"
  unfolding does_def by (fastforce dest: logsD)

lemma does_log: "does (flashed [e]) (copies [e]) (log_event e)"
  by (auto simp: does_def log_event_def)

lemma does_gfor:
  "(\<And>x. does (l x) (n x) (f x)) \<Longrightarrow> does (concat (map l xs)) (sum_list (map n xs)) (gfor f xs)"
proof (induction xs)
  case Nil
  then show ?case by (auto simp: does_def)
next
  case (Cons x xs)
  then show ?case by (auto intro!: does_gbind)
qed

section \<open>Devices of the queue\<close>

definition fw_of :: "deviceUpdateQueue \<Rightarrow> string \<Rightarrow> bool" where
  "fw_of q a \<longleftrightarrow> (\<exists>art. Mapping.lookup q a = Some art \<and> fwPath art \<noteq> [])"

definition ddp_of :: "deviceUpdateQueue \<Rightarrow> string \<Rightarrow> bool" where
  "ddp_of q a \<longleftrightarrow> (\<exists>art. Mapping.lookup q a = Some art \<and> ddpPath art \<noteq> [])"

lemma does_updateFirmware: "does [a] 0 (updateFirmware E a fp up)"
proof -
  have "does ([] @ [] @ flashed [NvmUpdate a loc] @ [] @ [] @ []) (0 + (0 + (copies [NvmUpdate a loc] + (0 + (0 + 0)))))
      (updateFirmware E a fp up)" for loc
    unfolding updateFirmware_def Let_def
    by (intro does_gbind; (rule does_quiet, auto intro!: logs_intros split: option.splits goerr.splits prod.splits)?)
      (use does_log [of "NvmUpdate a _"] in simp)
  then show ?thesis by simp
qed

lemma does_handleFWUpdate: "does (if fp \<noteq> [] then [a] else []) 0 (handleFWUpdate E a fp up)"
proof (cases "fp = []")
  case False
  have "does ([a] @ [] @ []) (0 + (0 + 0)) (gbind (updateFirmware E a fp up) (\<lambda>returnCode.
        gbind (if returnCode = 50 \<or> returnCode = 51 then ret (True, None)
               else on_os (isRebootRequired E (updateResultPath fp))) (\<lambda>(reboot, err).
        ret (if err \<noteq> None then True else reboot))))"
    by (intro does_gbind does_updateFirmware) (rule does_quiet, auto intro!: logs_intros split: prod.splits)+
  with False show ?thesis by (simp add: handleFWUpdate_def)
qed (auto simp: handleFWUpdate_def intro!: does_quiet logs_intros)

lemma does_handleDDPUpdate: "does [] (if dp \<noteq> [] then 2 else 0) (handleDDPUpdate E a dp)"
proof (cases "dp = []")
  case False
  have c: "does [] 1 (copy_profile d dp p)" for d p
  proof -
    have "does ([] @ [] @ flashed [DdpCopy t]) (0 + (0 + copies [DdpCopy t])) (copy_profile d dp p)"
      if "t = filepath_Join [p, ''ice-'' @ d @ ''.pkg'']" for t
      unfolding copy_profile_def Let_def that
      by (intro does_gbind does_log) (rule does_quiet, auto intro!: logs_intros)+
    from this [OF refl] show ?thesis by simp
  qed
  have l: "does [] 2 (gfor (copy_profile d dp) [x, y])" for d x y
    using does_gfor [where f = "copy_profile d dp" and l = "\<lambda>_. []" and n = "\<lambda>_. 1" and xs = "[x, y]", OF c]
    by (rule does_eq) simp_all
  have e: "does [] 2 (lift (Err e))" for e
    by (simp add: does_def)
  have "does ([] @ []) (0 + 2) (updateDDP E a dp)"
    unfolding updateDDP_def Let_def
    by (rule does_gbind, rule does_quiet, rule logs_on_os) (simp add: l e del: gfor.simps)
  then have u: "does [] 2 (updateDDP E a dp)"
    by (rule does_eq) simp_all
  have "does ([] @ []) (2 + 0) (gbind (updateDDP E a dp) (\<lambda>_. ret True))"
    by (intro does_gbind u does_quiet logs_intros)
  then have "does [] 2 (gbind (updateDDP E a dp) (\<lambda>_. ret True))"
    by (rule does_eq) simp_all
  with False show ?thesis by (simp add: handleDDPUpdate_def)
qed (auto simp: handleDDPUpdate_def intro!: does_quiet logs_intros)

lemma does_update_device:
  "does (if fw_of q a then [a] else []) (if ddp_of q a then 2 else 0) (update_device E q a)"
proof (cases "Mapping.lookup q a")
  case None
  then show ?thesis
    by (auto simp: update_device_def fw_of_def ddp_of_def intro!: does_quiet logs_intros)
next
  case (Some art)
  have "does ((if fwPath art \<noteq> [] then [a] else []) @ [] @ []) (0 + ((if ddpPath art \<noteq> [] then 2 else 0) + 0))
      (gbind (handleFWUpdate E a (fwPath art) (dua_fwUpdateParam art)) (\<lambda>fwReboot.
       gbind (handleDDPUpdate E a (ddpPath art)) (\<lambda>ddpReboot.
       modify (rebootRequired_update (\<lambda>b. b \<or> fwReboot \<or> ddpReboot)))))"
    by (intro does_gbind does_handleFWUpdate does_handleDDPUpdate does_quiet logs_intros) simp
  with Some show ?thesis
    by (simp add: update_device_def fw_of_def ddp_of_def)
qed

lemma sum_twice: "sum_list (map (\<lambda>a. if P a then 2 else 0) xs) = 2 * length (filter P xs)"
  by (induction xs) simp_all

lemma concat_if: "concat (map (\<lambda>a. if P a then [a] else []) xs) = filter P xs"
  by (induction xs) simp_all

lemma drainFunc_updates:
  assumes env: "retry_spec E" "inventory_calm E" and run: "drainFunc E ro q s = (b, s')"
    and ok: "nodeActionErr s' = None"
  shows "\<exists>es. fd_events s' = fd_events s @ es \<and> flashed es = filter (fw_of q) (ro (Mapping.keys q)) \<and>
    copies es = 2 * length (filter (ddp_of q) (ro (Mapping.keys q)))"
proof -
  let ?as = "ro (Mapping.keys q)"
  obtain r1 s1 where loop: "gfor (update_device E q) ?as s = (r1, s1)" by fastforce
  obtain r2 s2 where fin: "finish_update E s1 = (r2, s2)" by fastforce
  from run loop ok obtain x where x: "r1 = Ok x"
    by (cases r1) (auto simp: drainFunc_def)
  obtain us where us: "fd_events s1 = fd_events s @ us" "flashed us = filter (fw_of q) ?as"
      "copies us = 2 * length (filter (ddp_of q) ?as)"
    using doesD [OF does_gfor [OF does_update_device] loop [unfolded x]] by (auto simp: sum_twice concat_if)
  have "s' = s2" "\<exists>rb. fd_events s2 = fd_events s1 @ rb \<and> flashed rb = [] \<and> copies rb = 0"
    using finish_update_events [OF env fin] run loop x fin by (auto simp: drainFunc_def dest: rebooted_no_update)
  with us show ?thesis by auto
qed

section \<open>The queue\<close>

text \<open>The specification of a device: of several entries for an address the last one counts.\<close>

definition wanted :: "DeviceNodeConfig list \<Rightarrow> string \<Rightarrow> DeviceConfig option" where
  "wanted cs = map_of (rev (map (\<lambda>c. (dnc_PCIAddress c, dnc_DeviceConfig c)) cs))"

definition requested :: "DeviceConfig \<Rightarrow> deviceUpdateArtifacts \<Rightarrow> bool" where
  "requested dc art \<longleftrightarrow> (fwPath art \<noteq> [] \<longleftrightarrow> FWURL dc \<noteq> []) \<and> (ddpPath art \<noteq> [] \<longleftrightarrow> DDPURL dc \<noteq> []) \<and>
     dua_fwUpdateParam art = FWUpdateParam dc"

lemma wanted_Nil [simp]: "wanted [] a = None"
  by (simp add: wanted_def)

lemma wanted_Cons:
  "wanted (c # cs) a = (case wanted cs a of Some dc \<Rightarrow> Some dc
     | None \<Rightarrow> if a = dnc_PCIAddress c then Some (dnc_DeviceConfig c) else None)"
  by (simp add: wanted_def map_add_def split: option.splits)

lemma walk_below:
  "walk_matches want root f = (Ok ps, f') \<Longrightarrow> p \<in> set ps \<Longrightarrow> at_or_below root p \<and> want (Base p) (the (lstat_mode f p))"
  by (auto simp: walk_matches_def os_Walk_def Let_def split: if_splits option.splits)

lemma below_target:
  assumes "name_elem n" and "at_or_below (filepath_Join [artifactsFolder, n]) p"
  shows "2 < length (elems p)"
proof -
  note j = join_name [OF artifacts_rooted assms(1)]
  have "length (elems artifactsFolder) = 2"
    by code_simp
  with j assms(2) show ?thesis
    by (auto simp: at_or_below_def is_below_def)
qed

lemma exactly_one_Ok: "exactly_one msg ps = Ok p \<longleftrightarrow> ps = [p]"
  by (auto simp: exactly_one_def split: list.splits)

lemma prepareFirmware_path:
  assumes "name_elem (dnc_PCIAddress c)" and "prepareFirmware E c f = (Ok fp, f')"
  shows "fp \<noteq> [] \<longleftrightarrow> FWURL (dnc_DeviceConfig c) \<noteq> []"
proof (cases "FWURL (dnc_DeviceConfig c) = []")
  case False
  let ?t = "filepath_Join [artifactsFolder, dnc_PCIAddress c]"
  from assms(2) False obtain g ps p where w: "walk_matches (\<lambda>name mode. HasSuffix name ''nvmupdate64e'' \<and> isExecutable mode) ?t g = (Ok ps, f')"
      and p: "ps = [p]" "fp = TrimSuffix p ''nvmupdate64e''"
    by (auto simp: prepareFirmware_def Let_def findFwExec_def gbind_Ok_iff exactly_one_Ok)
  have "2 < length (elems p)"
    using walk_below [OF w] below_target [OF assms(1)] p(1) by simp
  moreover have "length (elems ''nvmupdate64e'') = 1" "elems [] = []"
    by code_simp+
  ultimately have "fp \<noteq> []"
    unfolding p(2) TrimSuffix_def HasSuffix_iff by auto
  with False show ?thesis by simp
qed (use assms(2) in \<open>simp add: prepareFirmware_def\<close>)

lemma prepareDDP_path:
  assumes "name_elem (dnc_PCIAddress c)" and "prepareDDP E c f = (Ok dp, f')"
  shows "dp \<noteq> [] \<longleftrightarrow> DDPURL (dnc_DeviceConfig c) \<noteq> []"
proof (cases "DDPURL (dnc_DeviceConfig c) = []")
  case False
  let ?t = "filepath_Join [artifactsFolder, dnc_PCIAddress c]"
  from assms(2) False obtain g ps where w: "walk_matches (\<lambda>name mode. HasSuffix name ''.pkg'' \<and> \<not> bit mode ModeSymlink) ?t g = (Ok ps, f')"
      and p: "ps = [dp]"
    by (auto simp: prepareDDP_def Let_def findDdpProfile_def gbind_Ok_iff exactly_one_Ok)
  have "2 < length (elems dp)"
    using walk_below [OF w] below_target [OF assms(1)] p by simp
  moreover have "elems [] = []"
    by code_simp
  ultimately have "dp \<noteq> []" by auto
  with False show ?thesis by simp
qed (use assms(2) in \<open>simp add: prepareDDP_def\<close>)

lemma fill_queue_wanted:
  assumes "\<And>c. c \<in> set cs \<Longrightarrow> name_elem (dnc_PCIAddress c)" and "fill_queue E cs q f = (Ok q', f')"
  shows "case wanted cs a of
      None \<Rightarrow> Mapping.lookup q' a = Mapping.lookup q a
    | Some dc \<Rightarrow> \<exists>art. Mapping.lookup q' a = Some art \<and> requested dc art"
  using assms
proof (induction cs arbitrary: q f)
  case Nil
  then show ?case by simp
next
  case (Cons c cs)
  from Cons.prems(2) obtain art g where p: "prepareArtifacts E c f = (Ok art, g)"
      and rest: "fill_queue E cs (Mapping.update (dnc_PCIAddress c) art q) g = (Ok q', f')"
    by (auto simp: gbind_Ok_iff)
  have "name_elem (dnc_PCIAddress c)" by (simp add: Cons.prems(1))
  with p have "requested (dnc_DeviceConfig c) art"
    by (auto simp: prepareArtifacts_def gbind_Ok_iff requested_def
        dest: prepareFirmware_path [rotated] prepareDDP_path [rotated])
  with Cons.IH [OF _ rest] Cons.prems(1) show ?case
    by (auto simp: wanted_Cons lookup_update' split: option.splits if_splits)
qed

lemma prepareUpdateQueue_wanted:
  assumes "\<And>c. c \<in> set (enc_Config (enc_Spec nc)) \<Longrightarrow> name_elem (dnc_PCIAddress c)" and "prepareUpdateQueue E nc f = (Ok q, f')"
  shows "case wanted (enc_Config (enc_Spec nc)) a of
      None \<Rightarrow> Mapping.lookup q a = None
    | Some dc \<Rightarrow> \<exists>art. Mapping.lookup q a = Some art \<and> requested dc art"
proof -
  from assms(2) obtain g where "fill_queue E (enc_Config (enc_Spec nc)) Mapping.empty g = (Ok q, f')"
    by (auto simp: prepareUpdateQueue_def gbind_Ok_iff)
  from fill_queue_wanted [OF assms(1) this, of a] show ?thesis
    by (simp add: Mapping.lookup_empty split: option.splits)
qed

section \<open>A pass\<close>

text \<open>The updates of the conditions read the object again, but its specification stays.\<close>

definition spec_is :: "EthernetNodeConfigSpec \<Rightarrow> fd_state \<Rightarrow> bool" where
  "spec_is sp s \<longleftrightarrow> enc_Spec (fd_nc s) = sp \<and> (\<exists>nc. fd_object s = Some nc \<and> enc_Spec nc = sp)"

lemma keeps_spec_updateCondition:
  assumes "retry_spec E"
  shows "keeps (spec_is sp) (updateCondition E b reason msg)"
proof -
  have g: "spec_is sp s1 \<and> enc_Spec nc = sp" if "spec_is sp s" "fd_Get s = (Ok nc, s1)" for s s1 nc
    using that by (auto simp: fd_Get_def fd_api_def Let_def spec_is_def split: option.splits)
  have e: "spec_is sp s1" if "spec_is sp s" "fd_Get s = (r, s1)" for s s1 r
    using that by (auto simp: fd_Get_def fd_api_def Let_def spec_is_def split: option.splits)
  have u: "keeps (spec_is sp) (fd_Status_Update st)" for st
    unfolding fd_Status_Update_def by (rule keeps_fd_api) (auto simp: keeps_def spec_is_def split: option.splits)
  have m: "keeps (spec_is sp) (gbind (modify (fd_nc_update (\<lambda>_. nc))) (\<lambda>_.
        gbind (lift (GetInventory (de_inventory E))) (\<lambda>inv.
        let nodeStatus = \<lparr>enc_Conditions = fold (\<lambda>(t, cond) m. m(t \<mapsto> cond)) c Map.empty, enc_Devices = inv\<rparr> in
        gbind (modify (fd_nc_update (enc_Status_update (\<lambda>_. nodeStatus)))) (\<lambda>_.
        fd_Status_Update nodeStatus))))" if "enc_Spec nc = sp" for nc c
    unfolding Let_def using that by (intro keeps_intros u) (auto simp: spec_is_def)
  have "keeps (spec_is sp) (NodeConfig_updateStatus E c)" for c
    unfolding NodeConfig_updateStatus_def assms [unfolded retry_spec_def, rule_format]
  proof (rule keeps_retry_conflict, rule keepsI)
    fix s r s' assume s: "spec_is sp s" and "gbind fd_Get (\<lambda>nc. gbind (modify (fd_nc_update (\<lambda>_. nc))) (\<lambda>_.
        gbind (lift (GetInventory (de_inventory E))) (\<lambda>inv.
        let nodeStatus = \<lparr>enc_Conditions = fold (\<lambda>(t, cond) m. m(t \<mapsto> cond)) c Map.empty, enc_Devices = inv\<rparr> in
        gbind (modify (fd_nc_update (enc_Status_update (\<lambda>_. nodeStatus)))) (\<lambda>_.
        fd_Status_Update nodeStatus)))) s = (r, s')"
    from this(2) show "spec_is sp s'"
      by (cases rule: gbind_cases) (use g [OF s] e [OF s] keepsD [OF m] in blast)+
  qed
  then show ?thesis
    unfolding updateCondition_def log_event_def
    by (auto intro!: keeps_intros split: outcome.splits) (simp_all add: spec_is_def)
qed

lemma configureNode_updates:
  assumes env: "env_ok E K dh" and run: "configureNode E K dh ro q s = (Ok b, s')"
  shows "\<exists>es. fd_events (daemon s') = fd_events (daemon s) @ es \<and> flashed es = filter (fw_of q) (ro (Mapping.keys q)) \<and>
    copies es = 2 * length (filter (ddp_of q) (ro (Mapping.keys q)))"
proof -
  obtain t r1 where t: "run_spec (\<not> DrainSkip (enc_Spec (fd_nc (daemon s)))) t r1"
    and r: "Ok b = (case r1 of Ok _ \<Rightarrow> (case nodeActionErr (daemon s') of Some e \<Rightarrow> Err e | None \<Rightarrow> Ok (rebootRequired (daemon s')))
         | Err e \<Rightarrow> Err e | Panic p \<Rightarrow> Panic p)"
    and w: "(\<forall>b. Worker b \<notin> set t) \<or> (\<exists>b'. drainFunc E ro q (fresh (daemon s)) = (b', daemon s'))"
    using configureNode_worker [OF env run _ refl] by blast
  from r have ok: "r1 = Ok ()" "nodeActionErr (daemon s') = None"
    by (auto split: outcome.splits option.splits)
  from t ok(1) have "\<exists>b. Worker b \<in> set t"
    by (cases rule: run_spec.cases) auto
  with w obtain b' where "drainFunc E ro q (fresh (daemon s)) = (b', daemon s')" by blast
  from drainFunc_updates [OF _ _ this ok(2)] env show ?thesis
    by (simp add: env_ok_def)
qed

lemma performUpdate_updates:
  assumes env: "env_ok E K dh" and run: "performUpdate E K dh ro s = (Ok DoNotRequeue, s')"
    and sp: "spec_is sp (daemon s)"
  shows "\<exists>nc q f f' es. enc_Spec nc = sp \<and> prepareUpdateQueue E nc f = (Ok q, f') \<and> fd_events (daemon s') = fd_events (daemon s) @ es \<and>
    flashed es = filter (fw_of q) (ro (Mapping.keys q)) \<and> copies es = 2 * length (filter (ddp_of q) (ro (Mapping.keys q)))"
proof -
  obtain s1 c where c: "on_fd (updateCondition E False UpdateInProgress ''Update started'') s = (Ok (), s1)"
      "fd_events (daemon s1) = fd_events (daemon s) @ c" "condition_set False UpdateInProgress c"
    using on_condition [OF env] by blast
  have sp1: "enc_Spec (fd_nc (daemon s1)) = sp"
    using c(1) keepsD [OF keeps_spec_updateCondition sp] env by (auto simp: on_fd_eq env_ok_def spec_is_def)
  obtain r2 s2 where p: "on_fd (on_os (prepareUpdateQueue E (fd_nc (daemon s1)))) s1 = (r2, s2)" by fastforce
  then have s2: "fd_events (daemon s2) = fd_events (daemon s1)"
      and pq: "\<exists>f f'. prepareUpdateQueue E (fd_nc (daemon s1)) f = (r2, f')"
    by (auto simp: on_fd_eq on_os_def split: prod.splits)
  note steps = performUpdate_def gbind_run [where m = "on_fd (updateCondition E False UpdateInProgress ''Update started'')", OF c(1)]
    reading_fd_run
  have later: "gbind (on_fd (updateCondition E b reason msg)) (\<lambda>_. ret RequeueLater) t \<noteq> (Ok DoNotRequeue, s')" for t b reason msg
    by (auto simp: gbind_Ok_iff)
  from run p later obtain q where q: "r2 = Ok q"
    by (cases r2) (auto simp: steps try_run try_panic)
  obtain r3 s3 where cn: "configureNode E K dh ro q s2 = (r3, s3)" by fastforce
  from run p q cn later obtain b where b: "r3 = Ok b"
    by (cases r3) (auto simp: steps try_run try_panic)
  obtain us where us: "fd_events (daemon s3) = fd_events (daemon s2) @ us" "flashed us = filter (fw_of q) (ro (Mapping.keys q))"
      "copies us = 2 * length (filter (ddp_of q) (ro (Mapping.keys q)))"
    using configureNode_updates [OF env cn [unfolded b]] by blast
  from run p q cn b have end': "(if \<not> b
      then gbind (on_fd (updateCondition E True UpdateSucceeded ''Updated successfully'')) (\<lambda>_. ret DoNotRequeue)
      else ret DoNotRequeue) s3 = (Ok DoNotRequeue, s')"
    by (simp add: steps try_run)
  obtain d where "fd_events (daemon s') = fd_events (daemon s3) @ d" "flashed d = []" "copies d = 0"
  proof (cases b)
    case False
    with end' on_condition [OF env, of True UpdateSucceeded "''Updated successfully''" s3] that show ?thesis
      by (auto simp: gbind_Ok_iff dest: condition_no_update)
  qed (use end' that [of "[]"] in simp)
  with us c s2 condition_no_update [OF c(3)] pq sp1 q show ?thesis
    by (intro exI [of _ "fd_nc (daemon s1)"] exI [of _ q]) auto
qed

lemma started_pass_updates:
  assumes env: "env_ok E K dh" and order: "valid_order ro"
    and upd: "performUpdate E K dh ro s = (Ok DoNotRequeue, s')" and sp: "spec_is sp (daemon s)"
    and names: "\<And>c. c \<in> set (enc_Config sp) \<Longrightarrow> name_elem (dnc_PCIAddress c)"
  shows "\<exists>es. fd_events (daemon s') = fd_events (daemon s) @ es \<and> distinct (flashed es) \<and>
    set (flashed es) = {a. \<exists>dc. wanted (enc_Config sp) a = Some dc \<and> FWURL dc \<noteq> []} \<and>
    copies es = 2 * card {a. \<exists>dc. wanted (enc_Config sp) a = Some dc \<and> DDPURL dc \<noteq> []}"
proof -
  from performUpdate_updates [OF env upd sp] obtain nc' q f f' es where
      q: "enc_Spec nc' = sp" "prepareUpdateQueue E nc' f = (Ok q, f')"
    and es: "fd_events (daemon s') = fd_events (daemon s) @ es" "flashed es = filter (fw_of q) (ro (Mapping.keys q))"
      "copies es = 2 * length (filter (ddp_of q) (ro (Mapping.keys q)))"
    by blast
  note look = prepareUpdateQueue_wanted [OF _ q(2), unfolded q(1), OF names]
  have "Mapping.keys q \<subseteq> dnc_PCIAddress ` set (enc_Config sp)"
  proof
    fix a assume "a \<in> Mapping.keys q"
    with look [of a] obtain dc where "wanted (enc_Config sp) a = Some dc"
      by (auto simp: keys_is_none_rep split: option.splits)
    then show "a \<in> dnc_PCIAddress ` set (enc_Config sp)"
      by (auto simp: wanted_def dest!: map_of_SomeD)
  qed
  then have "finite (Mapping.keys q)"
    by (rule finite_subset) simp
  note ro = valid_orderD [OF order this]
  have fw: "fw_of q a \<longleftrightarrow> (\<exists>dc. wanted (enc_Config sp) a = Some dc \<and> FWURL dc \<noteq> [])"
    and ddp: "ddp_of q a \<longleftrightarrow> (\<exists>dc. wanted (enc_Config sp) a = Some dc \<and> DDPURL dc \<noteq> [])"
    and key: "fw_of q a \<or> ddp_of q a \<longrightarrow> a \<in> Mapping.keys q" for a
    using look [of a] by (auto simp: fw_of_def ddp_of_def requested_def keys_is_none_rep split: option.splits)
  have set: "set (filter P (ro (Mapping.keys q))) = Collect P" if "\<And>a. P a \<Longrightarrow> fw_of q a \<or> ddp_of q a" for P
    using ro key that by auto
  have len: "length (filter (ddp_of q) (ro (Mapping.keys q))) = card (Collect (ddp_of q))"
    using distinct_card [of "filter (ddp_of q) (ro (Mapping.keys q))"] ro set [of "ddp_of q"] by simp
  from es ro set [of "fw_of q"] len show ?thesis
    unfolding fw ddp by (intro exI [of _ es]) (simp add: fw ddp)
qed

lemma nothing_wanted:
  assumes "\<not> requests_update nc" and "wanted (enc_Config (enc_Spec nc)) a = Some dc"
  shows "dc = empty_DeviceConfig"
  using assms by (auto simp: requests_update_def wanted_def dest!: map_of_SomeD)

text \<open>What a pass that ends without a request to be repeated has read.\<close>

lemma pass_read:
  assumes obj: "fd_object (daemon s) = Some nc" and run: "NodeConfig_Reconcile E K dh ro s = (Ok DoNotRequeue, s')"
  obtains s1 where "on_fd fd_Get s = (Ok nc, s1)" and "spec_is (enc_Spec nc) (daemon (hold nc s1))"
    and "fd_events (daemon (hold nc s1)) = fd_events (daemon s)"
proof -
  obtain r1 s1 where g: "on_fd fd_Get s = (r1, s1)" by fastforce
  note get = fd_Get_run [OF g]
  from run g get(3) have r1: "r1 = Ok nc"
    using obj get(2) by (cases r1) (auto simp: NodeConfig_Reconcile_def try_run gbind_Ok_iff split: if_splits)
  have "fd_object (daemon s1) = Some nc"
    using g obj r1 by (auto simp: on_fd_eq fd_Get_def fd_api_def Let_def split: option.splits)
  with g r1 get(1) that show thesis
    by (simp add: spec_is_def hold_def)
qed

lemma pass_updates_devices:
  assumes env: "env_ok E K dh" and order: "valid_order ro"
    and obj: "fd_object (daemon s) = Some nc" "\<not> awaits_reboot nc"
    and names: "\<And>c. c \<in> set (enc_Config (enc_Spec nc)) \<Longrightarrow> name_elem (dnc_PCIAddress c)"
    and run: "NodeConfig_Reconcile E K dh ro s = (Ok DoNotRequeue, s')"
  shows "\<exists>es. fd_events (daemon s') = fd_events (daemon s) @ es \<and> distinct (flashed es) \<and>
    set (flashed es) = {a. \<exists>dc. wanted (enc_Config (enc_Spec nc)) a = Some dc \<and> FWURL dc \<noteq> []} \<and>
    copies es = 2 * card {a. \<exists>dc. wanted (enc_Config (enc_Spec nc)) a = Some dc \<and> DDPURL dc \<noteq> []}"
proof -
  obtain s1 where g: "on_fd fd_Get s = (Ok nc, s1)" and sp: "spec_is (enc_Spec nc) (daemon (hold nc s1))"
    and ev: "fd_events (daemon (hold nc s1)) = fd_events (daemon s)"
    using pass_read [OF obj(1) run] by blast
  let ?h = "hold nc s1"
  note found = Reconcile_found [OF g, of E K dh ro]
  show ?thesis
  proof (cases "requests_update nc")
    case True
    then have upd: "performUpdate E K dh ro ?h = (Ok DoNotRequeue, s')"
      using found run obj(2) by simp
    from started_pass_updates [OF env order upd sp names] ev show ?thesis by simp
  next
    case False
    then have "gbind (on_fd (updateCondition E True UpdateNotRequested ''Inventory up to date'')) (\<lambda>_. ret DoNotRequeue) ?h = (Ok DoNotRequeue, s')"
      using found run obj(2) by simp
    then obtain c where c: "fd_events (daemon s') = fd_events (daemon s) @ c" "condition_set True UpdateNotRequested c"
      using on_condition [OF env, of True UpdateNotRequested "''Inventory up to date''" ?h] ev by (auto simp: gbind_Ok_iff)
    have none: "{a. \<exists>dc. wanted (enc_Config (enc_Spec nc)) a = Some dc \<and> FWURL dc \<noteq> []} = {}"
      "{a. \<exists>dc. wanted (enc_Config (enc_Spec nc)) a = Some dc \<and> DDPURL dc \<noteq> []} = {}"
      using nothing_wanted [OF False] by fastforce+
    show ?thesis
      unfolding none using c condition_no_update [OF c(2)] by (intro exI [of _ c]) simp
  qed
qed


text \<open>
  A node with one device, whose package holds the update tool; no device of the inventory is supported. The tool
  asks for a reboot (status 50) and leaves the file system as it was before the download.
\<close>

definition flash_os :: os_state where
  "flash_os =
     \<lparr>os_dir = [''/'' \<mapsto> DDir, ''/tmp'' \<mapsto> DDir], os_names = [''/'', ''/tmp''], os_data = (\<lambda>i. []), os_nlink = (\<lambda>_. 0),
      os_perm = (\<lambda>_. 420), os_dperm = (\<lambda>_. 493), os_next = 0, os_time = 0, os_fault = (\<lambda>_. None)\<rparr>"

definition flash_env :: daemon_env where
  "flash_env = download_env\<lparr>de_nvmupdate := (\<lambda>_ _ f. (Some (ExitError 50), flash_os)),
     de_archives := \<lparr>gzip_tar = (\<lambda>_. Ok [TarHeader (Some \<lparr>th_Name = ''nvmupdate64e'', Typeflag = TypeReg,
     th_Mode = 493, th_Data = ([0], None)\<rparr>)]), zip_NewReader = (\<lambda>_. Err ErrFormat), fp_Glob = (\<lambda>_ _. Ok [])\<rparr>\<rparr>"

definition flash_device :: Device where
  "flash_device = \<lparr>dev_VendorID = ''8086'', dev_DeviceID = ''1593'', dev_PCIAddress = ''0000:18:00.0'', dev_Name = ''E810'',
     dev_Driver = ''ice'', dev_DriverVersion = ''1'', dev_Firmware = \<lparr>fw_MAC = [], fw_Version = []\<rparr>,
     dev_DDP = \<lparr>ddp_PackageName = [], ddp_Version = [], ddp_TrackID = []\<rparr>\<rparr>"

definition flash_nc :: EthernetNodeConfig where
  "flash_nc =
     \<lparr>enc_Name = ''node1'', enc_Namespace = ''operators'', enc_Generation = 2,
      enc_Spec = \<lparr>enc_Config = [\<lparr>dnc_PCIAddress = ''0000:18:00.0'',
          dnc_DeviceConfig = empty_DeviceConfig\<lparr>FWURL := ''h/f''\<rparr>\<rparr>], DrainSkip = False\<rparr>,
      enc_Status = \<lparr>enc_Conditions = Map.empty, enc_Devices = [flash_device]\<rparr>\<rparr>"

definition flash_node :: "nat node_state" where
  "flash_node =
     \<lparr>dh_world = (0, \<lparr>fd_os = flash_os, fd_object = Some flash_nc, fd_time = 0, fd_fault = (\<lambda>_. None),
        fd_nc = flash_nc, nodeActionErr = None, rebootRequired = False, fd_events = []\<rparr>),
      innerErr = None, e_var = None, dh_calls = []\<rparr>"

lemma flash_run:
  "fst (NodeConfig_Reconcile flash_env sample_node_kube sample_helper sorted_order flash_node) = Ok DoNotRequeue"
  by code_simp

lemma flash_env_ok: "env_ok flash_env sample_node_kube sample_helper"
  using sample_env_ok [of None]
  by (simp add: env_ok_def retry_spec_def inventory_calm_def flash_env_def download_env_def sample_daemon_def)

lemma flash_name: "name_elem ''0000:18:00.0''"
  by code_simp

lemma flash_wanted:
  "{a. \<exists>dc. wanted (enc_Config (enc_Spec flash_nc)) a = Some dc \<and> FWURL dc \<noteq> []} = {''0000:18:00.0''}"
  "{a. \<exists>dc. wanted (enc_Config (enc_Spec flash_nc)) a = Some dc \<and> DDPURL dc \<noteq> []} = {}"
  by (auto simp: flash_nc_def wanted_Cons split: if_splits)


end
