(* ===== verification/Ethernet_Manager.thy ===== *)
theory Ethernet_Manager
  imports Ethernet_Types Os_Utils
begin

text \<open>
  \<^verbatim>\<open>pkg/fwddp-manager/ethernetclusterconfig_controller.go\<close>: the controller that distributes cluster
  configurations to the nodes.

  The state is the API server's table of node configurations; every request to the server can fail
  (\<open>mgr_fault\<close> fixes for the \<open>n\<close>-th request whether it does). An update of a missing object is refused, and
  a changed specification raises the generation, as the server does. Label selection and
  \<^verbatim>\<open>equality.Semantic.DeepDerivative\<close> belong to \<^verbatim>\<open>k8s.io/apimachinery\<close> and are parameters;
  \<open>labels_spec\<close> and \<open>derivative_spec\<close> state what that package documents. \<open>ro\<close> is the order in which the
  runtime visits a map.
\<close>

section \<open>Environment and state\<close>

record mgr_state =
  mgr_store :: "string \<rightharpoonup> EthernetNodeConfig"
  mgr_time :: nat
  mgr_fault :: "nat \<Rightarrow> goerr option"
  mgr_updates :: "EthernetNodeConfig list"

record k8s_node =
  node_Name :: string
  node_Labels :: "string \<rightharpoonup> string"

record manager_env =
  list_configs :: "EthernetClusterConfig list"
  list_nodes :: "k8s_node list"
  env_getenv :: "string \<Rightarrow> string"
  env_topology :: "string outcome"
  env_namespace :: string
  AsSelector_Matches :: "(string \<rightharpoonup> string) \<Rightarrow> (string \<rightharpoonup> string) \<Rightarrow> bool"
  DeepDerivative :: "EthernetNodeConfigSpec \<Rightarrow> EthernetNodeConfigSpec \<Rightarrow> bool"

definition api :: "(mgr_state, 'a) go \<Rightarrow> (mgr_state, 'a) go" where
  "api m s =
     (let s1 = s\<lparr>mgr_time := Suc (mgr_time s)\<rparr>
      in case mgr_fault s (mgr_time s) of Some e \<Rightarrow> (Err e, s1) | None \<Rightarrow> m s1)"

definition api_Get :: "string \<Rightarrow> (mgr_state, EthernetNodeConfig) go" where
  "api_Get name = api (\<lambda>s. case mgr_store s name of None \<Rightarrow> (Err NotFound, s) | Some nc \<Rightarrow> (Ok nc, s))"

text \<open>An update replaces the specification and leaves the status, which is a subresource.\<close>

definition api_Update :: "EthernetNodeConfig \<Rightarrow> (mgr_state, unit) go" where
  "api_Update nc = api (\<lambda>s.
     let s1 = s\<lparr>mgr_updates := mgr_updates s @ [nc]\<rparr> in
     case mgr_store s (enc_Name nc) of
       None \<Rightarrow> (Err NotFound, s1)
     | Some old \<Rightarrow>
         (Ok (), s1\<lparr>mgr_store := (mgr_store s)(enc_Name nc \<mapsto>
            old\<lparr>enc_Spec := enc_Spec nc,
                enc_Generation := enc_Generation old + (if enc_Spec nc = enc_Spec old then 0 else 1)\<rparr>)\<rparr>))"

section \<open>Choosing a configuration for every device\<close>

definition matchConfigsForNode :: "manager_env \<Rightarrow> k8s_node \<Rightarrow> EthernetClusterConfig list \<Rightarrow> EthernetClusterConfig list" where
  "matchConfigsForNode E node allConfigs =
     filter (\<lambda>config. AsSelector_Matches E (NodeSelector (ecc_Spec config)) (node_Labels node)) allConfigs"

text \<open>The body of the two loops of \<^verbatim>\<open>prepareDeviceConfigContext\<close>.\<close>

definition consider_config ::
    "EthernetClusterConfig \<Rightarrow> Device \<Rightarrow> (string \<rightharpoonup> EthernetClusterConfig) \<Rightarrow> (string \<rightharpoonup> EthernetClusterConfig)" where
  "consider_config current device ctx =
     (if DeviceSelector_Matches (ecc_DeviceSelector (ecc_Spec current)) device then
        (case ctx (dev_PCIAddress device) of
           None \<Rightarrow> ctx(dev_PCIAddress device \<mapsto> current)
         | Some previous \<Rightarrow>
             (if Priority (ecc_Spec current) > Priority (ecc_Spec previous) then ctx(dev_PCIAddress device \<mapsto> current)
              else if Priority (ecc_Spec current) = Priority (ecc_Spec previous) then
                (if CreationTimestamp current > CreationTimestamp previous then ctx(dev_PCIAddress device \<mapsto> current) else ctx)
              else ctx))
      else ctx)"

definition prepareDeviceConfigContext ::
    "EthernetNodeConfig \<Rightarrow> EthernetClusterConfig list \<Rightarrow> (string \<rightharpoonup> EthernetClusterConfig)" where
  "prepareDeviceConfigContext nodeConfig configs =
     fold (\<lambda>current. fold (consider_config current) (enc_Devices (enc_Status nodeConfig))) configs Map.empty"

definition getOrInitializeEthernetNodeConfig :: "manager_env \<Rightarrow> string \<Rightarrow> (mgr_state, EthernetNodeConfig) go" where
  "getOrInitializeEthernetNodeConfig E name =
     gbind (attempt (api_Get name)) (\<lambda>r.
     case r of
       Ok nc \<Rightarrow> ret nc
     | Err e \<Rightarrow>
         (if e \<noteq> NotFound then lift (Err e)
          else ret \<lparr>enc_Name = name, enc_Namespace = env_namespace E, enc_Generation = 0,
                    enc_Spec = \<lparr>enc_Config = [], DrainSkip = False\<rparr>,
                    enc_Status = \<lparr>enc_Conditions = Map.empty, enc_Devices = []\<rparr>\<rparr>)
     | Panic p \<Rightarrow> lift (Panic p))"

definition match ::
    "manager_env \<Rightarrow> k8s_node \<Rightarrow> EthernetClusterConfig list \<Rightarrow>
     (mgr_state, EthernetNodeConfig \<times> (string \<rightharpoonup> EthernetClusterConfig)) go" where
  "match E node allConfigs =
     (let nodePolicies = matchConfigsForNode E node allConfigs in
      gbind (getOrInitializeEthernetNodeConfig E (node_Name node)) (\<lambda>nodeConfig.
      ret (nodeConfig, prepareDeviceConfigContext nodeConfig nodePolicies)))"

section \<open>Writing the node configuration\<close>

text \<open>The loop over the chosen configurations; \<^verbatim>\<open>DrainSkip\<close> is set only inside it.\<close>

definition newSpec :: "(string set \<Rightarrow> string list) \<Rightarrow> (string \<rightharpoonup> EthernetClusterConfig) \<Rightarrow> bool \<Rightarrow> EthernetNodeConfigSpec" where
  "newSpec ro ctx drainSkip =
     fold (\<lambda>pciAddress spec.
        case ctx pciAddress of
          None \<Rightarrow> spec
        | Some cc \<Rightarrow>
            spec\<lparr>enc_Config := enc_Config spec @ [\<lparr>dnc_PCIAddress = pciAddress, dnc_DeviceConfig = ecc_DeviceConfig (ecc_Spec cc)\<rparr>],
                 DrainSkip := DrainSkip spec \<or> drainSkip\<rparr>)
       (ro (dom ctx)) \<lparr>enc_Config = [], DrainSkip = False\<rparr>"

definition synchronizeNodeConfigSpec ::
    "manager_env \<Rightarrow> (string set \<Rightarrow> string list) \<Rightarrow> EthernetNodeConfig \<times> (string \<rightharpoonup> EthernetClusterConfig) \<Rightarrow> bool \<Rightarrow> (mgr_state, unit) go" where
  "synchronizeNodeConfigSpec E ro ncc drainSkip =
     (case ncc of (currentNodeConfig, deviceConfigContext) \<Rightarrow>
        let newNodeConfig = currentNodeConfig\<lparr>enc_Spec := newSpec ro deviceConfigContext drainSkip\<rparr> in
        if \<not> DeepDerivative E (enc_Spec newNodeConfig) (enc_Spec currentNodeConfig)
        then api_Update newNodeConfig else ret ())"

section \<open>Reconcile\<close>

text \<open>The body of the loop over the nodes: errors are logged and the loop continues.\<close>

definition reconcile_node :: "manager_env \<Rightarrow> (string set \<Rightarrow> string list) \<Rightarrow> EthernetClusterConfig list \<Rightarrow> bool \<Rightarrow> k8s_node \<Rightarrow> (mgr_state, unit) go" where
  "reconcile_node E ro configs drainSkip node =
     gbind (attempt (match E node configs)) (\<lambda>r.
     case r of
       Ok ctx \<Rightarrow> gbind (attempt (synchronizeNodeConfigSpec E ro ctx drainSkip)) (\<lambda>_. ret ())
     | _ \<Rightarrow> ret ())"

definition EthernetClusterConfig_Reconcile :: "manager_env \<Rightarrow> (string set \<Rightarrow> string list) \<Rightarrow> (mgr_state, unit) go" where
  "EthernetClusterConfig_Reconcile E ro =
     gbind (api (ret (list_configs E))) (\<lambda>configs.
     gbind (api (ret (list_nodes E))) (\<lambda>nodes.
     gbind (lift (GetDrainSkip (env_getenv E) nodes (env_topology E))) (\<lambda>drainSkip.
     gfor (reconcile_node E ro configs drainSkip) nodes)))"

end
