(* ===== verification/Ethernet_Manager_Props.thy ===== *)
theory Ethernet_Manager_Props
  imports Ethernet_Manager Go_Order
begin

text \<open>
  What the cluster controller of device configurations guarantees: which configuration a device gets,
  and what a reconciliation leaves in the table of node configurations; and two consequences of
  comparing specifications with \<^verbatim>\<open>DeepDerivative\<close>.
\<close>

section \<open>Hypotheses on the environment\<close>

definition labels_spec :: "manager_env \<Rightarrow> bool" where
  "labels_spec E \<longleftrightarrow> (\<forall>sel labels. AsSelector_Matches E sel labels \<longleftrightarrow> sel \<subseteq>\<^sub>m labels)"

text \<open>
  \<^verbatim>\<open>DeepDerivative(a, b)\<close>: an empty string or an empty list of \<open>a\<close> is not compared, a list of \<open>a\<close> is
  compared with the beginning of the list of \<open>b\<close>, everything else has to be equal.
\<close>

definition derives_string :: "string \<Rightarrow> string \<Rightarrow> bool" where
  "derives_string a b \<longleftrightarrow> a = [] \<or> a = b"

definition derives_device :: "DeviceNodeConfig \<Rightarrow> DeviceNodeConfig \<Rightarrow> bool" where
  "derives_device a b \<longleftrightarrow>
     derives_string (dnc_PCIAddress a) (dnc_PCIAddress b) \<and>
     (\<forall>f \<in> {DDPURL, DDPChecksum, FWURL, FWChecksum, FWUpdateParam}.
        derives_string (f (dnc_DeviceConfig a)) (f (dnc_DeviceConfig b)))"

definition derives :: "EthernetNodeConfigSpec \<Rightarrow> EthernetNodeConfigSpec \<Rightarrow> bool" where
  "derives a b \<longleftrightarrow>
     (enc_Config a = [] \<or>
      length (enc_Config a) \<le> length (enc_Config b) \<and>
      list_all2 derives_device (enc_Config a) (take (length (enc_Config a)) (enc_Config b))) \<and>
     DrainSkip a = DrainSkip b"

definition derivative_spec :: "manager_env \<Rightarrow> bool" where
  "derivative_spec E \<longleftrightarrow> (\<forall>a b. DeepDerivative E a b \<longleftrightarrow> derives a b)"

lemma derives_refl: "derives a a"
  by (auto simp: derives_def derives_device_def derives_string_def list_all2_conv_all_nth)

section \<open>Choosing a configuration\<close>

definition outranks :: "EthernetClusterConfig \<Rightarrow> EthernetClusterConfig \<Rightarrow> bool" where
  "outranks c d \<longleftrightarrow>
     Priority (ecc_Spec d) < Priority (ecc_Spec c) \<or>
     Priority (ecc_Spec d) = Priority (ecc_Spec c) \<and> CreationTimestamp d < CreationTimestamp c"

definition selects :: "EthernetClusterConfig \<Rightarrow> Device list \<Rightarrow> string \<Rightarrow> bool" where
  "selects c devices a \<longleftrightarrow>
     (\<exists>d \<in> set devices. dev_PCIAddress d = a \<and> DeviceSelector_Matches (ecc_DeviceSelector (ecc_Spec c)) d)"

primrec better :: "EthernetClusterConfig \<Rightarrow> EthernetClusterConfig option \<Rightarrow> EthernetClusterConfig option" where
  "better c None = Some c"
| "better c (Some p) = Some (if outranks c p then c else p)"

lemma better_idem: "better c (better c x) = better c x"
  by (cases x) (auto simp: outranks_def)

lemma consider_config_eq:
  "consider_config c d ctx a =
     (if dev_PCIAddress d = a \<and> DeviceSelector_Matches (ecc_DeviceSelector (ecc_Spec c)) d then better c (ctx a) else ctx a)"
  by (auto simp: consider_config_def outranks_def split: option.splits)

lemma consider_devices:
  "fold (consider_config c) ds ctx a = (if selects c ds a then better c (ctx a) else ctx a)"
  by (induction ds arbitrary: ctx) (auto simp: selects_def consider_config_eq better_idem)

lemma prepareDeviceConfigContext_fold:
  "fold (\<lambda>c. fold (consider_config c) ds) configs ctx a = fold better (filter (\<lambda>c. selects c ds a) configs) (ctx a)"
  by (induction configs arbitrary: ctx) (auto simp: consider_devices)

lemma outranks_trans: "outranks a b \<Longrightarrow> outranks b c \<Longrightarrow> outranks a c"
  by (auto simp: outranks_def)

lemma fold_better:
  "\<exists>c us vs. fold better xs (Some p) = Some c \<and> p # xs = us @ c # vs \<and>
     (\<forall>u \<in> set us. outranks c u) \<and> (\<forall>v \<in> set vs. \<not> outranks v c)"
proof (induction xs arbitrary: p rule: rev_induct)
  case Nil
  then show ?case by (intro exI [of _ p] exI [of _ "[]"]) simp
next
  case (snoc x xs)
  from snoc [of p] obtain c us vs where c: "fold better xs (Some p) = Some c" "p # xs = us @ c # vs"
      "\<forall>u \<in> set us. outranks c u" "\<forall>v \<in> set vs. \<not> outranks v c"
    by blast
  show ?case
  proof (cases "outranks x c")
    case True
    then have "outranks x v" if "v \<in> set vs" for v
      using c(4) that by (auto simp: outranks_def)
    moreover have "outranks x u" if "u \<in> set us" for u
      using c(3) that True outranks_trans by blast
    ultimately show ?thesis
      using c(1,2) True by (intro exI [of _ x] exI [of _ "us @ c # vs"] exI [of _ "[]"]) auto
  next
    case False
    with c show ?thesis by (intro exI [of _ c] exI [of _ us] exI [of _ "vs @ [x]"]) auto
  qed
qed

text \<open>
  \<^bold>\<open>C33.\<close> Every device gets the right configuration: among the configurations that select a device with the
  address, in the order of the list, the one with the highest priority and, among those, the newest is chosen,
  and of several equal ones the first; an address that no configuration selects gets none.
\<close>

theorem prepareDeviceConfigContext_best:
  "(case prepareDeviceConfigContext nc configs a of
      None \<Rightarrow> filter (\<lambda>c. selects c (enc_Devices (enc_Status nc)) a) configs = []
    | Some c \<Rightarrow> \<exists>us vs. filter (\<lambda>c. selects c (enc_Devices (enc_Status nc)) a) configs = us @ c # vs \<and>
        (\<forall>u. u \<in> set us \<longrightarrow> outranks c u) \<and> (\<forall>v. v \<in> set vs \<longrightarrow> \<not> outranks v c))"
proof (cases "filter (\<lambda>c. selects c (enc_Devices (enc_Status nc)) a) configs")
  case Nil
  then show ?thesis
    using prepareDeviceConfigContext_fold [of "enc_Devices (enc_Status nc)" configs Map.empty a]
    by (simp add: prepareDeviceConfigContext_def)
next
  case (Cons p xs)
  obtain c us vs where c: "fold better xs (Some p) = Some c" "p # xs = us @ c # vs"
      "\<forall>u \<in> set us. outranks c u" "\<forall>v \<in> set vs. \<not> outranks v c"
    using fold_better [of xs p] by blast
  have "prepareDeviceConfigContext nc configs a = Some c"
    using prepareDeviceConfigContext_fold [of "enc_Devices (enc_Status nc)" configs Map.empty a] Cons c(1)
    by (simp add: prepareDeviceConfigContext_def)
  moreover have "filter (\<lambda>c. selects c (enc_Devices (enc_Status nc)) a) configs = us @ c # vs"
    using Cons c(2) by simp
  ultimately show ?thesis using c(3,4) by auto
qed

definition sample_selector :: DeviceSelector where
  "sample_selector = \<lparr>sel_VendorID = [], sel_DeviceID = [], sel_PCIAddress = []\<rparr>"

definition sample_config :: "string \<Rightarrow> string \<Rightarrow> int \<Rightarrow> int \<Rightarrow> EthernetClusterConfig" where
  "sample_config name url prio time = \<lparr>ecc_Name = name, CreationTimestamp = time,
     ecc_Spec = \<lparr>NodeSelector = Map.empty, ecc_DeviceSelector = sample_selector,
       ecc_DeviceConfig = empty_DeviceConfig\<lparr>DDPURL := url\<rparr>, Priority = prio\<rparr>\<rparr>"

definition sample_device :: "string \<Rightarrow> Device" where
  "sample_device a = \<lparr>dev_VendorID = ''8086'', dev_DeviceID = ''1593'', dev_PCIAddress = a, dev_Name = ''E810'',
     dev_Driver = ''ice'', dev_DriverVersion = ''1'', dev_Firmware = \<lparr>fw_MAC = [], fw_Version = []\<rparr>,
     dev_DDP = \<lparr>ddp_PackageName = [], ddp_Version = [], ddp_TrackID = []\<rparr>\<rparr>"

definition sample_enc :: "DeviceNodeConfig list \<Rightarrow> string list \<Rightarrow> EthernetNodeConfig" where
  "sample_enc cfg addrs = \<lparr>enc_Name = ''node1'', enc_Namespace = ''ns'', enc_Generation = 1,
     enc_Spec = \<lparr>enc_Config = cfg, DrainSkip = False\<rparr>,
     enc_Status = \<lparr>enc_Conditions = Map.empty, enc_Devices = map sample_device addrs\<rparr>\<rparr>"

theorem prepareDeviceConfigContext_best_witness:
  "prepareDeviceConfigContext (sample_enc [] [''0000:18:00.0''])
       [sample_config ''a'' ''x'' 1 5, sample_config ''b'' ''y'' 2 3, sample_config ''c'' ''z'' 2 4] ''0000:18:00.0'' =
     Some (sample_config ''c'' ''z'' 2 4) \<and>
   (\<exists>us vs. filter (\<lambda>c. selects c (enc_Devices (enc_Status (sample_enc [] [''0000:18:00.0'']))) ''0000:18:00.0'')
       [sample_config ''a'' ''x'' 1 5, sample_config ''b'' ''y'' 2 3, sample_config ''c'' ''z'' 2 4] =
       us @ sample_config ''c'' ''z'' 2 4 # vs \<and>
     (\<forall>u. u \<in> set us \<longrightarrow> outranks (sample_config ''c'' ''z'' 2 4) u) \<and>
     (\<forall>v. v \<in> set vs \<longrightarrow> \<not> outranks v (sample_config ''c'' ''z'' 2 4)))"
proof -
  let ?cs = "[sample_config ''a'' ''x'' 1 5, sample_config ''b'' ''y'' 2 3, sample_config ''c'' ''z'' 2 4]"
  have "prepareDeviceConfigContext (sample_enc [] [''0000:18:00.0'']) ?cs ''0000:18:00.0'' =
      Some (sample_config ''c'' ''z'' 2 4)"
    by (simp add: prepareDeviceConfigContext_def sample_enc_def consider_config_def DeviceSelector_Matches_def
        sample_config_def sample_selector_def sample_device_def)
  with prepareDeviceConfigContext_best [where nc = "sample_enc [] [''0000:18:00.0'']" and configs = ?cs and a = "''0000:18:00.0''"] show ?thesis
    by simp
qed

section \<open>The new specification\<close>

lemma newSpec_eq:
  assumes "valid_order ro" and "finite (dom ctx)"
  shows "newSpec ro ctx skip =
     \<lparr>enc_Config = map (\<lambda>k. \<lparr>dnc_PCIAddress = k, dnc_DeviceConfig = ecc_DeviceConfig (ecc_Spec (the (ctx k)))\<rparr>) (ro (dom ctx)),
      DrainSkip = (skip \<and> ctx \<noteq> Map.empty)\<rparr>"
proof -
  have loop: "fold (\<lambda>k spec. case ctx k of None \<Rightarrow> spec | Some cc \<Rightarrow>
        spec\<lparr>enc_Config := enc_Config spec @ [\<lparr>dnc_PCIAddress = k, dnc_DeviceConfig = ecc_DeviceConfig (ecc_Spec cc)\<rparr>],
             DrainSkip := DrainSkip spec \<or> skip\<rparr>) ks spec =
      \<lparr>enc_Config = enc_Config spec @ map (\<lambda>k. \<lparr>dnc_PCIAddress = k, dnc_DeviceConfig = ecc_DeviceConfig (ecc_Spec (the (ctx k)))\<rparr>) ks,
       DrainSkip = (DrainSkip spec \<or> skip \<and> ks \<noteq> [])\<rparr>"
    if "set ks \<subseteq> dom ctx" for ks spec
    using that
  proof (induction ks arbitrary: spec)
    case (Cons k ks)
    from Cons.prems obtain cc where "ctx k = Some cc" by auto
    with Cons show ?case by auto
  qed simp
  have "set (ro (dom ctx)) = dom ctx"
    using valid_orderD [OF assms] by blast
  moreover from this have "ro (dom ctx) \<noteq> [] \<longleftrightarrow> ctx \<noteq> Map.empty"
    by (metis dom_eq_empty_conv set_empty)
  ultimately show ?thesis
    using loop [of "ro (dom ctx)"] by (simp add: newSpec_def)
qed

lemma finite_context: "finite (dom (prepareDeviceConfigContext nc configs))"
proof -
  have "dom (prepareDeviceConfigContext nc configs) \<subseteq> dev_PCIAddress ` set (enc_Devices (enc_Status nc))"
  proof
    fix a
    assume "a \<in> dom (prepareDeviceConfigContext nc configs)"
    then have "filter (\<lambda>c. selects c (enc_Devices (enc_Status nc)) a) configs \<noteq> []"
      using prepareDeviceConfigContext_fold [of "enc_Devices (enc_Status nc)" configs Map.empty a]
      by (auto simp: prepareDeviceConfigContext_def)
    then show "a \<in> dev_PCIAddress ` set (enc_Devices (enc_Status nc))"
      by (auto simp: filter_empty_conv selects_def)
  qed
  then show ?thesis by (rule finite_subset) simp
qed

section \<open>What a reconciliation leaves behind\<close>

definition store_ok :: "mgr_state \<Rightarrow> bool" where
  "store_ok s \<longleftrightarrow> (\<forall>n nc. mgr_store s n = Some nc \<longrightarrow> enc_Name nc = n)"

definition faultless :: "mgr_state \<Rightarrow> bool" where
  "faultless s \<longleftrightarrow> (\<forall>n. mgr_fault s n = None)"

text \<open>The configuration of a node after a reconciliation.\<close>

definition synced :: "manager_env \<Rightarrow> (string set \<Rightarrow> string list) \<Rightarrow> bool \<Rightarrow> k8s_node \<Rightarrow> EthernetNodeConfig \<Rightarrow> EthernetNodeConfig" where
  "synced E ro skip node nc =
     (let new = newSpec ro (prepareDeviceConfigContext nc (matchConfigsForNode E node (list_configs E))) skip in
      if derives new (enc_Spec nc) then nc
      else nc\<lparr>enc_Spec := new, enc_Generation := enc_Generation nc + 1\<rparr>)"

lemma api_run: "faultless s \<Longrightarrow> api m s = m (s\<lparr>mgr_time := Suc (mgr_time s)\<rparr>)"
  by (simp add: api_def faultless_def)

lemma faultless_time [simp]: "faultless (s\<lparr>mgr_time := t\<rparr>) = faultless s"
  by (simp add: faultless_def)

lemma synchronize_empty:
  assumes "valid_order ro" and "derivative_spec E" and "enc_Spec nc = \<lparr>enc_Config = c, DrainSkip = False\<rparr>"
  shows "synchronizeNodeConfigSpec E ro (nc, Map.empty) skip s = (Ok (), s)"
  using assms by (simp add: synchronizeNodeConfigSpec_def newSpec_eq derivative_spec_def derives_def ret_def)

lemma reconcile_node_run:
  assumes "valid_order ro" and "derivative_spec E" and "faultless s" and "store_ok s"
  shows "\<exists>s'. reconcile_node E ro (list_configs E) skip node s = (Ok (), s') \<and>
     mgr_store s' = (mgr_store s)(node_Name node := map_option (synced E ro skip node) (mgr_store s (node_Name node))) \<and>
     faultless s' \<and> store_ok s'"
proof (cases "mgr_store s (node_Name node)")
  case None
  have ctx: "prepareDeviceConfigContext \<lparr>enc_Name = node_Name node, enc_Namespace = env_namespace E, enc_Generation = 0,
      enc_Spec = \<lparr>enc_Config = [], DrainSkip = False\<rparr>, enc_Status = \<lparr>enc_Conditions = Map.empty, enc_Devices = []\<rparr>\<rparr> cs =
      Map.empty" for cs
    by (simp add: prepareDeviceConfigContext_def fold_invariant [where Q = "\<lambda>_. True" and P = "\<lambda>c. c = Map.empty"])
  have "reconcile_node E ro (list_configs E) skip node s = (Ok (), s\<lparr>mgr_time := Suc (mgr_time s)\<rparr>)"
    using None assms(1-3)
    by (simp add: reconcile_node_def match_def getOrInitializeEthernetNodeConfig_def api_Get_def api_run gbind_def attempt_def
        ret_def ctx synchronize_empty)
  with None assms(3,4) show ?thesis
    by (auto simp: store_ok_def fun_upd_idem)
next
  case (Some nc)
  let ?ctx = "prepareDeviceConfigContext nc (matchConfigsForNode E node (list_configs E))"
  have name: "enc_Name nc = node_Name node"
    using Some assms(4) by (simp add: store_ok_def)
  have m: "match E node (list_configs E) s = (Ok (nc, ?ctx), s\<lparr>mgr_time := Suc (mgr_time s)\<rparr>)"
    using Some assms(3)
    by (simp add: match_def getOrInitializeEthernetNodeConfig_def api_Get_def api_run gbind_def attempt_def ret_def)
  show ?thesis
  proof (cases "derives (newSpec ro ?ctx skip) (enc_Spec nc)")
    case True
    with m assms(2) have "reconcile_node E ro (list_configs E) skip node s = (Ok (), s\<lparr>mgr_time := Suc (mgr_time s)\<rparr>)"
      by (simp add: reconcile_node_def synchronizeNodeConfigSpec_def derivative_spec_def gbind_def attempt_def ret_def)
    moreover have "synced E ro skip node nc = nc" using True by (simp add: synced_def)
    ultimately show ?thesis
      using Some assms(3,4) by (auto simp: store_ok_def fun_upd_idem)
  next
    case False
    then have new: "newSpec ro ?ctx skip \<noteq> enc_Spec nc" using derives_refl by metis
    have sy: "synced E ro skip node nc = nc\<lparr>enc_Spec := newSpec ro ?ctx skip, enc_Generation := enc_Generation nc + 1\<rparr>"
      using False by (simp add: synced_def)
    from False m name Some assms(2,3) new show ?thesis
      unfolding sy
      by (auto simp: reconcile_node_def synchronizeNodeConfigSpec_def derivative_spec_def gbind_def attempt_def ret_def
          api_Update_def api_run Let_def sy store_ok_def faultless_def assms(4) [unfolded store_ok_def])
  qed
qed

lemma reconciliation_distributes:
  assumes "valid_order ro" and "derivative_spec E" and "faultless s" and "store_ok s"
    and "distinct (map node_Name (list_nodes E))"
    and "GetDrainSkip (env_getenv E) (list_nodes E) (env_topology E) = Ok skip"
  shows "\<exists>s'. EthernetClusterConfig_Reconcile E ro s = (Ok (), s') \<and>
     (\<forall>node \<in> set (list_nodes E). mgr_store s' (node_Name node) = map_option (synced E ro skip node) (mgr_store s (node_Name node))) \<and>
     (\<forall>n. n \<notin> node_Name ` set (list_nodes E) \<longrightarrow> mgr_store s' n = mgr_store s n)"
proof -
  have loop: "\<exists>s'. gfor (reconcile_node E ro (list_configs E) skip) nodes s = (Ok (), s') \<and>
      (\<forall>node \<in> set nodes. mgr_store s' (node_Name node) = map_option (synced E ro skip node) (mgr_store s (node_Name node))) \<and>
      (\<forall>n. n \<notin> node_Name ` set nodes \<longrightarrow> mgr_store s' n = mgr_store s n)"
    if "distinct (map node_Name nodes)" "faultless s" "store_ok s" for nodes s
    using that
  proof (induction nodes arbitrary: s)
    case (Cons node nodes)
    obtain s1 where s1: "reconcile_node E ro (list_configs E) skip node s = (Ok (), s1)"
        "mgr_store s1 = (mgr_store s)(node_Name node := map_option (synced E ro skip node) (mgr_store s (node_Name node)))"
        "faultless s1" "store_ok s1"
      using reconcile_node_run [OF assms(1,2) Cons.prems(2,3)] by blast
    with Cons.IH [OF _ s1(3,4)] Cons.prems(1) obtain s' where
      s': "gfor (reconcile_node E ro (list_configs E) skip) nodes s1 = (Ok (), s')"
        "\<forall>node \<in> set nodes. mgr_store s' (node_Name node) = map_option (synced E ro skip node) (mgr_store s1 (node_Name node))"
        "\<forall>n. n \<notin> node_Name ` set nodes \<longrightarrow> mgr_store s' n = mgr_store s1 n"
      by auto
    have "gfor (reconcile_node E ro (list_configs E) skip) (node # nodes) s = (Ok (), s')"
      using s1(1) s'(1) by (simp add: gbind_def)
    moreover have "node_Name x \<noteq> node_Name node" if "x \<in> set nodes" for x
      using Cons.prems(1) that by (auto simp: image_iff)
    ultimately show ?case
      using s'(2,3) s1(2) Cons.prems(1) by auto
  qed (simp add: ret_def)
  have "EthernetClusterConfig_Reconcile E ro s =
      gfor (reconcile_node E ro (list_configs E) skip) (list_nodes E) (s\<lparr>mgr_time := Suc (Suc (mgr_time s))\<rparr>)"
    using assms(3,6) by (simp add: EthernetClusterConfig_Reconcile_def api_run gbind_def ret_def lift_def)
  with loop [of "list_nodes E" "s\<lparr>mgr_time := Suc (Suc (mgr_time s))\<rparr>"] assms(3-5) show ?thesis
    by (simp add: store_ok_def)
qed


definition sample_manager :: "EthernetClusterConfig list \<Rightarrow> manager_env" where
  "sample_manager cs = \<lparr>list_configs = cs, list_nodes = [\<lparr>node_Name = ''node1'', node_Labels = Map.empty\<rparr>],
     env_getenv = (\<lambda>_. []), env_topology = Ok ''HighlyAvailable'', env_namespace = ''ns'',
     AsSelector_Matches = (\<lambda>sel labels. sel \<subseteq>\<^sub>m labels), DeepDerivative = derives\<rparr>"

definition sample_mgr_state :: "EthernetNodeConfig \<Rightarrow> mgr_state" where
  "sample_mgr_state nc = \<lparr>mgr_store = [''node1'' \<mapsto> nc], mgr_time = 0, mgr_fault = (\<lambda>_. None), mgr_updates = []\<rparr>"

definition sample_dnc :: "string \<Rightarrow> string \<Rightarrow> DeviceNodeConfig" where
  "sample_dnc a url = \<lparr>dnc_PCIAddress = a, dnc_DeviceConfig = empty_DeviceConfig\<lparr>DDPURL := url\<rparr>\<rparr>"

lemma sample_context:
  "prepareDeviceConfigContext (sample_enc cfg [a]) (matchConfigsForNode (sample_manager cs) node [sample_config n url p t]) =
     [a \<mapsto> sample_config n url p t]"
  by (simp add: matchConfigsForNode_def sample_manager_def prepareDeviceConfigContext_def sample_enc_def consider_config_def
      DeviceSelector_Matches_def sample_config_def sample_selector_def sample_device_def)


section \<open>Two consequences of comparing with DeepDerivative\<close>



text \<open>
  The order in which the runtime visits the map of devices leaks into the specification: with two
  orders that differ on the devices of a node, a reconciliation that changes nothing else rewrites the
  specification and raises the generation, which makes the daemon of the node repeat the update.
\<close>

theorem map_order_changes_spec:
  assumes ctx: "ctx = prepareDeviceConfigContext nc (matchConfigsForNode E node (list_configs E))"
    and "valid_order ro" and "valid_order ro'" and "ro (dom ctx) \<noteq> ro' (dom ctx)"
    and "[] \<notin> dom ctx" and "enc_Spec nc = newSpec ro ctx skip"
  shows "enc_Spec (synced E ro' skip node nc) \<noteq> enc_Spec nc \<and>
     enc_Generation (synced E ro' skip node nc) = enc_Generation nc + 1"
proof -
  have fin: "finite (dom ctx)" unfolding ctx by (rule finite_context)
  let ?c = "\<lambda>k. \<lparr>dnc_PCIAddress = k, dnc_DeviceConfig = ecc_DeviceConfig (ecc_Spec (the (ctx k)))\<rparr>"
  have o: "distinct (ro (dom ctx))" "set (ro (dom ctx)) = dom ctx" "distinct (ro' (dom ctx))" "set (ro' (dom ctx)) = dom ctx"
    using valid_orderD [OF assms(2) fin] valid_orderD [OF assms(3) fin] by auto
  have len: "length (ro' (dom ctx)) = length (ro (dom ctx))"
    using o by (metis distinct_card)
  have "\<not> list_all2 derives_device (map ?c (ro' (dom ctx))) (map ?c (ro (dom ctx)))"
  proof
    assume "list_all2 derives_device (map ?c (ro' (dom ctx))) (map ?c (ro (dom ctx)))"
    then have "derives_device (?c (ro' (dom ctx) ! i)) (?c (ro (dom ctx) ! i))" if "i < length (ro (dom ctx))" for i
      using that len by (auto simp: list_all2_conv_all_nth)
    moreover have "ro' (dom ctx) ! i \<noteq> []" if "i < length (ro (dom ctx))" for i
      using that len o(4) assms(5) by (metis nth_mem)
    ultimately have "ro' (dom ctx) ! i = ro (dom ctx) ! i" if "i < length (ro (dom ctx))" for i
      using that by (auto simp: derives_device_def derives_string_def)
    with len assms(4) show False by (metis nth_equalityI)
  qed
  moreover have "ro' (dom ctx) \<noteq> []" using len assms(4) by auto
  ultimately have "\<not> derives (newSpec ro' ctx skip) (enc_Spec nc)"
    using len by (simp add: assms(6) newSpec_eq [OF assms(2) fin] newSpec_eq [OF assms(3) fin] derives_def)
  moreover from this have "newSpec ro' ctx skip \<noteq> enc_Spec nc" using derives_refl by metis
  ultimately show ?thesis
    by (simp add: synced_def flip: ctx)
qed

definition two_devices :: "DeviceNodeConfig list \<Rightarrow> EthernetNodeConfig" where
  "two_devices cfg = sample_enc cfg [''0000:18:00.0'', ''0000:19:00.0'']"

definition both_chosen :: "string \<rightharpoonup> EthernetClusterConfig" where
  "both_chosen = [''0000:18:00.0'' \<mapsto> sample_config ''a'' ''x'' 1 5, ''0000:19:00.0'' \<mapsto> sample_config ''a'' ''x'' 1 5]"

lemma both_chosen_context:
  "prepareDeviceConfigContext (two_devices cfg) (matchConfigsForNode (sample_manager cs) node [sample_config ''a'' ''x'' 1 5]) = both_chosen"
  by (simp add: matchConfigsForNode_def sample_manager_def prepareDeviceConfigContext_def two_devices_def sample_enc_def consider_config_def
      DeviceSelector_Matches_def sample_config_def sample_selector_def sample_device_def both_chosen_def fun_upd_twist)

lemma reversed_valid: "valid_order (\<lambda>S. rev (sorted_order S))"
  by (simp add: valid_order_def sorted_order_def)

theorem map_order_changes_spec_witness:
  "enc_Generation (synced (sample_manager [sample_config ''a'' ''x'' 1 5]) (\<lambda>S. rev (sorted_order S)) False
      \<lparr>node_Name = ''node1'', node_Labels = Map.empty\<rparr> (two_devices (enc_Config (newSpec sorted_order both_chosen False)))) = 2"
proof -
  let ?E = "sample_manager [sample_config ''a'' ''x'' 1 5]" and ?nc = "two_devices (enc_Config (newSpec sorted_order both_chosen False))"
  have ctx: "both_chosen = prepareDeviceConfigContext ?nc
      (matchConfigsForNode ?E \<lparr>node_Name = ''node1'', node_Labels = Map.empty\<rparr> (list_configs ?E))"
    using both_chosen_context by (simp add: sample_manager_def)
  have d: "dom both_chosen = {''0000:18:00.0'', ''0000:19:00.0''}"
    by (auto simp: both_chosen_def)
  have "sorted_order {''0000:18:00.0'', ''0000:19:00.0''} = [''0000:18:00.0'', ''0000:19:00.0'']"
    by code_simp
  then have "sorted_order (dom both_chosen) \<noteq> rev (sorted_order (dom both_chosen))"
    unfolding d by simp
  moreover have "enc_Spec ?nc = newSpec sorted_order both_chosen False"
    using newSpec_eq [OF sorted_order_valid, of both_chosen False] d by (simp add: two_devices_def sample_enc_def)
  ultimately show ?thesis
    using map_order_changes_spec [OF ctx sorted_order_valid reversed_valid, of False] d
    by (simp add: two_devices_def sample_enc_def)
qed

end
