(* ===== verification/Firmware_Path_Props.thy ===== *)
theory Firmware_Path_Props
  imports Fwddp_Update_Props Ethernet_Manager_Props
begin

text \<open>
  The firmware half from end to end: from the cluster's configurations, through the manager and the object in the API
  server, to what the daemon of a node does with the node's devices.
\<close>

lemma wanted_newSpec:
  assumes "valid_order ro" and "finite (dom ctx)"
  shows "wanted (enc_Config (newSpec ro ctx skip)) a = map_option (ecc_DeviceConfig \<circ> ecc_Spec) (ctx a)"
proof -
  let ?e = "\<lambda>k. (k, ecc_DeviceConfig (ecc_Spec (the (ctx k))))"
  have ro: "distinct (ro (dom ctx))" "set (ro (dom ctx)) = dom ctx"
    using valid_orderD [OF assms] by simp_all
  have "wanted (enc_Config (newSpec ro ctx skip)) a = map_of (map ?e (rev (ro (dom ctx)))) a"
    by (simp add: newSpec_eq [OF assms] wanted_def rev_map comp_def)
  also have "\<dots> = (if a \<in> dom ctx then Some (ecc_DeviceConfig (ecc_Spec (the (ctx a)))) else None)"
    using ro(2) by (simp add: map_of_map_restrict restrict_map_def)
  finally show ?thesis by auto
qed


text \<open>
  A cluster with one configuration, for the firmware of all devices, and a node with one device and no configuration so
  far. The manager writes the object that the daemon of \<open>Reconcile_updates_devices_witness\<close> finds.
\<close>

definition flash_config :: EthernetClusterConfig where
  "flash_config = \<lparr>ecc_Name = ''fw'', CreationTimestamp = 5,
     ecc_Spec = \<lparr>NodeSelector = Map.empty, ecc_DeviceSelector = sample_selector,
       ecc_DeviceConfig = empty_DeviceConfig\<lparr>FWURL := ''h/f''\<rparr>, Priority = 1\<rparr>\<rparr>"

definition before_flash :: EthernetNodeConfig where
  "before_flash = flash_nc\<lparr>enc_Spec := \<lparr>enc_Config = [], DrainSkip = False\<rparr>, enc_Generation := 1\<rparr>"

lemma flash_context:
  "prepareDeviceConfigContext before_flash (matchConfigsForNode (sample_manager [flash_config]) node (list_configs (sample_manager [flash_config]))) =
     [''0000:18:00.0'' \<mapsto> flash_config]"
  by (simp add: matchConfigsForNode_def sample_manager_def prepareDeviceConfigContext_def before_flash_def flash_nc_def consider_config_def
      DeviceSelector_Matches_def flash_config_def sample_selector_def flash_device_def)

lemma flash_newSpec: "newSpec sorted_order [''0000:18:00.0'' \<mapsto> flash_config] False = enc_Spec flash_nc"
  by (simp add: newSpec_def flash_config_def flash_nc_def)


end
