(* ===== verification/Node_Agent_Controller.thy ===== *)
theory Node_Agent_Controller
  imports Os_Utils
begin

text \<open>
  \<^verbatim>\<open>controllers/flowconfig/flowconfignodeagentdeployment_controller.go\<close>: the controller that runs one agent
  pod on every node that has resources of the admin VF pool.

  The state has the objects of the API server with the failures of requests to it, the two values the
  controller remembers from the last pass, and the pod template. \<^verbatim>\<open>CreatePod\<close> copies the template's
  specification shallowly: the slice of containers, the maps of resources and a node selector that is not nil
  are shared with the new pod, so what it writes there is written to the template as well; the model writes both.
  A quantity that does not fit 64 bits is \<open>None\<close>. Only the fields the code reads or writes are kept, and the
  server stores them as they are sent. \<^verbatim>\<open>SetControllerReference\<close> and the YAML reader are parameters.
\<close>

section \<open>State\<close>

type_synonym quantity = "int option"
type_synonym ResourceList = "string \<rightharpoonup> quantity"

record container =
  ct_Name :: string
  ct_Limits :: "ResourceList option"
  ct_Requests :: "ResourceList option"

record agent_pod =
  ap_Namespace :: string
  ap_Name :: string
  ap_Annotations :: "string \<rightharpoonup> string"
  ap_NodeSelector :: "(string \<rightharpoonup> string) option"
  ap_Containers :: "container list"
  ap_Volumes :: "(string \<times> string) list"
  ap_Owner :: "string option"

record agent_node =
  an_Name :: string
  an_Capacity :: ResourceList

record FlowConfigNodeAgentDeployment =
  ad_Namespace :: string
  ad_Name :: string
  ad_Owner :: "string option"
  NADAnnotation :: string
  DCFVfPoolName :: string

record agent_state =
  ag_instances :: "string \<times> string \<rightharpoonup> FlowConfigNodeAgentDeployment"
  ag_pods :: "string \<times> string \<rightharpoonup> agent_pod"
  ag_time :: nat
  ag_fault :: "nat \<Rightarrow> goerr option"
  oldDCFVfPoolName :: string
  oldNADAnnotation :: string
  flowConfigPod :: agent_pod

record agent_env =
  ag_nodes :: "agent_node list"
  ag_Owner :: "string option"
  ag_SetControllerReference :: "string \<Rightarrow> string \<Rightarrow> goerr option"
  uftContainerIndex :: nat

datatype ctrl_result = Done | Requeue | RequeueAfter nat

abbreviation (input) networkAnnotation :: string where "networkAnnotation \<equiv> ''k8s.v1.cni.cncf.io/networks''"
abbreviation (input) nodeLabel :: string where "nodeLabel \<equiv> ''kubernetes.io/hostname''"
abbreviation (input) uftContainerName :: string where "uftContainerName \<equiv> ''uft''"
abbreviation (input) podVolumeName :: string where "podVolumeName \<equiv> ''iceddp''"

section \<open>Requests to the API server\<close>

definition ag_api :: "(agent_state, 'a) go \<Rightarrow> (agent_state, 'a) go" where
  "ag_api m s =
     (let s1 = s\<lparr>ag_time := Suc (ag_time s)\<rparr>
      in case ag_fault s (ag_time s) of Some e \<Rightarrow> (Err e, s1) | None \<Rightarrow> m s1)"

definition Get_instance :: "string \<times> string \<Rightarrow> (agent_state, FlowConfigNodeAgentDeployment) go" where
  "Get_instance k = ag_api (\<lambda>s. case ag_instances s k of None \<Rightarrow> (Err NotFound, s) | Some x \<Rightarrow> (Ok x, s))"

definition Update_instance :: "FlowConfigNodeAgentDeployment \<Rightarrow> (agent_state, unit) go" where
  "Update_instance x = ag_api (\<lambda>s.
     case ag_instances s (ad_Namespace x, ad_Name x) of
       None \<Rightarrow> (Err NotFound, s)
     | Some _ \<Rightarrow> (Ok (), s\<lparr>ag_instances := (ag_instances s)((ad_Namespace x, ad_Name x) \<mapsto> x)\<rparr>))"

definition Get_pod :: "string \<times> string \<Rightarrow> (agent_state, agent_pod) go" where
  "Get_pod k = ag_api (\<lambda>s. case ag_pods s k of None \<Rightarrow> (Err NotFound, s) | Some x \<Rightarrow> (Ok x, s))"

definition Create_pod :: "agent_pod \<Rightarrow> (agent_state, unit) go" where
  "Create_pod p = ag_api (\<lambda>s.
     case ag_pods s (ap_Namespace p, ap_Name p) of
       Some _ \<Rightarrow> (Err Conflict, s)
     | None \<Rightarrow> (Ok (), s\<lparr>ag_pods := (ag_pods s)((ap_Namespace p, ap_Name p) \<mapsto> p)\<rparr>))"

definition Delete_pod :: "agent_pod \<Rightarrow> (agent_state, unit) go" where
  "Delete_pod p = ag_api (\<lambda>s.
     case ag_pods s (ap_Namespace p, ap_Name p) of
       None \<Rightarrow> (Err NotFound, s)
     | Some _ \<Rightarrow> (Ok (), s\<lparr>ag_pods := (ag_pods s)((ap_Namespace p, ap_Name p) := None)\<rparr>))"

section \<open>Resources and annotations\<close>

text \<open>\<^verbatim>\<open>AsInt64\<close> of the entry of a map: a missing entry is the zero quantity.\<close>

definition AsInt64 :: "ResourceList \<Rightarrow> string \<Rightarrow> int" where
  "AsInt64 m pool = (case m pool of Some (Some n) \<Rightarrow> n | _ \<Rightarrow> 0)"

definition nil_map :: "('k \<rightharpoonup> 'v) option \<Rightarrow> ('k \<rightharpoonup> 'v)" where
  "nil_map m = (case m of None \<Rightarrow> Map.empty | Some x \<Rightarrow> x)"

definition getNodeResources :: "agent_node \<Rightarrow> string \<Rightarrow> int" where
  "getNodeResources node vfPoolName = (if vfPoolName \<noteq> [] then AsInt64 (an_Capacity node) vfPoolName else 0)"

definition at_index :: "'a list \<Rightarrow> nat \<Rightarrow> 'a outcome" where
  "at_index xs i = (if i < length xs then Ok (xs ! i) else Panic ''index out of range'')"

definition getPodResources :: "agent_pod \<Rightarrow> nat \<Rightarrow> string \<Rightarrow> int outcome" where
  "getPodResources pod containerIndex vfPoolName =
     obind (at_index (ap_Containers pod) containerIndex) (\<lambda>c. Ok (AsInt64 (nil_map (ct_Limits c)) vfPoolName))"

text \<open>The loop of \<^verbatim>\<open>addAnnotations\<close>, from the last round to the first.\<close>

fun repeat_annotation :: "string \<Rightarrow> nat \<Rightarrow> string" where
  "repeat_annotation a 0 = []"
| "repeat_annotation a (Suc 0) = a"
| "repeat_annotation a (Suc (Suc n)) = a @ '', '' @ repeat_annotation a (Suc n)"

definition addAnnotations :: "int \<Rightarrow> FlowConfigNodeAgentDeployment \<Rightarrow> string" where
  "addAnnotations numResources instance' = repeat_annotation (NADAnnotation instance') (nat numResources)"

definition addResources :: "container \<Rightarrow> string \<Rightarrow> int \<Rightarrow> container" where
  "addResources container vfPoolName numResources =
     container\<lparr>ct_Limits := Some ((nil_map (ct_Limits container))(vfPoolName \<mapsto> Some numResources)),
               ct_Requests := Some ((nil_map (ct_Requests container))(vfPoolName \<mapsto> Some numResources))\<rparr>"

definition setControllerRef :: "agent_env \<Rightarrow> string \<Rightarrow> string \<Rightarrow> goerr option" where
  "setControllerRef E owner owned = (if ag_Owner E \<noteq> None then ag_SetControllerReference E owner owned else None)"

section \<open>Creating a pod\<close>

definition podName :: "agent_node \<Rightarrow> string" where
  "podName node = ''flowconfig-daemon-'' @ an_Name node"

text \<open>What \<^verbatim>\<open>CreatePod\<close> leaves in the template through the parts it shares with the pod.\<close>

definition share_selector :: "agent_node \<Rightarrow> agent_pod \<Rightarrow> agent_pod" where
  "share_selector node t =
     t\<lparr>ap_NodeSelector := (case ap_NodeSelector t of None \<Rightarrow> None | Some m \<Rightarrow> Some (m(nodeLabel \<mapsto> an_Name node)))\<rparr>"

definition share_container :: "nat \<Rightarrow> container \<Rightarrow> agent_pod \<Rightarrow> agent_pod" where
  "share_container i c t = t\<lparr>ap_Containers := (ap_Containers t)[i := c]\<rparr>"

definition CreatePod :: "agent_env \<Rightarrow> FlowConfigNodeAgentDeployment \<Rightarrow> agent_node \<Rightarrow> string \<Rightarrow> (agent_state, unit) go" where
  "CreatePod E instance' node vfPoolName =
     (let numResources = getNodeResources node vfPoolName; i = uftContainerIndex E in
      if numResources = 0 then ret ()
      else
        gbind (reading flowConfigPod) (\<lambda>templatePod.
        gbind (modify (flowConfigPod_update (share_selector node))) (\<lambda>_.
        gbind (lift (at_index (ap_Containers templatePod) i)) (\<lambda>uftContainer.
        let c = addResources uftContainer vfPoolName numResources;
            pod = \<lparr>ap_Namespace = ad_Namespace instance', ap_Name = podName node,
                   ap_Annotations = [networkAnnotation \<mapsto> addAnnotations numResources instance'],
                   ap_NodeSelector = Some ((nil_map (ap_NodeSelector templatePod))(nodeLabel \<mapsto> an_Name node)),
                   ap_Containers = (ap_Containers templatePod)[i := c],
                   ap_Volumes = ap_Volumes templatePod, ap_Owner = None\<rparr> in
        gbind (modify (flowConfigPod_update (share_container i c))) (\<lambda>_.
        case setControllerRef E (ad_Name instance') (ap_Name pod) of
          Some e \<Rightarrow> lift (Err e)
        | None \<Rightarrow> Create_pod (pod\<lparr>ap_Owner := (if ag_Owner E \<noteq> None then Some (ad_Name instance') else None)\<rparr>))))))"

section \<open>Reconcile\<close>

definition setInstanceOwner :: "agent_env \<Rightarrow> FlowConfigNodeAgentDeployment \<Rightarrow> (agent_state, unit) go" where
  "setInstanceOwner E instance' =
     (if ad_Owner instance' = None then
        (case (case ag_Owner E of None \<Rightarrow> None | Some o' \<Rightarrow> setControllerRef E o' (ad_Name instance')) of
           Some e \<Rightarrow> ret ()
         | None \<Rightarrow> gbind (attempt (Update_instance (instance'\<lparr>ad_Owner := ag_Owner E\<rparr>))) (\<lambda>_. ret ()))
      else ret ())"

text \<open>Whether the pod of a node has to be replaced.\<close>

definition deletePod :: "agent_env \<Rightarrow> agent_state \<Rightarrow> FlowConfigNodeAgentDeployment \<Rightarrow> agent_node \<Rightarrow> agent_pod \<Rightarrow> bool outcome" where
  "deletePod E s instance' node pod =
     (let vfPoolName = DCFVfPoolName instance'; i = uftContainerIndex E in
      if oldDCFVfPoolName s \<noteq> vfPoolName \<or> oldNADAnnotation s \<noteq> NADAnnotation instance' then
        obind (at_index (ap_Containers pod) i) (\<lambda>c. Ok (nil_map (ct_Limits c) (oldDCFVfPoolName s) \<noteq> None))
      else obind (getPodResources pod i vfPoolName) (\<lambda>currentResource.
        Ok (getNodeResources node vfPoolName \<noteq> currentResource)))"

text \<open>The body of the loop over the nodes; it returns \<^verbatim>\<open>wasPodDeleted\<close>.\<close>

definition reconcile_agent_node :: "agent_env \<Rightarrow> FlowConfigNodeAgentDeployment \<Rightarrow> agent_node \<Rightarrow> (agent_state, bool) go" where
  "reconcile_agent_node E instance' node =
     gbind (attempt (Get_pod (ad_Namespace instance', podName node))) (\<lambda>r.
     case r of
       Ok pod \<Rightarrow>
         gbind (\<lambda>s. (deletePod E s instance' node pod, s)) (\<lambda>del.
         if del then gbind (attempt (Delete_pod pod)) (\<lambda>_. ret True) else ret False)
     | Err e \<Rightarrow>
         (if e = NotFound
          then gbind (attempt (CreatePod E instance' node (DCFVfPoolName instance'))) (\<lambda>_. ret False)
          else ret False)
     | Panic p \<Rightarrow> lift (Panic p))"

primrec reconcile_agent_nodes :: "agent_env \<Rightarrow> FlowConfigNodeAgentDeployment \<Rightarrow> agent_node list \<Rightarrow> bool \<Rightarrow> (agent_state, bool) go" where
  "reconcile_agent_nodes E instance' [] wasPodDeleted = ret wasPodDeleted"
| "reconcile_agent_nodes E instance' (node # nodes) wasPodDeleted =
     gbind (reconcile_agent_node E instance' node) (\<lambda>del. reconcile_agent_nodes E instance' nodes (wasPodDeleted \<or> del))"

definition Agent_Reconcile :: "agent_env \<Rightarrow> string \<times> string \<Rightarrow> (agent_state, ctrl_result \<times> goerr option) go" where
  "Agent_Reconcile E req =
     gbind (attempt (Get_instance req)) (\<lambda>r.
     case r of
       Ok instance' \<Rightarrow>
         gbind (setInstanceOwner E instance') (\<lambda>_.
         if NADAnnotation instance' = [] then ret (RequeueAfter 30, None)
         else
           gbind (attempt (ag_api (ret (ag_nodes E)))) (\<lambda>r2.
           case r2 of
             Ok nodes \<Rightarrow>
               gbind (reconcile_agent_nodes E instance' nodes False) (\<lambda>wasPodDeleted.
               gbind (modify (\<lambda>s. s\<lparr>oldDCFVfPoolName := DCFVfPoolName instance', oldNADAnnotation := NADAnnotation instance'\<rparr>)) (\<lambda>_.
               if wasPodDeleted then ret (Requeue, None) else ret (Done, None)))
           | Err e \<Rightarrow> ret (Done, Some e)
           | Panic p \<Rightarrow> lift (Panic p)))
     | Err e \<Rightarrow> (if e = NotFound then ret (Done, None) else ret (RequeueAfter 30, Some e))
     | Panic p \<Rightarrow> lift (Panic p))"

section \<open>Events\<close>

datatype agent_object = AgentDeployment | NodeObject agent_node | OtherObject

definition agent_CreateFunc :: "agent_object \<Rightarrow> bool" where
  "agent_CreateFunc o' = (case o' of AgentDeployment \<Rightarrow> True | NodeObject _ \<Rightarrow> True | OtherObject \<Rightarrow> False)"

definition agent_DeleteFunc :: "agent_object \<Rightarrow> bool" where
  "agent_DeleteFunc o' = (case o' of NodeObject _ \<Rightarrow> False | _ \<Rightarrow> True)"

definition agent_UpdateFunc :: "agent_state \<Rightarrow> agent_object \<Rightarrow> agent_object \<Rightarrow> bool" where
  "agent_UpdateFunc s old new =
     (case (new, old) of
        (NodeObject nodeNew, NodeObject nodeOld) \<Rightarrow>
          getNodeResources nodeNew (oldDCFVfPoolName s) \<noteq> getNodeResources nodeOld (oldDCFVfPoolName s)
      | (AgentDeployment, AgentDeployment) \<Rightarrow> True
      | _ \<Rightarrow> False)"

definition agent_GenericFunc :: "agent_object \<Rightarrow> bool" where
  "agent_GenericFunc o' = True"

definition mapNodesToRequests :: "FlowConfigNodeAgentDeployment list outcome \<Rightarrow> (string \<times> string) list" where
  "mapNodesToRequests crList =
     (case crList of Ok items \<Rightarrow> map (\<lambda>x. (ad_Namespace x, ad_Name x)) items | _ \<Rightarrow> [])"

section \<open>The template\<close>

definition addDdpVolumes :: "agent_pod \<Rightarrow> string \<Rightarrow> agent_pod" where
  "addDdpVolumes pod ddpPath = pod\<lparr>ap_Volumes := ap_Volumes pod @ [(podVolumeName, ddpPath)]\<rparr>"

text \<open>The last container of the name; \<open>yaml\<close> gives the pod after \<^verbatim>\<open>Unmarshal\<close>, which may be nil, and its error.\<close>

definition uft_index :: "container list \<Rightarrow> nat option" where
  "uft_index cs =
     (case filter (\<lambda>i. ct_Name (cs ! i) = uftContainerName) [0..<length cs] of [] \<Rightarrow> None | is \<Rightarrow> Some (last is))"

definition getPodTemplate ::
    "(byte list \<Rightarrow> agent_pod option \<times> goerr option) \<Rightarrow> string outcome \<Rightarrow> (os_state, agent_pod \<times> nat \<times> goerr option) go" where
  "getPodTemplate yaml getwd =
     gbind (lift (wrap_err ''error getting filepath'' getwd)) (\<lambda>wd.
     let filename = filepath_Join [wd, ''assets/flowconfig-daemon/daemon.yaml''] in
     gbind (gwrap ''error reading file'' (os_ReadFile filename)) (\<lambda>spec.
     case yaml spec of
       (None, _) \<Rightarrow> lift (Panic ''nil pointer dereference'')
     | (Some pod, err) \<Rightarrow>
         (case uft_index (ap_Containers pod) of
            None \<Rightarrow> lift (Err (Errorf ''uft container not found in podSpec, pod definition is invalid''))
          | Some i \<Rightarrow>
              gbind GetFwSearchPath (\<lambda>(fwPath, errFwPath).
              ret (addDdpVolumes pod (snd (CreateFullDdpPaths fwPath)), i, err)))))"

end
