(* ===== verification/Node_Agent_Props.thy ===== *)
theory Node_Agent_Props
  imports Node_Agent_Controller
begin

text \<open>
  Properties of the agent controller: its passes converge to one fitting pod per node, and two defects, a
  template that remembers earlier pools and a restart that keeps outdated pods.
\<close>

section \<open>One node\<close>

abbreviation pod_key :: "FlowConfigNodeAgentDeployment \<Rightarrow> agent_node \<Rightarrow> string \<times> string" where
  "pod_key inst node \<equiv> (ad_Namespace inst, podName node)"

text \<open>A pod that fits the node: resources, networks and the node it runs on.\<close>

definition fits :: "agent_env \<Rightarrow> FlowConfigNodeAgentDeployment \<Rightarrow> agent_node \<Rightarrow> agent_pod \<Rightarrow> bool" where
  "fits E inst node p \<longleftrightarrow>
     getPodResources p (uftContainerIndex E) (DCFVfPoolName inst) = Ok (getNodeResources node (DCFVfPoolName inst)) \<and>
     ap_Annotations p networkAnnotation = Some (addAnnotations (getNodeResources node (DCFVfPoolName inst)) inst) \<and>
     nil_map (ap_NodeSelector p) nodeLabel = Some (an_Name node)"

definition calm_api :: "agent_env \<Rightarrow> agent_state \<Rightarrow> bool" where
  "calm_api E s \<longleftrightarrow> (\<forall>n. ag_fault s n = None) \<and> (\<forall>o' x. ag_SetControllerReference E o' x = None) \<and>
     uftContainerIndex E < length (ap_Containers (flowConfigPod s))"

definition same_frame :: "agent_state \<Rightarrow> agent_state \<Rightarrow> bool" where
  "same_frame s s' \<longleftrightarrow> ag_fault s' = ag_fault s \<and> ag_instances s' = ag_instances s \<and>
     oldDCFVfPoolName s' = oldDCFVfPoolName s \<and> oldNADAnnotation s' = oldNADAnnotation s \<and>
     length (ap_Containers (flowConfigPod s')) = length (ap_Containers (flowConfigPod s))"

lemma same_frame_trans: "same_frame s s' \<Longrightarrow> same_frame s' s'' \<Longrightarrow> same_frame s s''"
  by (simp add: same_frame_def)

lemma calm_api_frame: "calm_api E s \<Longrightarrow> same_frame s s' \<Longrightarrow> calm_api E s'"
  by (simp add: calm_api_def same_frame_def)

lemma deletePod_frame: "same_frame s s' \<Longrightarrow> deletePod E s' inst node p = deletePod E s inst node p"
  by (simp add: deletePod_def same_frame_def Let_def)

text \<open>What a pass does with the pod of a node.\<close>

definition moves :: "agent_env \<Rightarrow> FlowConfigNodeAgentDeployment \<Rightarrow> agent_state \<Rightarrow> agent_node \<Rightarrow> agent_pod option \<Rightarrow> agent_pod option \<Rightarrow> bool" where
  "moves E inst s node p p' \<longleftrightarrow>
     (case p of
        None \<Rightarrow> if getNodeResources node (DCFVfPoolName inst) = 0 then p' = None else (\<exists>q. p' = Some q \<and> fits E inst node q)
      | Some q \<Rightarrow> if deletePod E s inst node q = Ok True then p' = None else p' = Some q)"

text \<open>A pod stored under its own name that has the container the controller looks at.\<close>

definition placed :: "agent_env \<Rightarrow> string \<times> string \<Rightarrow> agent_pod option \<Rightarrow> bool" where
  "placed E k p \<longleftrightarrow>
     (\<forall>q. p = Some q \<longrightarrow> uftContainerIndex E < length (ap_Containers q) \<and> (ap_Namespace q, ap_Name q) = k)"

lemma deletePod_Ok: "uftContainerIndex E < length (ap_Containers q) \<Longrightarrow> \<exists>b. deletePod E s inst node q = Ok b"
  by (simp add: deletePod_def getPodResources_def at_index_def Let_def)

text \<open>Creating a pod when nothing fails.\<close>

definition new_pod :: "agent_env \<Rightarrow> FlowConfigNodeAgentDeployment \<Rightarrow> agent_node \<Rightarrow> agent_pod \<Rightarrow> agent_pod" where
  "new_pod E inst node t =
     (let n = getNodeResources node (DCFVfPoolName inst); i = uftContainerIndex E in
      \<lparr>ap_Namespace = ad_Namespace inst, ap_Name = podName node,
       ap_Annotations = [networkAnnotation \<mapsto> addAnnotations n inst],
       ap_NodeSelector = Some ((nil_map (ap_NodeSelector t))(nodeLabel \<mapsto> an_Name node)),
       ap_Containers = (ap_Containers t)[i := addResources (ap_Containers t ! i) (DCFVfPoolName inst) n],
       ap_Volumes = ap_Volumes t,
       ap_Owner = if ag_Owner E \<noteq> None then Some (ad_Name inst) else None\<rparr>)"

lemma CreatePod_result:
  assumes "calm_api E s" and "ag_pods s (pod_key inst node) = None" and "getNodeResources node (DCFVfPoolName inst) \<noteq> 0"
  defines "q \<equiv> new_pod E inst node (flowConfigPod s)"
  shows "CreatePod E inst node (DCFVfPoolName inst) s = (Ok (),
    s\<lparr>ag_time := Suc (ag_time s),
      flowConfigPod := share_container (uftContainerIndex E) (ap_Containers q ! uftContainerIndex E) (share_selector node (flowConfigPod s)),
      ag_pods := (ag_pods s)(pod_key inst node \<mapsto> q)\<rparr>)"
proof -
  have "setControllerRef E o' x = None" for o' x
    using assms(1) by (simp add: setControllerRef_def calm_api_def)
  then show ?thesis
    using assms
    by (simp add: CreatePod_def gbind_def reading_def modify_def lift_def at_index_def calm_api_def Create_pod_def ag_api_def
        new_pod_def Let_def)
qed

lemma CreatePod_calm:
  assumes "calm_api E s" and "ag_pods s (pod_key inst node) = None"
  shows "\<exists>s'. CreatePod E inst node (DCFVfPoolName inst) s = (Ok (), s') \<and> same_frame s s' \<and>
    (\<exists>p'. ag_pods s' = (ag_pods s)(pod_key inst node := p') \<and> moves E inst s node None p' \<and> placed E (pod_key inst node) p')"
proof (cases "getNodeResources node (DCFVfPoolName inst) = 0")
  case True
  with assms(2) show ?thesis
    by (simp add: CreatePod_def ret_def same_frame_def moves_def placed_def fun_upd_idem)
next
  case False
  let ?q = "new_pod E inst node (flowConfigPod s)"
  have "fits E inst node ?q" "placed E (pod_key inst node) (Some ?q)"
    using assms(1)
    by (simp_all add: new_pod_def fits_def getPodResources_def at_index_def addResources_def AsInt64_def nil_map_def
        calm_api_def placed_def Let_def)
  moreover have "\<exists>s'. CreatePod E inst node (DCFVfPoolName inst) s = (Ok (), s') \<and> same_frame s s' \<and>
      ag_pods s' = (ag_pods s)(pod_key inst node \<mapsto> ?q)"
    using CreatePod_result [OF assms False] by (simp add: same_frame_def share_container_def share_selector_def)
  ultimately show ?thesis
    using False by (fastforce simp: moves_def)
qed

lemma node_pass:
  assumes calm: "calm_api E s" and ix: "placed E (pod_key inst node) (ag_pods s (pod_key inst node))"
  shows "\<exists>s' p' del. reconcile_agent_node E inst node s = (Ok del, s') \<and> same_frame s s' \<and>
    ag_pods s' = (ag_pods s)(pod_key inst node := p') \<and> moves E inst s node (ag_pods s (pod_key inst node)) p' \<and>
    placed E (pod_key inst node) p' \<and> (del \<longleftrightarrow> (\<exists>q. ag_pods s (pod_key inst node) = Some q \<and> deletePod E s inst node q = Ok True))"
proof -
  let ?s1 = "s\<lparr>ag_time := Suc (ag_time s)\<rparr>"
  have f1: "same_frame s ?s1" by (simp add: same_frame_def)
  show ?thesis
  proof (cases "ag_pods s (pod_key inst node)")
    case None
    have "Get_pod (pod_key inst node) s = (Err NotFound, ?s1)"
      using calm None by (simp add: Get_pod_def ag_api_def calm_api_def)
    moreover obtain s' p' where c: "CreatePod E inst node (DCFVfPoolName inst) ?s1 = (Ok (), s')" "same_frame ?s1 s'"
        "ag_pods s' = (ag_pods ?s1)(pod_key inst node := p')" "moves E inst ?s1 node None p'" "placed E (pod_key inst node) p'"
      using CreatePod_calm [OF calm_api_frame [OF calm f1], of inst node] None by auto
    ultimately have "reconcile_agent_node E inst node s = (Ok False, s')"
      by (simp add: reconcile_agent_node_def gbind_def attempt_def ret_def)
    moreover have "moves E inst s node None p'"
      using c(4) by (simp add: moves_def)
    ultimately show ?thesis
      using same_frame_trans [OF f1 c(2)] c(3,5) None
      by (intro exI [of _ s'] exI [of _ p'] exI [of _ False]) simp
  next
    case (Some q)
    obtain del where del: "deletePod E ?s1 inst node q = Ok del"
      using deletePod_Ok [of E q ?s1 inst node] ix Some by (auto simp: placed_def)
    then have del': "deletePod E s inst node q = Ok del"
      using deletePod_frame [OF f1] by simp
    have g: "Get_pod (pod_key inst node) s = (Ok q, ?s1)"
      using calm Some by (simp add: Get_pod_def ag_api_def calm_api_def)
    show ?thesis
    proof (cases del)
      case True
      have "Delete_pod q ?s1 = (Ok (), ?s1\<lparr>ag_time := Suc (Suc (ag_time s)), ag_pods := (ag_pods s)(pod_key inst node := None)\<rparr>)"
        using calm Some ix by (simp add: placed_def Delete_pod_def ag_api_def calm_api_def)
      with True g del del' Some show ?thesis
        by (auto simp: reconcile_agent_node_def gbind_def attempt_def ret_def same_frame_def moves_def placed_def)
    next
      case False
      with g del del' Some ix show ?thesis
        by (auto simp: reconcile_agent_node_def gbind_def attempt_def ret_def same_frame_def moves_def fun_upd_idem)
    qed
  qed
qed

section \<open>A pass over the nodes\<close>

lemma podName_inject [simp]: "podName n = podName m \<longleftrightarrow> an_Name n = an_Name m"
  by (simp add: podName_def)

lemma moves_frame: "same_frame s s' \<Longrightarrow> moves E inst s' node p p' = moves E inst s node p p'"
  by (auto simp: moves_def deletePod_frame split: option.splits)

definition deletes :: "agent_env \<Rightarrow> FlowConfigNodeAgentDeployment \<Rightarrow> agent_state \<Rightarrow> agent_node \<Rightarrow> bool" where
  "deletes E inst s node \<longleftrightarrow>
     (\<exists>q. ag_pods s (pod_key inst node) = Some q \<and> deletePod E s inst node q = Ok True)"

lemma nodes_pass:
  assumes "calm_api E s" and "distinct (map an_Name nodes)"
    and "\<And>node. node \<in> set nodes \<Longrightarrow> placed E (pod_key inst node) (ag_pods s (pod_key inst node))"
  shows "\<exists>s'. reconcile_agent_nodes E inst nodes w s = (Ok (w \<or> (\<exists>node \<in> set nodes. deletes E inst s node)), s') \<and>
    same_frame s s' \<and>
    (\<forall>node \<in> set nodes. moves E inst s node (ag_pods s (pod_key inst node)) (ag_pods s' (pod_key inst node)) \<and>
       placed E (pod_key inst node) (ag_pods s' (pod_key inst node))) \<and>
    (\<forall>k. k \<notin> pod_key inst ` set nodes \<longrightarrow> ag_pods s' k = ag_pods s k)"
  using assms
proof (induction nodes arbitrary: s w)
  case Nil
  then show ?case by (auto simp: ret_def same_frame_def)
next
  case (Cons n ns)
  obtain s1 p1 del where one: "reconcile_agent_node E inst n s = (Ok del, s1)" "same_frame s s1"
      "ag_pods s1 = (ag_pods s)(pod_key inst n := p1)" "moves E inst s n (ag_pods s (pod_key inst n)) p1"
      "placed E (pod_key inst n) p1" "del \<longleftrightarrow> deletes E inst s n"
    using node_pass [OF Cons.prems(1), of inst n] Cons.prems(3) unfolding deletes_def by auto
  have other: "ag_pods s1 (pod_key inst m) = ag_pods s (pod_key inst m)" if "m \<in> set ns" for m
    using that Cons.prems(2) one(3) by (auto simp: image_iff)
  have d: "deletes E inst s1 m = deletes E inst s m" if "m \<in> set ns" for m
    using other [OF that] deletePod_frame [OF one(2)] by (simp add: deletes_def)
  obtain s2 where two: "reconcile_agent_nodes E inst ns (w \<or> del) s1 =
        (Ok ((w \<or> del) \<or> (\<exists>node \<in> set ns. deletes E inst s1 node)), s2)" "same_frame s1 s2"
      "\<forall>node \<in> set ns. moves E inst s1 node (ag_pods s1 (pod_key inst node)) (ag_pods s2 (pod_key inst node)) \<and>
         placed E (pod_key inst node) (ag_pods s2 (pod_key inst node))"
      "\<forall>k. k \<notin> pod_key inst ` set ns \<longrightarrow> ag_pods s2 k = ag_pods s1 k"
    using Cons.IH [OF calm_api_frame [OF Cons.prems(1) one(2)], of "w \<or> del"] Cons.prems(2,3) other by auto
  have n2: "ag_pods s2 (pod_key inst n) = p1"
    using two(4) Cons.prems(2) one(3) by (auto simp: image_iff)
  have "reconcile_agent_nodes E inst (n # ns) w s = (Ok (w \<or> (\<exists>node \<in> set (n # ns). deletes E inst s node)), s2)"
    using one(1,6) two(1) d by (auto simp: gbind_def)
  moreover have "\<forall>node \<in> set (n # ns). moves E inst s node (ag_pods s (pod_key inst node)) (ag_pods s2 (pod_key inst node)) \<and>
       placed E (pod_key inst node) (ag_pods s2 (pod_key inst node))"
    using two(3) n2 one(4,5) other moves_frame [OF one(2)] by auto
  moreover have "\<forall>k. k \<notin> pod_key inst ` set (n # ns) \<longrightarrow> ag_pods s2 k = ag_pods s k"
    using two(4) one(3) by auto
  ultimately show ?case
    using same_frame_trans [OF one(2) two(2)] by blast
qed

section \<open>Passes of the reconciler\<close>

definition steady :: "FlowConfigNodeAgentDeployment \<Rightarrow> agent_state \<Rightarrow> bool" where
  "steady inst s \<longleftrightarrow> oldDCFVfPoolName s = DCFVfPoolName inst \<and> oldNADAnnotation s = NADAnnotation inst"

text \<open>What every pass needs of the cluster: it answers, and the pods of the agents carry the agents' container.\<close>

definition cluster_ok :: "agent_env \<Rightarrow> FlowConfigNodeAgentDeployment \<Rightarrow> agent_state \<Rightarrow> bool" where
  "cluster_ok E inst s \<longleftrightarrow> calm_api E s \<and> distinct (map an_Name (ag_nodes E)) \<and> NADAnnotation inst \<noteq> [] \<and>
     (\<exists>o'. ag_instances s (ad_Namespace inst, ad_Name inst) = Some (inst\<lparr>ad_Owner := o'\<rparr>)) \<and>
     (\<forall>node \<in> set (ag_nodes E). placed E (pod_key inst node) (ag_pods s (pod_key inst node)))"

lemma owner_irrelevant [simp]:
  "deletePod E s (inst\<lparr>ad_Owner := o'\<rparr>) node q = deletePod E s inst node q"
  "fits E (inst\<lparr>ad_Owner := o'\<rparr>) node q = fits E inst node q"
  by (simp_all add: deletePod_def fits_def addAnnotations_def)

lemma moves_owner [simp]: "moves E (inst\<lparr>ad_Owner := o'\<rparr>) s node p p' = moves E inst s node p p'"
  by (simp add: moves_def split: option.splits)

lemma setInstanceOwner_calm:
  assumes "calm_api E s" and "ag_instances s (ad_Namespace i, ad_Name i) = Some i"
  shows "\<exists>s' o'. setInstanceOwner E i s = (Ok (), s') \<and> calm_api E s' \<and> ag_pods s' = ag_pods s \<and>
    oldDCFVfPoolName s' = oldDCFVfPoolName s \<and> oldNADAnnotation s' = oldNADAnnotation s \<and>
    ag_instances s' (ad_Namespace i, ad_Name i) = Some (i\<lparr>ad_Owner := o'\<rparr>)"
proof (cases "ad_Owner i = None")
  case True
  let ?s' = "s\<lparr>ag_time := Suc (ag_time s), ag_instances := (ag_instances s)((ad_Namespace i, ad_Name i) \<mapsto> i\<lparr>ad_Owner := ag_Owner E\<rparr>)\<rparr>"
  have "(case ag_Owner E of None \<Rightarrow> None | Some o' \<Rightarrow> setControllerRef E o' (ad_Name i)) = None"
    using assms(1) by (simp add: setControllerRef_def calm_api_def split: option.splits)
  then have "setInstanceOwner E i s = (Ok (), ?s')"
    using assms True
    by (simp add: setInstanceOwner_def Update_instance_def ag_api_def gbind_def attempt_def ret_def calm_api_def)
  with assms(1) show ?thesis
    by (intro exI [of _ ?s'] exI [of _ "ag_Owner E"]) (simp add: calm_api_def)
next
  case False
  with assms show ?thesis
    by (intro exI [of _ s] exI [of _ "ad_Owner i"]) (auto simp: setInstanceOwner_def ret_def)
qed

lemma Reconcile_pass:
  assumes ok: "cluster_ok E inst s"
  shows "\<exists>s' d. Agent_Reconcile E (ad_Namespace inst, ad_Name inst) s = (Ok (if d then Requeue else Done, None), s') \<and>
    cluster_ok E inst s' \<and> steady inst s' \<and>
    (d \<longleftrightarrow> (\<exists>node \<in> set (ag_nodes E). deletes E inst s node)) \<and>
    (\<forall>node \<in> set (ag_nodes E). moves E inst s node (ag_pods s (pod_key inst node)) (ag_pods s' (pod_key inst node))) \<and>
    (\<forall>k. k \<notin> pod_key inst ` set (ag_nodes E) \<longrightarrow> ag_pods s' k = ag_pods s k)"
proof -
  from ok obtain o' where inst: "ag_instances s (ad_Namespace inst, ad_Name inst) = Some (inst\<lparr>ad_Owner := o'\<rparr>)"
    by (auto simp: cluster_ok_def)
  let ?i = "inst\<lparr>ad_Owner := o'\<rparr>" and ?s1 = "s\<lparr>ag_time := Suc (ag_time s)\<rparr>"
  have calm: "calm_api E s" using ok by (simp add: cluster_ok_def)
  have get: "Get_instance (ad_Namespace inst, ad_Name inst) s = (Ok ?i, ?s1)"
    using calm inst by (simp add: Get_instance_def ag_api_def calm_api_def)
  obtain s2 where own: "setInstanceOwner E ?i ?s1 = (Ok (), s2)" and s2: "calm_api E s2" "ag_pods s2 = ag_pods s"
      "oldDCFVfPoolName s2 = oldDCFVfPoolName s" "oldNADAnnotation s2 = oldNADAnnotation s"
      "\<exists>o'. ag_instances s2 (ad_Namespace inst, ad_Name inst) = Some (inst\<lparr>ad_Owner := o'\<rparr>)"
    using setInstanceOwner_calm [of E ?s1 ?i] calm inst by (auto simp: calm_api_def)
  let ?s3 = "s2\<lparr>ag_time := Suc (ag_time s2)\<rparr>"
  have lst: "ag_api (ret (ag_nodes E)) s2 = (Ok (ag_nodes E), ?s3)"
    using s2(1) by (simp add: ag_api_def calm_api_def ret_def)
  have c3: "calm_api E ?s3" using s2(1) by (simp add: calm_api_def)
  have del: "deletePod E ?s3 inst node q = deletePod E s inst node q" for node q
    using s2(3,4) by (simp add: deletePod_def Let_def)
  then have mv: "moves E inst ?s3 node p p' = moves E inst s node p p'" for node p p'
    by (auto simp: moves_def split: option.splits)
  obtain s4 where loop: "reconcile_agent_nodes E ?i (ag_nodes E) False ?s3 =
        (Ok (False \<or> (\<exists>node \<in> set (ag_nodes E). deletes E ?i ?s3 node)), s4)" and s4: "same_frame ?s3 s4"
      "\<forall>node \<in> set (ag_nodes E). moves E ?i ?s3 node (ag_pods ?s3 (pod_key ?i node)) (ag_pods s4 (pod_key ?i node)) \<and>
         placed E (pod_key ?i node) (ag_pods s4 (pod_key ?i node))"
      "\<forall>k. k \<notin> pod_key ?i ` set (ag_nodes E) \<longrightarrow> ag_pods s4 k = ag_pods ?s3 k"
    using nodes_pass [OF c3, of "ag_nodes E" ?i False] ok s2(2) by (auto simp: cluster_ok_def)
  let ?d = "\<exists>node \<in> set (ag_nodes E). deletes E inst s node"
  have d: "(False \<or> (\<exists>node \<in> set (ag_nodes E). deletes E ?i ?s3 node)) = ?d"
    using s2(2) del by (simp add: deletes_def)
  let ?s5 = "s4\<lparr>oldDCFVfPoolName := DCFVfPoolName inst, oldNADAnnotation := NADAnnotation inst\<rparr>"
  have "Agent_Reconcile E (ad_Namespace inst, ad_Name inst) s = (Ok (if ?d then Requeue else Done, None), ?s5)"
    using get own lst loop [unfolded d] ok
    by (simp add: Agent_Reconcile_def gbind_def attempt_def modify_def ret_def cluster_ok_def)
  moreover have "cluster_ok E inst ?s5"
    using ok s2(5) s4 calm_api_frame [OF c3 s4(1)] by (auto simp: cluster_ok_def same_frame_def calm_api_def)
  ultimately show ?thesis
    using s4 s2(2) mv by (intro exI [of _ ?s5] exI [of _ ?d]) (simp add: steady_def)
qed

section \<open>Convergence\<close>

text \<open>A node as it should be: one pod with the node's resources, or none where there are none.\<close>

definition served :: "agent_env \<Rightarrow> FlowConfigNodeAgentDeployment \<Rightarrow> agent_state \<Rightarrow> agent_node \<Rightarrow> bool" where
  "served E inst s node \<longleftrightarrow>
     (case ag_pods s (pod_key inst node) of
        None \<Rightarrow> getNodeResources node (DCFVfPoolName inst) = 0
      | Some q \<Rightarrow> getPodResources q (uftContainerIndex E) (DCFVfPoolName inst) = Ok (getNodeResources node (DCFVfPoolName inst)))"

fun passes :: "agent_env \<Rightarrow> string \<times> string \<Rightarrow> nat \<Rightarrow> agent_state \<Rightarrow> agent_state" where
  "passes E req 0 s = s"
| "passes E req (Suc n) s = passes E req n (snd (Agent_Reconcile E req s))"

lemma deletes_steady:
  assumes "cluster_ok E inst s" and "steady inst s" and "node \<in> set (ag_nodes E)"
  shows "deletes E inst s node \<longleftrightarrow>
    (\<exists>q. ag_pods s (pod_key inst node) = Some q \<and>
       getPodResources q (uftContainerIndex E) (DCFVfPoolName inst) \<noteq> Ok (getNodeResources node (DCFVfPoolName inst)))"
  using assms unfolding cluster_ok_def
  by (fastforce simp: deletes_def steady_def deletePod_def getPodResources_def at_index_def placed_def Let_def)

lemma moves_deletes:
  assumes "moves E inst s node (ag_pods s (pod_key inst node)) (ag_pods s' (pod_key inst node))"
  shows "deletes E inst s node \<Longrightarrow> ag_pods s' (pod_key inst node) = None"
    and "\<not> deletes E inst s node \<Longrightarrow> ag_pods s (pod_key inst node) = Some q \<Longrightarrow> ag_pods s' (pod_key inst node) = Some q"
  using assms by (auto simp: moves_def deletes_def split: option.splits if_splits)

text \<open>In a steady state one pass leaves only pods that fit, and a pass without a pod to replace serves every node.\<close>

lemma steady_pass:
  assumes ok: "cluster_ok E inst s" and st: "steady inst s"
    and run: "Agent_Reconcile E (ad_Namespace inst, ad_Name inst) s = (r, s')"
  shows "cluster_ok E inst s'" and "steady inst s'"
    and "\<And>node. node \<in> set (ag_nodes E) \<Longrightarrow> \<not> deletes E inst s' node"
    and "(\<And>node. node \<in> set (ag_nodes E) \<Longrightarrow> \<not> deletes E inst s node) \<Longrightarrow>
       r = Ok (Done, None) \<and> (\<forall>node \<in> set (ag_nodes E). served E inst s' node)"
proof -
  from Reconcile_pass [OF ok] run obtain d where d: "r = Ok (if d then Requeue else Done, None)"
      "cluster_ok E inst s'" "steady inst s'" "d \<longleftrightarrow> (\<exists>node \<in> set (ag_nodes E). deletes E inst s node)"
    and mv: "\<And>node. node \<in> set (ag_nodes E) \<Longrightarrow>
      moves E inst s node (ag_pods s (pod_key inst node)) (ag_pods s' (pod_key inst node))"
    by auto
  show "cluster_ok E inst s'" "steady inst s'" by (rule d)+
  have settled: "\<not> deletes E inst s' node \<and> (\<not> deletes E inst s node \<longrightarrow> served E inst s' node)"
    if n: "node \<in> set (ag_nodes E)" for node
    using mv [OF n] deletes_steady [OF ok st n] deletes_steady [OF d(2,3) n] moves_deletes [OF mv [OF n]]
    by (cases "ag_pods s (pod_key inst node)") (auto simp: served_def moves_def fits_def split: if_splits)
  then show "node \<in> set (ag_nodes E) \<Longrightarrow> \<not> deletes E inst s' node" for node by blast
  assume "\<And>node. node \<in> set (ag_nodes E) \<Longrightarrow> \<not> deletes E inst s node"
  with settled d(1,4) show "r = Ok (Done, None) \<and> (\<forall>node \<in> set (ag_nodes E). served E inst s' node)" by auto
qed

text \<open>
  \<^bold>\<open>C23.\<close> While the cluster answers, the agents converge: whatever pods are there and whatever the controller
  remembers, after three passes every node with resources of the pool has a pod that asks for exactly these
  resources, a node without a pod has none of them, the last pass reports that it is done, and every further
  pass leaves the pods as they are.
\<close>

theorem Agent_Reconcile_converges:
  assumes ok: "cluster_ok E inst s"
  defines "req \<equiv> (ad_Namespace inst, ad_Name inst)"
  shows "fst (Agent_Reconcile E req (passes E req 2 s)) = Ok (Done, None) \<and>
    (\<forall>node \<in> set (ag_nodes E). served E inst (passes E req 3 s) node) \<and>
    (\<forall>n. ag_pods (passes E req n (passes E req 3 s)) = ag_pods (passes E req 3 s))"
proof -
  let ?p = "\<lambda>s. snd (Agent_Reconcile E req s)"
  have p: "Agent_Reconcile E (ad_Namespace inst, ad_Name inst) s = (fst (Agent_Reconcile E req s), ?p s)" for s
    by (simp add: req_def)
  obtain s1 where s1: "s1 = ?p s" "cluster_ok E inst s1" "steady inst s1"
    using Reconcile_pass [OF ok] p [of s] by auto
  define s2 where "s2 = ?p s1"
  define s3 where "s3 = ?p s2"
  note one = steady_pass [OF s1(2,3) p [of s1], folded s2_def]
  note two = steady_pass [OF one(1,2) p [of s2], folded s3_def]
  have fin: "fst (Agent_Reconcile E req s2) = Ok (Done, None)" "\<forall>node \<in> set (ag_nodes E). served E inst s3 node"
    using two(4) [OF one(3)] by blast+
  have "ag_pods (passes E req n t) = ag_pods t"
    if "cluster_ok E inst t" "steady inst t" "\<forall>node \<in> set (ag_nodes E). served E inst t node" for n t
    using that
  proof (induction n arbitrary: t)
    case (Suc n)
    have nd: "\<not> deletes E inst t node" if "node \<in> set (ag_nodes E)" for node
      using Suc.prems that deletes_steady [OF Suc.prems(1,2) that] by (auto simp: served_def)
    note next' = steady_pass [OF Suc.prems(1,2) p [of t]]
    obtain d where mv: "\<And>node. node \<in> set (ag_nodes E) \<Longrightarrow>
        moves E inst t node (ag_pods t (pod_key inst node)) (ag_pods (?p t) (pod_key inst node))"
      and out: "\<And>k. k \<notin> pod_key inst ` set (ag_nodes E) \<Longrightarrow> ag_pods (?p t) k = ag_pods t k"
      using Reconcile_pass [OF Suc.prems(1)] p [of t] by auto
    have "ag_pods (?p t) k = ag_pods t k" for k
    proof (cases "k \<in> pod_key inst ` set (ag_nodes E)")
      case True
      then obtain node where n: "node \<in> set (ag_nodes E)" "k = pod_key inst node" by blast
      with Suc.prems(3) have "served E inst t node" by blast
      with mv [OF n(1)] moves_deletes(2) [OF mv [OF n(1)] nd [OF n(1)]] n(2) show ?thesis
        by (cases "ag_pods t k") (auto simp: served_def moves_def)
    qed (use out in blast)
    then have "ag_pods (?p t) = ag_pods t" by blast
    with Suc.IH [OF next'(1,2)] next'(4) [OF nd] show ?case by simp
  qed simp
  from this [OF two(1,2) fin(2)] fin show ?thesis
    by (simp add: numeral_3_eq_3 numeral_2_eq_2 s1(1) [symmetric] s2_def [symmetric] s3_def [symmetric])
qed

text \<open>Two nodes, one with an agent whose pod asks for too little, and a third object's pods around them.\<close>

definition agent_container :: "string \<Rightarrow> int option \<Rightarrow> container" where
  "agent_container pool n =
     \<lparr>ct_Name = uftContainerName, ct_Limits = map_option (\<lambda>k. [pool \<mapsto> Some k]) n, ct_Requests = map_option (\<lambda>k. [pool \<mapsto> Some k]) n\<rparr>"

definition sample_template :: agent_pod where
  "sample_template =
     \<lparr>ap_Namespace = [], ap_Name = [], ap_Annotations = Map.empty, ap_NodeSelector = None,
      ap_Containers = [agent_container [] None], ap_Volumes = [], ap_Owner = None\<rparr>"

definition sample_agent_pod :: "string \<Rightarrow> string \<Rightarrow> int \<Rightarrow> agent_pod" where
  "sample_agent_pod node nad n =
     sample_template\<lparr>ap_Namespace := ''ops'', ap_Name := ''flowconfig-daemon-'' @ node,
       ap_Annotations := [networkAnnotation \<mapsto> nad], ap_Containers := [agent_container ''vfpool'' (Some n)]\<rparr>"

definition sample_deployment :: FlowConfigNodeAgentDeployment where
  "sample_deployment = \<lparr>ad_Namespace = ''ops'', ad_Name = ''agents'', ad_Owner = None, NADAnnotation = ''sriov-net'', DCFVfPoolName = ''vfpool''\<rparr>"

definition sample_agent_node :: "string \<Rightarrow> agent_node" where
  "sample_agent_node n = \<lparr>an_Name = n, an_Capacity = [''vfpool'' \<mapsto> Some 2, ''other'' \<mapsto> Some 1]\<rparr>"

definition sample_agents :: agent_env where
  "sample_agents =
     \<lparr>ag_nodes = [sample_agent_node ''a'', sample_agent_node ''b''], ag_Owner = Some ''manager'',
      ag_SetControllerReference = (\<lambda>_ _. None), uftContainerIndex = 0\<rparr>"

definition sample_agent_state :: "string \<Rightarrow> agent_pod \<Rightarrow> agent_state" where
  "sample_agent_state old q =
     \<lparr>ag_instances = [(''ops'', ''agents'') \<mapsto> sample_deployment], ag_pods = [(''ops'', ''flowconfig-daemon-a'') \<mapsto> q], ag_time = 0,
      ag_fault = (\<lambda>_. None), oldDCFVfPoolName = old, oldNADAnnotation = old, flowConfigPod = sample_template\<rparr>"

lemma sample_cluster_ok: "cluster_ok sample_agents sample_deployment (sample_agent_state old (sample_agent_pod ''a'' nad n))"
proof -
  have "sample_deployment = sample_deployment\<lparr>ad_Owner := None\<rparr>" by (simp add: sample_deployment_def)
  then have "\<exists>o'. sample_deployment = sample_deployment\<lparr>ad_Owner := o'\<rparr>" by blast
  then show ?thesis
    by (simp add: cluster_ok_def calm_api_def sample_agents_def sample_agent_state_def sample_agent_node_def
        sample_template_def placed_def podName_def sample_agent_pod_def)
       (simp add: sample_deployment_def)
qed

theorem Agent_Reconcile_converges_witness:
  "served sample_agents sample_deployment
     (passes sample_agents (''ops'', ''agents'') 3 (sample_agent_state [] (sample_agent_pod ''a'' ''old-net'' 1))) (sample_agent_node ''a'')"
proof -
  have "sample_agent_node ''a'' \<in> set (ag_nodes sample_agents)" and "(ad_Namespace sample_deployment, ad_Name sample_deployment) = (''ops'', ''agents'')"
    by (simp_all add: sample_agents_def sample_deployment_def)
  with Agent_Reconcile_converges [OF sample_cluster_ok, of "[]" "''old-net''" 1] show ?thesis
    by simp
qed

section \<open>Pods that are not replaced\<close>

text \<open>
  \<^bold>\<open>C25.\<close> A restart of the controller keeps outdated pods. Right after a start nothing is remembered, and a pod
  without a limit of the empty name is kept in the first pass; when it asks for the resources of its node it is kept
  in every later pass too, so networks that were changed while the controller was down never reach it.
\<close>

theorem restart_keeps_outdated_pod:
  assumes ok: "cluster_ok E inst s" and node: "node \<in> set (ag_nodes E)"
    and fresh: "oldDCFVfPoolName s = []" "DCFVfPoolName inst \<noteq> []"
    and q: "ag_pods s (pod_key inst node) = Some q"
      "getPodResources q (uftContainerIndex E) (DCFVfPoolName inst) = Ok (getNodeResources node (DCFVfPoolName inst))"
      "nil_map (ct_Limits (ap_Containers q ! uftContainerIndex E)) [] = None"
  shows "ag_pods (passes E (ad_Namespace inst, ad_Name inst) n s) (pod_key inst node) = Some q"
proof (cases n)
  case (Suc m)
  let ?req = "(ad_Namespace inst, ad_Name inst)"
  let ?p = "\<lambda>s. snd (Agent_Reconcile E ?req s)"
  have ix: "uftContainerIndex E < length (ap_Containers q)"
    using q(2) by (simp add: getPodResources_def at_index_def split: if_split_asm)
  have keep: "ag_pods (?p t) (pod_key inst node) = Some q"
    if t: "cluster_ok E inst t" "ag_pods t (pod_key inst node) = Some q" "\<not> deletes E inst t node" for t
  proof -
    obtain t' where "?p t = t'" "moves E inst t node (ag_pods t (pod_key inst node)) (ag_pods t' (pod_key inst node))"
      using Reconcile_pass [OF t(1)] node by fastforce
    with moves_deletes(2) [OF _ t(3,2)] show ?thesis by blast
  qed
  have "\<not> deletes E inst s node"
    using fresh q ix by (auto simp: deletes_def deletePod_def at_index_def Let_def)
  with keep [OF ok q(1)] have s1: "ag_pods (?p s) (pod_key inst node) = Some q" by simp
  have later: "ag_pods (passes E ?req m t) (pod_key inst node) = Some q"
    if "cluster_ok E inst t" "steady inst t" "ag_pods t (pod_key inst node) = Some q" for t
    using that
  proof (induction m arbitrary: t)
    case (Suc m)
    have "\<not> deletes E inst t node"
      using deletes_steady [OF Suc.prems(1,2) node] Suc.prems(3) q(2) by auto
    with keep [OF Suc.prems(1,3)] Reconcile_pass [OF Suc.prems(1)] Suc.IH [of "?p t"] show ?case by auto
  qed simp
  show ?thesis
    using Suc later [of "?p s"] Reconcile_pass [OF ok] s1 by auto
qed (use q in simp)

theorem restart_keeps_outdated_pod_witness:
  "ag_pods (passes sample_agents (''ops'', ''agents'') 5 (sample_agent_state [] (sample_agent_pod ''a'' ''old-net'' 2)))
     (''ops'', ''flowconfig-daemon-a'') = Some (sample_agent_pod ''a'' ''old-net'' 2)"
proof -
  let ?s = "sample_agent_state [] (sample_agent_pod ''a'' ''old-net'' 2)" and ?n = "sample_agent_node ''a''"
  have k: "pod_key sample_deployment ?n = (''ops'', ''flowconfig-daemon-a'')"
    and r: "(ad_Namespace sample_deployment, ad_Name sample_deployment) = (''ops'', ''agents'')"
    by (simp_all add: sample_deployment_def podName_def sample_agent_node_def)
  have "?n \<in> set (ag_nodes sample_agents)" "oldDCFVfPoolName ?s = []" "DCFVfPoolName sample_deployment \<noteq> []"
    "ag_pods ?s (''ops'', ''flowconfig-daemon-a'') = Some (sample_agent_pod ''a'' ''old-net'' 2)"
    "getPodResources (sample_agent_pod ''a'' ''old-net'' 2) (uftContainerIndex sample_agents) (DCFVfPoolName sample_deployment) =
       Ok (getNodeResources ?n (DCFVfPoolName sample_deployment))"
    "nil_map (ct_Limits (ap_Containers (sample_agent_pod ''a'' ''old-net'' 2) ! uftContainerIndex sample_agents)) [] = None"
    by (simp_all add: sample_agents_def sample_agent_state_def sample_deployment_def sample_agent_pod_def sample_agent_node_def
        getPodResources_def at_index_def agent_container_def AsInt64_def nil_map_def getNodeResources_def)
  with restart_keeps_outdated_pod [OF sample_cluster_ok, of ?n "[]" "''old-net''" 2 "sample_agent_pod ''a'' ''old-net'' 2" 5] show ?thesis
    by (simp add: k r)
qed

section \<open>A template that remembers\<close>

text \<open>
  \<^bold>\<open>C24.\<close> A pod created for one pool leaves its resources in the template: every pod that is created after the
  pool was changed also asks for the resources of the old pool, on nodes that may not have them.
\<close>

theorem template_remembers_pool:
  assumes calm: "calm_api E s" and new: "ag_pods s (pod_key inst node) = None" "ag_pods s (pod_key inst' node') = None"
      "pod_key inst node \<noteq> pod_key inst' node'"
    and res: "getNodeResources node (DCFVfPoolName inst) \<noteq> 0" "getNodeResources node' (DCFVfPoolName inst') \<noteq> 0"
    and pools: "DCFVfPoolName inst \<noteq> DCFVfPoolName inst'"
    and run: "CreatePod E inst node (DCFVfPoolName inst) s = (Ok (), s1)" "CreatePod E inst' node' (DCFVfPoolName inst') s1 = (Ok (), s2)"
  shows "\<exists>q. ag_pods s2 (pod_key inst' node') = Some q \<and>
    getPodResources q (uftContainerIndex E) (DCFVfPoolName inst) = Ok (getNodeResources node (DCFVfPoolName inst)) \<and>
    getPodResources q (uftContainerIndex E) (DCFVfPoolName inst') = Ok (getNodeResources node' (DCFVfPoolName inst'))"
proof -
  let ?q = "new_pod E inst node (flowConfigPod s)" and ?q' = "new_pod E inst' node' (flowConfigPod s1)"
  have s1: "s1 = s\<lparr>ag_time := Suc (ag_time s),
      flowConfigPod := share_container (uftContainerIndex E) (ap_Containers ?q ! uftContainerIndex E) (share_selector node (flowConfigPod s)),
      ag_pods := (ag_pods s)(pod_key inst node \<mapsto> ?q)\<rparr>"
    using CreatePod_result [OF calm new(1) res(1)] run(1) by simp
  then have "calm_api E s1" "ag_pods s1 (pod_key inst' node') = None"
    using calm new by (auto simp: calm_api_def share_container_def share_selector_def)
  from CreatePod_result [OF this res(2)] run(2) have "ag_pods s2 (pod_key inst' node') = Some ?q'"
    by auto
  moreover have "uftContainerIndex E < length (ap_Containers (flowConfigPod s))"
    using calm by (simp add: calm_api_def)
  ultimately show ?thesis
    using pools
    by (simp add: s1 new_pod_def getPodResources_def at_index_def share_container_def share_selector_def addResources_def
        AsInt64_def nil_map_def Let_def)
qed

theorem template_remembers_pool_witness:
  "\<exists>q. ag_pods (snd (CreatePod sample_agents (sample_deployment\<lparr>DCFVfPoolName := ''other''\<rparr>) (sample_agent_node ''c'') ''other''
         (snd (CreatePod sample_agents sample_deployment (sample_agent_node ''b'') ''vfpool''
            (sample_agent_state [] (sample_agent_pod ''a'' ''net'' 2)))))) (''ops'', ''flowconfig-daemon-c'') = Some q \<and>
     getPodResources q 0 ''vfpool'' = Ok 2 \<and> getPodResources q 0 ''other'' = Ok 1"
proof -
  let ?s = "sample_agent_state [] (sample_agent_pod ''a'' ''net'' 2)" and ?d = "sample_deployment\<lparr>DCFVfPoolName := ''other''\<rparr>"
    and ?b = "sample_agent_node ''b''" and ?c = "sample_agent_node ''c''"
  have calm: "calm_api sample_agents ?s"
    using sample_cluster_ok by (simp add: cluster_ok_def)
  have n: "ag_pods ?s (pod_key sample_deployment ?b) = None" "ag_pods ?s (pod_key ?d ?c) = None"
    "pod_key sample_deployment ?b \<noteq> pod_key ?d ?c" "DCFVfPoolName sample_deployment \<noteq> DCFVfPoolName ?d"
    "getNodeResources ?b (DCFVfPoolName sample_deployment) = 2" "getNodeResources ?c (DCFVfPoolName ?d) = 1"
    by (simp_all add: sample_agent_state_def sample_deployment_def podName_def sample_agent_node_def getNodeResources_def AsInt64_def)
  obtain s1 where s1: "CreatePod sample_agents sample_deployment ?b (DCFVfPoolName sample_deployment) ?s = (Ok (), s1)"
      "same_frame ?s s1" "\<exists>p'. ag_pods s1 = (ag_pods ?s)(pod_key sample_deployment ?b := p')"
    using CreatePod_calm [OF calm n(1)] by blast
  then have "ag_pods s1 (pod_key ?d ?c) = None" using n(2,3) by auto
  then obtain s2 where s2: "CreatePod sample_agents ?d ?c (DCFVfPoolName ?d) s1 = (Ok (), s2)"
    using CreatePod_calm [OF calm_api_frame [OF calm s1(2)]] by blast
  have "pod_key ?d ?c = (''ops'', ''flowconfig-daemon-c'')" "DCFVfPoolName sample_deployment = ''vfpool''" "DCFVfPoolName ?d = ''other''"
    "uftContainerIndex sample_agents = 0"
    by (simp_all add: sample_deployment_def podName_def sample_agent_node_def sample_agents_def)
  with template_remembers_pool [OF calm n(1-3) _ _ n(4) s1(1) s2] n(5,6) s1(1) s2 show ?thesis
    by auto
qed

end
