(* ===== verification/Labeler.thy ===== *)
theory Labeler
  imports Fwddp_Inventory Os_Utils
begin

text \<open>
  \<^verbatim>\<open>pkg/labeler/labeler.go\<close>: a program that runs once on a node, looks for a supported device on its PCI bus and
  sets or removes a label of the node. The node object is the one the API server has; \<^verbatim>\<open>GetLabels\<close> of a node
  without labels is a nil map. The client's configuration and construction have an outcome and no state. The parameters are those of
  the daemon's inventory and the environment's variables.
\<close>

section \<open>State\<close>

record labels_state =
  lb_os :: os_state
  lb_nodes :: "string \<rightharpoonup> (string \<rightharpoonup> string) option"
  lb_time :: nat
  lb_fault :: "nat \<Rightarrow> goerr option"

record labeler_env =
  lb_decode :: "byte list \<Rightarrow> (string \<times> SupportedDevice) list outcome"
  lb_PCI :: "pci_device option list outcome"
  lb_getenv :: "string \<Rightarrow> string"
  lb_InClusterConfig :: "unit outcome"
  lb_NewForConfig :: "unit outcome"

definition lb_api :: "(labels_state, 'a) go \<Rightarrow> (labels_state, 'a) go" where
  "lb_api m s =
     (let s1 = s\<lparr>lb_time := Suc (lb_time s)\<rparr>
      in case lb_fault s (lb_time s) of Some e \<Rightarrow> (Err e, s1) | None \<Rightarrow> m s1)"

definition Nodes_GetLabels :: "string \<Rightarrow> (labels_state, (string \<rightharpoonup> string) option) go" where
  "Nodes_GetLabels n = lb_api (\<lambda>s. case lb_nodes s n of None \<Rightarrow> (Err NotFound, s) | Some l \<Rightarrow> (Ok l, s))"

definition Nodes_UpdateLabels :: "string \<Rightarrow> (string \<rightharpoonup> string) option \<Rightarrow> (labels_state, unit) go" where
  "Nodes_UpdateLabels n l = lb_api (\<lambda>s.
     case lb_nodes s n of None \<Rightarrow> (Err NotFound, s) | Some _ \<Rightarrow> (Ok (), s\<lparr>lb_nodes := (lb_nodes s)(n \<mapsto> l)\<rparr>))"

section \<open>Devices\<close>

definition labeler_getPCIDevices :: "labeler_env \<Rightarrow> pci_device option list outcome" where
  "labeler_getPCIDevices E =
     obind (wrap_err ''Failed to get PCI info'' (lb_PCI E)) (\<lambda>devices.
     if devices = [] then Err (Errorf ''Got 0 devices'') else Ok devices)"

text \<open>A device that is nil is dereferenced as soon as there is an entry to compare with.\<close>

definition labeler_isDeviceSupported :: "pci_device option \<Rightarrow> (string \<times> SupportedDevice) list \<Rightarrow> bool outcome" where
  "labeler_isDeviceSupported dev supportedList =
     (case supportedList of
        [] \<Rightarrow> Ok False
      | _ \<Rightarrow> obind (deref dev) (\<lambda>d. Ok (list_ex (\<lambda>(name, supported).
          if pci_VendorID d \<noteq> sd_VendorID supported then False
          else if pci_ClassID d \<noteq> sd_Class supported then False
          else if pci_SubclassID d \<noteq> sd_SubClass supported then False
          else if pci_ProductID d \<noteq> sd_DeviceID supported then False
          else True) supportedList)))"

primrec find_supported :: "pci_device option list \<Rightarrow> (string \<times> SupportedDevice) list \<Rightarrow> bool outcome" where
  "find_supported [] sl = Ok False"
| "find_supported (d # ds) sl = obind (labeler_isDeviceSupported d sl) (\<lambda>b. if b then Ok True else find_supported ds sl)"

definition findSupportedDevice :: "labeler_env \<Rightarrow> (string \<times> SupportedDevice) list option \<Rightarrow> bool outcome" where
  "findSupportedDevice E supportedList =
     (case supportedList of
        None \<Rightarrow> Err (Errorf ''config not provided'')
      | Some sl \<Rightarrow>
          obind (wrap_err ''failed to get PCI devices'' (labeler_getPCIDevices E)) (\<lambda>present. find_supported present sl))"

section \<open>The label\<close>

definition setNodeLabel :: "labeler_env \<Rightarrow> string \<Rightarrow> string \<Rightarrow> bool \<Rightarrow> (labels_state, unit) go" where
  "setNodeLabel E nodeName label isDevicePresent =
     (if label = [] then lift (Err (Errorf ''label is empty (check the NODELABEL env var)''))
      else if nodeName = [] then lift (Err (Errorf ''nodeName is empty (check the NODENAME env var)''))
      else
        gbind (lift (wrap_err ''Failed to get cluster config'' (lb_InClusterConfig E))) (\<lambda>_.
        gbind (lift (wrap_err ''Failed to initialize clientset'' (lb_NewForConfig E))) (\<lambda>_.
        gbind (gwrap ''Failed to get the node object'' (Nodes_GetLabels nodeName)) (\<lambda>nodeLabels.
        gbind (lift (if isDevicePresent
                     then (case nodeLabels of None \<Rightarrow> Panic ''assignment to entry in nil map'' | Some m \<Rightarrow> Ok (Some (m(label \<mapsto> []))))
                     else Ok (map_option (\<lambda>m. m(label := None)) nodeLabels))) (\<lambda>newLabels.
        gwrap ''Failed to update the node object'' (Nodes_UpdateLabels nodeName newLabels))))))"

definition on_labels_os :: "(os_state, 'a) go \<Rightarrow> (labels_state, 'a) go" where
  "on_labels_os m s = (case m (lb_os s) of (r, f) \<Rightarrow> (r, s\<lparr>lb_os := f\<rparr>))"

definition DeviceDiscovery :: "labeler_env \<Rightarrow> (labels_state, unit) go" where
  "DeviceDiscovery E =
     gbind (gwrap ''failed to load devices'' (on_labels_os (LoadSupportedDevices (lb_decode E) ''./devices.json''))) (\<lambda>supportedDevices.
     if supportedDevices = [] then lift (Err (Errorf ''no devices configured''))
     else
       gbind (lift (wrap_err ''failed to find device'' (findSupportedDevice E (Some supportedDevices)))) (\<lambda>devFound.
       setNodeLabel E (lb_getenv E ''NODENAME'') (lb_getenv E ''NODELABEL'') devFound))"

section \<open>What the label says\<close>

definition supported_by :: "(string \<times> SupportedDevice) list \<Rightarrow> pci_device \<Rightarrow> bool" where
  "supported_by sl d \<longleftrightarrow> (\<exists>(name, x) \<in> set sl. pci_VendorID d = sd_VendorID x \<and> pci_ClassID d = sd_Class x \<and>
     pci_SubclassID d = sd_SubClass x \<and> pci_ProductID d = sd_DeviceID x)"

lemma labeler_isDeviceSupported_Some:
  "labeler_isDeviceSupported (Some d) sl = Ok (supported_by sl d)"
  by (auto simp: labeler_isDeviceSupported_def supported_by_def list_ex_iff split: list.splits)

lemma find_supported_iff:
  "None \<notin> set ds \<Longrightarrow> find_supported ds sl = Ok (\<exists>d. Some d \<in> set ds \<and> supported_by sl d)"
proof (induction ds)
  case (Cons x ds)
  then obtain d where "x = Some d" by (cases x) auto
  with Cons show ?case by (auto simp: labeler_isDeviceSupported_Some)
qed simp

lemma LoadSupportedDevices_nodes:
  assumes "on_labels_os m s = (r, s')"
  shows "lb_nodes s' = lb_nodes s"
  using assms by (auto simp: on_labels_os_def split: prod.splits)

lemma setNodeLabel_result:
  assumes run: "setNodeLabel E n l found s = (r, s')"
  shows "(r \<noteq> Ok () \<longrightarrow> lb_nodes s' = lb_nodes s) \<and>
    (r = Ok () \<longrightarrow> (\<exists>old new. lb_nodes s n = Some old \<and> lb_nodes s' = (lb_nodes s)(n \<mapsto> new) \<and> (found \<longrightarrow> old \<noteq> None) \<and>
       new = map_option (\<lambda>m. m(l := if found then Some [] else None)) old))"
proof (cases "l = [] \<or> n = [] \<or> lb_InClusterConfig E \<noteq> Ok () \<or> lb_NewForConfig E \<noteq> Ok ()")
  case True
  with run show ?thesis
    by (cases "lb_InClusterConfig E"; cases "lb_NewForConfig E") (auto simp: setNodeLabel_def lift_def gbind_def split: if_splits)
next
  case False
  with run show ?thesis
    by (cases "lb_nodes s n"; cases "lb_fault s (lb_time s)"; cases "lb_fault s (Suc (lb_time s))")
       (auto simp: setNodeLabel_def lift_def gbind_def gwrap_def Nodes_GetLabels_def Nodes_UpdateLabels_def lb_api_def Let_def
          split: if_splits option.splits)
qed

text \<open>
  \<^bold>\<open>C40.\<close> A run of the labeler that succeeds leaves the label on its node exactly when the bus has a supported device,
  leaves every other label and every other node alone; a run that fails or panics changes no label.
\<close>

theorem DeviceDiscovery_labels:
  assumes run: "DeviceDiscovery E s = (r, s')" and devs: "lb_PCI E = Ok ds" "None \<notin> set ds"
  defines "n \<equiv> lb_getenv E ''NODENAME''" and "l \<equiv> lb_getenv E ''NODELABEL''"
  shows "(r = Ok () \<longrightarrow>
       (\<exists>sl old. fst (LoadSupportedDevices (lb_decode E) ''./devices.json'' (lb_os s)) = Ok sl \<and>
          lb_nodes s n = Some old \<and>
          (if \<exists>d. Some d \<in> set ds \<and> supported_by sl d
           then old \<noteq> None \<and> lb_nodes s' = (lb_nodes s)(n \<mapsto> map_option (\<lambda>m. m(l \<mapsto> [])) old)
           else lb_nodes s' = (lb_nodes s)(n \<mapsto> map_option (\<lambda>m. m(l := None)) old)))) \<and>
     (r \<noteq> Ok () \<longrightarrow> lb_nodes s' = lb_nodes s)"
proof -
  obtain r1 s1 where load: "on_labels_os (LoadSupportedDevices (lb_decode E) ''./devices.json'') s = (r1, s1)" by fastforce
  note nodes1 = LoadSupportedDevices_nodes [OF load]
  from load have fst1: "fst (LoadSupportedDevices (lb_decode E) ''./devices.json'' (lb_os s)) = r1"
    by (auto simp: on_labels_os_def split: prod.splits)
  show ?thesis
  proof (cases "\<exists>sl. r1 = Ok sl \<and> sl \<noteq> [] \<and> ds \<noteq> []")
    case False
    with run load nodes1 devs show ?thesis
      by (cases r1) (auto simp: DeviceDiscovery_def gbind_def gwrap_def lift_def findSupportedDevice_def labeler_getPCIDevices_def
          split: if_splits)
  next
    case True
    then obtain sl where sl: "r1 = Ok sl" "sl \<noteq> []" "ds \<noteq> []" by blast
    let ?found = "\<exists>d. Some d \<in> set ds \<and> supported_by sl d"
    from sl devs find_supported_iff [OF devs(2), of sl]
    have "findSupportedDevice E (Some sl) = Ok ?found"
      by (simp add: findSupportedDevice_def labeler_getPCIDevices_def)
    with run load sl have set: "setNodeLabel E n l ?found s1 = (r, s')"
      by (simp add: DeviceDiscovery_def gbind_def gwrap_def lift_def n_def l_def)
    from setNodeLabel_result [OF set] fst1 nodes1 sl show ?thesis
      by (cases "r = Ok ()"; cases ?found) auto
  qed
qed

definition labeler_example :: "labels_state" where
  "labeler_example =
     \<lparr>lb_os = \<lparr>os_dir = [''devices.json'' \<mapsto> DReg 0], os_names = [''devices.json''], os_data = (\<lambda>_. []), os_nlink = (\<lambda>_. 1),
        os_perm = (\<lambda>_. 0), os_dperm = (\<lambda>_. 0), os_next = 1, os_time = 0, os_fault = (\<lambda>_. None)\<rparr>,
      lb_nodes = [''n1'' \<mapsto> Some [''role'' \<mapsto> ''worker'']], lb_time = 0, lb_fault = (\<lambda>_. None)\<rparr>"

definition labeler_example_env :: labeler_env where
  "labeler_example_env =
     \<lparr>lb_decode = (\<lambda>_. Ok [(''E810'', \<lparr>sd_VendorID = ''8086'', sd_Class = ''02'', sd_SubClass = ''00'', sd_DeviceID = ''1593''\<rparr>)]),
      lb_PCI = Ok [Some \<lparr>pci_Address = ''0000:18:00.0'', pci_VendorID = ''8086'', pci_ClassID = ''02'', pci_SubclassID = ''00'',
                        pci_ProductID = ''1593'', pci_ProductName = ''E810''\<rparr>],
      lb_getenv = (\<lambda>x. if x = ''NODENAME'' then ''n1'' else ''fpga''),
      lb_InClusterConfig = Ok (), lb_NewForConfig = Ok ()\<rparr>"

abbreviation (input) e810_device :: pci_device where
  "e810_device \<equiv> \<lparr>pci_Address = ''0000:18:00.0'', pci_VendorID = ''8086'', pci_ClassID = ''02'', pci_SubclassID = ''00'',
     pci_ProductID = ''1593'', pci_ProductName = ''E810''\<rparr>"

abbreviation (input) e810_supported :: "(string \<times> SupportedDevice) list" where
  "e810_supported \<equiv> [(''E810'', \<lparr>sd_VendorID = ''8086'', sd_Class = ''02'', sd_SubClass = ''00'', sd_DeviceID = ''1593''\<rparr>)]"

lemma labeler_example_load:
  "LoadSupportedDevices (lb_decode labeler_example_env) ''./devices.json'' (lb_os labeler_example) =
     (Ok e810_supported, (lb_os labeler_example)\<lparr>os_time := 4\<rparr>)"
proof -
  have path: "Clean ''./devices.json'' = ''devices.json''" "Clean ''devices.json'' = ''devices.json''" by code_simp+
  have follow: "follow S p = Some (Clean p)" if "os_dir S (Clean p) = Some (DReg i)" for S p i
    using that resolve.simps(2) [of 40 "os_dir S" "Clean p"] by (simp add: follow_def)
  show ?thesis
    by (simp add: LoadSupportedDevices_def OpenNoLinks_def OpenFileNoLinks_def OpenFile_nofollow_def isHardLink_def path
        gbind_def gwrap_def sys_def open_name_def os_Stat_def follow ret_def lift_def file_Stat_Size_def attempt_def
        read_file_def labeler_example_def labeler_example_env_def)
qed

lemma labeler_example_run:
  "fst (DeviceDiscovery labeler_example_env labeler_example) = Ok ()"
proof -
  have "findSupportedDevice labeler_example_env (Some e810_supported) = Ok True"
    by code_simp
  moreover have "lb_getenv labeler_example_env ''NODENAME'' = ''n1''" "lb_getenv labeler_example_env ''NODELABEL'' = ''fpga''"
    by code_simp+
  ultimately show ?thesis
    by (simp add: DeviceDiscovery_def gbind_def gwrap_def on_labels_os_def labeler_example_load lift_def setNodeLabel_def)
       (simp add: labeler_example_def labeler_example_env_def Nodes_GetLabels_def Nodes_UpdateLabels_def lb_api_def gbind_def
          gwrap_def lift_def)
qed

theorem DeviceDiscovery_labels_witness:
  "lb_nodes (snd (DeviceDiscovery labeler_example_env labeler_example)) ''n1'' =
     Some (Some [''role'' \<mapsto> ''worker'', ''fpga'' \<mapsto> []])"
proof -
  obtain r s' where run: "DeviceDiscovery labeler_example_env labeler_example = (r, s')" by fastforce
  with labeler_example_run have r: "r = Ok ()" by simp
  have node: "lb_getenv labeler_example_env ''NODENAME'' = ''n1''" "lb_getenv labeler_example_env ''NODELABEL'' = ''fpga''"
    "lb_nodes labeler_example ''n1'' = Some (Some [''role'' \<mapsto> ''worker''])"
    by (simp_all add: labeler_example_env_def labeler_example_def)
  have pci: "lb_PCI labeler_example_env = Ok [Some e810_device]" by (simp add: labeler_example_env_def)
  have "supported_by e810_supported e810_device"
    by (simp add: supported_by_def)
  with DeviceDiscovery_labels [OF run pci] r node labeler_example_load run show ?thesis by auto
qed

end
