(* ===== verification/Asset_Manager.thy ===== *)
theory Asset_Manager
  imports Os_Utils
begin

text \<open>
  \<^verbatim>\<open>pkg/utils/assets/asset.go\<close> and \<^verbatim>\<open>manager.go\<close>: loading Kubernetes objects from files and config maps and
  deploying them.

  An object is its type, the metadata the code reads or writes, the rest of its metadata and its other
  top-level fields. The objects of an asset are pointers into a heap: a deployed object is updated in place,
  and the copy of an \<^verbatim>\<open>Asset\<close> that \<^verbatim>\<open>Deploy\<close> ranges over shares them. The API server stores objects by type,
  namespace and name; \<open>as_others\<close> is what everyone else does to the stored objects before each call, and
  \<open>as_fault\<close> the calls that fail. What the server stores for an object it is given (\<open>ae_admit\<close>: a resource
  version, defaults), \<^verbatim>\<open>text/template\<close>, the YAML decoder, \<^verbatim>\<open>SetControllerReference\<close>, \<^verbatim>\<open>DeepDerivative\<close> and
  \<^verbatim>\<open>wait.ExponentialBackoff\<close> are parameters. The delay between two polls has no effect.
\<close>

section \<open>Data\<close>

datatype yaml_value =
    YNull
  | YBool bool
  | YInt int
  | YString string
  | YList "yaml_value list"
  | YMap "(string \<times> yaml_value) list"

record unstructured =
  un_APIVersion :: string
  un_Kind :: string
  un_Namespace :: string
  un_Name :: string
  un_ResourceVersion :: string
  un_Metadata :: "string \<rightharpoonup> yaml_value"
  un_Object :: "string \<rightharpoonup> yaml_value"

type_synonym object_key = "string \<times> string \<times> string \<times> string"

definition object_key :: "unstructured \<Rightarrow> object_key" where
  "object_key o' = (un_APIVersion o', un_Kind o', un_Namespace o', un_Name o')"

record Asset =
  as_Path :: string
  as_ConfigMapName :: string
  as_Retries :: int
  as_substitutions :: "string \<rightharpoonup> string"
  as_objects :: "nat list"

record object_owner =
  ow_Namespace :: string
  ow_Name :: string
  ow_UID :: string

record assets_state =
  as_heap :: "nat \<Rightarrow> unstructured"
  as_new :: nat
  as_assets :: "Asset list"
  as_store :: "object_key \<rightharpoonup> unstructured"
  as_others :: "nat \<Rightarrow> (object_key \<rightharpoonup> unstructured) \<Rightarrow> (object_key \<rightharpoonup> unstructured)"
  as_fault :: "nat \<Rightarrow> goerr option"
  as_time :: nat
  as_os :: os_state

record asset_env =
  ae_Parse :: "string \<Rightarrow> ((string \<rightharpoonup> string) \<Rightarrow> string outcome) outcome"
  ae_Decode :: "string \<Rightarrow> unstructured outcome"
  ae_SetControllerReference :: "object_owner \<Rightarrow> unstructured \<Rightarrow> unstructured outcome"
  ae_DeepDerivative :: "unstructured \<Rightarrow> unstructured \<Rightarrow> bool"
  ae_admit :: "nat \<Rightarrow> unstructured option \<Rightarrow> unstructured \<Rightarrow> unstructured"
  ae_Backoff :: "int \<Rightarrow> (assets_state, bool) go \<Rightarrow> (assets_state, unit) go"
  ae_environ :: "string \<rightharpoonup> string"
  ae_range :: "string set \<Rightarrow> string list"

record asset_manager =
  am_Namespace :: string
  am_EnvPrefix :: string
  am_Owner :: "object_owner option"

section \<open>The API server\<close>

definition as_api :: "(assets_state, 'a) go \<Rightarrow> (assets_state, 'a) go" where
  "as_api m s =
     (let s1 = s\<lparr>as_time := Suc (as_time s), as_store := as_others s (as_time s) (as_store s)\<rparr>
      in case as_fault s (as_time s) of Some e \<Rightarrow> (Err e, s1) | None \<Rightarrow> m s1)"

definition assets_Get :: "object_key \<Rightarrow> (assets_state, unstructured) go" where
  "assets_Get k = as_api (\<lambda>s. case as_store s k of None \<Rightarrow> (Err NotFound, s) | Some o' \<Rightarrow> (Ok o', s))"

text \<open>The server's answer is written into the object that was passed.\<close>

definition assets_Create :: "asset_env \<Rightarrow> nat \<Rightarrow> (assets_state, unit) go" where
  "assets_Create E p = as_api (\<lambda>s.
     let o' = as_heap s p in
     if un_ResourceVersion o' \<noteq> [] then (Err (Errorf ''resourceVersion should not be set on objects to be created''), s)
     else case as_store s (object_key o') of
            Some _ \<Rightarrow> (Err (Errorf ''already exists''), s)
          | None \<Rightarrow> (let new = ae_admit E (as_time s) None o'
                     in (Ok (), s\<lparr>as_store := (as_store s)(object_key o' \<mapsto> new), as_heap := (as_heap s)(p := new)\<rparr>)))"

definition assets_Update :: "asset_env \<Rightarrow> nat \<Rightarrow> (assets_state, unit) go" where
  "assets_Update E p = as_api (\<lambda>s.
     let o' = as_heap s p in
     case as_store s (object_key o') of
       None \<Rightarrow> (Err NotFound, s)
     | Some old \<Rightarrow>
         (if un_ResourceVersion o' \<noteq> [] \<and> un_ResourceVersion o' \<noteq> un_ResourceVersion old then (Err Conflict, s)
          else (let new = ae_admit E (as_time s) (Some old) o'
                in (Ok (), s\<lparr>as_store := (as_store s)(object_key o' \<mapsto> new), as_heap := (as_heap s)(p := new)\<rparr>))))"

section \<open>Loading an asset\<close>

definition on_assets_os :: "(os_state, 'a) go \<Rightarrow> (assets_state, 'a) go" where
  "on_assets_os m s = (case m (as_os s) of (r, f) \<Rightarrow> (r, s\<lparr>as_os := f\<rparr>))"

definition on_asset :: "nat \<Rightarrow> (Asset \<Rightarrow> Asset) \<Rightarrow> (assets_state, unit) go" where
  "on_asset i f = modify (\<lambda>s. s\<lparr>as_assets := (as_assets s)[i := f (as_assets s ! i)]\<rparr>)"

text \<open>\<^verbatim>\<open>regexp.MustCompile("\n-{3}").Split(s, -1)\<close>.\<close>

fun split_documents :: "string \<Rightarrow> string list" where
  "split_documents [] = [[]]"
| "split_documents (x # xs) =
     (if HasPrefix (x # xs) (CHR 0x0A # ''---'') then [] # split_documents (drop 3 xs)
      else case split_documents xs of [] \<Rightarrow> [[x]] | d # ds \<Rightarrow> (x # d) # ds)"

text \<open>The body of both loops: decode a definition and append the object.\<close>

definition append_object :: "asset_env \<Rightarrow> nat \<Rightarrow> string \<Rightarrow> (assets_state, unit) go" where
  "append_object E i objectDef =
     gbind (lift (ae_Decode E objectDef)) (\<lambda>obj.
     gbind (reading as_new) (\<lambda>p.
     gbind (modify (\<lambda>s. s\<lparr>as_heap := (as_heap s)(p := obj), as_new := Suc p\<rparr>)) (\<lambda>_.
     on_asset i (\<lambda>a. a\<lparr>as_objects := as_objects a @ [p]\<rparr>))))"

definition loadFromFile :: "asset_env \<Rightarrow> nat \<Rightarrow> (assets_state, unit) go" where
  "loadFromFile E i =
     gbind (reading (\<lambda>s. as_assets s ! i)) (\<lambda>a.
     let cleanPath = Clean (as_Path a) in
     gbind (on_assets_os (os_Stat cleanPath)) (\<lambda>(fileInfo, _).
     if fileInfo = DDir then lift (Err (Errorf ''loading directory of assets is not supported''))
     else
       gbind (on_assets_os (os_ReadFile cleanPath)) (\<lambda>content.
       gbind (lift (ae_Parse E (map (\<lambda>b. char_of (unat b)) content))) (\<lambda>t.
       gbind (lift (t (as_substitutions a))) (\<lambda>templatedContent.
       gfor (append_object E i) (split_documents templatedContent))))))"

definition clearAllObjects :: "nat \<Rightarrow> (assets_state, unit) go" where
  "clearAllObjects i = on_asset i (\<lambda>a. a\<lparr>as_objects := []\<rparr>)"

text \<open>The data of a stored config map; the typed client refuses data that is not strings.\<close>

definition ConfigMap_Data :: "unstructured \<Rightarrow> (string \<rightharpoonup> string) outcome" where
  "ConfigMap_Data o' =
     (case un_Object o' ''data'' of
        None \<Rightarrow> Ok Map.empty
      | Some YNull \<Rightarrow> Ok Map.empty
      | Some (YMap kvs) \<Rightarrow>
          (if list_all (\<lambda>(k, v). case v of YString _ \<Rightarrow> True | YNull \<Rightarrow> True | _ \<Rightarrow> False) kvs
           then Ok (map_of (map (\<lambda>(k, v). (k, case v of YString x \<Rightarrow> x | _ \<Rightarrow> [])) kvs))
           else Err (Errorf ''cannot unmarshal data''))
      | Some _ \<Rightarrow> Err (Errorf ''cannot unmarshal data''))"

definition getConfigMapData :: "string \<Rightarrow> string \<Rightarrow> (assets_state, string \<rightharpoonup> string) go" where
  "getConfigMapData cmName ns =
     gbind (assets_Get (''v1'', ''ConfigMap'', ns, cmName)) (\<lambda>o'. lift (ConfigMap_Data o'))"

definition loadFromConfigMap :: "asset_env \<Rightarrow> string \<Rightarrow> nat \<Rightarrow> (assets_state, unit) go" where
  "loadFromConfigMap E ns i =
     gbind (reading (\<lambda>s. as_assets s ! i)) (\<lambda>a.
     gbind (getConfigMapData (as_ConfigMapName a) ns) (\<lambda>data.
     gbind (clearAllObjects i) (\<lambda>_.
     gfor (\<lambda>k. append_object E i (the (data k))) (ae_range E (dom data)))))"

section \<open>Deploying an asset\<close>

text \<open>Every \<^verbatim>\<open>client.Object\<close> is a \<^verbatim>\<open>metav1.Object\<close>, so the failed type assertion has no branch here.\<close>

definition setOwner :: "asset_env \<Rightarrow> object_owner option \<Rightarrow> nat \<Rightarrow> (assets_state, unit) go" where
  "setOwner E owner p =
     gbind (lift (deref owner)) (\<lambda>ow.
     gbind (reading (\<lambda>s. as_heap s p)) (\<lambda>obj.
     if ow_Namespace ow = un_Namespace obj
     then gbind (lift (ae_SetControllerReference E ow obj)) (\<lambda>obj'. modify (\<lambda>s. s\<lparr>as_heap := (as_heap s)(p := obj')\<rparr>))
     else ret ()))"

definition createOrUpdate_object :: "asset_env \<Rightarrow> object_owner option \<Rightarrow> nat \<Rightarrow> (assets_state, unit) go" where
  "createOrUpdate_object E owner p =
     gbind (setOwner E owner p) (\<lambda>_.
     gbind (reading (\<lambda>s. as_heap s p)) (\<lambda>obj.
     gbind (attempt (assets_Get (object_key obj))) (\<lambda>r.
     case r of
       Err e \<Rightarrow> (if e \<noteq> NotFound then lift (Err e) else assets_Create E p)
     | Panic x \<Rightarrow> lift (Panic x)
     | Ok old \<Rightarrow>
         (if ToLower (un_Kind old) = ''configmap'' \<and> un_Object old ''immutable'' = Some (YBool True) then ret ()
          else if \<not> ae_DeepDerivative E obj old
          then gbind (modify (\<lambda>s. s\<lparr>as_heap := (as_heap s)(p := obj\<lparr>un_ResourceVersion := un_ResourceVersion old\<rparr>)\<rparr>)) (\<lambda>_.
               assets_Update E p)
          else ret ()))))"

definition createOrUpdate :: "asset_env \<Rightarrow> object_owner option \<Rightarrow> Asset \<Rightarrow> (assets_state, unit) go" where
  "createOrUpdate E owner a = gfor (createOrUpdate_object E owner) (as_objects a)"

definition NumberUnavailable :: "unstructured \<Rightarrow> int outcome" where
  "NumberUnavailable o' =
     (case un_Object o' ''status'' of
        Some (YMap kvs) \<Rightarrow>
          (case map_of kvs ''numberUnavailable'' of
             None \<Rightarrow> Ok 0
           | Some YNull \<Rightarrow> Ok 0
           | Some (YInt n) \<Rightarrow> (if - (2 ^ 31) \<le> n \<and> n < 2 ^ 31 then Ok n else Err (Errorf ''cannot unmarshal numberUnavailable''))
           | Some _ \<Rightarrow> Err (Errorf ''cannot unmarshal numberUnavailable''))
      | None \<Rightarrow> Ok 0
      | Some YNull \<Rightarrow> Ok 0
      | Some _ \<Rightarrow> Err (Errorf ''cannot unmarshal status''))"

definition daemonset_ready :: "nat \<Rightarrow> (assets_state, bool) go" where
  "daemonset_ready p =
     gbind (reading (\<lambda>s. as_heap s p)) (\<lambda>obj.
     gbind (assets_Get (''apps/v1'', ''DaemonSet'', un_Namespace obj, un_Name obj)) (\<lambda>ds.
     gbind (lift (NumberUnavailable ds)) (\<lambda>n. ret (n = 0))))"

definition waitUntilReady :: "asset_env \<Rightarrow> Asset \<Rightarrow> (assets_state, unit) go" where
  "waitUntilReady E a =
     (if as_Retries a = 0 then ret ()
      else gfor (\<lambda>p. gbind (reading (\<lambda>s. as_heap s p)) (\<lambda>obj.
             if un_Kind obj \<noteq> ''DaemonSet'' then ret () else ae_Backoff E (as_Retries a) (daemonset_ready p)))
             (as_objects a))"

section \<open>Template variables\<close>

abbreviation (input) proxies :: "string list" where
  "proxies \<equiv> [''HTTP_PROXY'', ''HTTPS_PROXY'', ''NO_PROXY'']"

definition isProxy :: "string \<Rightarrow> bool" where
  "isProxy name \<longleftrightarrow> name \<in> set proxies"

text \<open>\<^verbatim>\<open>os.Environ\<close>: the pairs of the environment, in its order.\<close>

definition os_Environ :: "asset_env \<Rightarrow> string list" where
  "os_Environ E = map (\<lambda>k. k @ ''='' @ the (ae_environ E k)) (ae_range E (dom (ae_environ E)))"

definition add_pair :: "asset_manager \<Rightarrow> string \<Rightarrow> (string \<rightharpoonup> string) \<Rightarrow> (string \<rightharpoonup> string)" where
  "add_pair M pair tp =
     (case Split CHR ''='' pair of
        [k, v] \<Rightarrow> (if HasPrefix k (am_EnvPrefix M) \<or> isProxy k then tp(k \<mapsto> v) else tp)
      | _ \<Rightarrow> tp)"

definition add_missing :: "string \<Rightarrow> (string \<rightharpoonup> string) \<Rightarrow> (string \<rightharpoonup> string)" where
  "add_missing proxy tp = (if tp proxy = None then tp(proxy \<mapsto> []) else tp)"

definition buildTemplateVars :: "asset_env \<Rightarrow> asset_manager \<Rightarrow> (assets_state, string \<rightharpoonup> string) go" where
  "buildTemplateVars E M =
     (let tp = fold add_missing proxies (fold (add_pair M) (os_Environ E) Map.empty)
      in gbind (on_assets_os GetFwSearchPath) (\<lambda>(fwPath, err). ret (tp(''FW_HOST_PATH'' \<mapsto> fwPath))))"

section \<open>The manager\<close>

definition LoadFromFile :: "asset_env \<Rightarrow> asset_manager \<Rightarrow> (assets_state, unit) go" where
  "LoadFromFile E M =
     gbind (buildTemplateVars E M) (\<lambda>tv.
     gbind (reading (\<lambda>s. length (as_assets s))) (\<lambda>n.
     gfor (\<lambda>idx. gbind (on_asset idx (\<lambda>a. a\<lparr>as_substitutions := tv\<rparr>)) (\<lambda>_. loadFromFile E idx)) [0..<n]))"

definition LoadFromConfigMap :: "asset_env \<Rightarrow> asset_manager \<Rightarrow> (assets_state, unit) go" where
  "LoadFromConfigMap E M =
     gbind (reading (\<lambda>s. length (as_assets s))) (\<lambda>n.
     gfor (loadFromConfigMap E (am_Namespace M)) [0..<n])"

definition Deploy :: "asset_env \<Rightarrow> asset_manager \<Rightarrow> (assets_state, unit) go" where
  "Deploy E M =
     gbind (reading as_assets) (\<lambda>assets.
     gfor (\<lambda>asset. gbind (createOrUpdate E (am_Owner M) asset) (\<lambda>_. waitUntilReady E asset)) assets)"

definition DeployConfigMaps :: "asset_env \<Rightarrow> asset_manager \<Rightarrow> (assets_state, unit) go" where
  "DeployConfigMaps E M = gbind (LoadFromFile E M) (\<lambda>_. Deploy E M)"

definition LoadFromConfigMapAndDeploy :: "asset_env \<Rightarrow> asset_manager \<Rightarrow> (assets_state, unit) go" where
  "LoadFromConfigMapAndDeploy E M = gbind (LoadFromConfigMap E M) (\<lambda>_. Deploy E M)"

end
