(* ===== verification/Operator_Startup.thy ===== *)
theory Operator_Startup
  imports Asset_Manager Node_Flow_Controller Fwddp_Daemon Labeler
begin

text \<open>
  The programs of the repository: \<^verbatim>\<open>main.go\<close> and the three of \<^verbatim>\<open>cmd\<close>, with the construction of the daemon's
  reconciler (\<^verbatim>\<open>pkg/fwddp-daemon/daemon.go\<close>) and the readiness check of the DCF client (\<^verbatim>\<open>dcf_client.go\<close>).

  A program is the sequence of its calls into controller-runtime, each of which succeeds or fails (\<open>se_call\<close>); an
  error is \<^verbatim>\<open>os.Exit(1)\<close>. The calls made are recorded. \<^verbatim>\<open>mgr.Start\<close> runs the controllers, which the other theories
  model, and returns when the program ends.
\<close>

section \<open>The rest of the DCF client\<close>

text \<open>The four remote calls that no controller makes; the call of the generated client is the argument.\<close>

definition dcfClient_Query :: "('any, 'd) grpc_stub \<Rightarrow> ('req \<Rightarrow> ('d, 'resp) go) \<Rightarrow> 'req \<Rightarrow> ('d, 'resp) go" where
  "dcfClient_Query G client_Query req = gbind (getDCFFlowClientConn G) (\<lambda>_. client_Query req)"

definition dcfClient_List :: "('any, 'd) grpc_stub \<Rightarrow> ('req \<Rightarrow> ('d, 'resp) go) \<Rightarrow> 'req \<Rightarrow> ('d, 'resp) go" where
  "dcfClient_List G client_List req = gbind (getDCFFlowClientConn G) (\<lambda>_. client_List req)"

definition dcfClient_Flush :: "('any, 'd) grpc_stub \<Rightarrow> ('req \<Rightarrow> ('d, 'resp) go) \<Rightarrow> 'req \<Rightarrow> ('d, 'resp) go" where
  "dcfClient_Flush G client_Flush req = gbind (getDCFFlowClientConn G) (\<lambda>_. client_Flush req)"

definition dcfClient_Isolate :: "('any, 'd) grpc_stub \<Rightarrow> ('req \<Rightarrow> ('d, 'resp) go) \<Rightarrow> 'req \<Rightarrow> ('d, 'resp) go" where
  "dcfClient_Isolate G client_Isolate req = gbind (getDCFFlowClientConn G) (\<lambda>_. client_Isolate req)"

text \<open>One attempt: every error of the dial and of the call means that the service is not ready.\<close>

definition dcf_ready :: "('any, 'd) grpc_stub \<Rightarrow> ('d, bool) go" where
  "dcf_ready G =
     gbind (attempt (stub_DialContext G)) (\<lambda>conn.
     case conn of
       Ok _ \<Rightarrow> gbind (attempt (stub_ListPorts G)) (\<lambda>r. case r of Ok _ \<Rightarrow> ret True | _ \<Rightarrow> ret False)
     | _ \<Rightarrow> ret False)"

definition CheckClientReadiness :: "(nat \<Rightarrow> ('d, bool) go \<Rightarrow> ('d, unit) go) \<Rightarrow> ('any, 'd) grpc_stub \<Rightarrow> ('d, unit) go" where
  "CheckClientReadiness backoff G = backoff 10 (dcf_ready G)"

section \<open>Construction of the firmware daemon\<close>

datatype 'pool http_client = DefaultClient | SecureClient 'pool

record ('cert, 'pool) tls_lib =
  x509_ParseCertificate :: "byte list \<Rightarrow> 'cert outcome"
  x509_SystemCertPool :: "'pool outcome"
  certPool_AddCert :: "'cert \<Rightarrow> 'pool \<Rightarrow> 'pool"
  http_Get :: "'pool http_client \<Rightarrow> string \<Rightarrow> http_response outcome"

definition getTlsCert :: "('cert, 'pool) tls_lib \<Rightarrow> (os_state, 'cert option) go" where
  "getTlsCert L =
     gbind (attempt (os_ReadFile ''/etc/certificate/tls.crt'')) (\<lambda>r.
     case r of
       Ok derBytes \<Rightarrow>
         (case x509_ParseCertificate L derBytes of
            Ok cert \<Rightarrow> ret (Some cert)
          | Err e \<Rightarrow> ret None
          | Panic p \<Rightarrow> lift (Panic p))
     | _ \<Rightarrow> ret None)"

definition NewSecureHttpsClient :: "('cert, 'pool) tls_lib \<Rightarrow> 'cert \<Rightarrow> 'pool http_client outcome" where
  "NewSecureHttpsClient L cert =
     obind (wrap_err ''failed to get syscerts'' (x509_SystemCertPool L)) (\<lambda>certPool.
     Ok (SecureClient (certPool_AddCert L cert certPool)))"

text \<open>The reconciler is its environment; the HTTP client becomes the source of its downloads.\<close>

definition NewNodeConfigReconciler ::
    "('cert, 'pool) tls_lib \<Rightarrow> (byte list \<Rightarrow> (string \<times> SupportedDevice) list outcome) \<Rightarrow> daemon_env \<Rightarrow>
     string \<Rightarrow> string \<Rightarrow> (os_state, daemon_env) go" where
  "NewNodeConfigReconciler L decode E node ns =
     gbind (LoadConfig decode (de_inventory E)) (\<lambda>inventory.
     gbind (getTlsCert L) (\<lambda>cert.
     gbind (lift (case cert of None \<Rightarrow> Ok DefaultClient | Some c \<Rightarrow> NewSecureHttpsClient L c)) (\<lambda>httpClient.
     ret (E\<lparr>de_inventory := inventory, de_http_Get := http_Get L httpClient, de_nodeName := node, de_namespace := ns\<rparr>))))"

section \<open>Programs\<close>

datatype setup_call =
    NewDiscoveryClient
  | ServerGroups
  | NewClient
  | NewClientset
  | GetOwner
  | NewManager
  | SetupController string
  | SetupWebhook string
  | AddCheck string
  | StartManager

record 's startup =
  st_env :: "string \<rightharpoonup> string"
  st_calls :: "setup_call list"
  st_CertDir :: string
  st_ClientCAName :: string
  st_rest :: 's

record startup_env =
  se_call :: "setup_call \<Rightarrow> unit outcome"
  se_groups :: "string list"
  se_owner :: object_owner
  se_assets :: asset_env

definition manager_call :: "startup_env \<Rightarrow> setup_call \<Rightarrow> ('s startup, unit) go" where
  "manager_call S c = gbind (modify (\<lambda>s. s\<lparr>st_calls := st_calls s @ [c]\<rparr>)) (\<lambda>_. lift (se_call S c))"

definition on_rest :: "('s, 'a) go \<Rightarrow> ('s startup, 'a) go" where
  "on_rest m s = (case m (st_rest s) of (r, x) \<Rightarrow> (r, s\<lparr>st_rest := x\<rparr>))"

definition on_env :: "(string \<rightharpoonup> string, 'a) go \<Rightarrow> ('s startup, 'a) go" where
  "on_env m s = (case m (st_env s) of (r, e) \<Rightarrow> (r, s\<lparr>st_env := e\<rparr>))"

subsection \<open>main.go\<close>

definition setClusterType :: "startup_env \<Rightarrow> ('s startup, unit) go" where
  "setClusterType S =
     gbind (gwrap ''failed to create discoveryClient'' (manager_call S NewDiscoveryClient)) (\<lambda>_.
     gbind (gwrap ''issue occurred while fetching ServerGroups'' (manager_call S ServerGroups)) (\<lambda>_.
     if ''route.openshift.io'' \<in> set (se_groups S)
     then gwrap ''failed to set ETHERNET_GENERIC_K8S env variable'' (on_env (SetOsEnvIfNotSet ''ETHERNET_GENERIC_K8S'' ''false''))
     else gwrap ''failed to set ETHERNET_GENERIC_K8S env variable'' (on_env (SetOsEnvIfNotSet ''ETHERNET_GENERIC_K8S'' ''true''))))"

definition isRunningInPod :: "(string \<rightharpoonup> string) \<Rightarrow> bool" where
  "isRunningInPod env \<longleftrightarrow> env ''KUBERNETES_SERVICE_HOST'' \<noteq> None"

text \<open>The option function: the webhook server verifies client certificates.\<close>

definition TLSOpts_ClientAuth :: "(string \<rightharpoonup> string) \<Rightarrow> bool" where
  "TLSOpts_ClientAuth env \<longleftrightarrow> os_Getenv env ''ENABLE_WEBHOOK_MTLS'' = ''true''"

definition webhook_mtls :: "(assets_state startup, unit) go" where
  "webhook_mtls =
     gbind (reading st_env) (\<lambda>env.
     if os_Getenv env ''ENABLE_WEBHOOK_MTLS'' = ''true''
     then
       gbind (modify (\<lambda>s. s\<lparr>st_CertDir := ''/tmp/k8s-webhook-server/serving-certs/''\<rparr>)) (\<lambda>_.
       gbind (attempt (on_rest (on_assets_os (os_Stat ''/etc/ieo-webhook/pki/ca.crt'')))) (\<lambda>r.
       let caPath = (case r of Ok _ \<Rightarrow> ''/etc/ieo-webhook/pki/ca.crt'' | _ \<Rightarrow> ''/var/run/secrets/kubernetes.io/serviceaccount/ca.crt'') in
       modify (\<lambda>s. s\<lparr>st_ClientCAName := filepath_Join [''../../../'', caPath]\<rparr>)))
     else ret ())"

definition setup_webhooks :: "startup_env \<Rightarrow> ('s startup, unit) go" where
  "setup_webhooks S =
     gbind (reading st_env) (\<lambda>env.
     if os_Getenv env ''ENABLE_WEBHOOKS'' \<noteq> ''false''
     then gbind (manager_call S (SetupWebhook ''NodeFlowConfig'')) (\<lambda>_. manager_call S (SetupWebhook ''ClusterFlowConfig''))
     else ret ())"

definition assetsToDeploy :: "(string \<rightharpoonup> string) \<Rightarrow> Asset list" where
  "assetsToDeploy env =
     [\<lparr>as_Path = ''assets/100-labeler.yaml'', as_ConfigMapName = ''labeler-config'', as_Retries = 0,
       as_substitutions = Map.empty, as_objects = []\<rparr>,
      \<lparr>as_Path = ''assets/200-daemon.yaml'', as_ConfigMapName = ''daemon-config'', as_Retries = 30,
       as_substitutions = Map.empty, as_objects = []\<rparr>] @
     (if \<not> IsK8sDeployment (os_Getenv env)
      then [\<lparr>as_Path = ''assets/300-machine-config.yaml'', as_ConfigMapName = ''machine-config'', as_Retries = 0,
             as_substitutions = Map.empty, as_objects = []\<rparr>]
      else [])"

definition deploy_assets_main :: "startup_env \<Rightarrow> string \<Rightarrow> (assets_state startup, unit) go" where
  "deploy_assets_main S namespace =
     gbind (reading st_env) (\<lambda>env.
     let E = (se_assets S)\<lparr>ae_environ := env\<rparr>;
         assetsManager = \<lparr>am_Namespace = namespace, am_EnvPrefix = ''ETHERNET_'', am_Owner = Some (se_owner S)\<rparr> in
     gbind (on_rest (modify (\<lambda>s. s\<lparr>as_assets := assetsToDeploy env\<rparr>))) (\<lambda>_.
     gbind (on_rest (DeployConfigMaps E assetsManager)) (\<lambda>_.
     on_rest (LoadFromConfigMapAndDeploy E assetsManager))))"

text \<open>\<^verbatim>\<open>NAMESPACE\<close> is a package variable, read before \<^verbatim>\<open>main\<close> starts.\<close>

definition operator_main :: "startup_env \<Rightarrow> (assets_state startup, unit) go" where
  "operator_main S =
     gbind (reading (\<lambda>s. os_Getenv (st_env s) ''ETHERNET_NAMESPACE'')) (\<lambda>namespace.
     gbind (setClusterType S) (\<lambda>_.
     gbind (reading (\<lambda>s. isRunningInPod (st_env s))) (\<lambda>runningInK8s.
     gbind (manager_call S NewClient) (\<lambda>_.
     gbind (if runningInK8s then manager_call S GetOwner else ret ()) (\<lambda>_.
     gbind (manager_call S NewManager) (\<lambda>_.
     gbind (manager_call S (SetupController ''EthernetClusterConfig'')) (\<lambda>_.
     gbind webhook_mtls (\<lambda>_.
     gbind (setup_webhooks S) (\<lambda>_.
     gbind (manager_call S (SetupController ''FlowConfigNodeAgentDeployment'')) (\<lambda>_.
     gbind (manager_call S (SetupController ''ClusterFlowConfig'')) (\<lambda>_.
     gbind (manager_call S (AddCheck ''healthz'')) (\<lambda>_.
     gbind (manager_call S (AddCheck ''readyz'')) (\<lambda>_.
     gbind (if runningInK8s then deploy_assets_main S namespace else ret ()) (\<lambda>_.
     manager_call S StartManager))))))))))))))"

subsection \<open>cmd/fwddp-daemon/main.go\<close>

definition fwddp_main ::
    "startup_env \<Rightarrow> ('cert, 'pool) tls_lib \<Rightarrow> (byte list \<Rightarrow> (string \<times> SupportedDevice) list outcome) \<Rightarrow> daemon_env \<Rightarrow>
     (fd_state startup, daemon_env) go" where
  "fwddp_main S L decode E =
     gbind (reading st_env) (\<lambda>env.
     let node = os_Getenv env ''NODENAME''; ns = os_Getenv env ''ETHERNET_NAMESPACE'' in
     if node = [] then lift (Err (Errorf ''NODENAME environment variable is empty''))
     else if ns = [] then lift (Err (Errorf ''ETHERNET_NAMESPACE environment variable is empty''))
     else
       gbind (manager_call S NewClient) (\<lambda>_.
       gbind (manager_call S NewClientset) (\<lambda>_.
       gbind (manager_call S NewManager) (\<lambda>_.
       gbind (on_rest (on_os (NewNodeConfigReconciler L decode E node ns))) (\<lambda>daemon.
       gbind (manager_call S (SetupController ''NodeConfig'')) (\<lambda>_.
       gbind (on_rest (CreateEmptyNodeConfigIfNeeded daemon)) (\<lambda>_.
       gbind (manager_call S StartManager) (\<lambda>_. ret daemon))))))))"

subsection \<open>cmd/flowconfig-daemon/main.go\<close>

definition flowconfig_main :: "startup_env \<Rightarrow> (nat \<Rightarrow> ('d, bool) go \<Rightarrow> ('d, unit) go) \<Rightarrow> ('any, 'd) grpc_stub \<Rightarrow>
    ('d startup, unit) go" where
  "flowconfig_main S backoff G =
     gbind (manager_call S NewManager) (\<lambda>_.
     gbind (reading (\<lambda>s. os_Getenv (st_env s) ''NODE_NAME'')) (\<lambda>node.
     if node = [] then lift (Err (Errorf ''unable to get K8s node name from ENV var NODE_NAME''))
     else
       gbind (on_rest (CheckClientReadiness backoff G)) (\<lambda>_.
       gbind (manager_call S (SetupController ''NodeAclPolicy'')) (\<lambda>_.
       manager_call S StartManager))))"

subsection \<open>cmd/labeler/main.go\<close>

text \<open>The exit code.\<close>

definition labeler_main :: "labeler_env \<Rightarrow> (labels_state, nat) go" where
  "labeler_main E =
     gbind (attempt (DeviceDiscovery E)) (\<lambda>r. case r of Err e \<Rightarrow> ret 1 | _ \<Rightarrow> ret 0)"

end
