(* ===== verification/Asset_Facts.thy ===== *)
theory Asset_Facts
  imports Asset_Manager
begin

text \<open>
  Facts about loading and deploying assets. \<open>server_spec\<close> states what is documented of the API server and of the
  libraries: an object keeps its type, namespace and name when it is stored or given an owner, what is stored
  derives from what was sent, and unset fields are ignored by \<^verbatim>\<open>DeepDerivative\<close>. \<open>in_effect\<close> is what a deployed
  object should be afterwards, \<open>steady\<close> that nobody else undoes it, \<open>quiet\<close> that
  nobody else writes at all.
\<close>

section \<open>Specification\<close>

definition unversioned :: "unstructured \<Rightarrow> unstructured" where
  "unversioned o' = o'\<lparr>un_ResourceVersion := []\<rparr>"

lemma unversioned_simps [simp]:
  "object_key (unversioned o') = object_key o'" "unversioned (o'\<lparr>un_ResourceVersion := v\<rparr>) = unversioned o'"
  "object_key (o'\<lparr>un_ResourceVersion := v\<rparr>) = object_key o'"
  by (simp_all add: unversioned_def object_key_def)

definition server_spec :: "asset_env \<Rightarrow> bool" where
  "server_spec E \<longleftrightarrow>
     (\<forall>t old o'. object_key (ae_admit E t old o') = object_key o') \<and>
     (\<forall>t old o'. ae_DeepDerivative E (unversioned o') (ae_admit E t old o')) \<and>
     (\<forall>o' x. ae_DeepDerivative E o' x \<longrightarrow> ae_DeepDerivative E (unversioned o') x) \<and>
     (\<forall>ow o' x. ae_SetControllerReference E ow o' = Ok x \<longrightarrow>
        object_key x = object_key o' \<and> un_ResourceVersion x = un_ResourceVersion o')"

definition immutable_config_map :: "unstructured \<Rightarrow> bool" where
  "immutable_config_map o' \<longleftrightarrow> ToLower (un_Kind o') = ''configmap'' \<and> un_Object o' ''immutable'' = Some (YBool True)"

definition in_effect :: "asset_env \<Rightarrow> unstructured \<Rightarrow> (object_key \<rightharpoonup> unstructured) \<Rightarrow> bool" where
  "in_effect E o' st \<longleftrightarrow>
     (\<exists>x. st (object_key o') = Some x \<and> (immutable_config_map x \<or> ae_DeepDerivative E (unversioned o') x))"

definition steady :: "asset_env \<Rightarrow> assets_state \<Rightarrow> bool" where
  "steady E s \<longleftrightarrow> (\<forall>t st o'. in_effect E o' st \<longrightarrow> in_effect E o' (as_others s t st))"

definition quiet :: "assets_state \<Rightarrow> bool" where
  "quiet s \<longleftrightarrow> (\<forall>t st. as_others s t st = st)"

text \<open>The object with the owner the code gives it.\<close>

definition owned :: "asset_env \<Rightarrow> object_owner option \<Rightarrow> unstructured \<Rightarrow> unstructured outcome" where
  "owned E owner obj =
     obind (deref owner) (\<lambda>ow. if ow_Namespace ow = un_Namespace obj then ae_SetControllerReference E ow obj else Ok obj)"

definition deployed :: "asset_env \<Rightarrow> object_owner option \<Rightarrow> unstructured \<Rightarrow> (object_key \<rightharpoonup> unstructured) \<Rightarrow> bool" where
  "deployed E owner obj st \<longleftrightarrow> (\<exists>o'. owned E owner obj = Ok o' \<and> in_effect E o' st)"

lemma owned_key: "server_spec E \<Longrightarrow> owned E owner obj = Ok o' \<Longrightarrow>
    object_key o' = object_key obj \<and> un_ResourceVersion o' = un_ResourceVersion obj"
  by (auto simp: owned_def server_spec_def obind_Ok_iff split: if_splits)

lemma in_effect_key: "object_key o' \<noteq> k \<Longrightarrow> in_effect E o' (st(k \<mapsto> x)) = in_effect E o' st"
  by (simp add: in_effect_def)

section \<open>Calls of the API server\<close>

interpretation as_call: request as_api
    "\<lambda>s. s\<lparr>as_time := Suc (as_time s), as_store := as_others s (as_time s) (as_store s)\<rparr>" "\<lambda>s. as_fault s (as_time s)"
  by unfold_locales (simp add: as_api_def Let_def)

text \<open>Everything but the stored objects, the clock and one object of the heap stays.\<close>

definition same_but :: "nat set \<Rightarrow> assets_state \<Rightarrow> assets_state \<Rightarrow> bool" where
  "same_but P s s' \<longleftrightarrow> as_others s' = as_others s \<and> as_assets s' = as_assets s \<and> as_new s' = as_new s \<and>
     as_os s' = as_os s \<and> (\<forall>q. q \<notin> P \<longrightarrow> as_heap s' q = as_heap s q)"

lemma same_but_refl [simp]: "same_but P s s"
  by (simp add: same_but_def)

lemma same_but_trans: "same_but P s s1 \<Longrightarrow> same_but Q s1 s2 \<Longrightarrow> same_but (P \<union> Q) s s2"
  by (auto simp: same_but_def)

lemma same_but_mono: "same_but P s s' \<Longrightarrow> P \<subseteq> Q \<Longrightarrow> same_but Q s s'"
  by (auto simp: same_but_def)

lemma steady_same: "same_but P s s' \<Longrightarrow> steady E s' = steady E s"
  by (simp add: same_but_def steady_def)

lemma assets_Get_result:
  assumes "assets_Get k s = (r, s')"
  shows "same_but {} s s'" and "as_store s' = as_others s (as_time s) (as_store s)"
    and "r = Ok x \<Longrightarrow> as_store s' k = Some x"
  using assms by (auto simp: assets_Get_def same_but_def elim!: as_call.call_cases split: option.splits)

lemma assets_Create_result:
  assumes "assets_Create E p s = (Ok (), s')"
  shows "same_but {p} s s'"
    and "as_store s' = (as_others s (as_time s) (as_store s))
           (object_key (as_heap s p) \<mapsto> ae_admit E (Suc (as_time s)) None (as_heap s p))"
  using assms by (auto simp: assets_Create_def same_but_def Let_def elim!: as_call.call_cases split: option.splits if_splits)

lemma assets_Update_result:
  assumes "assets_Update E p s = (Ok (), s')"
  shows "same_but {p} s s'"
    and "as_store s' = (as_others s (as_time s) (as_store s))
           (object_key (as_heap s p) \<mapsto>
              ae_admit E (Suc (as_time s)) (as_others s (as_time s) (as_store s) (object_key (as_heap s p))) (as_heap s p))"
  using assms by (auto simp: assets_Update_def same_but_def Let_def elim!: as_call.call_cases split: option.splits if_splits)

lemma setOwner_result:
  assumes "setOwner E owner p s = (r, s')"
  shows "same_but {p} s s'" and "as_store s' = as_store s" and "as_time s' = as_time s" and "as_fault s' = as_fault s"
    and "r = Ok () \<Longrightarrow> owned E owner (as_heap s p) = Ok (as_heap s' p)"
  using assms by (cases owner; cases "ae_SetControllerReference E (the owner) (as_heap s p)";
      auto simp: setOwner_def owned_def gbind_def reading_def lift_def modify_def same_but_def ret_def split: if_splits)+

section \<open>One object\<close>

text \<open>The three ways in which one object can be dealt with.\<close>

lemma createOrUpdate_object_cases:
  assumes run: "createOrUpdate_object E owner p s = (Ok (), s')" and spec: "server_spec E"
  obtains obj s1 s2 where "owned E owner (as_heap s p) = Ok obj" "as_heap s1 p = obj" "same_but {p} s s1" "as_store s1 = as_store s"
    "same_but {} s1 s2" "as_store s2 = as_others s (as_time s1) (as_store s)" "as_time s1 = as_time s"
    "s' = s2 \<and> in_effect E obj (as_store s2) \<or>
     (\<exists>t old obj'. unversioned obj' = unversioned obj \<and> same_but {p} s2 s' \<and>
        as_store s' = (as_others s t (as_store s2))(object_key obj \<mapsto> ae_admit E (Suc t) old obj'))"
proof -
  from run obtain s1 r s2 where own: "setOwner E owner p s = (Ok (), s1)"
    and get: "attempt (assets_Get (object_key (as_heap s1 p))) s1 = (Ok r, s2)"
    and rest: "(case r of
       Err e \<Rightarrow> (if e \<noteq> NotFound then lift (Err e) else assets_Create E p)
     | Panic x \<Rightarrow> lift (Panic x)
     | Ok old \<Rightarrow>
         (if ToLower (un_Kind old) = ''configmap'' \<and> un_Object old ''immutable'' = Some (YBool True) then ret ()
          else if \<not> ae_DeepDerivative E (as_heap s1 p) old
          then gbind (modify (\<lambda>s. s\<lparr>as_heap := (as_heap s)(p := (as_heap s1 p)\<lparr>un_ResourceVersion := un_ResourceVersion old\<rparr>)\<rparr>)) (\<lambda>_.
               assets_Update E p)
          else ret ())) s2 = (Ok (), s')"
    by (auto simp: createOrUpdate_object_def gbind_Ok_iff)
  from get have get: "assets_Get (object_key (as_heap s1 p)) s1 = (r, s2)" by (simp add: attempt_eq)
  note own = setOwner_result [OF own, simplified]
  note got = assets_Get_result [OF get]
  have others: "as_others s1 = as_others s" "as_others s2 = as_others s" "as_heap s2 p = as_heap s1 p"
    using own(1) got(1) by (auto simp: same_but_def)
  show thesis
  proof (rule that [OF own(5) refl own(1) own(2) got(1)])
    show "as_store s2 = as_others s (as_time s1) (as_store s)" using got(2) own(2) others by simp
    show "as_time s1 = as_time s" by (rule own(3))
    show "s' = s2 \<and> in_effect E (as_heap s1 p) (as_store s2) \<or>
     (\<exists>t old obj'. unversioned obj' = unversioned (as_heap s1 p) \<and> same_but {p} s2 s' \<and>
        as_store s' = (as_others s t (as_store s2))(object_key (as_heap s1 p) \<mapsto> ae_admit E (Suc t) old obj'))"
    proof (cases r)
      case (Err e)
      with rest have "assets_Create E p s2 = (Ok (), s')" by (auto split: if_splits)
      from assets_Create_result [OF this] others show ?thesis by metis
    next
      case (Ok old)
      consider "immutable_config_map old" | "\<not> immutable_config_map old" "ae_DeepDerivative E (as_heap s1 p) old"
        | "\<not> immutable_config_map old" "\<not> ae_DeepDerivative E (as_heap s1 p) old" by blast
      then show ?thesis
      proof cases
        case 3
        define s3 where "s3 = s2\<lparr>as_heap := (as_heap s2)(p := (as_heap s1 p)\<lparr>un_ResourceVersion := un_ResourceVersion old\<rparr>)\<rparr>"
        from rest Ok 3 have up: "assets_Update E p s3 = (Ok (), s')"
          by (auto simp: immutable_config_map_def gbind_def modify_def s3_def split: if_splits)
        have s3: "same_but {p} s2 s3" "as_store s3 = as_store s2" "as_others s3 = as_others s"
          "object_key (as_heap s3 p) = object_key (as_heap s1 p)" "unversioned (as_heap s3 p) = unversioned (as_heap s1 p)"
          using others by (auto simp: same_but_def s3_def)
        from same_but_trans [OF s3(1) assets_Update_result(1) [OF up]] assets_Update_result(2) [OF up] s3 show ?thesis
          by auto
      qed (use rest Ok got(3) spec in \<open>auto simp: immutable_config_map_def in_effect_def server_spec_def\<close>)
    qed (use rest in auto)
  qed
qed

lemma createOrUpdate_object_Ok:
  assumes run: "createOrUpdate_object E owner p s = (Ok (), s')" and spec: "server_spec E" and steady: "steady E s"
  shows "same_but {p} s s'" and "deployed E owner (as_heap s p) (as_store s')"
    and "in_effect E o' (as_store s) \<Longrightarrow> object_key o' \<noteq> object_key (as_heap s p) \<Longrightarrow> in_effect E o' (as_store s')"
proof -
  obtain obj s1 s2 where owned: "owned E owner (as_heap s p) = Ok obj"
    and same: "same_but {p} s s1" "same_but {} s1 s2" and store: "as_store s2 = as_others s (as_time s1) (as_store s)"
    and last: "s' = s2 \<and> in_effect E obj (as_store s2) \<or>
     (\<exists>t old obj'. unversioned obj' = unversioned obj \<and> same_but {p} s2 s' \<and>
        as_store s' = (as_others s t (as_store s2))(object_key obj \<mapsto> ae_admit E (Suc t) old obj'))"
    by (rule createOrUpdate_object_cases [OF run spec])
  note key = owned_key [OF spec owned]
  have same2: "same_but {p} s s2" using same_but_trans [OF same] by simp
  show "same_but {p} s s'"
    using last same2 same_but_trans [OF same2, of "{p}" s'] by auto
  have keys: "object_key obj' = object_key obj" if "unversioned obj' = unversioned obj" for obj'
    using arg_cong [OF that, of object_key] by simp
  have "in_effect E obj (as_store s')"
  proof (cases "s' = s2 \<and> in_effect E obj (as_store s2)")
    case False
    with last obtain t old obj' where new: "unversioned obj' = unversioned obj"
      "as_store s' = (as_others s t (as_store s2))(object_key obj \<mapsto> ae_admit E (Suc t) old obj')" by auto
    with spec show ?thesis by (simp add: in_effect_def server_spec_def) metis
  qed auto
  with owned show "deployed E owner (as_heap s p) (as_store s')" by (auto simp: deployed_def)
  assume o': "in_effect E o' (as_store s)" "object_key o' \<noteq> object_key (as_heap s p)"
  with steady store have o2: "in_effect E o' (as_store s2)" by (simp add: steady_def)
  show "in_effect E o' (as_store s')"
  proof (cases "s' = s2 \<and> in_effect E obj (as_store s2)")
    case False
    with last obtain t old obj' where
      "as_store s' = (as_others s t (as_store s2))(object_key obj \<mapsto> ae_admit E (Suc t) old obj')" by auto
    with o2 o' key steady show ?thesis by (simp add: in_effect_key steady_def)
  qed (use o2 in auto)
qed

section \<open>All objects of an asset\<close>

lemma deploy_objects:
  assumes "gfor (createOrUpdate_object E owner) ps s = (Ok (), s')" and "server_spec E" and "steady E s"
    and "distinct ps" and "distinct (map (\<lambda>p. object_key (as_heap s p)) ps)"
  shows "same_but (set ps) s s' \<and> (\<forall>p \<in> set ps. deployed E owner (as_heap s p) (as_store s')) \<and>
    (\<forall>o'. in_effect E o' (as_store s) \<longrightarrow> object_key o' \<notin> (\<lambda>p. object_key (as_heap s p)) ` set ps \<longrightarrow> in_effect E o' (as_store s'))"
  using assms
proof (induction ps arbitrary: s)
  case (Cons p ps)
  then obtain s1 where one: "createOrUpdate_object E owner p s = (Ok (), s1)"
    and rest: "gfor (createOrUpdate_object E owner) ps s1 = (Ok (), s')"
    by (auto simp: gbind_Ok_iff)
  note first = createOrUpdate_object_Ok [OF one Cons.prems(2,3)]
  have heap: "as_heap s1 q = as_heap s q" if "q \<in> set ps" for q
    using first(1) that Cons.prems(4) by (auto simp: same_but_def)
  from Cons.prems(5) heap have dist: "distinct (map (\<lambda>p. object_key (as_heap s1 p)) ps)"
    by (simp cong: map_cong)
  note IH = Cons.IH [OF rest Cons.prems(2) _ _ dist, unfolded steady_same [OF first(1)], OF Cons.prems(3)]
  have img: "(\<lambda>p. object_key (as_heap s1 p)) ` set ps = (\<lambda>p. object_key (as_heap s p)) ` set ps"
    using heap by (auto simp: image_iff)
  from Cons.prems(4) IH have IH': "same_but (set ps) s1 s'" "\<forall>p \<in> set ps. deployed E owner (as_heap s1 p) (as_store s')"
    "\<forall>o'. in_effect E o' (as_store s1) \<longrightarrow> object_key o' \<notin> (\<lambda>p. object_key (as_heap s p)) ` set ps \<longrightarrow> in_effect E o' (as_store s')"
    by (simp_all add: img)
  obtain o' where o': "owned E owner (as_heap s p) = Ok o'" "in_effect E o' (as_store s1)"
    using first(2) by (auto simp: deployed_def)
  with owned_key [OF Cons.prems(2) o'(1)] Cons.prems(5) have "object_key o' \<notin> (\<lambda>p. object_key (as_heap s p)) ` set ps"
    by auto
  with IH'(3) o' have "deployed E owner (as_heap s p) (as_store s')" by (auto simp: deployed_def)
  with same_but_trans [OF first(1) IH'(1)] IH'(2,3) heap first(3) show ?case
    by auto
qed simp

section \<open>Waiting\<close>

definition assets_backoff_spec :: "asset_env \<Rightarrow> bool" where
  "assets_backoff_spec E \<longleftrightarrow> (\<forall>n f. ae_Backoff E n f = retry (nat n) f)"

definition unharmed :: "asset_env \<Rightarrow> assets_state \<Rightarrow> assets_state \<Rightarrow> bool" where
  "unharmed E s s' \<longleftrightarrow> same_but {} s s' \<and> (\<forall>o'. in_effect E o' (as_store s) \<longrightarrow> in_effect E o' (as_store s'))"

lemma keeps_Get [keeps_intros]: "steady E s0 \<Longrightarrow> keeps (unharmed E s0) (assets_Get k)"
proof (rule keepsI)
  fix s r s' assume "steady E s0" "unharmed E s0 s" "assets_Get k s = (r, s')"
  with assets_Get_result(1,2) [OF this(3)] show "unharmed E s0 s'"
    by (auto simp: unharmed_def steady_def same_but_def)
qed

lemma waitUntilReady_unharmed:
  assumes "waitUntilReady E a s = (r, s')" and "steady E s" and "assets_backoff_spec E"
  shows "unharmed E s s'"
proof -
  have "keeps (unharmed E s) (waitUntilReady E a)"
    using assms(2,3) by (auto simp: waitUntilReady_def daemonset_ready_def assets_backoff_spec_def intro!: keeps_intros)
  from keepsD [OF this _ assms(1)] show ?thesis by (simp add: unharmed_def)
qed

text \<open>Deploying several assets, waiting after each.\<close>

lemma deploy_assets:
  assumes "gfor (\<lambda>a. gbind (createOrUpdate E owner a) (\<lambda>_. waitUntilReady E a)) as s = (Ok (), s')"
    and "server_spec E" and "steady E s" and "assets_backoff_spec E" and "distinct (concat (map as_objects as))"
    and "distinct (map (\<lambda>p. object_key (as_heap s p)) (concat (map as_objects as)))"
  shows "(\<forall>p \<in> set (concat (map as_objects as)). deployed E owner (as_heap s p) (as_store s')) \<and>
    (\<forall>o'. in_effect E o' (as_store s) \<longrightarrow> object_key o' \<notin> (\<lambda>p. object_key (as_heap s p)) ` set (concat (map as_objects as)) \<longrightarrow>
        in_effect E o' (as_store s'))"
  using assms
proof (induction "as" arbitrary: s)
  case (Cons a "as")
  from Cons.prems(1) obtain s1 s2 where one: "gfor (createOrUpdate_object E owner) (as_objects a) s = (Ok (), s1)"
    and wait: "waitUntilReady E a s1 = (Ok (), s2)"
    and rest: "gfor (\<lambda>a. gbind (createOrUpdate E owner a) (\<lambda>_. waitUntilReady E a)) as s2 = (Ok (), s')"
    by (auto simp: gbind_Ok_iff createOrUpdate_def)
  let ?k = "\<lambda>p. object_key (as_heap s p)" and ?ps = "concat (map as_objects as)"
  have d: "distinct (as_objects a)" "distinct (map ?k (as_objects a))" "distinct ?ps" "distinct (map ?k ?ps)"
    "set (as_objects a) \<inter> set ?ps = {}" "?k ` set (as_objects a) \<inter> ?k ` set ?ps = {}"
    using Cons.prems(5,6) by (auto simp: map_concat)
  from deploy_objects [OF one Cons.prems(2,3) d(1,2)]
  have first: "same_but (set (as_objects a)) s s1" "\<forall>p \<in> set (as_objects a). deployed E owner (as_heap s p) (as_store s1)"
    "\<And>o'. in_effect E o' (as_store s) \<Longrightarrow> object_key o' \<notin> ?k ` set (as_objects a) \<Longrightarrow> in_effect E o' (as_store s1)" by auto
  from waitUntilReady_unharmed [OF wait _ Cons.prems(4)] Cons.prems(3) steady_same [OF first(1)]
  have second: "same_but {} s1 s2" "\<And>o'. in_effect E o' (as_store s1) \<Longrightarrow> in_effect E o' (as_store s2)"
    by (auto simp: unharmed_def)
  from same_but_trans [OF first(1) second(1)] have same: "same_but (set (as_objects a)) s s2" by simp
  then have heap: "as_heap s2 q = as_heap s q" if "q \<in> set ?ps" for q
    using that d(5) by (auto simp: same_but_def)
  have maps: "map (\<lambda>p. object_key (as_heap s2 p)) ?ps = map ?k ?ps"
    using heap by (intro map_cong) simp_all
  with d(4) have d2: "distinct (map (\<lambda>p. object_key (as_heap s2 p)) ?ps)" by (simp only: maps)
  from arg_cong [OF maps, of set] have img: "(\<lambda>p. object_key (as_heap s2 p)) ` set ?ps = ?k ` set ?ps" by (simp only: set_map)
  from Cons.IH [OF rest Cons.prems(2) _ Cons.prems(4) d(3) d2] Cons.prems(3) steady_same [OF same] img heap
  have IH: "\<forall>p \<in> set ?ps. deployed E owner (as_heap s p) (as_store s')"
    "\<And>o'. in_effect E o' (as_store s2) \<Longrightarrow> object_key o' \<notin> ?k ` set ?ps \<Longrightarrow> in_effect E o' (as_store s')" by auto
  have "deployed E owner (as_heap s p) (as_store s')" if "p \<in> set (as_objects a)" for p
  proof -
    from that first(2) obtain o' where o': "owned E owner (as_heap s p) = Ok o'" "in_effect E o' (as_store s1)"
      by (auto simp: deployed_def)
    from owned_key [OF Cons.prems(2) o'(1)] that d(6) have "object_key o' \<notin> ?k ` set ?ps" by auto
    with IH(2) second(2) o' show ?thesis by (auto simp: deployed_def)
  qed
  moreover have "in_effect E o' (as_store s')" if "in_effect E o' (as_store s)" "object_key o' \<notin> ?k ` set (concat (map as_objects (a # as)))" for o'
    using that by (intro IH(2) second(2) first(3)) auto
  ultimately show ?case using IH(1) by auto
qed simp

section \<open>Loading\<close>

lemma append_object_Ok:
  "append_object E i d s = (Ok (), s') \<longleftrightarrow>
     (\<exists>obj. ae_Decode E d = Ok obj \<and>
        s' = s\<lparr>as_heap := (as_heap s)(as_new s := obj), as_new := Suc (as_new s),
               as_assets := (as_assets s)[i := (as_assets s ! i)\<lparr>as_objects := as_objects (as_assets s ! i) @ [as_new s]\<rparr>]\<rparr>)"
  by (auto simp: append_object_def gbind_Ok_iff on_asset_def)

lemma append_objects_Ok:
  assumes "gfor (\<lambda>k. append_object E i (d k)) ks s = (Ok (), s')" and "i < length (as_assets s)"
  shows "as_new s' = as_new s + length ks \<and>
    map (\<lambda>p. Ok (as_heap s' p)) [as_new s..<as_new s'] = map (\<lambda>k. ae_Decode E (d k)) ks \<and>
    (\<forall>q < as_new s. as_heap s' q = as_heap s q) \<and>
    as_assets s' = (as_assets s)[i := (as_assets s ! i)\<lparr>as_objects := as_objects (as_assets s ! i) @ [as_new s..<as_new s']\<rparr>] \<and>
    as_store s' = as_store s \<and> as_others s' = as_others s"
  using assms
proof (induction ks arbitrary: s)
  case (Cons k ks)
  then obtain obj s1 where obj: "ae_Decode E (d k) = Ok obj"
    and s1: "s1 = s\<lparr>as_heap := (as_heap s)(as_new s := obj), as_new := Suc (as_new s),
               as_assets := (as_assets s)[i := (as_assets s ! i)\<lparr>as_objects := as_objects (as_assets s ! i) @ [as_new s]\<rparr>]\<rparr>"
    and rest: "gfor (\<lambda>k. append_object E i (d k)) ks s1 = (Ok (), s')"
    by (auto simp: gbind_Ok_iff append_object_Ok)
  from Cons.IH [OF rest] Cons.prems(2) s1
  have IH: "as_new s' = Suc (as_new s) + length ks"
    "map (\<lambda>p. Ok (as_heap s' p)) [Suc (as_new s)..<as_new s'] = map (\<lambda>k. ae_Decode E (d k)) ks"
    "\<forall>q < Suc (as_new s). as_heap s' q = as_heap s1 q"
    "as_assets s' = (as_assets s1)[i := (as_assets s1 ! i)\<lparr>as_objects := as_objects (as_assets s1 ! i) @ [Suc (as_new s)..<as_new s']\<rparr>]"
    "as_store s' = as_store s" "as_others s' = as_others s" by auto
  from IH(1) have upt: "[as_new s..<as_new s'] = as_new s # [Suc (as_new s)..<as_new s']" by (intro upt_conv_Cons) linarith
  have "as_heap s' (as_new s) = obj" using IH(3) s1 by simp
  with IH(2) obj have objs: "map (\<lambda>p. Ok (as_heap s' p)) [as_new s..<as_new s'] = map (\<lambda>k. ae_Decode E (d k)) (k # ks)"
    by (simp only: upt list.map)
  from IH(4) s1 Cons.prems(2)
  have "as_assets s' = (as_assets s)[i := (as_assets s ! i)\<lparr>as_objects := as_objects (as_assets s ! i) @ [as_new s..<as_new s']\<rparr>]"
    by (simp add: upt del: upt_Suc)
  with IH(1,3,5,6) objs s1 show ?case by simp
qed (auto simp: list_update_id)

definition config_map_key :: "string \<Rightarrow> Asset \<Rightarrow> object_key" where
  "config_map_key ns a = (''v1'', ''ConfigMap'', ns, as_ConfigMapName a)"

definition config_map_data :: "string \<Rightarrow> (object_key \<rightharpoonup> unstructured) \<Rightarrow> Asset \<Rightarrow> (string \<rightharpoonup> string) option" where
  "config_map_data ns st a =
     (case st (config_map_key ns a) of None \<Rightarrow> None
      | Some x \<Rightarrow> (case ConfigMap_Data x of Ok data \<Rightarrow> Some data | _ \<Rightarrow> None))"

definition config_map_definitions :: "asset_env \<Rightarrow> string \<Rightarrow> (object_key \<rightharpoonup> unstructured) \<Rightarrow> Asset \<Rightarrow> string list" where
  "config_map_definitions E ns st a =
     (case config_map_data ns st a of None \<Rightarrow> [] | Some data \<Rightarrow> map (\<lambda>k. the (data k)) (ae_range E (dom data)))"

lemma loadFromConfigMap_Ok:
  assumes run: "loadFromConfigMap E ns i s = (Ok (), s')" and i: "i < length (as_assets s)"
  defines "st \<equiv> as_others s (as_time s) (as_store s)"
  shows "config_map_data ns st (as_assets s ! i) \<noteq> None \<and>
    as_new s \<le> as_new s' \<and>
    map (\<lambda>p. Ok (as_heap s' p)) [as_new s..<as_new s'] = map (ae_Decode E) (config_map_definitions E ns st (as_assets s ! i)) \<and>
    (\<forall>q < as_new s. as_heap s' q = as_heap s q) \<and>
    as_assets s' = (as_assets s)[i := (as_assets s ! i)\<lparr>as_objects := [as_new s..<as_new s']\<rparr>] \<and>
    as_store s' = st \<and> as_others s' = as_others s"
proof -
  let ?a = "as_assets s ! i"
  from run obtain s1 x data s2 where get: "assets_Get (config_map_key ns ?a) s = (Ok x, s1)" and data: "ConfigMap_Data x = Ok data"
    and clear: "clearAllObjects i s1 = (Ok (), s2)"
    and loop: "gfor (\<lambda>k. append_object E i (the (data k))) (ae_range E (dom data)) s2 = (Ok (), s')"
    by (auto simp: loadFromConfigMap_def getConfigMapData_def config_map_key_def gbind_Ok_iff)
  note got = assets_Get_result [OF get]
  from got have s1: "as_assets s1 = as_assets s" "as_new s1 = as_new s" "as_heap s1 = as_heap s" "as_store s1 = st"
    "as_others s1 = as_others s" "st (config_map_key ns ?a) = Some x" by (auto simp: same_but_def st_def)
  from clear s1 have s2: "as_assets s2 = (as_assets s)[i := ?a\<lparr>as_objects := []\<rparr>]" "as_new s2 = as_new s" "as_heap s2 = as_heap s"
    "as_store s2 = st" "as_others s2 = as_others s"
    by (auto simp: clearAllObjects_def on_asset_def)
  from append_objects_Ok [OF loop] s2 i data s1(6) show ?thesis
    by (auto simp: config_map_data_def config_map_definitions_def comp_def)
qed

text \<open>Nobody else writes the config maps of the assets while they are loaded.\<close>

definition config_maps_kept :: "string \<Rightarrow> assets_state \<Rightarrow> bool" where
  "config_maps_kept ns s \<longleftrightarrow>
     (\<forall>t st. \<forall>a \<in> set (as_assets s). as_others s t st (config_map_key ns a) = st (config_map_key ns a))"

lemma config_map_same:
  assumes "st (config_map_key ns a) = st' (config_map_key ns a)"
  shows "config_map_data ns st a = config_map_data ns st' a" and "config_map_definitions E ns st a = config_map_definitions E ns st' a"
  using assms by (simp_all add: config_map_data_def config_map_definitions_def)

lemma load_assets:
  assumes "gfor (loadFromConfigMap E ns) [0..<n] s = (Ok (), s')" and "n \<le> length (as_assets s)" and "config_maps_kept ns s"
  shows "as_new s \<le> as_new s' \<and> as_others s' = as_others s \<and> drop n (as_assets s') = drop n (as_assets s) \<and>
    length (as_assets s') = length (as_assets s) \<and>
    concat (map as_objects (take n (as_assets s'))) = [as_new s..<as_new s'] \<and>
    map (\<lambda>p. Ok (as_heap s' p)) [as_new s..<as_new s'] =
      map (ae_Decode E) (concat (map (config_map_definitions E ns (as_store s)) (take n (as_assets s)))) \<and>
    (\<forall>a \<in> set (take n (as_assets s)). config_map_data ns (as_store s) a \<noteq> None) \<and>
    (\<forall>a \<in> set (as_assets s). as_store s' (config_map_key ns a) = as_store s (config_map_key ns a))"
  using assms(1,2)
proof (induction n arbitrary: s')
  case (Suc n)
  from Suc.prems(1) obtain s1 where before: "gfor (loadFromConfigMap E ns) [0..<n] s = (Ok (), s1)"
    and last: "loadFromConfigMap E ns n s1 = (Ok (), s')"
    by (auto simp: gfor_append gbind_Ok_iff)
  from Suc.IH [OF before] Suc.prems(2)
  have IH: "as_new s \<le> as_new s1" "as_others s1 = as_others s" "drop n (as_assets s1) = drop n (as_assets s)"
    "length (as_assets s1) = length (as_assets s)" "concat (map as_objects (take n (as_assets s1))) = [as_new s..<as_new s1]"
    "map (\<lambda>p. Ok (as_heap s1 p)) [as_new s..<as_new s1] =
      map (ae_Decode E) (concat (map (config_map_definitions E ns (as_store s)) (take n (as_assets s))))"
    "\<forall>a \<in> set (take n (as_assets s)). config_map_data ns (as_store s) a \<noteq> None"
    "\<forall>a \<in> set (as_assets s). as_store s1 (config_map_key ns a) = as_store s (config_map_key ns a)" by auto
  define a where "a = as_assets s ! n"
  have n: "n < length (as_assets s)" "n < length (as_assets s1)" using Suc.prems(2) IH(4) by simp_all
  have a: "as_assets s1 ! n = a" "a \<in> set (as_assets s)"
    using n hd_drop_conv_nth [OF n(1)] hd_drop_conv_nth [OF n(2)] IH(3) nth_mem [OF n(1)] by (simp_all add: a_def)
  let ?st = "as_others s1 (as_time s1) (as_store s1)"
  have kept: "?st (config_map_key ns b) = as_store s (config_map_key ns b)" if "b \<in> set (as_assets s)" for b
    using IH(2,8) assms(3) that by (simp add: config_maps_kept_def)
  note same = config_map_same [where ns = ns and a = a and st = ?st and st' = "as_store s", OF kept [OF a(2)]]
  from loadFromConfigMap_Ok [OF last n(2)] a(1) same
  have step: "config_map_data ns (as_store s) a \<noteq> None" "as_new s1 \<le> as_new s'"
    "map (\<lambda>p. Ok (as_heap s' p)) [as_new s1..<as_new s'] = map (ae_Decode E) (config_map_definitions E ns (as_store s) a)"
    "\<forall>q < as_new s1. as_heap s' q = as_heap s1 q" "as_assets s' = (as_assets s1)[n := a\<lparr>as_objects := [as_new s1..<as_new s']\<rparr>]"
    "as_store s' = ?st" "as_others s' = as_others s1" by auto
  have upt: "[as_new s..<as_new s'] = [as_new s..<as_new s1] @ [as_new s1..<as_new s']"
    using IH(1) step(2) by (metis le_iff_add upt_add_eq_append)
  have old: "map (\<lambda>p. Ok (as_heap s' p)) [as_new s..<as_new s1] = map (\<lambda>p. Ok (as_heap s1 p)) [as_new s..<as_new s1]"
    using step(4) by (intro map_cong) auto
  have take: "take (Suc n) (as_assets s') = take n (as_assets s1) @ [a\<lparr>as_objects := [as_new s1..<as_new s']\<rparr>]"
    "take (Suc n) (as_assets s) = take n (as_assets s) @ [a]"
    using n step(5) by (simp_all add: take_Suc_conv_app_nth a_def)
  have drop: "drop (Suc n) (as_assets s') = drop (Suc n) (as_assets s)"
    using arg_cong [OF IH(3), of "drop 1"] step(5) by simp
  show ?case
  proof (intro conjI)
    show "map (\<lambda>p. Ok (as_heap s' p)) [as_new s..<as_new s'] =
      map (ae_Decode E) (concat (map (config_map_definitions E ns (as_store s)) (take (Suc n) (as_assets s))))"
      by (simp only: upt map_append old IH(6) step(3) take(2) concat_append list.map concat.simps append_Nil2)
    show "concat (map as_objects (take (Suc n) (as_assets s'))) = [as_new s..<as_new s']"
      by (simp add: take(1) IH(5) upt)
    show "\<forall>a \<in> set (as_assets s). as_store s' (config_map_key ns a) = as_store s (config_map_key ns a)"
      using kept step(6) by simp
  qed (use IH step take drop in auto)
qed simp

end
