(* ===== verification/Asset_Props.thy ===== *)
theory Asset_Props
  imports Asset_Facts Go_Order
begin

text \<open>
  What the assets manager guarantees: after a successful deployment the objects of every config map are in effect
  in the cluster, a second deployment of the same objects writes nothing, the variables the templates see; and that
  a daemon set whose status nobody has filled in yet counts as ready.
\<close>

section \<open>A concrete deployment\<close>

definition daemon_account :: unstructured where
  "daemon_account =
     \<lparr>un_APIVersion = ''v1'', un_Kind = ''ServiceAccount'', un_Namespace = ''ieo'', un_Name = ''fwddp-daemon'',
      un_ResourceVersion = [], un_Metadata = Map.empty, un_Object = Map.empty\<rparr>"

definition daemon_config :: unstructured where
  "daemon_config =
     \<lparr>un_APIVersion = ''v1'', un_Kind = ''ConfigMap'', un_Namespace = ''ieo'', un_Name = ''daemon-config'',
      un_ResourceVersion = ''7'', un_Metadata = Map.empty,
      un_Object = [''data'' \<mapsto> YMap [(''serviceAccount'', YString ''account'')]]\<rparr>"

definition daemon_set :: unstructured where
  "daemon_set =
     \<lparr>un_APIVersion = ''apps/v1'', un_Kind = ''DaemonSet'', un_Namespace = ''ieo'', un_Name = ''fwddp-daemon'',
      un_ResourceVersion = ''8'', un_Metadata = Map.empty, un_Object = Map.empty\<rparr>"

definition sample_asset_env :: asset_env where
  "sample_asset_env =
     \<lparr>ae_Parse = (\<lambda>t. Ok (\<lambda>_. Ok t)), ae_Decode = (\<lambda>d. if d = ''account'' then Ok daemon_account else Err (Errorf ''EOF'')),
      ae_SetControllerReference = (\<lambda>ow o'. Ok (o'\<lparr>un_Metadata := (un_Metadata o')(''ownerReferences'' \<mapsto> YString (ow_Name ow))\<rparr>)),
      ae_DeepDerivative = (\<lambda>o' x. unversioned o' = unversioned x \<and> (un_ResourceVersion o' \<in> {[], un_ResourceVersion x})),
      ae_admit = (\<lambda>t old o'. o'\<lparr>un_ResourceVersion := ''9''\<rparr>), ae_Backoff = (\<lambda>n f. retry (nat n) f),
      ae_environ = [''HTTP_PROXY'' \<mapsto> ''http://proxy?user=ieo''], ae_range = sorted_order\<rparr>"

definition sample_asset_manager :: asset_manager where
  "sample_asset_manager =
     \<lparr>am_Namespace = ''ieo'', am_EnvPrefix = ''ETHERNET_'', am_Owner = Some \<lparr>ow_Namespace = ''ieo'', ow_Name = ''operator'', ow_UID = ''1''\<rparr>\<rparr>"

definition sample_asset :: Asset where
  "sample_asset = \<lparr>as_Path = ''assets/200-daemon.yaml'', as_ConfigMapName = ''daemon-config'', as_Retries = 30,
     as_substitutions = Map.empty, as_objects = [0]\<rparr>"

definition sample_assets :: "unstructured \<Rightarrow> assets_state" where
  "sample_assets o' =
     \<lparr>as_heap = (\<lambda>_. o'), as_new = 1, as_assets = [sample_asset],
      as_store = [(''v1'', ''ConfigMap'', ''ieo'', ''daemon-config'') \<mapsto> daemon_config,
                  (''apps/v1'', ''DaemonSet'', ''ieo'', ''fwddp-daemon'') \<mapsto> daemon_set],
      as_others = (\<lambda>t st. st), as_fault = (\<lambda>_. None), as_time = 0,
      as_os = \<lparr>os_dir = Map.empty, os_names = [], os_data = (\<lambda>_. []), os_nlink = (\<lambda>_. 1), os_perm = (\<lambda>_. 0), os_dperm = (\<lambda>_. 0),
        os_next = 0, os_time = 0, os_fault = (\<lambda>_. None)\<rparr>\<rparr>"

lemma sample_spec: "server_spec sample_asset_env" "assets_backoff_spec sample_asset_env" "valid_order (ae_range sample_asset_env)"
  by (auto simp: server_spec_def sample_asset_env_def assets_backoff_spec_def object_key_def unversioned_def sorted_order_valid)

lemma sample_quiet: "quiet (sample_assets o')" "steady E (sample_assets o')" "config_maps_kept ns (sample_assets o')"
  by (simp_all add: quiet_def steady_def config_maps_kept_def sample_assets_def)

lemmas sample_defs = sample_asset_env_def sample_asset_manager_def sample_assets_def sample_asset_def daemon_account_def
  daemon_config_def daemon_set_def

lemma sample_create: "fst (createOrUpdate sample_asset_env (am_Owner sample_asset_manager) sample_asset (sample_assets daemon_account)) = Ok ()"
  by (simp add: createOrUpdate_def createOrUpdate_object_def setOwner_def gbind_def reading_def lift_def modify_def attempt_def
      assets_Get_def assets_Create_def as_api_def Let_def ret_def object_key_def sample_defs)

lemma sample_load_and_deploy: "fst (LoadFromConfigMapAndDeploy sample_asset_env sample_asset_manager (sample_assets daemon_account)) = Ok ()"
  by (simp add: LoadFromConfigMapAndDeploy_def LoadFromConfigMap_def loadFromConfigMap_def getConfigMapData_def ConfigMap_Data_def
      clearAllObjects_def on_asset_def append_object_def Deploy_def waitUntilReady_def
      createOrUpdate_def createOrUpdate_object_def setOwner_def gbind_def reading_def lift_def modify_def attempt_def
      assets_Get_def assets_Create_def as_api_def Let_def ret_def object_key_def sample_defs)

section \<open>The assets are deployed\<close>

text \<open>Two definitions of objects never name the same object.\<close>

definition separate :: "asset_env \<Rightarrow> string list \<Rightarrow> bool" where
  "separate E defs \<longleftrightarrow>
     distinct (map (\<lambda>d. case ae_Decode E d of Ok obj \<Rightarrow> Some (object_key obj) | _ \<Rightarrow> None) defs)"



section \<open>Deploying again\<close>

lemma settled_object:
  assumes run: "createOrUpdate_object E owner p s = (r, s')" and spec: "server_spec E" and quiet: "quiet s"
    and here: "deployed E owner (as_heap s p) (as_store s)" and fresh: "un_ResourceVersion (as_heap s p) = []"
  shows "same_but {p} s s'" and "as_store s' = as_store s" and "(\<forall>t. as_fault s t = None) \<Longrightarrow> r = Ok () \<and> as_fault s' = as_fault s"
proof -
  obtain r1 s1 where own: "setOwner E owner p s = (r1, s1)" by fastforce
  note own' = setOwner_result [OF own]
  from here obtain o' where o': "owned E owner (as_heap s p) = Ok o'" "in_effect E o' (as_store s)" by (auto simp: deployed_def)
  have "r1 = Ok ()"
    using own o'(1) by (cases owner) (auto simp: setOwner_def owned_def gbind_def reading_def lift_def modify_def ret_def
        split: outcome.splits if_splits)
  with own' o'(1) have heap: "as_heap s1 p = o'" by simp
  have bare: "unversioned o' = o'" using owned_key [OF spec o'(1)] fresh by (simp add: unversioned_def)
  from o'(2) obtain x where x: "as_store s (object_key o') = Some x" "immutable_config_map x \<or> ae_DeepDerivative E o' x"
    by (auto simp: in_effect_def bare)
  have others: "as_others s1 t st = st" for t st
    using quiet own'(1) by (simp add: quiet_def same_but_def)
  have rest: "createOrUpdate_object E owner p s = (case as_fault s (as_time s) of
      None \<Rightarrow> (Ok (), s1\<lparr>as_time := Suc (as_time s), as_store := as_store s\<rparr>)
    | Some e \<Rightarrow> (if e \<noteq> NotFound then lift (Err e) else assets_Create E p) (s1\<lparr>as_time := Suc (as_time s), as_store := as_store s\<rparr>))"
    using own \<open>r1 = Ok ()\<close> own'(2-4) others x heap
    by (auto simp: createOrUpdate_object_def gbind_def reading_def attempt_def assets_Get_def as_api_def Let_def lift_def
        immutable_config_map_def ret_def split: option.splits)
  show "same_but {p} s s'" "as_store s' = as_store s" "(\<forall>t. as_fault s t = None) \<Longrightarrow> r = Ok () \<and> as_fault s' = as_fault s"
    using run rest own'(1,2,4) others x heap owned_key [OF spec o'(1)] fresh
    by (auto simp: same_but_def assets_Create_def as_api_def Let_def split: option.splits if_splits)
qed

lemma settled_objects:
  assumes "gfor (createOrUpdate_object E owner) ps s = (r, s')" and "server_spec E" and "quiet s" and "distinct ps"
    and "\<forall>p \<in> set ps. deployed E owner (as_heap s p) (as_store s) \<and> un_ResourceVersion (as_heap s p) = []"
  shows "as_store s' = as_store s \<and> ((\<forall>t. as_fault s t = None) \<longrightarrow> r = Ok ())"
  using assms
proof (induction ps arbitrary: s)
  case (Cons p ps)
  obtain r1 s1 where one: "createOrUpdate_object E owner p s = (r1, s1)" by fastforce
  from settled_object [OF one Cons.prems(2,3)] Cons.prems(5)
  have first: "same_but {p} s s1" "as_store s1 = as_store s" "(\<forall>t. as_fault s t = None) \<longrightarrow> r1 = Ok () \<and> as_fault s1 = as_fault s" by auto
  show ?case
  proof (cases "r1 = Ok ()")
    case True
    with Cons.prems(1) one have rest: "gfor (createOrUpdate_object E owner) ps s1 = (r, s')" by (simp add: gbind_def)
    have "quiet s1" using Cons.prems(3) first(1) by (simp add: quiet_def same_but_def)
    moreover have "\<forall>q \<in> set ps. as_heap s1 q = as_heap s q"
      using first(1) Cons.prems(4) by (auto simp: same_but_def)
    ultimately show ?thesis using Cons.IH [OF rest Cons.prems(2)] Cons.prems(4,5) first(2,3) by auto
  next
    case False
    with Cons.prems(1) one first(2,3) show ?thesis by (cases r1) (auto simp: gbind_def)
  qed
qed simp



section \<open>Waiting for a daemon set\<close>

text \<open>
  A daemon set that has just been created counts as ready: while its status is absent, or has no number of
  unavailable pods, the first poll of \<^verbatim>\<open>waitUntilReady\<close> ends the wait.
\<close>

theorem new_daemon_set_counts_as_ready:
  assumes "assets_backoff_spec E" and "0 < as_Retries a" and "as_objects a = [p]" and "un_Kind (as_heap s p) = ''DaemonSet''"
    and "quiet s" and "as_fault s (as_time s) = None"
    and ds: "as_store s (''apps/v1'', ''DaemonSet'', un_Namespace (as_heap s p), un_Name (as_heap s p)) = Some ds"
      "un_Object ds ''status'' = None \<or> (\<exists>kvs. un_Object ds ''status'' = Some (YMap kvs) \<and> map_of kvs ''numberUnavailable'' = None)"
  shows "waitUntilReady E a s = (Ok (), s\<lparr>as_time := Suc (as_time s)\<rparr>)"
proof -
  obtain n where n: "nat (as_Retries a) = Suc n" using assms(2) by (cases "nat (as_Retries a)") auto
  from ds(2) have "NumberUnavailable ds = Ok 0" by (auto simp: NumberUnavailable_def)
  with assms(5,6) ds(1) have "daemonset_ready p s = (Ok True, s\<lparr>as_time := Suc (as_time s)\<rparr>)"
    by (simp add: daemonset_ready_def gbind_def reading_def assets_Get_def as_api_def quiet_def lift_def ret_def)
  with assms(1-4) n show ?thesis
    by (simp add: waitUntilReady_def assets_backoff_spec_def gbind_def reading_def ret_def)
qed

theorem new_daemon_set_counts_as_ready_witness:
  "fst (waitUntilReady sample_asset_env sample_asset (sample_assets daemon_set)) = Ok ()"
proof -
  have "as_Retries sample_asset = 30" "as_objects sample_asset = [0]" "as_heap (sample_assets daemon_set) 0 = daemon_set"
    "un_Kind daemon_set = ''DaemonSet''" "as_fault (sample_assets daemon_set) (as_time (sample_assets daemon_set)) = None"
    "as_store (sample_assets daemon_set) (''apps/v1'', ''DaemonSet'', un_Namespace daemon_set, un_Name daemon_set) = Some daemon_set"
    "un_Object daemon_set ''status'' = None"
    by (simp_all add: sample_asset_def sample_assets_def daemon_set_def)
  with new_daemon_set_counts_as_ready [OF sample_spec(2), of sample_asset 0 "sample_assets daemon_set" daemon_set] sample_quiet(1)
  show ?thesis by simp
qed

section \<open>Template variables\<close>

lemma Split_append: "c \<notin> set k \<Longrightarrow> Split c (k @ c # v) = k # Split c v"
  by (induction k) auto

lemma Split_single: "c \<notin> set v \<Longrightarrow> Split c v = [v]"
  by (induction v) auto

lemma Split_more: "c \<in> set v \<Longrightarrow> \<exists>x y ws. Split c v = x # y # ws"
proof (induction v)
  case (Cons x v)
  then show ?case
    by (cases "Split c v") (auto split: list.splits)
qed simp

definition exported :: "asset_manager \<Rightarrow> string \<Rightarrow> string \<Rightarrow> bool" where
  "exported M k v \<longleftrightarrow> (HasPrefix k (am_EnvPrefix M) \<or> isProxy k) \<and> CHR ''='' \<notin> set v"

lemma add_pair_eq:
  "CHR ''='' \<notin> set k \<Longrightarrow> add_pair M (k @ ''='' @ v) tp = (if exported M k v then tp(k \<mapsto> v) else tp)"
  using Split_more [of "CHR ''=''" v]
  by (cases "CHR ''='' \<in> set v") (auto simp: add_pair_def Split_append Split_single exported_def)

lemma fold_add_pair:
  assumes "\<forall>k \<in> set ks. CHR ''='' \<notin> set k" and "distinct ks"
  shows "fold (add_pair M) (map (\<lambda>k. k @ ''='' @ f k) ks) tp k =
    (if k \<in> set ks \<and> exported M k (f k) then Some (f k) else tp k)"
  using assms
proof (induction ks arbitrary: tp)
  case (Cons x ks)
  then have "fold (add_pair M) (map (\<lambda>k. k @ ''='' @ f k) ks) tp' k =
    (if k \<in> set ks \<and> exported M k (f k) then Some (f k) else tp' k)" for tp' by simp
  with Cons.prems add_pair_eq [of x M "f x" tp] show ?case by auto
qed simp

lemma GetFwSearchPath_Ok:
  obtains fwPath err f' where "GetFwSearchPath f = (Ok (fwPath, err), f')"
proof -
  obtain r f' where read: "os_ReadFile ''/sys/module/firmware_class/parameters/path'' f = (r, f')" by fastforce
  have "\<forall>p. r \<noteq> Panic p"
    using read by (auto simp: os_ReadFile_def OpenFile_def read_file_def sys_def open_name_def gbind_def Let_def
        split: option.splits prod.splits outcome.splits dirent.splits handle.splits if_splits)
  with read show thesis
    by (cases r) (auto simp: GetFwSearchPath_def attempt_def gbind_def ret_def Let_def intro: that)
qed

text \<open>
  The variables the asset templates see: the environment's variables with the manager's prefix and the proxy
  settings, except those whose value contains \<^verbatim>\<open>=\<close>; a proxy setting left out for that reason, like one that is not set,
  is the empty string; and the firmware search path.
\<close>

theorem buildTemplateVars_vars:
  assumes run: "buildTemplateVars E M s = (r, s')" and ro: "valid_order (ae_range E)" and env: "finite (dom (ae_environ E))"
    and names: "\<forall>k \<in> dom (ae_environ E). CHR ''='' \<notin> set k"
  shows "\<exists>fwPath err. fst (GetFwSearchPath (as_os s)) = Ok (fwPath, err) \<and> as_store s' = as_store s \<and>
     r = Ok (\<lambda>k. if k = ''FW_HOST_PATH'' then Some fwPath
               else case ae_environ E k of
                      Some v \<Rightarrow> (if exported M k v then Some v else if isProxy k then Some [] else None)
                    | None \<Rightarrow> (if isProxy k then Some [] else None))"
proof -
  let ?env = "ae_environ E"
  let ?tp = "fold (add_pair M) (os_Environ E) Map.empty"
  from valid_orderD [OF ro env] have ks: "distinct (ae_range E (dom ?env))" "set (ae_range E (dom ?env)) = dom ?env" by auto
  have tp: "?tp k = (case ?env k of Some v \<Rightarrow> (if exported M k v then Some v else None) | None \<Rightarrow> None)" for k
    unfolding os_Environ_def
    using fold_add_pair [of "ae_range E (dom ?env)" M "\<lambda>k. the (?env k)" Map.empty k] ks names
    by (auto split: option.splits)
  have missing: "fold add_missing proxies tp k = (case tp k of None \<Rightarrow> if isProxy k then Some [] else None | Some v \<Rightarrow> Some v)" for tp k
    by (auto simp: add_missing_def isProxy_def split: option.splits)
  obtain fwPath err os' where path: "GetFwSearchPath (as_os s) = (Ok (fwPath, err), os')"
    by (rule GetFwSearchPath_Ok)
  have "r = Ok ((fold add_missing proxies ?tp)(''FW_HOST_PATH'' \<mapsto> fwPath))" "as_store s' = as_store s"
    using run path by (auto simp: buildTemplateVars_def gbind_def on_assets_os_def ret_def Let_def)
  moreover have "(fold add_missing proxies ?tp)(''FW_HOST_PATH'' \<mapsto> fwPath) =
      (\<lambda>k. if k = ''FW_HOST_PATH'' then Some fwPath
        else case ?env k of
               Some v \<Rightarrow> (if exported M k v then Some v else if isProxy k then Some [] else None)
             | None \<Rightarrow> (if isProxy k then Some [] else None))"
    by (rule ext) (auto simp only: fun_upd_apply missing tp split: option.splits if_splits)
  ultimately show ?thesis using path by auto
qed

theorem buildTemplateVars_vars_witness:
  "\<exists>tv. fst (buildTemplateVars sample_asset_env sample_asset_manager (sample_assets daemon_set)) = Ok tv \<and>
     tv ''HTTP_PROXY'' = Some [] \<and> tv ''NO_PROXY'' = Some [] \<and> tv ''PATH'' = None"
proof -
  obtain r s' where run: "buildTemplateVars sample_asset_env sample_asset_manager (sample_assets daemon_set) = (r, s')" by fastforce
  have env: "ae_environ sample_asset_env = [''HTTP_PROXY'' \<mapsto> ''http://proxy?user=ieo'']" by (simp add: sample_asset_env_def)
  from buildTemplateVars_vars [OF run sample_spec(3)] env run show ?thesis
    by (auto simp: exported_def isProxy_def)
qed

end
