(* ===== verification/Operator_Props.thy ===== *)
theory Operator_Props
  imports Operator_Startup Asset_Props
begin

text \<open>
  What the programs do before their controllers run: the operator registers everything in a fixed order and starts
  the manager only when all of it, and in a cluster the deployment of the assets, succeeded; the flow daemon starts
  only when the DCF service answered one of ten attempts.
\<close>

section \<open>Sequences of calls\<close>

text \<open>
  \<open>traces env0 m cs\<close>: in an environment like \<open>env0\<close>, \<open>m\<close> makes the calls \<open>cs\<close>, or a prefix of them when it fails.
\<close>

definition like_env :: "(string \<rightharpoonup> string) \<Rightarrow> (string \<rightharpoonup> string) \<Rightarrow> bool" where
  "like_env env0 env \<longleftrightarrow> (\<forall>k. k \<noteq> ''ETHERNET_GENERIC_K8S'' \<longrightarrow> env k = env0 k)"

definition traces :: "(string \<rightharpoonup> string) \<Rightarrow> ('s startup, 'a) go \<Rightarrow> setup_call list \<Rightarrow> bool" where
  "traces env0 m cs \<longleftrightarrow>
     (\<forall>s r s'. like_env env0 (st_env s) \<longrightarrow> m s = (r, s') \<longrightarrow>
        like_env env0 (st_env s') \<and> (\<exists>k. st_calls s' = st_calls s @ take k cs \<and> ((\<exists>x. r = Ok x) \<longrightarrow> length cs \<le> k)))"

named_theorems traces_intros \<open>calls of composed programs\<close>

lemma tracesI:
  assumes "\<And>s r s'. like_env env0 (st_env s) \<Longrightarrow> m s = (r, s') \<Longrightarrow>
      like_env env0 (st_env s') \<and> (\<exists>k. st_calls s' = st_calls s @ take k cs \<and> ((\<exists>x. r = Ok x) \<longrightarrow> length cs \<le> k))"
  shows "traces env0 m cs"
  using assms unfolding traces_def by blast

lemma tracesD:
  assumes "traces env0 m cs" and "like_env env0 (st_env s)" and "m s = (r, s')"
  obtains k where "like_env env0 (st_env s')" and "st_calls s' = st_calls s @ take k cs" and "\<And>x. r = Ok x \<Longrightarrow> length cs \<le> k"
  using assms unfolding traces_def by blast

lemma traces_ret [traces_intros]: "traces env0 (ret x) []"
  by (rule tracesI) auto

lemma traces_on_rest [traces_intros]: "traces env0 (on_rest m) []"
  by (rule tracesI) (auto simp: on_rest_def split: prod.splits)

lemma traces_modify [traces_intros]:
  "(\<And>s. st_env (f s) = st_env s \<and> st_calls (f s) = st_calls s) \<Longrightarrow> traces env0 (modify f) []"
  by (rule tracesI) auto

lemma manager_call_eq: "manager_call S c s = (se_call S c, s\<lparr>st_calls := st_calls s @ [c]\<rparr>)"
  by (simp add: manager_call_def gbind_def modify_def lift_def)

lemma traces_manager_call [traces_intros]: "traces env0 (manager_call S c) [c]"
  by (rule tracesI) (auto simp: manager_call_eq intro!: exI [of _ 1])

lemma traces_gwrap [traces_intros]: "traces env0 m cs \<Longrightarrow> traces env0 (gwrap msg m) cs"
proof (rule tracesI)
  fix s r s' assume m: "traces env0 m cs" "like_env env0 (st_env s)" and run: "gwrap msg m s = (r, s')"
  from run obtain r0 where r0: "m s = (r0, s')" "r = wrap_err msg r0" by (auto simp: gwrap_def split: prod.splits)
  obtain k where "like_env env0 (st_env s')" "st_calls s' = st_calls s @ take k cs" "\<And>x. r0 = Ok x \<Longrightarrow> length cs \<le> k"
    using tracesD [OF m r0(1)] by blast
  with r0(2) show "like_env env0 (st_env s') \<and> (\<exists>k. st_calls s' = st_calls s @ take k cs \<and> ((\<exists>x. r = Ok x) \<longrightarrow> length cs \<le> k))"
    by (cases r0) (auto intro!: exI [of _ k])
qed

lemma traces_attempt [traces_intros]: "traces env0 m [] \<Longrightarrow> traces env0 (attempt m) []"
proof (rule tracesI)
  fix s r s' assume m: "traces env0 m []" "like_env env0 (st_env s)" and run: "attempt m s = (r, s')"
  from run obtain r0 where "m s = (r0, s')" by (auto simp: attempt_def split: prod.splits outcome.splits)
  from tracesD [OF m this] have "like_env env0 (st_env s')" "st_calls s' = st_calls s" by auto
  then show "like_env env0 (st_env s') \<and> (\<exists>k. st_calls s' = st_calls s @ take k [] \<and> ((\<exists>x. r = Ok x) \<longrightarrow> length ([] :: setup_call list) \<le> k))"
    by auto
qed

lemma traces_gbind:
  assumes m: "traces env0 m cs" and f: "\<And>x. traces env0 (f x) ds"
  shows "traces env0 (gbind m f) (cs @ ds)"
proof (rule tracesI)
  fix s r s'' assume s: "like_env env0 (st_env s)" and run: "gbind m f s = (r, s'')"
  show "like_env env0 (st_env s'') \<and> (\<exists>k. st_calls s'' = st_calls s @ take k (cs @ ds) \<and> ((\<exists>x. r = Ok x) \<longrightarrow> length (cs @ ds) \<le> k))"
    using run
  proof (cases rule: gbind_cases)
    case (Ok x s')
    obtain k where k: "like_env env0 (st_env s')" "st_calls s' = st_calls s @ take k cs" "length cs \<le> k"
      using tracesD [OF m s Ok(1)] by metis
    obtain l where l: "like_env env0 (st_env s'')" "st_calls s'' = st_calls s' @ take l ds" "\<And>x. r = Ok x \<Longrightarrow> length ds \<le> l"
      by (rule tracesD [OF f k(1) Ok(2)]) auto
    show ?thesis
      using k l by (intro conjI exI [of _ "length cs + l"]) auto
  next
    case (Err e)
    obtain k where "like_env env0 (st_env s'')" "st_calls s'' = st_calls s @ take k cs"
      by (rule tracesD [OF m s Err(1)])
    then show ?thesis using Err(2) by (intro conjI exI [of _ "min k (length cs)"]) (auto simp: min_def)
  next
    case (Panic p)
    obtain k where "like_env env0 (st_env s'')" "st_calls s'' = st_calls s @ take k cs"
      by (rule tracesD [OF m s Panic(1)])
    then show ?thesis using Panic(2) by (intro conjI exI [of _ "min k (length cs)"]) (auto simp: min_def)
  qed
qed

lemma traces_silent [traces_intros]:
  assumes "traces env0 m []" and "\<And>x. traces env0 (f x) cs"
  shows "traces env0 (gbind m f) cs"
  using traces_gbind [OF assms] by simp

lemma traces_then [traces_intros]:
  assumes "traces env0 m [c]" and "\<And>x. traces env0 (f x) cs"
  shows "traces env0 (gbind m f) (c # cs)"
  using traces_gbind [OF assms] by simp

lemma traces_reading:
  assumes "\<And>s. like_env env0 (st_env s) \<Longrightarrow> traces env0 (f (g s)) cs"
  shows "traces env0 (gbind (reading g) f) cs"
proof (rule tracesI)
  fix s r s' assume s: "like_env env0 (st_env s)" and "gbind (reading g) f s = (r, s')"
  then have "f (g s) s = (r, s')" by (simp add: gbind_def reading_def)
  with assms [OF s] s show "like_env env0 (st_env s') \<and> (\<exists>k. st_calls s' = st_calls s @ take k cs \<and> ((\<exists>x. r = Ok x) \<longrightarrow> length cs \<le> k))"
    unfolding traces_def by blast
qed

section \<open>The operator\<close>

lemma like_env_simps:
  "like_env env0 env \<Longrightarrow> isRunningInPod env = isRunningInPod env0"
  "like_env env0 env \<Longrightarrow> os_Getenv env ''ENABLE_WEBHOOKS'' = os_Getenv env0 ''ENABLE_WEBHOOKS''"
  "like_env env0 env \<Longrightarrow> os_Getenv env ''ENABLE_WEBHOOK_MTLS'' = os_Getenv env0 ''ENABLE_WEBHOOK_MTLS''"
  by (simp_all add: like_env_def isRunningInPod_def os_Getenv_def)

lemma traces_cluster_type [traces_intros]:
  "traces env0 (on_env (SetOsEnvIfNotSet ''ETHERNET_GENERIC_K8S'' v)) []"
  by (rule tracesI)
     (auto simp: on_env_def SetOsEnvIfNotSet_def os_Setenv_def like_env_def split: prod.splits if_splits)

lemma traces_setClusterType [traces_intros]: "traces env0 (setClusterType S) [NewDiscoveryClient, ServerGroups]"
  unfolding setClusterType_def by (auto intro!: traces_intros)

lemma traces_webhook_mtls [traces_intros]: "traces env0 webhook_mtls []"
  unfolding webhook_mtls_def Let_def by (rule traces_reading) (auto intro!: traces_intros)

definition webhook_calls :: "(string \<rightharpoonup> string) \<Rightarrow> setup_call list" where
  "webhook_calls env =
     (if os_Getenv env ''ENABLE_WEBHOOKS'' \<noteq> ''false'' then [SetupWebhook ''NodeFlowConfig'', SetupWebhook ''ClusterFlowConfig''] else [])"

lemma traces_setup_webhooks: "traces env0 (setup_webhooks S) (webhook_calls env0)"
  unfolding setup_webhooks_def
  by (rule traces_reading) (auto simp: like_env_simps webhook_calls_def intro!: traces_intros)

lemma traces_deploy_assets_main [traces_intros]: "traces env0 (deploy_assets_main S namespace) []"
  unfolding deploy_assets_main_def Let_def by (rule traces_reading) (auto intro!: traces_intros)

text \<open>Everything before the deployment of the assets; it returns whether there is a pod and the namespace.\<close>

definition registration :: "startup_env \<Rightarrow> (assets_state startup, bool \<times> string) go" where
  "registration S =
     gbind (reading (\<lambda>s. os_Getenv (st_env s) ''ETHERNET_NAMESPACE'')) (\<lambda>namespace.
     gbind (setClusterType S) (\<lambda>_.
     gbind (reading (\<lambda>s. isRunningInPod (st_env s))) (\<lambda>runningInK8s.
     gbind (manager_call S NewClient) (\<lambda>_.
     gbind (if runningInK8s then manager_call S GetOwner else ret ()) (\<lambda>_.
     gbind (manager_call S NewManager) (\<lambda>_.
     gbind (manager_call S (SetupController ''EthernetClusterConfig'')) (\<lambda>_.
     gbind webhook_mtls (\<lambda>_.
     gbind (setup_webhooks S) (\<lambda>_.
     gbind (manager_call S (SetupController ''FlowConfigNodeAgentDeployment'')) (\<lambda>_.
     gbind (manager_call S (SetupController ''ClusterFlowConfig'')) (\<lambda>_.
     gbind (manager_call S (AddCheck ''healthz'')) (\<lambda>_.
     gbind (manager_call S (AddCheck ''readyz'')) (\<lambda>_.
     ret (runningInK8s, namespace))))))))))))))"

lemma operator_main_eq:
  "operator_main S =
     gbind (registration S) (\<lambda>(runningInK8s, namespace).
     gbind (if runningInK8s then deploy_assets_main S namespace else ret ()) (\<lambda>_.
     manager_call S StartManager))"
  by (simp add: operator_main_def registration_def gbind_assoc)

definition registration_calls :: "(string \<rightharpoonup> string) \<Rightarrow> setup_call list" where
  "registration_calls env =
     [NewDiscoveryClient, ServerGroups, NewClient] @ (if isRunningInPod env then [GetOwner] else []) @
     [NewManager, SetupController ''EthernetClusterConfig''] @ webhook_calls env @
     [SetupController ''FlowConfigNodeAgentDeployment'', SetupController ''ClusterFlowConfig'', AddCheck ''healthz'',
      AddCheck ''readyz'']"

lemma traces_registration [traces_intros]: "traces env0 (registration S) (registration_calls env0)"
proof -
  have pod: "traces env0 (if b then manager_call S GetOwner else ret ()) (if b then [GetOwner] else [])" for b
    by (auto intro!: traces_intros)
  show ?thesis
    unfolding registration_def registration_calls_def append_Cons append_Nil
    by (rule traces_reading, rule traces_gbind [of _ _ "[NewDiscoveryClient, ServerGroups]", simplified], rule traces_intros,
        rule traces_reading, simp only: like_env_simps, rule traces_then, rule traces_intros, rule traces_gbind, rule pod,
        rule traces_then, rule traces_intros, rule traces_then, rule traces_intros, rule traces_silent, rule traces_intros,
        rule traces_gbind, rule traces_setup_webhooks) (auto intro!: traces_intros)
qed

lemma registration_Ok:
  assumes "registration S s = (Ok (pod, ns), s')"
  shows "pod = isRunningInPod (st_env s) \<and> ns = os_Getenv (st_env s) ''ETHERNET_NAMESPACE''"
proof -
  from assms obtain s1 where "setClusterType S s = (Ok (), s1)" "pod = isRunningInPod (st_env s1)"
    "ns = os_Getenv (st_env s) ''ETHERNET_NAMESPACE''"
    by (auto simp: registration_def gbind_Ok_iff)
  moreover have "like_env (st_env s) (st_env s1)"
    using tracesD [OF traces_setClusterType _ \<open>setClusterType S s = (Ok (), s1)\<close>] by (metis like_env_def)
  ultimately show ?thesis by (simp add: like_env_simps)
qed


definition local_run :: "assets_state startup" where
  "local_run =
     \<lparr>st_env = [''ETHERNET_NAMESPACE'' \<mapsto> ''ieo'', ''ENABLE_WEBHOOKS'' \<mapsto> ''false''], st_calls = [], st_CertDir = [],
      st_ClientCAName = [], st_rest = sample_assets daemon_set\<rparr>"

definition local_cluster :: startup_env where
  "local_cluster =
     \<lparr>se_call = (\<lambda>c. if c = SetupController ''ClusterFlowConfig'' then Err (Errorf ''no matches for kind'') else Ok ()), se_groups = [],
      se_owner = \<lparr>ow_Namespace = ''ieo'', ow_Name = ''operator'', ow_UID = ''1''\<rparr>, se_assets = sample_asset_env\<rparr>"

lemma local_cluster_calls:
  "operator_main (local_cluster\<lparr>se_call := (\<lambda>c. Ok ())\<rparr>) local_run =
     (Ok (), snd (operator_main (local_cluster\<lparr>se_call := (\<lambda>c. Ok ())\<rparr>) local_run)) \<and>
   StartManager \<in> set (st_calls (snd (operator_main (local_cluster\<lparr>se_call := (\<lambda>c. Ok ())\<rparr>) local_run)))"
  by (simp add: operator_main_def setClusterType_def gbind_def gwrap_def reading_def manager_call_eq ret_def webhook_mtls_def
      setup_webhooks_def on_env_def SetOsEnvIfNotSet_def os_Setenv_def os_Getenv_def isRunningInPod_def local_run_def local_cluster_def)


section \<open>The kind of cluster\<close>

text \<open>
  The machine configuration is an asset exactly on OpenShift: the variable decides when it is set, and the API groups
  of the cluster when it is not.
\<close>

lemma SetOsEnvIfNotSet_value:
  "SetOsEnvIfNotSet key v env = (Ok (), env') \<Longrightarrow> os_Getenv env' key = (if os_Getenv env key = [] then v else os_Getenv env key)"
  by (auto simp: SetOsEnvIfNotSet_def os_Setenv_def os_Getenv_def split: if_splits)

lemma machine_config_iff:
  "''machine-config'' \<in> as_ConfigMapName ` set (assetsToDeploy env) \<longleftrightarrow> ToLower (os_Getenv env ''ETHERNET_GENERIC_K8S'') \<noteq> ''true''"
  by (cases "ToLower (os_Getenv env ''ETHERNET_GENERIC_K8S'') = ''true''") (simp_all add: assetsToDeploy_def IsK8sDeployment_def)

lemma machine_config_deployed:
  assumes "setClusterType S s = (Ok (), s')"
  shows "''machine-config'' \<in> as_ConfigMapName ` set (assetsToDeploy (st_env s')) \<longleftrightarrow>
     (let v = os_Getenv (st_env s) ''ETHERNET_GENERIC_K8S''
      in if v = [] then ''route.openshift.io'' \<in> set (se_groups S) else ToLower v \<noteq> ''true'')"
proof -
  let ?key = "''ETHERNET_GENERIC_K8S''" and ?route = "''route.openshift.io'' \<in> set (se_groups S)"
  have "SetOsEnvIfNotSet ?key (if ?route then ''false'' else ''true'') (st_env s) = (Ok (), st_env s')"
    using assms by (cases ?route) (auto simp: setClusterType_def gbind_Ok_iff manager_call_eq on_env_def split: prod.splits)
  then have "os_Getenv (st_env s') ?key =
      (if os_Getenv (st_env s) ?key = [] then if ?route then ''false'' else ''true'' else os_Getenv (st_env s) ?key)"
    by (rule SetOsEnvIfNotSet_value)
  moreover have "ToLower ''true'' = ''true''" "ToLower ''false'' = ''false''" by code_simp+
  ultimately show ?thesis
    by (simp only: machine_config_iff Let_def) simp
qed

text \<open>The name of the authority's certificate, relative to the directory of the certificates, leads to the file.\<close>

abbreviation (input) pki_ca :: string where "pki_ca \<equiv> ''/etc/ieo-webhook/pki/ca.crt''"
abbreviation (input) cluster_ca :: string where "cluster_ca \<equiv> ''/var/run/secrets/kubernetes.io/serviceaccount/ca.crt''"

lemma ca_paths:
  "filepath_Join [''/tmp/k8s-webhook-server/serving-certs/'', filepath_Join [''../../../'', pki_ca]] = pki_ca"
  "filepath_Join [''/tmp/k8s-webhook-server/serving-certs/'', filepath_Join [''../../../'', cluster_ca]] = cluster_ca"
  by code_simp+

lemma gbind_reading: "gbind (reading g) f s = f (g s) s"
  by (simp add: gbind_def reading_def)

lemma gbind_modify: "gbind (modify g) f s = f () (g s)"
  by (simp add: gbind_def modify_def)

lemma on_rest_CertDir: "attempt (on_rest m) s = (Ok r, s') \<Longrightarrow> st_CertDir s' = st_CertDir s"
  by (auto simp: attempt_eq on_rest_def split: prod.splits)

lemma client_ca_resolves:
  assumes run: "webhook_mtls s = (Ok (), s')" and mtls: "os_Getenv (st_env s) ''ENABLE_WEBHOOK_MTLS'' = ''true''"
  shows "filepath_Join [st_CertDir s', st_ClientCAName s'] = pki_ca \<or> filepath_Join [st_CertDir s', st_ClientCAName s'] = cluster_ca"
proof -
  obtain r s1 where stat: "attempt (on_rest (on_assets_os (os_Stat pki_ca))) (s\<lparr>st_CertDir := ''/tmp/k8s-webhook-server/serving-certs/''\<rparr>) = (Ok r, s1)"
    and s': "s' = s1\<lparr>st_ClientCAName := filepath_Join [''../../../'', case r of Ok _ \<Rightarrow> pki_ca | _ \<Rightarrow> cluster_ca]\<rparr>"
    using run unfolding webhook_mtls_def gbind_reading mtls simp_thms if_True gbind_modify gbind_Ok_iff Let_def modify_eq by blast
  from on_rest_CertDir [OF stat] have "st_CertDir s' = ''/tmp/k8s-webhook-server/serving-certs/''" by (simp add: s')
  then show ?thesis using ca_paths by (cases r) (simp_all add: s')
qed

section \<open>Readiness of the DCF service\<close>

definition probed :: "('any, 'd) grpc_stub \<Rightarrow> nat \<Rightarrow> 'd \<Rightarrow> 'd" where
  "probed G k d = ((\<lambda>d. snd (dcf_ready G d)) ^^ k) d"

text \<open>The service accepts a connection and lists its ports; \<open>ready_at\<close>: it does so after \<open>k\<close> attempts.\<close>

definition answers :: "('any, 'd) grpc_stub \<Rightarrow> 'd \<Rightarrow> bool" where
  "answers G d \<longleftrightarrow> (case stub_DialContext G d of
     (Ok _, d1) \<Rightarrow> (case fst (stub_ListPorts G d1) of Ok _ \<Rightarrow> True | _ \<Rightarrow> False)
   | _ \<Rightarrow> False)"

definition ready_at :: "('any, 'd) grpc_stub \<Rightarrow> nat \<Rightarrow> 'd \<Rightarrow> bool" where
  "ready_at G k d \<longleftrightarrow> answers G (probed G k d)"

lemma dcf_ready_total:
  assumes "\<And>d p. fst (stub_DialContext G d) \<noteq> Panic p" and "\<And>d p. fst (stub_ListPorts G d) \<noteq> Panic p"
  shows "fst (dcf_ready G d) = Ok (answers G d)"
proof -
  obtain r1 d1 where dial: "stub_DialContext G d = (r1, d1)" by fastforce
  obtain r2 d2 where ports: "stub_ListPorts G d1 = (r2, d2)" by fastforce
  from assms [of d] assms(2) [of d1] dial ports show ?thesis
    by (cases r1; cases r2) (auto simp: dcf_ready_def answers_def gbind_def attempt_def ret_def)
qed

lemma retry_result:
  assumes "\<And>d. \<exists>b. fst (f d) = Ok b" and "retry n f d = (r, d')"
  shows "\<exists>k \<le> n. d' = ((\<lambda>d. snd (f d)) ^^ k) d \<and>
    (\<forall>j < k. Suc j < k \<longrightarrow> fst (f (((\<lambda>d. snd (f d)) ^^ j) d)) = Ok False) \<and>
    (r = Ok () \<and> 0 < k \<and> fst (f (((\<lambda>d. snd (f d)) ^^ (k - 1)) d)) = Ok True \<or>
     r = Err ErrWaitTimeout \<and> k = n \<and> (\<forall>j < n. fst (f (((\<lambda>d. snd (f d)) ^^ j) d)) = Ok False))"
  using assms(2)
proof (induction n arbitrary: d)
  case (Suc n)
  obtain b where b: "fst (f d) = Ok b" using assms(1) by blast
  let ?g = "\<lambda>d. snd (f d)"
  show ?case
  proof (cases b)
    case True
    with Suc.prems b show ?thesis by (intro exI [of _ 1]) (cases "f d"; auto simp: gbind_def)
  next
    case False
    with Suc.prems b have "retry n f (?g d) = (r, d')" by (cases "f d") (auto simp: gbind_def)
    from Suc.IH [OF this] obtain k where k: "k \<le> n" "d' = (?g ^^ k) (?g d)"
      "\<forall>j < k. Suc j < k \<longrightarrow> fst (f ((?g ^^ j) (?g d))) = Ok False"
      "r = Ok () \<and> 0 < k \<and> fst (f ((?g ^^ (k - 1)) (?g d))) = Ok True \<or>
       r = Err ErrWaitTimeout \<and> k = n \<and> (\<forall>j < n. fst (f ((?g ^^ j) (?g d))) = Ok False)" by blast
    have shift: "(?g ^^ Suc j) d = (?g ^^ j) (?g d)" for j by (simp only: funpow_Suc_right o_apply)
    have "fst (f ((?g ^^ j) d)) = Ok False" if "j < Suc k" "Suc j < Suc k" for j
      using that k(3) b False by (cases j) (auto simp: shift simp del: funpow.simps(2))
    moreover have "r = Ok () \<and> fst (f ((?g ^^ k) d)) = Ok True \<or>
       r = Err ErrWaitTimeout \<and> Suc k = Suc n \<and> (\<forall>j < Suc n. fst (f ((?g ^^ j) d)) = Ok False)"
    proof (rule disjE [OF k(4)])
      assume "r = Ok () \<and> 0 < k \<and> fst (f ((?g ^^ (k - 1)) (?g d))) = Ok True"
      then show ?thesis using shift [of "k - 1"] by simp
    next
      assume e: "r = Err ErrWaitTimeout \<and> k = n \<and> (\<forall>j < n. fst (f ((?g ^^ j) (?g d))) = Ok False)"
      have "fst (f ((?g ^^ j) d)) = Ok False" if "j < Suc n" for j
        using that e b False by (cases j) (auto simp: shift simp del: funpow.simps(2))
      with e show ?thesis by simp
    qed
    ultimately show ?thesis using k(1,2) shift [of k] by (intro exI [of _ "Suc k"]) auto
  qed
qed (auto intro: exI [of _ 0])


text \<open>A service that answers the third attempt.\<close>

definition slow_service :: "(unit, nat) grpc_stub" where
  "slow_service =
     \<lparr>stub_DialContext = (\<lambda>d. (Ok (), d)), stub_Validate = (\<lambda>_ d. (Err NotFound, d)), stub_Create = (\<lambda>_ d. (Err NotFound, d)),
      stub_Destroy = (\<lambda>_ d. (Err NotFound, d)), stub_ListPorts = (\<lambda>d. (if d < 2 then Err (Errorf ''unavailable'') else Ok [], Suc d))\<rparr>"


section \<open>The firmware daemon\<close>

text \<open>A certificate that cannot be read or parsed is ignored: downloads go through the default client.\<close>

lemma bad_certificate_default_client:
  assumes run: "NewNodeConfigReconciler L decode E node ns s = (Ok E', s')" and bad: "\<And>bs. \<exists>e. x509_ParseCertificate L bs = Err e"
  shows "de_http_Get E' = http_Get L DefaultClient"
proof -
  from run obtain cert f f' c where cert: "getTlsCert L f = (Ok cert, f')"
    and client: "(case cert of None \<Rightarrow> Ok DefaultClient | Some c \<Rightarrow> NewSecureHttpsClient L c) = Ok c" "de_http_Get E' = http_Get L c"
    unfolding NewNodeConfigReconciler_def gbind_Ok_iff by auto
  obtain r f1 where read: "attempt (os_ReadFile ''/etc/certificate/tls.crt'') f = (Ok r, f1)"
    using cert by (auto simp: getTlsCert_def gbind_Ok_iff)
  have "cert = None"
  proof (cases r)
    case (Ok bs)
    with cert read bad [of bs] show ?thesis by (auto simp: getTlsCert_def gbind_def ret_def)
  qed (use cert read in \<open>auto simp: getTlsCert_def gbind_def ret_def\<close>)
  with client show ?thesis by simp
qed

lemma CreateEmptyNodeConfigIfNeeded_object:
  assumes "CreateEmptyNodeConfigIfNeeded E s = (Ok (), s')"
  shows "fd_object s' \<noteq> None"
proof -
  obtain r s1 where get: "fd_Get s = (r, s1)" by fastforce
  show ?thesis
  proof (cases r)
    case (Ok nc)
    with assms get show ?thesis
      by (auto simp: CreateEmptyNodeConfigIfNeeded_def gbind_def attempt_def ret_def fd_Get_def fd_api_def Let_def split: option.splits)
  next
    case (Err e)
    with assms get have "\<exists>nc st. gbind (fd_Create nc) (\<lambda>_. fd_Status_Update st) s1 = (Ok (), s')"
      by (auto simp: CreateEmptyNodeConfigIfNeeded_def gbind_def [of "attempt fd_Get"] attempt_def lift_def Let_def split: if_splits)
    then show ?thesis
      by (auto simp: gbind_Ok_iff fd_Create_def fd_Status_Update_def fd_api_def Let_def split: option.splits)
  next
    case (Panic p)
    with assms get show ?thesis by (simp add: CreateEmptyNodeConfigIfNeeded_def gbind_def attempt_def)
  qed
qed

text \<open>The daemon's manager runs only on a named node whose configuration object exists.\<close>

lemma fwddp_main_start:
  assumes "fwddp_main S L decode E s = (Ok daemon, s')"
  shows "de_nodeName daemon = os_Getenv (st_env s) ''NODENAME'' \<and> de_nodeName daemon \<noteq> [] \<and> de_namespace daemon \<noteq> [] \<and>
    fd_object (st_rest s') \<noteq> None"
proof -
  from assms obtain s1 s2 s3 s4 where names: "os_Getenv (st_env s) ''NODENAME'' \<noteq> []" "os_Getenv (st_env s) ''ETHERNET_NAMESPACE'' \<noteq> []"
    and new: "on_rest (on_os (NewNodeConfigReconciler L decode E (os_Getenv (st_env s) ''NODENAME'') (os_Getenv (st_env s) ''ETHERNET_NAMESPACE''))) s1
      = (Ok daemon, s2)"
    and create: "on_rest (CreateEmptyNodeConfigIfNeeded daemon) s3 = (Ok (), s4)" and s': "st_rest s' = st_rest s4"
    by (auto simp: fwddp_main_def gbind_Ok_iff manager_call_eq Let_def split: if_splits)
  from new have "de_nodeName daemon = os_Getenv (st_env s) ''NODENAME''" "de_namespace daemon = os_Getenv (st_env s) ''ETHERNET_NAMESPACE''"
    by (auto simp: on_rest_def on_os_def NewNodeConfigReconciler_def gbind_Ok_iff split: prod.splits)
  moreover from create s' have "fd_object (st_rest s') \<noteq> None"
    by (auto simp: on_rest_def dest: CreateEmptyNodeConfigIfNeeded_object split: prod.splits)
  ultimately show ?thesis using names by simp
qed

end
