(* ===== verification/Go_Memory.thy ===== *)
theory Go_Memory
  imports Go_State
begin

text \<open>
  Go's memory as the generated deep copies see it: cells that pointers, slices and maps refer to, allocated and
  never freed. Elsewhere in this library a struct is a value and a pointer an option; here the cells are explicit, so
  that sharing can be stated. The contract of a deep copy is the locale \<open>deep_copy\<close>; the rules after it show that
  each idiom of the generated code (pointers, slices, maps, structs with such fields) meets it when its parts do.
\<close>

section \<open>Cells\<close>

type_synonym addr = nat

record 'c mem =
  cells :: "addr \<rightharpoonup> 'c"
  free_addr :: addr

definition mem_ok :: "'c mem \<Rightarrow> bool" where
  "mem_ok h \<longleftrightarrow> (\<forall>x. free_addr h \<le> x \<longrightarrow> cells h x = None)"

text \<open>Cells of one Go type: how its values are put into the memory's cells and taken out.\<close>

type_synonym ('c, 'v) kind = "('v \<Rightarrow> 'c) \<times> ('c \<Rightarrow> 'v option)"

definition kind_ok :: "('c, 'v) kind \<Rightarrow> bool" where
  "kind_ok k \<longleftrightarrow> (\<forall>v. snd k (fst k v) = Some v)"

definition at :: "('c, 'v) kind \<Rightarrow> 'c mem \<Rightarrow> addr \<Rightarrow> 'v option" where
  "at k h x = Option.bind (cells h x) (snd k)"

text \<open>\<^verbatim>\<open>new\<close> with the contents the caller gives to the new variable, a load and a store through a pointer.\<close>

definition new_cell :: "('c, 'v) kind \<Rightarrow> 'v \<Rightarrow> ('c mem, addr) go" where
  "new_cell k v h = (Ok (free_addr h), h\<lparr>cells := (cells h)(free_addr h \<mapsto> fst k v), free_addr := Suc (free_addr h)\<rparr>)"

definition load :: "('c, 'v) kind \<Rightarrow> addr \<Rightarrow> ('c mem, 'v) go" where
  "load k x h = ((case at k h x of Some v \<Rightarrow> Ok v | None \<Rightarrow> Panic ''invalid memory address''), h)"

definition store :: "('c, 'v) kind \<Rightarrow> addr \<Rightarrow> 'v \<Rightarrow> ('c mem, unit) go" where
  "store k x v = modify (\<lambda>h. h\<lparr>cells := (cells h)(x \<mapsto> fst k v)\<rparr>)"

text \<open>A pointer, a slice and a map are nil or refer to a cell. A slice shows a part of its array.\<close>

type_synonym ptr = "addr option"

record slice_header =
  sl_array :: addr
  sl_off :: nat
  sl_len :: nat

type_synonym slice = "slice_header option"

section \<open>The idioms of the generated code\<close>

text \<open>
  Each copy gets the contents of \<^verbatim>\<open>*in\<close> and returns the contents of \<^verbatim>\<open>*out\<close>. The cells of the copy are allocated
  with their final contents: nothing reads them while they are filled.

  \<^verbatim>\<open>if in != nil { *out = new(T); (*in).DeepCopyInto(*out) }\<close>
\<close>

definition copy_ptr :: "('c, 'v) kind \<Rightarrow> ('v \<Rightarrow> ('c mem, 'v) go) \<Rightarrow> ptr \<Rightarrow> ('c mem, ptr) go" where
  "copy_ptr k into p =
     (case p of
        None \<Rightarrow> ret None
      | Some x \<Rightarrow> gbind (load k x) (\<lambda>v. gbind (into v) (\<lambda>v'. gbind (new_cell k v') (\<lambda>y. ret (Some y)))))"

text \<open>\<^verbatim>\<open>if in != nil { *out = make([]T, len(*in)); for i := range *in { (*in)[i].DeepCopyInto(&(*out)[i]) } }\<close>\<close>

definition copy_slice :: "('c, 'v list) kind \<Rightarrow> ('v \<Rightarrow> ('c mem, 'v) go) \<Rightarrow> slice \<Rightarrow> ('c mem, slice) go" where
  "copy_slice k into s =
     (case s of
        None \<Rightarrow> ret None
      | Some sl \<Rightarrow>
          gbind (load k (sl_array sl)) (\<lambda>xs.
          gbind (gmap into (take (sl_len sl) (drop (sl_off sl) xs))) (\<lambda>ys.
          gbind (new_cell k ys) (\<lambda>y. ret (Some \<lparr>sl_array = y, sl_off = 0, sl_len = length ys\<rparr>)))))"

text \<open>\<^verbatim>\<open>*out = make(map[K]V, len(*in)); for key, val := range *in { (*out)[key] = val }\<close>, in the order \<open>ro\<close>\<close>

definition copy_map :: "('k set \<Rightarrow> 'k list) \<Rightarrow> ('c, 'k \<rightharpoonup> 'v) kind \<Rightarrow> ptr \<Rightarrow> ('c mem, ptr) go" where
  "copy_map ro k p =
     (case p of
        None \<Rightarrow> ret None
      | Some x \<Rightarrow>
          gbind (load k x) (\<lambda>m.
          gbind (new_cell k (fold (\<lambda>key m'. m'(key := m key)) (ro (dom m)) Map.empty)) (\<lambda>y. ret (Some y))))"

text \<open>
  \<^verbatim>\<open>append(s, x)\<close>: into the array while it has room after the slice, otherwise into a new array with room for
  \<open>spare n\<close> more elements, which the language leaves open.
\<close>

definition go_append :: "(nat \<Rightarrow> nat) \<Rightarrow> 'v \<Rightarrow> ('c, 'v list) kind \<Rightarrow> slice \<Rightarrow> 'v \<Rightarrow> ('c mem, slice) go" where
  "go_append spare zero k s x =
     (case s of
        None \<Rightarrow> gbind (new_cell k (x # replicate (spare 0) zero)) (\<lambda>y. ret (Some \<lparr>sl_array = y, sl_off = 0, sl_len = 1\<rparr>))
      | Some sl \<Rightarrow>
          gbind (load k (sl_array sl)) (\<lambda>xs.
          let n = sl_off sl + sl_len sl in
          if n < length xs
          then gbind (store k (sl_array sl) (xs[n := x])) (\<lambda>_. ret (Some (sl\<lparr>sl_len := Suc (sl_len sl)\<rparr>)))
          else gbind (new_cell k (take (sl_len sl) (drop (sl_off sl) xs) @ x # replicate (spare (sl_len sl)) zero))
            (\<lambda>y. ret (Some \<lparr>sl_array = y, sl_off = 0, sl_len = Suc (sl_len sl)\<rparr>))))"

section \<open>What a value stands for\<close>

text \<open>
  \<open>rep h F v a\<close>: in memory \<open>h\<close> the contents \<open>v\<close> of a variable stand for the value \<open>a\<close>, and \<open>F\<close> are the cells this
  rests on.
\<close>

type_synonym ('c, 'v, 'a) rep = "'c mem \<Rightarrow> addr set \<Rightarrow> 'v \<Rightarrow> 'a \<Rightarrow> bool"

definition flat :: "('c, 'v, 'v) rep" where
  "flat h F v a \<longleftrightarrow> F = {} \<and> a = v"

definition ptr_rep :: "('c, 'v) kind \<Rightarrow> ('c, 'v, 'a) rep \<Rightarrow> ('c, ptr, 'a option) rep" where
  "ptr_rep k R h F p a \<longleftrightarrow>
     (case p of
        None \<Rightarrow> F = {} \<and> a = None
      | Some x \<Rightarrow> \<exists>v G b. at k h x = Some v \<and> R h G v b \<and> F = insert x G \<and> a = Some b)"

fun list_rep :: "('c, 'v, 'a) rep \<Rightarrow> ('c, 'v list, 'a list) rep" where
  "list_rep R h F [] [] \<longleftrightarrow> F = {}"
| "list_rep R h F (v # vs) (a # as) \<longleftrightarrow> (\<exists>G H. R h G v a \<and> list_rep R h H vs as \<and> F = G \<union> H)"
| "list_rep R h F _ _ \<longleftrightarrow> False"

definition slice_rep :: "('c, 'v list) kind \<Rightarrow> ('c, 'v, 'a) rep \<Rightarrow> ('c, slice, 'a list option) rep" where
  "slice_rep k R h F s a \<longleftrightarrow>
     (case s of
        None \<Rightarrow> F = {} \<and> a = None
      | Some sl \<Rightarrow> \<exists>xs G as. at k h (sl_array sl) = Some xs \<and> sl_off sl + sl_len sl \<le> length xs \<and>
          list_rep R h G (take (sl_len sl) (drop (sl_off sl) xs)) as \<and> F = insert (sl_array sl) G \<and> a = Some as)"

definition map_rep :: "('c, 'k \<rightharpoonup> 'v) kind \<Rightarrow> ('c, ptr, ('k \<rightharpoonup> 'v) option) rep" where
  "map_rep k h F p a \<longleftrightarrow>
     (case p of
        None \<Rightarrow> F = {} \<and> a = None
      | Some x \<Rightarrow> \<exists>m. at k h x = Some m \<and> finite (dom m) \<and> F = {x} \<and> a = Some m)"

text \<open>Two fields of a struct, in this order.\<close>

definition pair_rep :: "('c, 'v, 'a) rep \<Rightarrow> ('c, 'w, 'b) rep \<Rightarrow> ('c, 'v \<times> 'w, 'a \<times> 'b) rep" where
  "pair_rep R S h F v a \<longleftrightarrow> (\<exists>G H. R h G (fst v) (fst a) \<and> S h H (snd v) (snd a) \<and> F = G \<union> H)"

definition copy_pair :: "('v \<Rightarrow> ('c mem, 'v) go) \<Rightarrow> ('w \<Rightarrow> ('c mem, 'w) go) \<Rightarrow> 'v \<times> 'w \<Rightarrow> ('c mem, 'v \<times> 'w) go" where
  "copy_pair c d v = gbind (c (fst v)) (\<lambda>x. gbind (d (snd v)) (\<lambda>y. ret (x, y)))"

lemma pair_repI: "R h G x a \<Longrightarrow> S h H y b \<Longrightarrow> F = G \<union> H \<Longrightarrow> pair_rep R S h F (x, y) (a, b)"
  by (auto simp: pair_rep_def)

section \<open>The contract of a deep copy\<close>

text \<open>\<open>grows h h'\<close>: the cells of \<open>h\<close> are as before, others were added.\<close>

definition grows :: "'c mem \<Rightarrow> 'c mem \<Rightarrow> bool" where
  "grows h h' \<longleftrightarrow> mem_ok h' \<and> free_addr h \<le> free_addr h' \<and> (\<forall>x < free_addr h. cells h' x = cells h x)"

definition agree :: "addr set \<Rightarrow> 'c mem \<Rightarrow> 'c mem \<Rightarrow> bool" where
  "agree F h h' \<longleftrightarrow> (\<forall>x \<in> F. cells h' x = cells h x)"

lemma grows_refl: "mem_ok h \<Longrightarrow> grows h h"
  by (simp add: grows_def)

lemma grows_trans: "grows h h1 \<Longrightarrow> grows h1 h2 \<Longrightarrow> grows h h2"
  by (auto simp: grows_def)

lemma grows_ok: "grows h h' \<Longrightarrow> mem_ok h'"
  by (simp add: grows_def)

lemma grows_free: "grows h h' \<Longrightarrow> free_addr h \<le> free_addr h'"
  by (simp add: grows_def)

lemma grows_agree: "grows h h' \<Longrightarrow> F \<subseteq> {..<free_addr h} \<Longrightarrow> agree F h h'"
  by (auto simp: grows_def agree_def)

lemma grows_new: "mem_ok h \<Longrightarrow> new_cell k v h = (Ok x, h') \<Longrightarrow> grows h h'"
  by (auto simp: new_cell_def grows_def mem_ok_def)

lemma at_new: "kind_ok k \<Longrightarrow> new_cell k v h = (Ok x, h') \<Longrightarrow> at k h' x = Some v"
  by (auto simp: new_cell_def kind_ok_def at_def)

lemma at_allocated: "mem_ok h \<Longrightarrow> at k h x = Some v \<Longrightarrow> x < free_addr h"
proof (rule ccontr)
  assume ok: "mem_ok h" and v: "at k h x = Some v" and "\<not> x < free_addr h"
  with ok have "cells h x = None" by (simp add: mem_ok_def)
  with v show False by (simp add: at_def)
qed

lemma at_agree: "agree F h h' \<Longrightarrow> x \<in> F \<Longrightarrow> at k h' x = at k h x"
  by (simp add: agree_def at_def)

lemma old_new: "A \<subseteq> {..<n} \<Longrightarrow> B \<subseteq> {n..} \<Longrightarrow> A \<inter> B = {}" for n :: addr
  by fastforce

lemma load_at: "at k h x = Some v \<Longrightarrow> load k x h = (Ok v, h)"
  by (simp add: load_def)

text \<open>
  The contract: what a value stands for depends on its cells only, these are allocated, and a copy succeeds, stands
  for the same value and rests on new cells only.
\<close>

locale deep_copy =
  fixes rep :: "'c mem \<Rightarrow> addr set \<Rightarrow> 'v \<Rightarrow> 'a \<Rightarrow> bool" and copy :: "'v \<Rightarrow> ('c mem, 'v) go"
  assumes frame: "rep h F v a \<Longrightarrow> agree F h h' \<Longrightarrow> rep h' F v a"
    and allocated: "mem_ok h \<Longrightarrow> rep h F v a \<Longrightarrow> F \<subseteq> {..<free_addr h}"
    and copies: "mem_ok h \<Longrightarrow> rep h F v a \<Longrightarrow>
      \<exists>v' h' G. copy v h = (Ok v', h') \<and> grows h h' \<and> rep h' G v' a \<and> G \<subseteq> {free_addr h..}"
begin

lemma grown: "mem_ok h \<Longrightarrow> rep h F v a \<Longrightarrow> grows h h' \<Longrightarrow> rep h' F v a"
  by (rule frame, assumption, rule grows_agree, assumption, rule allocated)

text \<open>The copy and its original do not depend on each other.\<close>

lemma separate:
  assumes "mem_ok h" and "rep h F v a"
  shows "\<exists>v' h' G. copy v h = (Ok v', h') \<and> grows h h' \<and> F \<inter> G = {} \<and>
    (\<forall>h2. agree G h' h2 \<longrightarrow> rep h2 G v' a) \<and> (\<forall>h2. agree F h' h2 \<longrightarrow> rep h2 F v a)"
proof -
  obtain v' h' G where c: "copy v h = (Ok v', h')" "grows h h'" "rep h' G v' a" "G \<subseteq> {free_addr h..}"
    using copies [OF assms] by blast
  have "F \<subseteq> {..<free_addr h}"
    by (rule allocated [OF assms])
  with c(4) have "F \<inter> G = {}" by (intro old_new)
  moreover have "rep h2 G v' a" if "agree G h' h2" for h2
    by (rule frame [OF c(3) that])
  moreover have "rep h2 F v a" if "agree F h' h2" for h2
    by (rule frame [OF grown [OF assms c(2)] that])
  ultimately show ?thesis
    using c(1,2) by (intro exI [of _ v'] exI [of _ h'] exI [of _ G]) simp
qed

end

section \<open>Rules\<close>

lemma deep_copy_flat: "deep_copy flat ret"
  by unfold_locales (auto simp: flat_def grows_refl)

lemma list_rep_Nil [simp]: "list_rep R h F [] as \<longleftrightarrow> as = [] \<and> F = {}"
  by (cases as) auto

lemma list_rep_Cons:
  "list_rep R h F (v # vs) as \<longleftrightarrow> (\<exists>b bs G H. as = b # bs \<and> R h G v b \<and> list_rep R h H vs bs \<and> F = G \<union> H)"
  by (cases as) auto

lemma ptr_repI: "at k h x = Some v \<Longrightarrow> R h G v b \<Longrightarrow> F = insert x G \<Longrightarrow> ptr_rep k R h F (Some x) (Some b)"
  by (auto simp: ptr_rep_def)

lemma list_repI: "R h F v a \<Longrightarrow> list_rep R h F [v] [a]"
  by (simp add: list_rep_Cons)

lemma slice_repI:
  "at k h x = Some xs \<Longrightarrow> n = length xs \<Longrightarrow> list_rep R h G xs as \<Longrightarrow> F = insert x G \<Longrightarrow>
    slice_rep k R h F (Some \<lparr>sl_array = x, sl_off = 0, sl_len = n\<rparr>) (Some as)"
  by (auto simp: slice_rep_def)

lemma nil_rep [simp]: "ptr_rep k R h {} None None" "slice_rep k' R h {} None None" "map_rep k'' h {} None None"
  by (simp_all add: ptr_rep_def slice_rep_def map_rep_def)

lemma agree_Un: "agree (F \<union> G) h h' \<longleftrightarrow> agree F h h' \<and> agree G h h'"
  by (auto simp: agree_def)

lemma agree_insert: "agree (insert x F) h h' \<longleftrightarrow> cells h' x = cells h x \<and> agree F h h'"
  by (auto simp: agree_def)

context deep_copy
begin

lemma list_frame: "list_rep rep h F vs as \<Longrightarrow> agree F h h' \<Longrightarrow> list_rep rep h' F vs as"
proof (induction vs arbitrary: F as)
  case (Cons v vs)
  from Cons.prems obtain b bs G H where as: "as = b # bs" "rep h G v b" "list_rep rep h H vs bs" "F = G \<union> H"
      "agree G h h'" "agree H h h'"
    by (auto simp: list_rep_Cons agree_Un)
  from frame [OF as(2,5)] Cons.IH [OF as(3,6)] as(1,4) show ?case
    by (auto simp: list_rep_Cons)
qed simp

lemma list_allocated: "mem_ok h \<Longrightarrow> list_rep rep h F vs as \<Longrightarrow> F \<subseteq> {..<free_addr h}"
proof (induction vs arbitrary: F as)
  case (Cons v vs)
  from Cons.prems(2) obtain b bs G H where "rep h G v b" "list_rep rep h H vs bs" "F = G \<union> H"
    by (auto simp: list_rep_Cons)
  with allocated [OF Cons.prems(1)] Cons.IH [OF Cons.prems(1)] show ?case
    by (simp add: Un_least)
qed simp

lemma list_copies:
  "mem_ok h \<Longrightarrow> list_rep rep h F vs as \<Longrightarrow>
    \<exists>vs' h' G. gmap copy vs h = (Ok vs', h') \<and> grows h h' \<and> list_rep rep h' G vs' as \<and> G \<subseteq> {free_addr h..}"
proof (induction vs arbitrary: h F as)
  case Nil
  then show ?case by (auto simp: grows_refl)
next
  case (Cons v vs)
  from Cons.prems(2) obtain b bs G H where as: "as = b # bs" "rep h G v b" "list_rep rep h H vs bs"
    by (auto simp: list_rep_Cons)
  obtain v' h1 G' where c: "copy v h = (Ok v', h1)" "grows h h1" "rep h1 G' v' b" "G' \<subseteq> {free_addr h..}"
    using copies [OF Cons.prems(1) as(2)] by blast
  have "list_rep rep h1 H vs bs"
    by (rule list_frame [OF as(3) grows_agree [OF c(2) list_allocated [OF Cons.prems(1) as(3)]]])
  from Cons.IH [OF grows_ok [OF c(2)] this] obtain vs' h2 H' where
      m: "gmap copy vs h1 = (Ok vs', h2)" "grows h1 h2" "list_rep rep h2 H' vs' bs" "H' \<subseteq> {free_addr h1..}"
    by blast
  have "gmap copy (v # vs) h = (Ok (v' # vs'), h2)"
    using c(1) m(1) by (simp add: gbind_def ret_def)
  moreover have "list_rep rep h2 (G' \<union> H') (v' # vs') as"
    using grown [OF grows_ok [OF c(2)] c(3) m(2)] m(3) as(1) by (auto simp: list_rep_Cons)
  moreover have "G' \<union> H' \<subseteq> {free_addr h..}"
    using c(4) m(4) grows_free [OF c(2)] by auto
  ultimately show ?case
    using grows_trans [OF c(2) m(2)] by blast
qed

lemma copied_ptr:
  assumes k: "kind_ok k" and ok: "mem_ok h" and v: "at k h x = Some v" "rep h F v a"
  shows "\<exists>y v' h' G. copy_ptr k copy (Some x) h = (Ok (Some y), h') \<and> grows h h' \<and> at k h' y = Some v' \<and> rep h' G v' a \<and>
    insert y G \<subseteq> {free_addr h..} \<and> y \<notin> G"
proof -
  obtain v' h1 G where c: "copy v h = (Ok v', h1)" "grows h h1" "rep h1 G v' a" "G \<subseteq> {free_addr h..}"
    using copies [OF ok v(2)] by blast
  obtain y h2 where n: "new_cell k v' h1 = (Ok y, h2)" and y: "y = free_addr h1"
    by (simp add: new_cell_def)
  note g = grows_new [OF grows_ok [OF c(2)] n]
  have "copy_ptr k copy (Some x) h = (Ok (Some y), h2)"
    using load_at [OF v(1)] c(1) n by (simp add: copy_ptr_def gbind_def ret_def)
  moreover have "rep h2 G v' a"
    by (rule grown [OF grows_ok [OF c(2)] c(3) g])
  moreover have "insert y G \<subseteq> {free_addr h..}" "y \<notin> G"
    using c(4) y grows_free [OF c(2)] allocated [OF grows_ok [OF c(2)] c(3)] by auto
  ultimately show ?thesis
    using grows_trans [OF c(2) g] at_new [OF k n] by blast
qed

lemma ptr_copies:
  assumes k: "kind_ok k" and ok: "mem_ok h" and r: "ptr_rep k rep h F p a"
  shows "\<exists>p' h' G. copy_ptr k copy p h = (Ok p', h') \<and> grows h h' \<and> ptr_rep k rep h' G p' a \<and> G \<subseteq> {free_addr h..}"
proof (cases p)
  case None
  with ok r show ?thesis by (auto simp: ptr_rep_def copy_ptr_def grows_refl)
next
  case (Some x)
  with r obtain v G b where v: "at k h x = Some v" "rep h G v b" "a = Some b"
    by (auto simp: ptr_rep_def)
  from copied_ptr [OF k ok v(1,2)] obtain y v' h' G' where
    "copy_ptr k copy p h = (Ok (Some y), h')" "grows h h'" "at k h' y = Some v'" "rep h' G' v' b" "insert y G' \<subseteq> {free_addr h..}"
    unfolding Some by blast
  with v(3) show ?thesis
    by (intro exI [of _ "Some y"] exI [of _ h'] exI [of _ "insert y G'"]) (auto simp: ptr_rep_def)
qed

lemma slice_copies:
  assumes k: "kind_ok k" and ok: "mem_ok h" and r: "slice_rep k rep h F s a"
  shows "\<exists>s' h' G. copy_slice k copy s h = (Ok s', h') \<and> grows h h' \<and> slice_rep k rep h' G s' a \<and> G \<subseteq> {free_addr h..}"
proof (cases s)
  case None
  with ok r show ?thesis by (auto simp: slice_rep_def copy_slice_def grows_refl)
next
  case (Some sl)
  let ?part = "\<lambda>xs. take (sl_len sl) (drop (sl_off sl) xs)"
  from Some r obtain xs G as where v: "at k h (sl_array sl) = Some xs" "list_rep rep h G (?part xs) as" "a = Some as"
    by (auto simp: slice_rep_def)
  obtain ys h1 G' where c: "gmap copy (?part xs) h = (Ok ys, h1)" "grows h h1" "list_rep rep h1 G' ys as" "G' \<subseteq> {free_addr h..}"
    using list_copies [OF ok v(2)] by blast
  obtain y h2 where n: "new_cell k ys h1 = (Ok y, h2)" and y: "y = free_addr h1"
    by (simp add: new_cell_def)
  note g = grows_new [OF grows_ok [OF c(2)] n]
  let ?s = "Some \<lparr>sl_array = y, sl_off = 0, sl_len = length ys\<rparr>"
  have "copy_slice k copy s h = (Ok ?s, h2)"
    using Some load_at [OF v(1)] c(1) n by (simp add: copy_slice_def gbind_def ret_def)
  moreover have "list_rep rep h2 G' ys as"
    by (rule list_frame [OF c(3) grows_agree [OF g list_allocated [OF grows_ok [OF c(2)] c(3)]]])
  then have "slice_rep k rep h2 (insert y G') ?s a"
    using at_new [OF k n] v(3) by (auto simp: slice_rep_def)
  moreover have "insert y G' \<subseteq> {free_addr h..}"
    using c(4) y grows_free [OF c(2)] by simp
  ultimately show ?thesis
    using grows_trans [OF c(2) g] by blast
qed

end

lemma deep_copy_ptr:
  assumes k: "kind_ok k" and dc: "deep_copy R into"
  shows "deep_copy (ptr_rep k R) (copy_ptr k into)"
proof
  fix h h' F p a assume r: "ptr_rep k R h F p a" and "agree F h h'"
  then show "ptr_rep k R h' F p a"
    using deep_copy.frame [OF dc, of h _ _ _ h']
    by (cases p) (fastforce simp: ptr_rep_def agree_insert at_def)+
next
  fix h F p a assume "mem_ok h" and "ptr_rep k R h F p a"
  then show "F \<subseteq> {..<free_addr h}"
    using deep_copy.allocated [OF dc, of h]
    by (cases p) (auto simp: ptr_rep_def at_allocated)
qed (rule deep_copy.ptr_copies [OF dc k])

lemma deep_copy_slice:
  assumes k: "kind_ok k" and dc: "deep_copy R into"
  shows "deep_copy (slice_rep k R) (copy_slice k into)"
proof
  fix h h' F s a assume r: "slice_rep k R h F s a" and "agree F h h'"
  then show "slice_rep k R h' F s a"
    using deep_copy.list_frame [OF dc, of h _ _ _ h']
    by (cases s) (fastforce simp: slice_rep_def agree_insert at_def)+
next
  fix h F s a assume "mem_ok h" and "slice_rep k R h F s a"
  then show "F \<subseteq> {..<free_addr h}"
    using deep_copy.list_allocated [OF dc, of h]
    by (cases s) (auto simp: slice_rep_def at_allocated)
qed (rule deep_copy.slice_copies [OF dc k])

lemma fold_keys: "distinct ks \<Longrightarrow> fold (\<lambda>key m'. m'(key := m key)) ks m0 = (\<lambda>x. if x \<in> set ks then m x else m0 x)"
  by (induction ks arbitrary: m0) auto

lemma deep_copy_map:
  assumes k: "kind_ok k" and ro: "\<And>S. finite S \<Longrightarrow> distinct (ro S) \<and> set (ro S) = S"
  shows "deep_copy (map_rep k) (copy_map ro k)"
proof
  fix h h' F p a assume "map_rep k h F p a" and "agree F h h'"
  then show "map_rep k h' F p a"
    by (cases p) (auto simp: map_rep_def agree_insert at_def)
next
  fix h F p a assume "mem_ok h" and "map_rep k h F p a"
  then show "F \<subseteq> {..<free_addr h}"
    by (cases p) (auto simp: map_rep_def at_allocated)
next
  fix h F p a assume ok: "mem_ok h" and r: "map_rep k h F p a"
  show "\<exists>p' h' G. copy_map ro k p h = (Ok p', h') \<and> grows h h' \<and> map_rep k h' G p' a \<and> G \<subseteq> {free_addr h..}"
  proof (cases p)
    case None
    with ok r show ?thesis by (auto simp: map_rep_def copy_map_def grows_refl)
  next
    case (Some x)
    with r obtain m where m: "at k h x = Some m" "finite (dom m)" "a = Some m"
      by (auto simp: map_rep_def)
    have f: "fold (\<lambda>key m'. m'(key := m key)) (ro (dom m)) Map.empty = m"
      using ro [OF m(2)] by (auto simp: fold_keys domIff)
    obtain y h' where n: "new_cell k m h = (Ok y, h')" and y: "y = free_addr h"
      by (simp add: new_cell_def)
    have "copy_map ro k p h = (Ok (Some y), h')"
      using Some load_at [OF m(1)] f n by (simp add: copy_map_def gbind_def ret_def)
    with grows_new [OF ok n] at_new [OF k n] m y show ?thesis
      by (intro exI [of _ "Some y"] exI [of _ h'] exI [of _ "{y}"]) (simp add: map_rep_def)
  qed
qed

lemma deep_copy_pair:
  assumes c: "deep_copy R c" and d: "deep_copy S d"
  shows "deep_copy (pair_rep R S) (copy_pair c d)"
proof
  fix h h' F v a assume "pair_rep R S h F v a" and "agree F h h'"
  then show "pair_rep R S h' F v a"
    using deep_copy.frame [OF c] deep_copy.frame [OF d] by (fastforce simp: pair_rep_def agree_Un)
next
  fix h F v a assume "mem_ok h" and "pair_rep R S h F v a"
  then show "F \<subseteq> {..<free_addr h}"
    using deep_copy.allocated [OF c] deep_copy.allocated [OF d] unfolding pair_rep_def by blast
next
  fix h F v a assume ok: "mem_ok h" and "pair_rep R S h F v a"
  then obtain G H where r: "R h G (fst v) (fst a)" "S h H (snd v) (snd a)"
    by (auto simp: pair_rep_def)
  obtain x h1 G' where x: "c (fst v) h = (Ok x, h1)" "grows h h1" "R h1 G' x (fst a)" "G' \<subseteq> {free_addr h..}"
    using deep_copy.copies [OF c ok r(1)] by blast
  obtain y h2 H' where y: "d (snd v) h1 = (Ok y, h2)" "grows h1 h2" "S h2 H' y (snd a)" "H' \<subseteq> {free_addr h1..}"
    using deep_copy.copies [OF d grows_ok [OF x(2)] deep_copy.grown [OF d ok r(2) x(2)]] by blast
  have "pair_rep R S h2 (G' \<union> H') (x, y) a"
    using deep_copy.grown [OF c grows_ok [OF x(2)] x(3) y(2)] y(3) by (auto simp: pair_rep_def)
  moreover have "G' \<union> H' \<subseteq> {free_addr h..}"
    using x(4) y(4) grows_free [OF x(2)] by auto
  moreover have "copy_pair c d v h = (Ok (x, y), h2)"
    using x(1) y(1) by (simp add: copy_pair_def gbind_def ret_def)
  ultimately show "\<exists>v' h' G. copy_pair c d v h = (Ok v', h') \<and> grows h h' \<and> pair_rep R S h' G v' a \<and> G \<subseteq> {free_addr h..}"
    using grows_trans [OF x(2) y(2)] by blast
qed

text \<open>
  A struct whose fields \<open>f\<close> are copied, while \<open>S\<close> compares the others: \<open>g\<close> are the same fields of the value, \<open>u\<close>
  replaces them.
\<close>

lemma deep_copy_struct:
  assumes c: "deep_copy R c" and f: "\<And>v x. f (u v x) = x" and S: "\<And>v x a. S v a \<Longrightarrow> S (u v x) a"
    and copy: "\<And>v. copy v = gbind (c (f v)) (\<lambda>x. ret (u v x))"
    and rep: "\<And>h F v a. rep h F v a \<longleftrightarrow> R h F (f v) (g a) \<and> S v a"
  shows "deep_copy rep copy"
proof
  fix h h' F v a assume "rep h F v a" and "agree F h h'"
  then show "rep h' F v a"
    using deep_copy.frame [OF c] unfolding rep by blast
next
  fix h F v a assume "mem_ok h" and "rep h F v a"
  then show "F \<subseteq> {..<free_addr h}"
    using deep_copy.allocated [OF c] unfolding rep by blast
next
  fix h F v a assume ok: "mem_ok h" and r: "rep h F v a"
  then obtain x h' G where "c (f v) h = (Ok x, h')" "grows h h'" "R h' G x (g a)" "G \<subseteq> {free_addr h..}"
    using deep_copy.copies [OF c ok] unfolding rep by blast
  with r f S show "\<exists>v' h' G. copy v h = (Ok v', h') \<and> grows h h' \<and> rep h' G v' a \<and> G \<subseteq> {free_addr h..}"
    by (intro exI [of _ "u v x"] exI [of _ h'] exI [of _ G]) (simp add: rep copy gbind_def ret_def)
qed

section \<open>Stores\<close>

lemma store_run:
  assumes "kind_ok k" and "mem_ok h" and "x < free_addr h"
  shows "\<exists>h'. store k x v h = (Ok (), h') \<and> mem_ok h' \<and> free_addr h' = free_addr h \<and> at k h' x = Some v \<and>
    (\<forall>y. y \<noteq> x \<longrightarrow> cells h' y = cells h y)"
  using assms by (auto simp: store_def modify_def mem_ok_def at_def kind_ok_def)

lemma list_rep_flat [simp]: "list_rep flat h F vs as \<longleftrightarrow> F = {} \<and> as = vs"
  by (induction vs arbitrary: F as) (auto simp: list_rep_Cons flat_def)

lemma take_drop_update:
  "i + n < length xs \<Longrightarrow> take (Suc n) (drop i (xs[i + n := x])) = take n (drop i xs) @ [x]"
  by (simp add: take_Suc_conv_app_nth drop_update_swap)

text \<open>
  Appending to a slice of plain values changes at most the array of the slice, and the new slice shows the old elements
  and the new one.
\<close>

lemma append_rep:
  assumes k: "kind_ok k" and ok: "mem_ok h" and r: "slice_rep k flat h F s a"
  shows "\<exists>s' h' G. go_append spare zero k s x h = (Ok s', h') \<and> mem_ok h' \<and> free_addr h \<le> free_addr h' \<and>
    (\<forall>y < free_addr h. y \<notin> F \<longrightarrow> cells h' y = cells h y) \<and> G \<subseteq> F \<union> {free_addr h..} \<and>
    slice_rep k flat h' G s' (Some ((case a of None \<Rightarrow> [] | Some xs \<Rightarrow> xs) @ [x]))"
proof -
  have new: ?thesis if "go_append spare zero k s x h =
      gbind (new_cell k (ys @ x # zs)) (\<lambda>y. ret (Some \<lparr>sl_array = y, sl_off = 0, sl_len = Suc (length ys)\<rparr>)) h"
    and ys: "ys = (case a of None \<Rightarrow> [] | Some xs \<Rightarrow> xs)" for ys zs
  proof -
    obtain y h' where n: "new_cell k (ys @ x # zs) h = (Ok y, h')" and y: "y = free_addr h"
      by (simp add: new_cell_def)
    have g: "grows h h'" by (rule grows_new [OF ok n])
    let ?s = "Some \<lparr>sl_array = y, sl_off = 0, sl_len = Suc (length ys)\<rparr>"
    have "go_append spare zero k s x h = (Ok ?s, h')"
      using that(1) n by (simp add: gbind_def ret_def)
    moreover have "slice_rep k flat h' {y} ?s (Some (ys @ [x]))"
      using at_new [OF k n] by (simp add: slice_rep_def)
    ultimately show ?thesis
      using g y unfolding ys grows_def by (intro exI [of _ ?s] exI [of _ h'] exI [of _ "{y}"]) (simp add: ys)
  qed
  show ?thesis
  proof (cases s)
    case None
    with r show ?thesis
      by (intro new [of "[]" "replicate (spare 0) zero"]) (auto simp: go_append_def slice_rep_def)
  next
    case (Some sl)
    let ?i = "sl_off sl" and ?n = "sl_len sl"
    from r Some obtain xs where xs: "at k h (sl_array sl) = Some xs" "?i + ?n \<le> length xs" "F = {sl_array sl}"
        "a = Some (take ?n (drop ?i xs))"
      by (auto simp: slice_rep_def)
    show ?thesis
    proof (cases "?i + ?n < length xs")
      case True
      obtain h' where h': "store k (sl_array sl) (xs[?i + ?n := x]) h = (Ok (), h')" "mem_ok h'" "free_addr h' = free_addr h"
          "at k h' (sl_array sl) = Some (xs[?i + ?n := x])" "\<forall>y. y \<noteq> sl_array sl \<longrightarrow> cells h' y = cells h y"
        using store_run [OF k ok at_allocated [OF ok xs(1)]] by blast
      let ?s = "Some (sl\<lparr>sl_len := Suc ?n\<rparr>)"
      have "go_append spare zero k s x h = (Ok ?s, h')"
        using Some True load_at [OF xs(1)] h'(1) by (simp add: go_append_def gbind_def ret_def Let_def)
      moreover have "slice_rep k flat h' F ?s (Some (take ?n (drop ?i xs) @ [x]))"
        using h'(4) True xs(3) take_drop_update [OF True, of x] by (simp add: slice_rep_def)
      ultimately show ?thesis
        using h'(2,3,5) xs(3,4) by (intro exI [of _ ?s] exI [of _ h'] exI [of _ F]) auto
    next
      case False
      with xs(2) have "?n = length xs - ?i" by simp
      with False Some xs load_at [OF xs(1)] show ?thesis
        by (intro new [of "take ?n (drop ?i xs)" "replicate (spare ?n) zero"])
          (auto simp: go_append_def gbind_def ret_def Let_def min_def)
    qed
  qed
qed

section \<open>Kubernetes objects\<close>

text \<open>
  The shape of the resources and of their lists. The record is polymorphic in the fields that need memory, so that the
  same record is used for the contents of a variable and for the value these stand for.
\<close>

record TypeMeta =
  Kind :: string
  APIVersion :: string

record ('m, 's, 't) go_object =
  obj_TypeMeta :: TypeMeta
  obj_ObjectMeta :: 'm
  obj_Spec :: 's
  obj_Status :: 't

record ('m, 'i) go_list =
  list_TypeMeta :: TypeMeta
  list_ListMeta :: 'm
  list_Items :: 'i

text \<open>A \<^verbatim>\<open>runtime.Object\<close> that is not nil: a dynamic type and a pointer to a variable of that type.\<close>

datatype runtime_Object = RuntimeObject string addr

text \<open>\<^verbatim>\<open>DeepCopyObject\<close>: a nil pointer becomes a nil interface, not an interface that holds a nil pointer.\<close>

definition as_object :: "string \<Rightarrow> ('m, ptr) go \<Rightarrow> ('m, runtime_Object option) go" where
  "as_object type_name m = gbind m (\<lambda>c. case c of Some x \<Rightarrow> ret (Some (RuntimeObject type_name x)) | None \<Rightarrow> ret None)"

context deep_copy
begin

lemma object_separate:
  assumes k: "kind_ok k" and ok: "mem_ok h" and r: "ptr_rep k rep h F p a"
  shows "if p = None then as_object type_name (copy_ptr k copy p) h = (Ok None, h)
    else \<exists>q h' G. as_object type_name (copy_ptr k copy p) h = (Ok (Some (RuntimeObject type_name q)), h') \<and>
      F \<inter> G = {} \<and> grows h h' \<and>
      (\<forall>h2. agree G h' h2 \<longrightarrow> ptr_rep k rep h2 G (Some q) a) \<and> (\<forall>h2. agree F h' h2 \<longrightarrow> ptr_rep k rep h2 F p a)"
proof (cases p)
  case None
  then show ?thesis by (simp add: as_object_def copy_ptr_def)
next
  case (Some x)
  with r obtain v H b where v: "at k h x = Some v" "rep h H v b" "a = Some b"
    by (auto simp: ptr_rep_def)
  have dc: "deep_copy (ptr_rep k rep) (copy_ptr k copy)"
    by (rule deep_copy_ptr [OF k deep_copy_axioms])
  obtain p' h' G where c: "copy_ptr k copy p h = (Ok p', h')" "grows h h'" "F \<inter> G = {}"
      and w: "\<forall>h2. agree G h' h2 \<longrightarrow> ptr_rep k rep h2 G p' a" "\<forall>h2. agree F h' h2 \<longrightarrow> ptr_rep k rep h2 F p a"
    using deep_copy.separate [OF dc ok r] by blast
  have "ptr_rep k rep h' G p' a"
    using w(1) by (simp add: agree_def)
  then obtain q where q: "p' = Some q"
    using v(3) by (cases p') (simp_all add: ptr_rep_def)
  have "as_object type_name (copy_ptr k copy p) h = (Ok (Some (RuntimeObject type_name q)), h')"
    using c(1) q by (simp add: as_object_def gbind_def ret_def)
  with c w q have "\<exists>q h' G. as_object type_name (copy_ptr k copy p) h = (Ok (Some (RuntimeObject type_name q)), h') \<and>
      F \<inter> G = {} \<and> grows h h' \<and>
      (\<forall>h2. agree G h' h2 \<longrightarrow> ptr_rep k rep h2 G (Some q) a) \<and> (\<forall>h2. agree F h' h2 \<longrightarrow> ptr_rep k rep h2 F p a)"
    by (intro exI [of _ q] exI [of _ h'] exI [of _ G]) simp
  with Some show ?thesis by simp
qed

end

text \<open>
  What the generated code calls of the libraries of Kubernetes. Their types are opaque (\<open>'x\<close>), with \<open>X\<close> what their
  contents stand for; \<open>metav1_spec\<close> says that these are deep copies as well.
\<close>

record ('c, 'x) metav1 =
  RawExtension_DeepCopyInto :: "'x \<Rightarrow> ('c mem, 'x) go"
  LabelSelector_DeepCopyInto :: "'x \<Rightarrow> ('c mem, 'x) go"
  ObjectMeta_DeepCopyInto :: "'x \<Rightarrow> ('c mem, 'x) go"
  ListMeta_DeepCopyInto :: "'x \<Rightarrow> ('c mem, 'x) go"
  Condition_DeepCopyInto :: "'x \<Rightarrow> ('c mem, 'x) go"

definition metav1_spec :: "('c, 'x, 'y) rep \<Rightarrow> ('c, 'x) metav1 \<Rightarrow> bool" where
  "metav1_spec X L \<longleftrightarrow> deep_copy X (RawExtension_DeepCopyInto L) \<and> deep_copy X (LabelSelector_DeepCopyInto L) \<and>
     deep_copy X (ObjectMeta_DeepCopyInto L) \<and> deep_copy X (ListMeta_DeepCopyInto L) \<and>
     deep_copy X (Condition_DeepCopyInto L)"

lemma metav1_specD:
  assumes "metav1_spec X L"
  shows "deep_copy X (RawExtension_DeepCopyInto L)" and "deep_copy X (LabelSelector_DeepCopyInto L)"
    and "deep_copy X (ObjectMeta_DeepCopyInto L)" and "deep_copy X (ListMeta_DeepCopyInto L)"
    and "deep_copy X (Condition_DeepCopyInto L)"
  using assms by (simp_all add: metav1_spec_def)

text \<open>What a resource and a list stand for, from what their parts do.\<close>

definition object_rep ::
    "('c, 'x, 'y) rep \<Rightarrow> ('c, 's, 'b) rep \<Rightarrow> ('c, 't, 'd) rep \<Rightarrow> ('c, ('x, 's, 't) go_object, ('y, 'b, 'd) go_object) rep" where
  "object_rep X S T h F v a \<longleftrightarrow>
     pair_rep X (pair_rep S T) h F (obj_ObjectMeta v, obj_Spec v, obj_Status v) (obj_ObjectMeta a, obj_Spec a, obj_Status a) \<and>
     obj_TypeMeta a = obj_TypeMeta v"

definition object_list_rep ::
    "('c, 'x, 'y) rep \<Rightarrow> ('c, 'i, 'j) rep \<Rightarrow> ('c, ('x, 'i) go_list, ('y, 'j) go_list) rep" where
  "object_list_rep X I h F v a \<longleftrightarrow>
     pair_rep X I h F (list_ListMeta v, list_Items v) (list_ListMeta a, list_Items a) \<and> list_TypeMeta a = list_TypeMeta v"

lemma copy_pair_simp: "copy_pair c d (x, y) = gbind (c x) (\<lambda>x'. gbind (d y) (\<lambda>y'. ret (x', y')))"
  by (simp add: copy_pair_def)

lemma status_unit [simp]: "(v :: ('m, 's, unit) go_object)\<lparr>obj_Status := ()\<rparr> = v"
  by (cases v) simp

lemma deep_copy_object:
  assumes "deep_copy X m" and "deep_copy S s" and "deep_copy T t"
    and "\<And>v. copy v = gbind (m (obj_ObjectMeta v)) (\<lambda>x. gbind (s (obj_Spec v)) (\<lambda>y. gbind (t (obj_Status v)) (\<lambda>z.
      ret (v\<lparr>obj_ObjectMeta := x, obj_Spec := y, obj_Status := z\<rparr>))))"
  shows "deep_copy (object_rep X S T) copy"
  by (rule deep_copy_struct [OF deep_copy_pair [OF assms(1) deep_copy_pair [OF assms(2,3)]],
        where u = "\<lambda>v (x, y, z). v\<lparr>obj_ObjectMeta := x, obj_Spec := y, obj_Status := z\<rparr>"
          and S = "\<lambda>v a. obj_TypeMeta a = obj_TypeMeta v"])
    (auto simp: object_rep_def assms(4) copy_pair_simp gbind_assoc)

lemma deep_copy_object_list:
  assumes "deep_copy X m" and "deep_copy I i"
    and "\<And>v. copy v = gbind (m (list_ListMeta v)) (\<lambda>x. gbind (i (list_Items v)) (\<lambda>y.
      ret (v\<lparr>list_ListMeta := x, list_Items := y\<rparr>)))"
  shows "deep_copy (object_list_rep X I) copy"
  by (rule deep_copy_struct [OF deep_copy_pair [OF assms(1,2)],
        where u = "\<lambda>v (x, y). v\<lparr>list_ListMeta := x, list_Items := y\<rparr>" and S = "\<lambda>v a. list_TypeMeta a = list_TypeMeta v"])
    (auto simp: object_list_rep_def assms(3) copy_pair_simp gbind_assoc)

end
