(* ===== verification/Flow_Deep_Copy.thy ===== *)
theory Flow_Deep_Copy
  imports Flow_Crd Go_Memory
begin

text \<open>
  \<^verbatim>\<open>apis/flowconfig/v1/zz_generated.deepcopy.go\<close>: the deep copies of the resources of the flow configuration, over
  an explicit memory (\<^verbatim>\<open>Go_Memory\<close>). A struct with pointers, slices or maps is a record that is polymorphic in these
  fields: filled with addresses it is the contents of a variable, filled with values it is what the contents stand for.
  \<open>T_DeepCopyInto\<close> gets the contents of \<^verbatim>\<open>*in\<close> and returns those of \<^verbatim>\<open>*out\<close>, \<open>T_DeepCopy\<close> works on pointers and
  \<open>T_DeepCopyObject\<close> returns an interface value.
\<close>

section \<open>Structs\<close>

record 'r go_FlowItem =
  fi_Type :: string
  fi_Spec :: 'r
  fi_Last :: 'r
  fi_Mask :: 'r

record 'r go_FlowAction =
  fac_Type :: string
  fac_Conf :: 'r

record ('a, 'p, 'c) go_FlowRules =
  fru_PortId :: u32
  fru_Attr :: 'a
  fru_Pattern :: 'p
  fru_Action :: 'c

record 's go_NodeFlowConfigSpec =
  nfs_Rules :: 's

record ('p, 's) go_NodeFlowConfigStatus =
  nft_PortInfo :: 'p
  nft_Rules :: 's
  nft_SyncStatus :: string
  nft_SyncMsg :: string

record 'r go_ClusterFlowAction =
  cac_Type :: int
  cac_Conf :: 'r

record ('a, 'p, 'c) go_ClusterFlowRule =
  cru_Attr :: 'a
  cru_Pattern :: 'p
  cru_Action :: 'c

record ('l, 's) go_ClusterFlowConfigSpec =
  ccs_PodSelector :: 'l
  ccs_Rules :: 's

record FlowConfigNodeAgentDeploymentSpec =
  nas_NADAnnotation :: string
  nas_DCFVfPoolName :: string

record ToPodInterfaceConf =
  NetInterfaceName :: string

text \<open>The contents of variables. \<^verbatim>\<open>ClusterFlowConfigStatus\<close> and \<^verbatim>\<open>FlowConfigNodeAgentDeploymentStatus\<close> are empty structs.\<close>

type_synonym var_FlowRules = "(ptr, slice, slice) go_FlowRules"
type_synonym var_ClusterFlowRule = "(ptr, slice, slice) go_ClusterFlowRule"
type_synonym var_NodeFlowConfigSpec = "slice go_NodeFlowConfigSpec"
type_synonym var_NodeFlowConfigStatus = "(slice, slice) go_NodeFlowConfigStatus"
type_synonym var_ClusterFlowConfigSpec = "(ptr, slice) go_ClusterFlowConfigSpec"
type_synonym 'x var_NodeFlowConfig = "('x, var_NodeFlowConfigSpec, var_NodeFlowConfigStatus) go_object"
type_synonym 'x var_ClusterFlowConfig = "('x, var_ClusterFlowConfigSpec, unit) go_object"
type_synonym 'x var_NodeAgentDeployment = "('x, FlowConfigNodeAgentDeploymentSpec, unit) go_object"
type_synonym 'x var_list = "('x, slice) go_list"

section \<open>Cells\<close>

text \<open>One constructor for each type of variable and of array; \<open>T_cell\<close> are the cells of type \<open>T\<close>.\<close>

datatype 'x flow_cell =
    C_RawExtension 'x
  | C_LabelSelector 'x
  | C_FlowAttr FlowAttr
  | C_FlowItem "ptr go_FlowItem"
  | C_FlowAction "ptr go_FlowAction"
  | C_FlowRules var_FlowRules
  | C_NodeFlowConfigSpec var_NodeFlowConfigSpec
  | C_NodeFlowConfigStatus var_NodeFlowConfigStatus
  | C_NodeFlowConfig "'x var_NodeFlowConfig"
  | C_NodeFlowConfigList "'x var_list"
  | C_PortsInformation PortsInformation
  | C_ToPodInterfaceConf ToPodInterfaceConf
  | C_ClusterFlowAction "ptr go_ClusterFlowAction"
  | C_ClusterFlowRule var_ClusterFlowRule
  | C_ClusterFlowConfigSpec var_ClusterFlowConfigSpec
  | C_ClusterFlowConfigStatus unit
  | C_ClusterFlowConfig "'x var_ClusterFlowConfig"
  | C_ClusterFlowConfigList "'x var_list"
  | C_FlowConfigNodeAgentDeploymentSpec FlowConfigNodeAgentDeploymentSpec
  | C_FlowConfigNodeAgentDeploymentStatus unit
  | C_FlowConfigNodeAgentDeployment "'x var_NodeAgentDeployment"
  | C_FlowConfigNodeAgentDeploymentList "'x var_list"
  | C_Pointers "ptr list"
  | C_PortsInformations "PortsInformation list"
  | C_NodeFlowConfigs "'x var_NodeFlowConfig list"
  | C_ClusterFlowConfigs "'x var_ClusterFlowConfig list"
  | C_FlowConfigNodeAgentDeployments "'x var_NodeAgentDeployment list"

definition RawExtension_cell :: "('x flow_cell, 'x) kind" where
  "RawExtension_cell = (C_RawExtension, \<lambda>c. case c of C_RawExtension v \<Rightarrow> Some v | _ \<Rightarrow> None)"

definition LabelSelector_cell :: "('x flow_cell, 'x) kind" where
  "LabelSelector_cell = (C_LabelSelector, \<lambda>c. case c of C_LabelSelector v \<Rightarrow> Some v | _ \<Rightarrow> None)"

definition FlowAttr_cell :: "('x flow_cell, FlowAttr) kind" where
  "FlowAttr_cell = (C_FlowAttr, \<lambda>c. case c of C_FlowAttr v \<Rightarrow> Some v | _ \<Rightarrow> None)"

definition FlowItem_cell :: "('x flow_cell, ptr go_FlowItem) kind" where
  "FlowItem_cell = (C_FlowItem, \<lambda>c. case c of C_FlowItem v \<Rightarrow> Some v | _ \<Rightarrow> None)"

definition FlowAction_cell :: "('x flow_cell, ptr go_FlowAction) kind" where
  "FlowAction_cell = (C_FlowAction, \<lambda>c. case c of C_FlowAction v \<Rightarrow> Some v | _ \<Rightarrow> None)"

definition FlowRules_cell :: "('x flow_cell, var_FlowRules) kind" where
  "FlowRules_cell = (C_FlowRules, \<lambda>c. case c of C_FlowRules v \<Rightarrow> Some v | _ \<Rightarrow> None)"

definition NodeFlowConfigSpec_cell :: "('x flow_cell, var_NodeFlowConfigSpec) kind" where
  "NodeFlowConfigSpec_cell = (C_NodeFlowConfigSpec, \<lambda>c. case c of C_NodeFlowConfigSpec v \<Rightarrow> Some v | _ \<Rightarrow> None)"

definition NodeFlowConfigStatus_cell :: "('x flow_cell, var_NodeFlowConfigStatus) kind" where
  "NodeFlowConfigStatus_cell = (C_NodeFlowConfigStatus, \<lambda>c. case c of C_NodeFlowConfigStatus v \<Rightarrow> Some v | _ \<Rightarrow> None)"

definition NodeFlowConfig_cell :: "('x flow_cell, 'x var_NodeFlowConfig) kind" where
  "NodeFlowConfig_cell = (C_NodeFlowConfig, \<lambda>c. case c of C_NodeFlowConfig v \<Rightarrow> Some v | _ \<Rightarrow> None)"

definition NodeFlowConfigList_cell :: "('x flow_cell, 'x var_list) kind" where
  "NodeFlowConfigList_cell = (C_NodeFlowConfigList, \<lambda>c. case c of C_NodeFlowConfigList v \<Rightarrow> Some v | _ \<Rightarrow> None)"

definition PortsInformation_cell :: "('x flow_cell, PortsInformation) kind" where
  "PortsInformation_cell = (C_PortsInformation, \<lambda>c. case c of C_PortsInformation v \<Rightarrow> Some v | _ \<Rightarrow> None)"

definition ToPodInterfaceConf_cell :: "('x flow_cell, ToPodInterfaceConf) kind" where
  "ToPodInterfaceConf_cell = (C_ToPodInterfaceConf, \<lambda>c. case c of C_ToPodInterfaceConf v \<Rightarrow> Some v | _ \<Rightarrow> None)"

definition ClusterFlowAction_cell :: "('x flow_cell, ptr go_ClusterFlowAction) kind" where
  "ClusterFlowAction_cell = (C_ClusterFlowAction, \<lambda>c. case c of C_ClusterFlowAction v \<Rightarrow> Some v | _ \<Rightarrow> None)"

definition ClusterFlowRule_cell :: "('x flow_cell, var_ClusterFlowRule) kind" where
  "ClusterFlowRule_cell = (C_ClusterFlowRule, \<lambda>c. case c of C_ClusterFlowRule v \<Rightarrow> Some v | _ \<Rightarrow> None)"

definition ClusterFlowConfigSpec_cell :: "('x flow_cell, var_ClusterFlowConfigSpec) kind" where
  "ClusterFlowConfigSpec_cell = (C_ClusterFlowConfigSpec, \<lambda>c. case c of C_ClusterFlowConfigSpec v \<Rightarrow> Some v | _ \<Rightarrow> None)"

definition ClusterFlowConfigStatus_cell :: "('x flow_cell, unit) kind" where
  "ClusterFlowConfigStatus_cell = (C_ClusterFlowConfigStatus, \<lambda>c. case c of C_ClusterFlowConfigStatus v \<Rightarrow> Some v | _ \<Rightarrow> None)"

definition ClusterFlowConfig_cell :: "('x flow_cell, 'x var_ClusterFlowConfig) kind" where
  "ClusterFlowConfig_cell = (C_ClusterFlowConfig, \<lambda>c. case c of C_ClusterFlowConfig v \<Rightarrow> Some v | _ \<Rightarrow> None)"

definition ClusterFlowConfigList_cell :: "('x flow_cell, 'x var_list) kind" where
  "ClusterFlowConfigList_cell = (C_ClusterFlowConfigList, \<lambda>c. case c of C_ClusterFlowConfigList v \<Rightarrow> Some v | _ \<Rightarrow> None)"

definition FlowConfigNodeAgentDeploymentSpec_cell :: "('x flow_cell, FlowConfigNodeAgentDeploymentSpec) kind" where
  "FlowConfigNodeAgentDeploymentSpec_cell = (C_FlowConfigNodeAgentDeploymentSpec, \<lambda>c. case c of C_FlowConfigNodeAgentDeploymentSpec v \<Rightarrow> Some v | _ \<Rightarrow> None)"

definition FlowConfigNodeAgentDeploymentStatus_cell :: "('x flow_cell, unit) kind" where
  "FlowConfigNodeAgentDeploymentStatus_cell = (C_FlowConfigNodeAgentDeploymentStatus, \<lambda>c. case c of C_FlowConfigNodeAgentDeploymentStatus v \<Rightarrow> Some v | _ \<Rightarrow> None)"

definition FlowConfigNodeAgentDeployment_cell :: "('x flow_cell, 'x var_NodeAgentDeployment) kind" where
  "FlowConfigNodeAgentDeployment_cell = (C_FlowConfigNodeAgentDeployment, \<lambda>c. case c of C_FlowConfigNodeAgentDeployment v \<Rightarrow> Some v | _ \<Rightarrow> None)"

definition FlowConfigNodeAgentDeploymentList_cell :: "('x flow_cell, 'x var_list) kind" where
  "FlowConfigNodeAgentDeploymentList_cell = (C_FlowConfigNodeAgentDeploymentList, \<lambda>c. case c of C_FlowConfigNodeAgentDeploymentList v \<Rightarrow> Some v | _ \<Rightarrow> None)"

definition Pointers_cell :: "('x flow_cell, ptr list) kind" where
  "Pointers_cell = (C_Pointers, \<lambda>c. case c of C_Pointers v \<Rightarrow> Some v | _ \<Rightarrow> None)"

definition PortsInformations_cell :: "('x flow_cell, PortsInformation list) kind" where
  "PortsInformations_cell = (C_PortsInformations, \<lambda>c. case c of C_PortsInformations v \<Rightarrow> Some v | _ \<Rightarrow> None)"

definition NodeFlowConfigs_cell :: "('x flow_cell, 'x var_NodeFlowConfig list) kind" where
  "NodeFlowConfigs_cell = (C_NodeFlowConfigs, \<lambda>c. case c of C_NodeFlowConfigs v \<Rightarrow> Some v | _ \<Rightarrow> None)"

definition ClusterFlowConfigs_cell :: "('x flow_cell, 'x var_ClusterFlowConfig list) kind" where
  "ClusterFlowConfigs_cell = (C_ClusterFlowConfigs, \<lambda>c. case c of C_ClusterFlowConfigs v \<Rightarrow> Some v | _ \<Rightarrow> None)"

definition FlowConfigNodeAgentDeployments_cell :: "('x flow_cell, 'x var_NodeAgentDeployment list) kind" where
  "FlowConfigNodeAgentDeployments_cell = (C_FlowConfigNodeAgentDeployments, \<lambda>c. case c of C_FlowConfigNodeAgentDeployments v \<Rightarrow> Some v | _ \<Rightarrow> None)"

lemma flow_kinds [simp]:
  "kind_ok RawExtension_cell"
  "kind_ok LabelSelector_cell"
  "kind_ok FlowAttr_cell"
  "kind_ok FlowItem_cell"
  "kind_ok FlowAction_cell"
  "kind_ok FlowRules_cell"
  "kind_ok NodeFlowConfigSpec_cell"
  "kind_ok NodeFlowConfigStatus_cell"
  "kind_ok NodeFlowConfig_cell"
  "kind_ok NodeFlowConfigList_cell"
  "kind_ok PortsInformation_cell"
  "kind_ok ToPodInterfaceConf_cell"
  "kind_ok ClusterFlowAction_cell"
  "kind_ok ClusterFlowRule_cell"
  "kind_ok ClusterFlowConfigSpec_cell"
  "kind_ok ClusterFlowConfigStatus_cell"
  "kind_ok ClusterFlowConfig_cell"
  "kind_ok ClusterFlowConfigList_cell"
  "kind_ok FlowConfigNodeAgentDeploymentSpec_cell"
  "kind_ok FlowConfigNodeAgentDeploymentStatus_cell"
  "kind_ok FlowConfigNodeAgentDeployment_cell"
  "kind_ok FlowConfigNodeAgentDeploymentList_cell"
  "kind_ok Pointers_cell"
  "kind_ok PortsInformations_cell"
  "kind_ok NodeFlowConfigs_cell"
  "kind_ok ClusterFlowConfigs_cell"
  "kind_ok FlowConfigNodeAgentDeployments_cell"
  by (simp_all add: kind_ok_def RawExtension_cell_def
      LabelSelector_cell_def
      FlowAttr_cell_def
      FlowItem_cell_def
      FlowAction_cell_def
      FlowRules_cell_def
      NodeFlowConfigSpec_cell_def
      NodeFlowConfigStatus_cell_def
      NodeFlowConfig_cell_def
      NodeFlowConfigList_cell_def
      PortsInformation_cell_def
      ToPodInterfaceConf_cell_def
      ClusterFlowAction_cell_def
      ClusterFlowRule_cell_def
      ClusterFlowConfigSpec_cell_def
      ClusterFlowConfigStatus_cell_def
      ClusterFlowConfig_cell_def
      ClusterFlowConfigList_cell_def
      FlowConfigNodeAgentDeploymentSpec_cell_def
      FlowConfigNodeAgentDeploymentStatus_cell_def
      FlowConfigNodeAgentDeployment_cell_def
      FlowConfigNodeAgentDeploymentList_cell_def
      Pointers_cell_def
      PortsInformations_cell_def
      NodeFlowConfigs_cell_def
      ClusterFlowConfigs_cell_def
      FlowConfigNodeAgentDeployments_cell_def)

type_synonym 'x flow_mem = "'x flow_cell mem"
type_synonym 'x flow_lib = "('x flow_cell, 'x) metav1"

section \<open>Copies of the contents of a variable\<close>

definition FlowAttr_DeepCopyInto :: "FlowAttr \<Rightarrow> ('x flow_mem, FlowAttr) go" where
  "FlowAttr_DeepCopyInto i = ret i"

definition PortsInformation_DeepCopyInto :: "PortsInformation \<Rightarrow> ('x flow_mem, PortsInformation) go" where
  "PortsInformation_DeepCopyInto i = ret i"

definition ToPodInterfaceConf_DeepCopyInto :: "ToPodInterfaceConf \<Rightarrow> ('x flow_mem, ToPodInterfaceConf) go" where
  "ToPodInterfaceConf_DeepCopyInto i = ret i"

definition ClusterFlowConfigStatus_DeepCopyInto :: "unit \<Rightarrow> ('x flow_mem, unit) go" where
  "ClusterFlowConfigStatus_DeepCopyInto i = ret i"

definition FlowConfigNodeAgentDeploymentSpec_DeepCopyInto :: "FlowConfigNodeAgentDeploymentSpec \<Rightarrow> ('x flow_mem, FlowConfigNodeAgentDeploymentSpec) go" where
  "FlowConfigNodeAgentDeploymentSpec_DeepCopyInto i = ret i"

definition FlowConfigNodeAgentDeploymentStatus_DeepCopyInto :: "unit \<Rightarrow> ('x flow_mem, unit) go" where
  "FlowConfigNodeAgentDeploymentStatus_DeepCopyInto i = ret i"

definition FlowItem_DeepCopyInto :: "'x flow_lib \<Rightarrow> ptr go_FlowItem \<Rightarrow> ('x flow_mem, ptr go_FlowItem) go" where
  "FlowItem_DeepCopyInto L i =
     gbind (copy_ptr RawExtension_cell (RawExtension_DeepCopyInto L) (fi_Spec i)) (\<lambda>spec.
     gbind (copy_ptr RawExtension_cell (RawExtension_DeepCopyInto L) (fi_Last i)) (\<lambda>last.
     gbind (copy_ptr RawExtension_cell (RawExtension_DeepCopyInto L) (fi_Mask i)) (\<lambda>mask.
     ret (i\<lparr>fi_Spec := spec, fi_Last := last, fi_Mask := mask\<rparr>))))"

definition FlowAction_DeepCopyInto :: "'x flow_lib \<Rightarrow> ptr go_FlowAction \<Rightarrow> ('x flow_mem, ptr go_FlowAction) go" where
  "FlowAction_DeepCopyInto L i =
     gbind (copy_ptr RawExtension_cell (RawExtension_DeepCopyInto L) (fac_Conf i)) (\<lambda>conf.
     ret (i\<lparr>fac_Conf := conf\<rparr>))"

definition ClusterFlowAction_DeepCopyInto :: "'x flow_lib \<Rightarrow> ptr go_ClusterFlowAction \<Rightarrow> ('x flow_mem, ptr go_ClusterFlowAction) go" where
  "ClusterFlowAction_DeepCopyInto L i =
     gbind (copy_ptr RawExtension_cell (RawExtension_DeepCopyInto L) (cac_Conf i)) (\<lambda>conf.
     ret (i\<lparr>cac_Conf := conf\<rparr>))"

definition FlowRules_DeepCopyInto :: "'x flow_lib \<Rightarrow> var_FlowRules \<Rightarrow> ('x flow_mem, var_FlowRules) go" where
  "FlowRules_DeepCopyInto L i =
     gbind (copy_ptr FlowAttr_cell ret (fru_Attr i)) (\<lambda>attr.
     gbind (copy_slice Pointers_cell (copy_ptr FlowItem_cell (FlowItem_DeepCopyInto L)) (fru_Pattern i)) (\<lambda>pattern.
     gbind (copy_slice Pointers_cell (copy_ptr FlowAction_cell (FlowAction_DeepCopyInto L)) (fru_Action i)) (\<lambda>action.
     ret (i\<lparr>fru_Attr := attr, fru_Pattern := pattern, fru_Action := action\<rparr>))))"

definition ClusterFlowRule_DeepCopyInto :: "'x flow_lib \<Rightarrow> var_ClusterFlowRule \<Rightarrow> ('x flow_mem, var_ClusterFlowRule) go" where
  "ClusterFlowRule_DeepCopyInto L i =
     gbind (copy_ptr FlowAttr_cell ret (cru_Attr i)) (\<lambda>attr.
     gbind (copy_slice Pointers_cell (copy_ptr FlowItem_cell (FlowItem_DeepCopyInto L)) (cru_Pattern i)) (\<lambda>pattern.
     gbind (copy_slice Pointers_cell (copy_ptr ClusterFlowAction_cell (ClusterFlowAction_DeepCopyInto L)) (cru_Action i)) (\<lambda>action.
     ret (i\<lparr>cru_Attr := attr, cru_Pattern := pattern, cru_Action := action\<rparr>))))"

definition NodeFlowConfigSpec_DeepCopyInto :: "'x flow_lib \<Rightarrow> var_NodeFlowConfigSpec \<Rightarrow> ('x flow_mem, var_NodeFlowConfigSpec) go" where
  "NodeFlowConfigSpec_DeepCopyInto L i =
     gbind (copy_slice Pointers_cell (copy_ptr FlowRules_cell (FlowRules_DeepCopyInto L)) (nfs_Rules i)) (\<lambda>rules.
     ret (i\<lparr>nfs_Rules := rules\<rparr>))"

definition NodeFlowConfigStatus_DeepCopyInto :: "'x flow_lib \<Rightarrow> var_NodeFlowConfigStatus \<Rightarrow> ('x flow_mem, var_NodeFlowConfigStatus) go" where
  "NodeFlowConfigStatus_DeepCopyInto L i =
     gbind (copy_slice PortsInformations_cell ret (nft_PortInfo i)) (\<lambda>portInfo.
     gbind (copy_slice Pointers_cell (copy_ptr FlowRules_cell (FlowRules_DeepCopyInto L)) (nft_Rules i)) (\<lambda>rules.
     ret (i\<lparr>nft_PortInfo := portInfo, nft_Rules := rules\<rparr>)))"

definition ClusterFlowConfigSpec_DeepCopyInto :: "'x flow_lib \<Rightarrow> var_ClusterFlowConfigSpec \<Rightarrow> ('x flow_mem, var_ClusterFlowConfigSpec) go" where
  "ClusterFlowConfigSpec_DeepCopyInto L i =
     gbind (copy_ptr LabelSelector_cell (LabelSelector_DeepCopyInto L) (ccs_PodSelector i)) (\<lambda>podSelector.
     gbind (copy_slice Pointers_cell (copy_ptr ClusterFlowRule_cell (ClusterFlowRule_DeepCopyInto L)) (ccs_Rules i)) (\<lambda>rules.
     ret (i\<lparr>ccs_PodSelector := podSelector, ccs_Rules := rules\<rparr>)))"

definition NodeFlowConfig_DeepCopyInto :: "'x flow_lib \<Rightarrow> 'x var_NodeFlowConfig \<Rightarrow> ('x flow_mem, 'x var_NodeFlowConfig) go" where
  "NodeFlowConfig_DeepCopyInto L i =
     gbind (ObjectMeta_DeepCopyInto L (obj_ObjectMeta i)) (\<lambda>metadata.
     gbind (NodeFlowConfigSpec_DeepCopyInto L (obj_Spec i)) (\<lambda>spec.
     gbind (NodeFlowConfigStatus_DeepCopyInto L (obj_Status i)) (\<lambda>status.
     ret (i\<lparr>obj_ObjectMeta := metadata, obj_Spec := spec, obj_Status := status\<rparr>))))"

definition ClusterFlowConfig_DeepCopyInto :: "'x flow_lib \<Rightarrow> 'x var_ClusterFlowConfig \<Rightarrow> ('x flow_mem, 'x var_ClusterFlowConfig) go" where
  "ClusterFlowConfig_DeepCopyInto L i =
     gbind (ObjectMeta_DeepCopyInto L (obj_ObjectMeta i)) (\<lambda>metadata.
     gbind (ClusterFlowConfigSpec_DeepCopyInto L (obj_Spec i)) (\<lambda>spec.
     ret (i\<lparr>obj_ObjectMeta := metadata, obj_Spec := spec\<rparr>)))"

definition FlowConfigNodeAgentDeployment_DeepCopyInto :: "'x flow_lib \<Rightarrow> 'x var_NodeAgentDeployment \<Rightarrow> ('x flow_mem, 'x var_NodeAgentDeployment) go" where
  "FlowConfigNodeAgentDeployment_DeepCopyInto L i =
     gbind (ObjectMeta_DeepCopyInto L (obj_ObjectMeta i)) (\<lambda>metadata.
     ret (i\<lparr>obj_ObjectMeta := metadata\<rparr>))"

definition NodeFlowConfigList_DeepCopyInto :: "'x flow_lib \<Rightarrow> 'x var_list \<Rightarrow> ('x flow_mem, 'x var_list) go" where
  "NodeFlowConfigList_DeepCopyInto L i =
     gbind (ListMeta_DeepCopyInto L (list_ListMeta i)) (\<lambda>metadata.
     gbind (copy_slice NodeFlowConfigs_cell (NodeFlowConfig_DeepCopyInto L) (list_Items i)) (\<lambda>items.
     ret (i\<lparr>list_ListMeta := metadata, list_Items := items\<rparr>)))"

definition ClusterFlowConfigList_DeepCopyInto :: "'x flow_lib \<Rightarrow> 'x var_list \<Rightarrow> ('x flow_mem, 'x var_list) go" where
  "ClusterFlowConfigList_DeepCopyInto L i =
     gbind (ListMeta_DeepCopyInto L (list_ListMeta i)) (\<lambda>metadata.
     gbind (copy_slice ClusterFlowConfigs_cell (ClusterFlowConfig_DeepCopyInto L) (list_Items i)) (\<lambda>items.
     ret (i\<lparr>list_ListMeta := metadata, list_Items := items\<rparr>)))"

definition FlowConfigNodeAgentDeploymentList_DeepCopyInto :: "'x flow_lib \<Rightarrow> 'x var_list \<Rightarrow> ('x flow_mem, 'x var_list) go" where
  "FlowConfigNodeAgentDeploymentList_DeepCopyInto L i =
     gbind (ListMeta_DeepCopyInto L (list_ListMeta i)) (\<lambda>metadata.
     gbind (copy_slice FlowConfigNodeAgentDeployments_cell (FlowConfigNodeAgentDeployment_DeepCopyInto L) (list_Items i)) (\<lambda>items.
     ret (i\<lparr>list_ListMeta := metadata, list_Items := items\<rparr>)))"

section \<open>Copies of pointers\<close>

definition FlowAttr_DeepCopy :: "ptr \<Rightarrow> ('x flow_mem, ptr) go" where
  "FlowAttr_DeepCopy = copy_ptr FlowAttr_cell FlowAttr_DeepCopyInto"

definition PortsInformation_DeepCopy :: "ptr \<Rightarrow> ('x flow_mem, ptr) go" where
  "PortsInformation_DeepCopy = copy_ptr PortsInformation_cell PortsInformation_DeepCopyInto"

definition ToPodInterfaceConf_DeepCopy :: "ptr \<Rightarrow> ('x flow_mem, ptr) go" where
  "ToPodInterfaceConf_DeepCopy = copy_ptr ToPodInterfaceConf_cell ToPodInterfaceConf_DeepCopyInto"

definition ClusterFlowConfigStatus_DeepCopy :: "ptr \<Rightarrow> ('x flow_mem, ptr) go" where
  "ClusterFlowConfigStatus_DeepCopy = copy_ptr ClusterFlowConfigStatus_cell ClusterFlowConfigStatus_DeepCopyInto"

definition FlowConfigNodeAgentDeploymentSpec_DeepCopy :: "ptr \<Rightarrow> ('x flow_mem, ptr) go" where
  "FlowConfigNodeAgentDeploymentSpec_DeepCopy = copy_ptr FlowConfigNodeAgentDeploymentSpec_cell FlowConfigNodeAgentDeploymentSpec_DeepCopyInto"

definition FlowConfigNodeAgentDeploymentStatus_DeepCopy :: "ptr \<Rightarrow> ('x flow_mem, ptr) go" where
  "FlowConfigNodeAgentDeploymentStatus_DeepCopy = copy_ptr FlowConfigNodeAgentDeploymentStatus_cell FlowConfigNodeAgentDeploymentStatus_DeepCopyInto"

definition FlowItem_DeepCopy :: "'x flow_lib \<Rightarrow> ptr \<Rightarrow> ('x flow_mem, ptr) go" where
  "FlowItem_DeepCopy L = copy_ptr FlowItem_cell (FlowItem_DeepCopyInto L)"

definition FlowAction_DeepCopy :: "'x flow_lib \<Rightarrow> ptr \<Rightarrow> ('x flow_mem, ptr) go" where
  "FlowAction_DeepCopy L = copy_ptr FlowAction_cell (FlowAction_DeepCopyInto L)"

definition ClusterFlowAction_DeepCopy :: "'x flow_lib \<Rightarrow> ptr \<Rightarrow> ('x flow_mem, ptr) go" where
  "ClusterFlowAction_DeepCopy L = copy_ptr ClusterFlowAction_cell (ClusterFlowAction_DeepCopyInto L)"

definition FlowRules_DeepCopy :: "'x flow_lib \<Rightarrow> ptr \<Rightarrow> ('x flow_mem, ptr) go" where
  "FlowRules_DeepCopy L = copy_ptr FlowRules_cell (FlowRules_DeepCopyInto L)"

definition ClusterFlowRule_DeepCopy :: "'x flow_lib \<Rightarrow> ptr \<Rightarrow> ('x flow_mem, ptr) go" where
  "ClusterFlowRule_DeepCopy L = copy_ptr ClusterFlowRule_cell (ClusterFlowRule_DeepCopyInto L)"

definition NodeFlowConfigSpec_DeepCopy :: "'x flow_lib \<Rightarrow> ptr \<Rightarrow> ('x flow_mem, ptr) go" where
  "NodeFlowConfigSpec_DeepCopy L = copy_ptr NodeFlowConfigSpec_cell (NodeFlowConfigSpec_DeepCopyInto L)"

definition NodeFlowConfigStatus_DeepCopy :: "'x flow_lib \<Rightarrow> ptr \<Rightarrow> ('x flow_mem, ptr) go" where
  "NodeFlowConfigStatus_DeepCopy L = copy_ptr NodeFlowConfigStatus_cell (NodeFlowConfigStatus_DeepCopyInto L)"

definition ClusterFlowConfigSpec_DeepCopy :: "'x flow_lib \<Rightarrow> ptr \<Rightarrow> ('x flow_mem, ptr) go" where
  "ClusterFlowConfigSpec_DeepCopy L = copy_ptr ClusterFlowConfigSpec_cell (ClusterFlowConfigSpec_DeepCopyInto L)"

definition NodeFlowConfig_DeepCopy :: "'x flow_lib \<Rightarrow> ptr \<Rightarrow> ('x flow_mem, ptr) go" where
  "NodeFlowConfig_DeepCopy L = copy_ptr NodeFlowConfig_cell (NodeFlowConfig_DeepCopyInto L)"

definition ClusterFlowConfig_DeepCopy :: "'x flow_lib \<Rightarrow> ptr \<Rightarrow> ('x flow_mem, ptr) go" where
  "ClusterFlowConfig_DeepCopy L = copy_ptr ClusterFlowConfig_cell (ClusterFlowConfig_DeepCopyInto L)"

definition FlowConfigNodeAgentDeployment_DeepCopy :: "'x flow_lib \<Rightarrow> ptr \<Rightarrow> ('x flow_mem, ptr) go" where
  "FlowConfigNodeAgentDeployment_DeepCopy L = copy_ptr FlowConfigNodeAgentDeployment_cell (FlowConfigNodeAgentDeployment_DeepCopyInto L)"

definition NodeFlowConfigList_DeepCopy :: "'x flow_lib \<Rightarrow> ptr \<Rightarrow> ('x flow_mem, ptr) go" where
  "NodeFlowConfigList_DeepCopy L = copy_ptr NodeFlowConfigList_cell (NodeFlowConfigList_DeepCopyInto L)"

definition ClusterFlowConfigList_DeepCopy :: "'x flow_lib \<Rightarrow> ptr \<Rightarrow> ('x flow_mem, ptr) go" where
  "ClusterFlowConfigList_DeepCopy L = copy_ptr ClusterFlowConfigList_cell (ClusterFlowConfigList_DeepCopyInto L)"

definition FlowConfigNodeAgentDeploymentList_DeepCopy :: "'x flow_lib \<Rightarrow> ptr \<Rightarrow> ('x flow_mem, ptr) go" where
  "FlowConfigNodeAgentDeploymentList_DeepCopy L = copy_ptr FlowConfigNodeAgentDeploymentList_cell (FlowConfigNodeAgentDeploymentList_DeepCopyInto L)"

section \<open>Copies as objects\<close>

definition NodeFlowConfig_DeepCopyObject :: "'x flow_lib \<Rightarrow> ptr \<Rightarrow> ('x flow_mem, runtime_Object option) go" where
  "NodeFlowConfig_DeepCopyObject L p = as_object ''NodeFlowConfig'' (NodeFlowConfig_DeepCopy L p)"

definition NodeFlowConfigList_DeepCopyObject :: "'x flow_lib \<Rightarrow> ptr \<Rightarrow> ('x flow_mem, runtime_Object option) go" where
  "NodeFlowConfigList_DeepCopyObject L p = as_object ''NodeFlowConfigList'' (NodeFlowConfigList_DeepCopy L p)"

definition ClusterFlowConfig_DeepCopyObject :: "'x flow_lib \<Rightarrow> ptr \<Rightarrow> ('x flow_mem, runtime_Object option) go" where
  "ClusterFlowConfig_DeepCopyObject L p = as_object ''ClusterFlowConfig'' (ClusterFlowConfig_DeepCopy L p)"

definition ClusterFlowConfigList_DeepCopyObject :: "'x flow_lib \<Rightarrow> ptr \<Rightarrow> ('x flow_mem, runtime_Object option) go" where
  "ClusterFlowConfigList_DeepCopyObject L p = as_object ''ClusterFlowConfigList'' (ClusterFlowConfigList_DeepCopy L p)"

definition FlowConfigNodeAgentDeployment_DeepCopyObject :: "'x flow_lib \<Rightarrow> ptr \<Rightarrow> ('x flow_mem, runtime_Object option) go" where
  "FlowConfigNodeAgentDeployment_DeepCopyObject L p = as_object ''FlowConfigNodeAgentDeployment'' (FlowConfigNodeAgentDeployment_DeepCopy L p)"

definition FlowConfigNodeAgentDeploymentList_DeepCopyObject :: "'x flow_lib \<Rightarrow> ptr \<Rightarrow> ('x flow_mem, runtime_Object option) go" where
  "FlowConfigNodeAgentDeploymentList_DeepCopyObject L p = as_object ''FlowConfigNodeAgentDeploymentList'' (FlowConfigNodeAgentDeploymentList_DeepCopy L p)"

end
