(* ===== verification/Flow_Deep_Copy_Facts.thy ===== *)
theory Flow_Deep_Copy_Facts
  imports Flow_Deep_Copy
begin

text \<open>
  What the contents of variables of the flow configuration's types stand for (\<open>T_rep\<close>), and that each
  \<open>T_DeepCopyInto\<close> meets the contract of a deep copy, provided that the library's copies do.
\<close>

section \<open>Values\<close>

type_synonym 'y val_FlowRules =
  "(FlowAttr option, 'y option go_FlowItem option list option, 'y option go_FlowAction option list option) go_FlowRules"

type_synonym 'y val_ClusterFlowRule =
  "(FlowAttr option, 'y option go_FlowItem option list option, 'y option go_ClusterFlowAction option list option) go_ClusterFlowRule"

type_synonym 'y val_NodeFlowConfig =
  "('y, 'y val_FlowRules option list option go_NodeFlowConfigSpec,
    (PortsInformation list option, 'y val_FlowRules option list option) go_NodeFlowConfigStatus) go_object"

type_synonym 'y val_ClusterFlowConfig =
  "('y, ('y option, 'y val_ClusterFlowRule option list option) go_ClusterFlowConfigSpec, unit) go_object"

type_synonym ('x, 'v, 'a) flow_rep = "('x flow_cell, 'v, 'a) rep"

abbreviation pointers_rep :: "('x flow_cell, 'v) kind \<Rightarrow> ('x, 'v, 'a) flow_rep \<Rightarrow> ('x, slice, 'a option list option) flow_rep" where
  "pointers_rep k R \<equiv> slice_rep Pointers_cell (ptr_rep k R)"

definition FlowItem_rep :: "('x, 'x, 'y) flow_rep \<Rightarrow> ('x, ptr go_FlowItem, 'y option go_FlowItem) flow_rep" where
  "FlowItem_rep X h F v a \<longleftrightarrow>
     pair_rep (ptr_rep RawExtension_cell X) (pair_rep (ptr_rep RawExtension_cell X) (ptr_rep RawExtension_cell X)) h F
       (fi_Spec v, fi_Last v, fi_Mask v) (fi_Spec a, fi_Last a, fi_Mask a) \<and>
     fi_Type a = fi_Type v"

definition FlowAction_rep :: "('x, 'x, 'y) flow_rep \<Rightarrow> ('x, ptr go_FlowAction, 'y option go_FlowAction) flow_rep" where
  "FlowAction_rep X h F v a \<longleftrightarrow>
     ptr_rep RawExtension_cell X h F (fac_Conf v) (fac_Conf a) \<and>
     fac_Type a = fac_Type v"

definition ClusterFlowAction_rep ::
    "('x, 'x, 'y) flow_rep \<Rightarrow> ('x, ptr go_ClusterFlowAction, 'y option go_ClusterFlowAction) flow_rep" where
  "ClusterFlowAction_rep X h F v a \<longleftrightarrow>
     ptr_rep RawExtension_cell X h F (cac_Conf v) (cac_Conf a) \<and>
     cac_Type a = cac_Type v"

definition FlowRules_rep :: "('x, 'x, 'y) flow_rep \<Rightarrow> ('x, var_FlowRules, 'y val_FlowRules) flow_rep" where
  "FlowRules_rep X h F v a \<longleftrightarrow>
     pair_rep (ptr_rep FlowAttr_cell flat) (pair_rep (pointers_rep FlowItem_cell (FlowItem_rep X)) (pointers_rep FlowAction_cell (FlowAction_rep X))) h F
       (fru_Attr v, fru_Pattern v, fru_Action v) (fru_Attr a, fru_Pattern a, fru_Action a) \<and>
     fru_PortId a = fru_PortId v"

definition ClusterFlowRule_rep ::
    "('x, 'x, 'y) flow_rep \<Rightarrow> ('x, var_ClusterFlowRule, 'y val_ClusterFlowRule) flow_rep" where
  "ClusterFlowRule_rep X h F v a \<longleftrightarrow>
     pair_rep (ptr_rep FlowAttr_cell flat) 
        (pair_rep (pointers_rep FlowItem_cell (FlowItem_rep X)) (pointers_rep ClusterFlowAction_cell (ClusterFlowAction_rep X))) h F
       (cru_Attr v, cru_Pattern v, cru_Action v) (cru_Attr a, cru_Pattern a, cru_Action a)"

definition NodeFlowConfigSpec_rep ::
    "('x, 'x, 'y) flow_rep \<Rightarrow> ('x, var_NodeFlowConfigSpec, 'y val_FlowRules option list option go_NodeFlowConfigSpec) flow_rep" where
  "NodeFlowConfigSpec_rep X h F v a \<longleftrightarrow>
     pointers_rep FlowRules_cell (FlowRules_rep X) h F (nfs_Rules v) (nfs_Rules a)"

definition NodeFlowConfigStatus_rep ::
    "('x, 'x, 'y) flow_rep \<Rightarrow> ('x, var_NodeFlowConfigStatus, (PortsInformation list option, 'y val_FlowRules option list option) go_NodeFlowConfigStatus) flow_rep" where
  "NodeFlowConfigStatus_rep X h F v a \<longleftrightarrow>
     pair_rep (slice_rep PortsInformations_cell flat) (pointers_rep FlowRules_cell (FlowRules_rep X)) h F
       (nft_PortInfo v, nft_Rules v) (nft_PortInfo a, nft_Rules a) \<and>
     nft_SyncStatus a = nft_SyncStatus v \<and>
     nft_SyncMsg a = nft_SyncMsg v"

definition ClusterFlowConfigSpec_rep ::
    "('x, 'x, 'y) flow_rep \<Rightarrow> ('x, var_ClusterFlowConfigSpec, ('y option, 'y val_ClusterFlowRule option list option) go_ClusterFlowConfigSpec) flow_rep" where
  "ClusterFlowConfigSpec_rep X h F v a \<longleftrightarrow>
     pair_rep (ptr_rep LabelSelector_cell X) (pointers_rep ClusterFlowRule_cell (ClusterFlowRule_rep X)) h F
       (ccs_PodSelector v, ccs_Rules v) (ccs_PodSelector a, ccs_Rules a)"

abbreviation NodeFlowConfig_rep :: "('x, 'x, 'y) flow_rep \<Rightarrow> ('x, 'x var_NodeFlowConfig, 'y val_NodeFlowConfig) flow_rep" where
  "NodeFlowConfig_rep X \<equiv> object_rep X (NodeFlowConfigSpec_rep X) (NodeFlowConfigStatus_rep X)"

abbreviation ClusterFlowConfig_rep :: "('x, 'x, 'y) flow_rep \<Rightarrow> ('x, 'x var_ClusterFlowConfig, 'y val_ClusterFlowConfig) flow_rep" where
  "ClusterFlowConfig_rep X \<equiv> object_rep X (ClusterFlowConfigSpec_rep X) flat"

section \<open>The copies meet the contract\<close>

named_theorems flow_copies \<open>the deep copies of the flow configuration\<close>

lemma copy_pointers:
  "kind_ok k \<Longrightarrow> deep_copy R into \<Longrightarrow> deep_copy (pointers_rep k R) (copy_slice Pointers_cell (copy_ptr k into))"
  by (intro deep_copy_slice deep_copy_ptr) simp_all

lemmas copy_raw = deep_copy_ptr [OF flow_kinds(1) metav1_specD(1)]
lemmas copy_attr = deep_copy_ptr [OF flow_kinds(3) deep_copy_flat]

lemma FlowItem_copies [flow_copies]:
  assumes "metav1_spec X L"
  shows "deep_copy (FlowItem_rep X) (FlowItem_DeepCopyInto L)"
  by (rule deep_copy_struct [OF deep_copy_pair [OF copy_raw [OF assms] deep_copy_pair [OF copy_raw [OF assms] copy_raw [OF assms]]],
        where u = "\<lambda>v (x, y, z). v\<lparr>fi_Spec := x, fi_Last := y, fi_Mask := z\<rparr>"
          and g = "\<lambda>a. (fi_Spec a, fi_Last a, fi_Mask a)"
          and S = "\<lambda>v a. fi_Type a = fi_Type v"])
    (auto simp: FlowItem_rep_def FlowItem_DeepCopyInto_def copy_pair_simp gbind_assoc)

lemma FlowAction_copies [flow_copies]:
  assumes "metav1_spec X L"
  shows "deep_copy (FlowAction_rep X) (FlowAction_DeepCopyInto L)"
  by (rule deep_copy_struct [OF copy_raw [OF assms],
        where u = "\<lambda>v x. v\<lparr>fac_Conf := x\<rparr>"
          and g = "fac_Conf"
          and S = "\<lambda>v a. fac_Type a = fac_Type v"])
    (auto simp: FlowAction_rep_def FlowAction_DeepCopyInto_def copy_pair_simp gbind_assoc)

lemma ClusterFlowAction_copies [flow_copies]:
  assumes "metav1_spec X L"
  shows "deep_copy (ClusterFlowAction_rep X) (ClusterFlowAction_DeepCopyInto L)"
  by (rule deep_copy_struct [OF copy_raw [OF assms],
        where u = "\<lambda>v x. v\<lparr>cac_Conf := x\<rparr>"
          and g = "cac_Conf"
          and S = "\<lambda>v a. cac_Type a = cac_Type v"])
    (auto simp: ClusterFlowAction_rep_def ClusterFlowAction_DeepCopyInto_def copy_pair_simp gbind_assoc)

lemmas copy_items = copy_pointers [OF flow_kinds(4) FlowItem_copies]
lemmas copy_actions = copy_pointers [OF flow_kinds(5) FlowAction_copies]
lemmas copy_cluster_actions = copy_pointers [OF flow_kinds(13) ClusterFlowAction_copies]

lemma FlowRules_copies [flow_copies]:
  assumes "metav1_spec X L"
  shows "deep_copy (FlowRules_rep X) (FlowRules_DeepCopyInto L)"
  by (rule deep_copy_struct [OF deep_copy_pair [OF copy_attr deep_copy_pair [OF copy_items [OF assms] copy_actions [OF assms]]],
        where u = "\<lambda>v (x, y, z). v\<lparr>fru_Attr := x, fru_Pattern := y, fru_Action := z\<rparr>"
          and g = "\<lambda>a. (fru_Attr a, fru_Pattern a, fru_Action a)"
          and S = "\<lambda>v a. fru_PortId a = fru_PortId v"])
    (auto simp: FlowRules_rep_def FlowRules_DeepCopyInto_def copy_pair_simp gbind_assoc)

lemma ClusterFlowRule_copies [flow_copies]:
  assumes "metav1_spec X L"
  shows "deep_copy (ClusterFlowRule_rep X) (ClusterFlowRule_DeepCopyInto L)"
  by (rule deep_copy_struct [OF deep_copy_pair [OF copy_attr deep_copy_pair [OF copy_items [OF assms] copy_cluster_actions [OF assms]]],
        where u = "\<lambda>v (x, y, z). v\<lparr>cru_Attr := x, cru_Pattern := y, cru_Action := z\<rparr>"
          and g = "\<lambda>a. (cru_Attr a, cru_Pattern a, cru_Action a)"
          and S = "\<lambda>v a. True"])
    (auto simp: ClusterFlowRule_rep_def ClusterFlowRule_DeepCopyInto_def copy_pair_simp gbind_assoc)

lemmas copy_rules = copy_pointers [OF flow_kinds(6) FlowRules_copies]
lemmas copy_cluster_rules = copy_pointers [OF flow_kinds(14) ClusterFlowRule_copies]

lemma NodeFlowConfigSpec_copies [flow_copies]:
  assumes "metav1_spec X L"
  shows "deep_copy (NodeFlowConfigSpec_rep X) (NodeFlowConfigSpec_DeepCopyInto L)"
  by (rule deep_copy_struct [OF copy_rules [OF assms],
        where u = "\<lambda>v x. v\<lparr>nfs_Rules := x\<rparr>"
          and g = "nfs_Rules"
          and S = "\<lambda>v a. True"])
    (auto simp: NodeFlowConfigSpec_rep_def NodeFlowConfigSpec_DeepCopyInto_def copy_pair_simp gbind_assoc)

lemma NodeFlowConfigStatus_copies [flow_copies]:
  assumes "metav1_spec X L"
  shows "deep_copy (NodeFlowConfigStatus_rep X) (NodeFlowConfigStatus_DeepCopyInto L)"
  by (rule deep_copy_struct [OF deep_copy_pair [OF deep_copy_slice [OF flow_kinds(24) deep_copy_flat] copy_rules [OF assms]],
        where u = "\<lambda>v (x, y). v\<lparr>nft_PortInfo := x, nft_Rules := y\<rparr>"
          and g = "\<lambda>a. (nft_PortInfo a, nft_Rules a)"
          and S = "\<lambda>v a. nft_SyncStatus a = nft_SyncStatus v \<and> nft_SyncMsg a = nft_SyncMsg v"])
    (auto simp: NodeFlowConfigStatus_rep_def NodeFlowConfigStatus_DeepCopyInto_def copy_pair_simp gbind_assoc)

lemma ClusterFlowConfigSpec_copies [flow_copies]:
  assumes "metav1_spec X L"
  shows "deep_copy (ClusterFlowConfigSpec_rep X) (ClusterFlowConfigSpec_DeepCopyInto L)"
  by (rule deep_copy_struct [OF deep_copy_pair [OF deep_copy_ptr [OF flow_kinds(2) metav1_specD(2) [OF assms]] copy_cluster_rules [OF assms]],
        where u = "\<lambda>v (x, y). v\<lparr>ccs_PodSelector := x, ccs_Rules := y\<rparr>"
          and g = "\<lambda>a. (ccs_PodSelector a, ccs_Rules a)"
          and S = "\<lambda>v a. True"])
    (auto simp: ClusterFlowConfigSpec_rep_def ClusterFlowConfigSpec_DeepCopyInto_def copy_pair_simp gbind_assoc)

lemma NodeFlowConfig_copies [flow_copies]:
  "metav1_spec X L \<Longrightarrow> deep_copy (NodeFlowConfig_rep X) (NodeFlowConfig_DeepCopyInto L)"
  by (rule deep_copy_object [OF metav1_specD(3) NodeFlowConfigSpec_copies NodeFlowConfigStatus_copies])
    (simp_all add: NodeFlowConfig_DeepCopyInto_def)

lemma ClusterFlowConfig_copies [flow_copies]:
  "metav1_spec X L \<Longrightarrow> deep_copy (ClusterFlowConfig_rep X) (ClusterFlowConfig_DeepCopyInto L)"
  by (rule deep_copy_object [OF metav1_specD(3) ClusterFlowConfigSpec_copies deep_copy_flat])
    (simp_all add: ClusterFlowConfig_DeepCopyInto_def)

lemma FlowConfigNodeAgentDeployment_copies [flow_copies]:
  "metav1_spec X L \<Longrightarrow> deep_copy (object_rep X flat flat) (FlowConfigNodeAgentDeployment_DeepCopyInto L)"
  by (rule deep_copy_object [OF metav1_specD(3) deep_copy_flat deep_copy_flat])
    (simp_all add: FlowConfigNodeAgentDeployment_DeepCopyInto_def)

lemma flow_list_copies [flow_copies]:
  assumes "metav1_spec X L"
  shows "deep_copy (object_list_rep X (slice_rep NodeFlowConfigs_cell (NodeFlowConfig_rep X))) (NodeFlowConfigList_DeepCopyInto L)"
    and "deep_copy (object_list_rep X (slice_rep ClusterFlowConfigs_cell (ClusterFlowConfig_rep X))) (ClusterFlowConfigList_DeepCopyInto L)"
    and "deep_copy (object_list_rep X (slice_rep FlowConfigNodeAgentDeployments_cell (object_rep X flat flat)))
      (FlowConfigNodeAgentDeploymentList_DeepCopyInto L)"
  by (rule deep_copy_object_list [OF metav1_specD(4) [OF assms] deep_copy_slice [OF flow_kinds(25) NodeFlowConfig_copies [OF assms]]],
      simp add: NodeFlowConfigList_DeepCopyInto_def,
      rule deep_copy_object_list [OF metav1_specD(4) [OF assms] deep_copy_slice [OF flow_kinds(26) ClusterFlowConfig_copies [OF assms]]],
      simp add: ClusterFlowConfigList_DeepCopyInto_def,
      rule deep_copy_object_list [OF metav1_specD(4) [OF assms] deep_copy_slice [OF flow_kinds(27) FlowConfigNodeAgentDeployment_copies [OF assms]]],
      simp add: FlowConfigNodeAgentDeploymentList_DeepCopyInto_def)

end
