(* ===== verification/Ethernet_Deep_Copy.thy ===== *)
theory Ethernet_Deep_Copy
  imports Ethernet_Types Go_Memory
begin

text \<open>
  \<^verbatim>\<open>apis/ethernet/v1/zz_generated.deepcopy.go\<close>: the deep copies of the device configurations, in the same style as
  \<^verbatim>\<open>Flow_Deep_Copy\<close>. Structs without pointers are the records of \<^verbatim>\<open>Ethernet_Types\<close>. \<open>ro\<close> is the order in which
  the runtime visits a map.
\<close>

section \<open>Structs\<close>

record 'm go_EthernetClusterConfigSpec =
  ecs_NodeSelector :: 'm
  ecs_DeviceSelector :: DeviceSelector
  ecs_DeviceConfig :: DeviceConfig
  ecs_Priority :: int

record 's go_EthernetNodeConfigSpec =
  ens_Config :: 's
  ens_DrainSkip :: bool

record ('c, 'd) go_EthernetNodeConfigStatus =
  ent_Conditions :: 'c
  ent_Devices :: 'd

text \<open>The contents of variables. \<^verbatim>\<open>EthernetClusterConfigStatus\<close> is an empty struct.\<close>

type_synonym var_EthernetClusterConfigSpec = "ptr go_EthernetClusterConfigSpec"
type_synonym var_EthernetNodeConfigSpec = "slice go_EthernetNodeConfigSpec"
type_synonym var_EthernetNodeConfigStatus = "(slice, slice) go_EthernetNodeConfigStatus"
type_synonym 'x var_EthernetClusterConfig = "('x, var_EthernetClusterConfigSpec, unit) go_object"
type_synonym 'x var_EthernetNodeConfig = "('x, var_EthernetNodeConfigSpec, var_EthernetNodeConfigStatus) go_object"
type_synonym 'x var_eth_list = "('x, slice) go_list"

section \<open>Cells\<close>

datatype 'x eth_cell =
    E_DDPInfo DDPInfo
  | E_Device Device
  | E_DeviceConfig DeviceConfig
  | E_DeviceNodeConfig DeviceNodeConfig
  | E_DeviceSelector DeviceSelector
  | E_FirmwareInfo FirmwareInfo
  | E_EthernetClusterConfigSpec var_EthernetClusterConfigSpec
  | E_EthernetClusterConfigStatus unit
  | E_EthernetClusterConfig "'x var_EthernetClusterConfig"
  | E_EthernetClusterConfigList "'x var_eth_list"
  | E_EthernetNodeConfigSpec var_EthernetNodeConfigSpec
  | E_EthernetNodeConfigStatus var_EthernetNodeConfigStatus
  | E_EthernetNodeConfig "'x var_EthernetNodeConfig"
  | E_EthernetNodeConfigList "'x var_eth_list"
  | E_StringMap "string \<rightharpoonup> string"
  | E_DeviceNodeConfigs "DeviceNodeConfig list"
  | E_Devices "Device list"
  | E_Conditions "'x list"
  | E_EthernetClusterConfigs "'x var_EthernetClusterConfig list"
  | E_EthernetNodeConfigs "'x var_EthernetNodeConfig list"

definition DDPInfo_cell :: "('x eth_cell, DDPInfo) kind" where
  "DDPInfo_cell = (E_DDPInfo, \<lambda>c. case c of E_DDPInfo v \<Rightarrow> Some v | _ \<Rightarrow> None)"

definition Device_cell :: "('x eth_cell, Device) kind" where
  "Device_cell = (E_Device, \<lambda>c. case c of E_Device v \<Rightarrow> Some v | _ \<Rightarrow> None)"

definition DeviceConfig_cell :: "('x eth_cell, DeviceConfig) kind" where
  "DeviceConfig_cell = (E_DeviceConfig, \<lambda>c. case c of E_DeviceConfig v \<Rightarrow> Some v | _ \<Rightarrow> None)"

definition DeviceNodeConfig_cell :: "('x eth_cell, DeviceNodeConfig) kind" where
  "DeviceNodeConfig_cell = (E_DeviceNodeConfig, \<lambda>c. case c of E_DeviceNodeConfig v \<Rightarrow> Some v | _ \<Rightarrow> None)"

definition DeviceSelector_cell :: "('x eth_cell, DeviceSelector) kind" where
  "DeviceSelector_cell = (E_DeviceSelector, \<lambda>c. case c of E_DeviceSelector v \<Rightarrow> Some v | _ \<Rightarrow> None)"

definition FirmwareInfo_cell :: "('x eth_cell, FirmwareInfo) kind" where
  "FirmwareInfo_cell = (E_FirmwareInfo, \<lambda>c. case c of E_FirmwareInfo v \<Rightarrow> Some v | _ \<Rightarrow> None)"

definition EthernetClusterConfigSpec_cell :: "('x eth_cell, var_EthernetClusterConfigSpec) kind" where
  "EthernetClusterConfigSpec_cell = (E_EthernetClusterConfigSpec, \<lambda>c. case c of E_EthernetClusterConfigSpec v \<Rightarrow> Some v | _ \<Rightarrow> None)"

definition EthernetClusterConfigStatus_cell :: "('x eth_cell, unit) kind" where
  "EthernetClusterConfigStatus_cell = (E_EthernetClusterConfigStatus, \<lambda>c. case c of E_EthernetClusterConfigStatus v \<Rightarrow> Some v | _ \<Rightarrow> None)"

definition EthernetClusterConfig_cell :: "('x eth_cell, 'x var_EthernetClusterConfig) kind" where
  "EthernetClusterConfig_cell = (E_EthernetClusterConfig, \<lambda>c. case c of E_EthernetClusterConfig v \<Rightarrow> Some v | _ \<Rightarrow> None)"

definition EthernetClusterConfigList_cell :: "('x eth_cell, 'x var_eth_list) kind" where
  "EthernetClusterConfigList_cell = (E_EthernetClusterConfigList, \<lambda>c. case c of E_EthernetClusterConfigList v \<Rightarrow> Some v | _ \<Rightarrow> None)"

definition EthernetNodeConfigSpec_cell :: "('x eth_cell, var_EthernetNodeConfigSpec) kind" where
  "EthernetNodeConfigSpec_cell = (E_EthernetNodeConfigSpec, \<lambda>c. case c of E_EthernetNodeConfigSpec v \<Rightarrow> Some v | _ \<Rightarrow> None)"

definition EthernetNodeConfigStatus_cell :: "('x eth_cell, var_EthernetNodeConfigStatus) kind" where
  "EthernetNodeConfigStatus_cell = (E_EthernetNodeConfigStatus, \<lambda>c. case c of E_EthernetNodeConfigStatus v \<Rightarrow> Some v | _ \<Rightarrow> None)"

definition EthernetNodeConfig_cell :: "('x eth_cell, 'x var_EthernetNodeConfig) kind" where
  "EthernetNodeConfig_cell = (E_EthernetNodeConfig, \<lambda>c. case c of E_EthernetNodeConfig v \<Rightarrow> Some v | _ \<Rightarrow> None)"

definition EthernetNodeConfigList_cell :: "('x eth_cell, 'x var_eth_list) kind" where
  "EthernetNodeConfigList_cell = (E_EthernetNodeConfigList, \<lambda>c. case c of E_EthernetNodeConfigList v \<Rightarrow> Some v | _ \<Rightarrow> None)"

definition StringMap_cell :: "('x eth_cell, string \<rightharpoonup> string) kind" where
  "StringMap_cell = (E_StringMap, \<lambda>c. case c of E_StringMap v \<Rightarrow> Some v | _ \<Rightarrow> None)"

definition DeviceNodeConfigs_cell :: "('x eth_cell, DeviceNodeConfig list) kind" where
  "DeviceNodeConfigs_cell = (E_DeviceNodeConfigs, \<lambda>c. case c of E_DeviceNodeConfigs v \<Rightarrow> Some v | _ \<Rightarrow> None)"

definition Devices_cell :: "('x eth_cell, Device list) kind" where
  "Devices_cell = (E_Devices, \<lambda>c. case c of E_Devices v \<Rightarrow> Some v | _ \<Rightarrow> None)"

definition Conditions_cell :: "('x eth_cell, 'x list) kind" where
  "Conditions_cell = (E_Conditions, \<lambda>c. case c of E_Conditions v \<Rightarrow> Some v | _ \<Rightarrow> None)"

definition EthernetClusterConfigs_cell :: "('x eth_cell, 'x var_EthernetClusterConfig list) kind" where
  "EthernetClusterConfigs_cell = (E_EthernetClusterConfigs, \<lambda>c. case c of E_EthernetClusterConfigs v \<Rightarrow> Some v | _ \<Rightarrow> None)"

definition EthernetNodeConfigs_cell :: "('x eth_cell, 'x var_EthernetNodeConfig list) kind" where
  "EthernetNodeConfigs_cell = (E_EthernetNodeConfigs, \<lambda>c. case c of E_EthernetNodeConfigs v \<Rightarrow> Some v | _ \<Rightarrow> None)"

lemma eth_kinds [simp]:
  "kind_ok DDPInfo_cell"
  "kind_ok Device_cell"
  "kind_ok DeviceConfig_cell"
  "kind_ok DeviceNodeConfig_cell"
  "kind_ok DeviceSelector_cell"
  "kind_ok FirmwareInfo_cell"
  "kind_ok EthernetClusterConfigSpec_cell"
  "kind_ok EthernetClusterConfigStatus_cell"
  "kind_ok EthernetClusterConfig_cell"
  "kind_ok EthernetClusterConfigList_cell"
  "kind_ok EthernetNodeConfigSpec_cell"
  "kind_ok EthernetNodeConfigStatus_cell"
  "kind_ok EthernetNodeConfig_cell"
  "kind_ok EthernetNodeConfigList_cell"
  "kind_ok StringMap_cell"
  "kind_ok DeviceNodeConfigs_cell"
  "kind_ok Devices_cell"
  "kind_ok Conditions_cell"
  "kind_ok EthernetClusterConfigs_cell"
  "kind_ok EthernetNodeConfigs_cell"
  by (simp_all add: kind_ok_def DDPInfo_cell_def
      Device_cell_def
      DeviceConfig_cell_def
      DeviceNodeConfig_cell_def
      DeviceSelector_cell_def
      FirmwareInfo_cell_def
      EthernetClusterConfigSpec_cell_def
      EthernetClusterConfigStatus_cell_def
      EthernetClusterConfig_cell_def
      EthernetClusterConfigList_cell_def
      EthernetNodeConfigSpec_cell_def
      EthernetNodeConfigStatus_cell_def
      EthernetNodeConfig_cell_def
      EthernetNodeConfigList_cell_def
      StringMap_cell_def
      DeviceNodeConfigs_cell_def
      Devices_cell_def
      Conditions_cell_def
      EthernetClusterConfigs_cell_def
      EthernetNodeConfigs_cell_def)

type_synonym 'x eth_mem = "'x eth_cell mem"
type_synonym 'x eth_lib = "('x eth_cell, 'x) metav1"
type_synonym key_order = "string set \<Rightarrow> string list"

section \<open>Copies of the contents of a variable\<close>

definition DDPInfo_DeepCopyInto :: "DDPInfo \<Rightarrow> ('x eth_mem, DDPInfo) go" where
  "DDPInfo_DeepCopyInto i = ret i"

definition DeviceConfig_DeepCopyInto :: "DeviceConfig \<Rightarrow> ('x eth_mem, DeviceConfig) go" where
  "DeviceConfig_DeepCopyInto i = ret i"

definition DeviceSelector_DeepCopyInto :: "DeviceSelector \<Rightarrow> ('x eth_mem, DeviceSelector) go" where
  "DeviceSelector_DeepCopyInto i = ret i"

definition FirmwareInfo_DeepCopyInto :: "FirmwareInfo \<Rightarrow> ('x eth_mem, FirmwareInfo) go" where
  "FirmwareInfo_DeepCopyInto i = ret i"

definition EthernetClusterConfigStatus_DeepCopyInto :: "unit \<Rightarrow> ('x eth_mem, unit) go" where
  "EthernetClusterConfigStatus_DeepCopyInto i = ret i"

definition Device_DeepCopyInto :: "Device \<Rightarrow> ('x eth_mem, Device) go" where
  "Device_DeepCopyInto i = ret (i\<lparr>dev_Firmware := dev_Firmware i, dev_DDP := dev_DDP i\<rparr>)"

definition DeviceNodeConfig_DeepCopyInto :: "DeviceNodeConfig \<Rightarrow> ('x eth_mem, DeviceNodeConfig) go" where
  "DeviceNodeConfig_DeepCopyInto i = ret (i\<lparr>dnc_DeviceConfig := dnc_DeviceConfig i\<rparr>)"

definition EthernetClusterConfigSpec_DeepCopyInto :: "key_order \<Rightarrow> var_EthernetClusterConfigSpec \<Rightarrow> ('x eth_mem, var_EthernetClusterConfigSpec) go" where
  "EthernetClusterConfigSpec_DeepCopyInto ro i =
     gbind (copy_map ro StringMap_cell (ecs_NodeSelector i)) (\<lambda>nodeSelector.
     ret (i\<lparr>ecs_NodeSelector := nodeSelector,
       ecs_DeviceSelector := ecs_DeviceSelector i, ecs_DeviceConfig := ecs_DeviceConfig i\<rparr>))"

definition EthernetNodeConfigSpec_DeepCopyInto :: "var_EthernetNodeConfigSpec \<Rightarrow> ('x eth_mem, var_EthernetNodeConfigSpec) go" where
  "EthernetNodeConfigSpec_DeepCopyInto i =
     gbind (copy_slice DeviceNodeConfigs_cell ret (ens_Config i)) (\<lambda>config.
     ret (i\<lparr>ens_Config := config\<rparr>))"

definition EthernetNodeConfigStatus_DeepCopyInto :: "'x eth_lib \<Rightarrow> var_EthernetNodeConfigStatus \<Rightarrow> ('x eth_mem, var_EthernetNodeConfigStatus) go" where
  "EthernetNodeConfigStatus_DeepCopyInto L i =
     gbind (copy_slice Conditions_cell (Condition_DeepCopyInto L) (ent_Conditions i)) (\<lambda>conditions.
     gbind (copy_slice Devices_cell ret (ent_Devices i)) (\<lambda>devices.
     ret (i\<lparr>ent_Conditions := conditions, ent_Devices := devices\<rparr>)))"

definition EthernetClusterConfig_DeepCopyInto :: "key_order \<Rightarrow> 'x eth_lib \<Rightarrow> 'x var_EthernetClusterConfig \<Rightarrow> ('x eth_mem, 'x var_EthernetClusterConfig) go" where
  "EthernetClusterConfig_DeepCopyInto ro L i =
     gbind (ObjectMeta_DeepCopyInto L (obj_ObjectMeta i)) (\<lambda>metadata.
     gbind (EthernetClusterConfigSpec_DeepCopyInto ro (obj_Spec i)) (\<lambda>spec.
     ret (i\<lparr>obj_ObjectMeta := metadata, obj_Spec := spec\<rparr>)))"

definition EthernetNodeConfig_DeepCopyInto :: "'x eth_lib \<Rightarrow> 'x var_EthernetNodeConfig \<Rightarrow> ('x eth_mem, 'x var_EthernetNodeConfig) go" where
  "EthernetNodeConfig_DeepCopyInto L i =
     gbind (ObjectMeta_DeepCopyInto L (obj_ObjectMeta i)) (\<lambda>metadata.
     gbind (EthernetNodeConfigSpec_DeepCopyInto (obj_Spec i)) (\<lambda>spec.
     gbind (EthernetNodeConfigStatus_DeepCopyInto L (obj_Status i)) (\<lambda>status.
     ret (i\<lparr>obj_ObjectMeta := metadata, obj_Spec := spec, obj_Status := status\<rparr>))))"

definition EthernetClusterConfigList_DeepCopyInto :: "key_order \<Rightarrow> 'x eth_lib \<Rightarrow> 'x var_eth_list \<Rightarrow> ('x eth_mem, 'x var_eth_list) go" where
  "EthernetClusterConfigList_DeepCopyInto ro L i =
     gbind (ListMeta_DeepCopyInto L (list_ListMeta i)) (\<lambda>metadata.
     gbind (copy_slice EthernetClusterConfigs_cell (EthernetClusterConfig_DeepCopyInto ro L) (list_Items i)) (\<lambda>items.
     ret (i\<lparr>list_ListMeta := metadata, list_Items := items\<rparr>)))"

definition EthernetNodeConfigList_DeepCopyInto :: "'x eth_lib \<Rightarrow> 'x var_eth_list \<Rightarrow> ('x eth_mem, 'x var_eth_list) go" where
  "EthernetNodeConfigList_DeepCopyInto L i =
     gbind (ListMeta_DeepCopyInto L (list_ListMeta i)) (\<lambda>metadata.
     gbind (copy_slice EthernetNodeConfigs_cell (EthernetNodeConfig_DeepCopyInto L) (list_Items i)) (\<lambda>items.
     ret (i\<lparr>list_ListMeta := metadata, list_Items := items\<rparr>)))"

section \<open>Copies of pointers and as objects\<close>

definition DDPInfo_DeepCopy :: "ptr \<Rightarrow> ('x eth_mem, ptr) go" where
  "DDPInfo_DeepCopy = copy_ptr DDPInfo_cell DDPInfo_DeepCopyInto"

definition DeviceConfig_DeepCopy :: "ptr \<Rightarrow> ('x eth_mem, ptr) go" where
  "DeviceConfig_DeepCopy = copy_ptr DeviceConfig_cell DeviceConfig_DeepCopyInto"

definition DeviceSelector_DeepCopy :: "ptr \<Rightarrow> ('x eth_mem, ptr) go" where
  "DeviceSelector_DeepCopy = copy_ptr DeviceSelector_cell DeviceSelector_DeepCopyInto"

definition FirmwareInfo_DeepCopy :: "ptr \<Rightarrow> ('x eth_mem, ptr) go" where
  "FirmwareInfo_DeepCopy = copy_ptr FirmwareInfo_cell FirmwareInfo_DeepCopyInto"

definition EthernetClusterConfigStatus_DeepCopy :: "ptr \<Rightarrow> ('x eth_mem, ptr) go" where
  "EthernetClusterConfigStatus_DeepCopy = copy_ptr EthernetClusterConfigStatus_cell EthernetClusterConfigStatus_DeepCopyInto"

definition Device_DeepCopy :: "ptr \<Rightarrow> ('x eth_mem, ptr) go" where
  "Device_DeepCopy = copy_ptr Device_cell Device_DeepCopyInto"

definition DeviceNodeConfig_DeepCopy :: "ptr \<Rightarrow> ('x eth_mem, ptr) go" where
  "DeviceNodeConfig_DeepCopy = copy_ptr DeviceNodeConfig_cell DeviceNodeConfig_DeepCopyInto"

definition EthernetClusterConfigSpec_DeepCopy :: "key_order \<Rightarrow> ptr \<Rightarrow> ('x eth_mem, ptr) go" where
  "EthernetClusterConfigSpec_DeepCopy ro = copy_ptr EthernetClusterConfigSpec_cell (EthernetClusterConfigSpec_DeepCopyInto ro)"

definition EthernetNodeConfigSpec_DeepCopy :: "ptr \<Rightarrow> ('x eth_mem, ptr) go" where
  "EthernetNodeConfigSpec_DeepCopy = copy_ptr EthernetNodeConfigSpec_cell EthernetNodeConfigSpec_DeepCopyInto"

definition EthernetNodeConfigStatus_DeepCopy :: "'x eth_lib \<Rightarrow> ptr \<Rightarrow> ('x eth_mem, ptr) go" where
  "EthernetNodeConfigStatus_DeepCopy L = copy_ptr EthernetNodeConfigStatus_cell (EthernetNodeConfigStatus_DeepCopyInto L)"

definition EthernetClusterConfig_DeepCopy :: "key_order \<Rightarrow> 'x eth_lib \<Rightarrow> ptr \<Rightarrow> ('x eth_mem, ptr) go" where
  "EthernetClusterConfig_DeepCopy ro L = copy_ptr EthernetClusterConfig_cell (EthernetClusterConfig_DeepCopyInto ro L)"

definition EthernetNodeConfig_DeepCopy :: "'x eth_lib \<Rightarrow> ptr \<Rightarrow> ('x eth_mem, ptr) go" where
  "EthernetNodeConfig_DeepCopy L = copy_ptr EthernetNodeConfig_cell (EthernetNodeConfig_DeepCopyInto L)"

definition EthernetClusterConfigList_DeepCopy :: "key_order \<Rightarrow> 'x eth_lib \<Rightarrow> ptr \<Rightarrow> ('x eth_mem, ptr) go" where
  "EthernetClusterConfigList_DeepCopy ro L = copy_ptr EthernetClusterConfigList_cell (EthernetClusterConfigList_DeepCopyInto ro L)"

definition EthernetNodeConfigList_DeepCopy :: "'x eth_lib \<Rightarrow> ptr \<Rightarrow> ('x eth_mem, ptr) go" where
  "EthernetNodeConfigList_DeepCopy L = copy_ptr EthernetNodeConfigList_cell (EthernetNodeConfigList_DeepCopyInto L)"

definition EthernetClusterConfig_DeepCopyObject :: "key_order \<Rightarrow> 'x eth_lib \<Rightarrow> ptr \<Rightarrow> ('x eth_mem, runtime_Object option) go" where
  "EthernetClusterConfig_DeepCopyObject ro L p = as_object ''EthernetClusterConfig'' (EthernetClusterConfig_DeepCopy ro L p)"

definition EthernetClusterConfigList_DeepCopyObject :: "key_order \<Rightarrow> 'x eth_lib \<Rightarrow> ptr \<Rightarrow> ('x eth_mem, runtime_Object option) go" where
  "EthernetClusterConfigList_DeepCopyObject ro L p = as_object ''EthernetClusterConfigList'' (EthernetClusterConfigList_DeepCopy ro L p)"

definition EthernetNodeConfig_DeepCopyObject :: "'x eth_lib \<Rightarrow> ptr \<Rightarrow> ('x eth_mem, runtime_Object option) go" where
  "EthernetNodeConfig_DeepCopyObject L p = as_object ''EthernetNodeConfig'' (EthernetNodeConfig_DeepCopy L p)"

definition EthernetNodeConfigList_DeepCopyObject :: "'x eth_lib \<Rightarrow> ptr \<Rightarrow> ('x eth_mem, runtime_Object option) go" where
  "EthernetNodeConfigList_DeepCopyObject L p = as_object ''EthernetNodeConfigList'' (EthernetNodeConfigList_DeepCopy L p)"

section \<open>What the contents stand for, and that the copies meet the contract\<close>

type_synonym val_EthernetNodeConfigSpec = "DeviceNodeConfig list option go_EthernetNodeConfigSpec"

type_synonym 'y val_EthernetNodeConfig =
  "('y, val_EthernetNodeConfigSpec, ('y list option, Device list option) go_EthernetNodeConfigStatus) go_object"

type_synonym 'y val_EthernetClusterConfig =
  "('y, (string \<rightharpoonup> string) option go_EthernetClusterConfigSpec, unit) go_object"

type_synonym ('x, 'v, 'a) eth_rep = "('x eth_cell, 'v, 'a) rep"

definition EthernetClusterConfigSpec_rep ::
    "('x, var_EthernetClusterConfigSpec, (string \<rightharpoonup> string) option go_EthernetClusterConfigSpec) eth_rep" where
  "EthernetClusterConfigSpec_rep h F v a \<longleftrightarrow>
     map_rep StringMap_cell h F (ecs_NodeSelector v) (ecs_NodeSelector a) \<and>
     ecs_DeviceSelector a = ecs_DeviceSelector v \<and> ecs_DeviceConfig a = ecs_DeviceConfig v \<and> ecs_Priority a = ecs_Priority v"

definition EthernetNodeConfigSpec_rep :: "('x, var_EthernetNodeConfigSpec, val_EthernetNodeConfigSpec) eth_rep" where
  "EthernetNodeConfigSpec_rep h F v a \<longleftrightarrow>
     slice_rep DeviceNodeConfigs_cell flat h F (ens_Config v) (ens_Config a) \<and> ens_DrainSkip a = ens_DrainSkip v"

definition EthernetNodeConfigStatus_rep ::
    "('x, 'x, 'y) eth_rep \<Rightarrow> ('x, var_EthernetNodeConfigStatus, ('y list option, Device list option) go_EthernetNodeConfigStatus) eth_rep" where
  "EthernetNodeConfigStatus_rep X h F v a \<longleftrightarrow>
     pair_rep (slice_rep Conditions_cell X) (slice_rep Devices_cell flat) h F
       (ent_Conditions v, ent_Devices v) (ent_Conditions a, ent_Devices a)"

abbreviation EthernetNodeConfig_rep :: "('x, 'x, 'y) eth_rep \<Rightarrow> ('x, 'x var_EthernetNodeConfig, 'y val_EthernetNodeConfig) eth_rep" where
  "EthernetNodeConfig_rep X \<equiv> object_rep X EthernetNodeConfigSpec_rep (EthernetNodeConfigStatus_rep X)"

abbreviation EthernetClusterConfig_rep ::
    "('x, 'x, 'y) eth_rep \<Rightarrow> ('x, 'x var_EthernetClusterConfig, 'y val_EthernetClusterConfig) eth_rep" where
  "EthernetClusterConfig_rep X \<equiv> object_rep X EthernetClusterConfigSpec_rep flat"

text \<open>The specification of a node has no part of the library, so its copy meets the contract without a hypothesis.\<close>

interpretation node_spec: deep_copy EthernetNodeConfigSpec_rep EthernetNodeConfigSpec_DeepCopyInto
  by (rule deep_copy_struct [OF deep_copy_slice [OF eth_kinds(16) deep_copy_flat],
        where u = "\<lambda>v x. v\<lparr>ens_Config := x\<rparr>" and S = "\<lambda>v a. ens_DrainSkip a = ens_DrainSkip v"])
    (auto simp: EthernetNodeConfigSpec_rep_def EthernetNodeConfigSpec_DeepCopyInto_def)

lemma EthernetClusterConfigSpec_copies:
  assumes "\<And>S. finite S \<Longrightarrow> distinct (ro S) \<and> set (ro S) = S"
  shows "deep_copy EthernetClusterConfigSpec_rep (EthernetClusterConfigSpec_DeepCopyInto ro)"
  by (rule deep_copy_struct [OF deep_copy_map [OF eth_kinds(15) assms],
        where u = "\<lambda>v x. v\<lparr>ecs_NodeSelector := x\<rparr>"
          and S = "\<lambda>v a. ecs_DeviceSelector a = ecs_DeviceSelector v \<and> ecs_DeviceConfig a = ecs_DeviceConfig v \<and>
            ecs_Priority a = ecs_Priority v"])
    (auto simp: EthernetClusterConfigSpec_rep_def EthernetClusterConfigSpec_DeepCopyInto_def)

lemma EthernetNodeConfigStatus_copies:
  assumes "metav1_spec X L"
  shows "deep_copy (EthernetNodeConfigStatus_rep X) (EthernetNodeConfigStatus_DeepCopyInto L)"
  by (rule deep_copy_struct [OF deep_copy_pair [OF deep_copy_slice [OF eth_kinds(18) metav1_specD(5) [OF assms]]
          deep_copy_slice [OF eth_kinds(17) deep_copy_flat]],
        where u = "\<lambda>v (x, y). v\<lparr>ent_Conditions := x, ent_Devices := y\<rparr>" and g = "\<lambda>a. (ent_Conditions a, ent_Devices a)"
          and S = "\<lambda>v a. True"])
    (auto simp: EthernetNodeConfigStatus_rep_def EthernetNodeConfigStatus_DeepCopyInto_def copy_pair_simp gbind_assoc)

lemma EthernetNodeConfig_copies:
  "metav1_spec X L \<Longrightarrow> deep_copy (EthernetNodeConfig_rep X) (EthernetNodeConfig_DeepCopyInto L)"
  by (rule deep_copy_object [OF metav1_specD(3) node_spec.deep_copy_axioms EthernetNodeConfigStatus_copies])
    (simp_all add: EthernetNodeConfig_DeepCopyInto_def)

lemma EthernetClusterConfig_copies:
  assumes "metav1_spec X L" and "\<And>S. finite S \<Longrightarrow> distinct (ro S) \<and> set (ro S) = S"
  shows "deep_copy (EthernetClusterConfig_rep X) (EthernetClusterConfig_DeepCopyInto ro L)"
  by (rule deep_copy_object [OF metav1_specD(3) [OF assms(1)] EthernetClusterConfigSpec_copies [OF assms(2)] deep_copy_flat])
    (simp_all add: EthernetClusterConfig_DeepCopyInto_def)

lemma eth_list_copies:
  assumes "metav1_spec X L" and "\<And>S. finite S \<Longrightarrow> distinct (ro S) \<and> set (ro S) = S"
  shows "deep_copy (object_list_rep X (slice_rep EthernetNodeConfigs_cell (EthernetNodeConfig_rep X))) (EthernetNodeConfigList_DeepCopyInto L)"
    and "deep_copy (object_list_rep X (slice_rep EthernetClusterConfigs_cell (EthernetClusterConfig_rep X)))
      (EthernetClusterConfigList_DeepCopyInto ro L)"
  by (rule deep_copy_object_list [OF metav1_specD(4) [OF assms(1)] deep_copy_slice [OF eth_kinds(20) EthernetNodeConfig_copies [OF assms(1)]]],
      simp add: EthernetNodeConfigList_DeepCopyInto_def,
      rule deep_copy_object_list [OF metav1_specD(4) [OF assms(1)] deep_copy_slice [OF eth_kinds(19) EthernetClusterConfig_copies [OF assms]]],
      simp_all add: EthernetClusterConfigList_DeepCopyInto_def)

end
