(* ===== verification/Shared_Objects.thy ===== *)
theory Shared_Objects
  imports Flow_Deep_Copy_Facts Ethernet_Deep_Copy Cluster_Flow_Controller Ethernet_Manager
begin

text \<open>
  The places of the controllers that copy an object before they change it, over an explicit memory: the rule that
  \<^verbatim>\<open>updateNodeFlowConfigSpec\<close> starts from, and the node configuration that \<^verbatim>\<open>synchronizeNodeConfigSpec\<close> builds.
  \<open>Deep_Copy_Props\<close> compares them with the models of these functions on values.
\<close>

section \<open>A rule for a node (clusterflowconfig\_controller.go)\<close>

text \<open>The pattern is that of a deep copy, the attributes are the rule's own. The actions are set later.\<close>

definition newRule :: "'x flow_lib \<Rightarrow> ptr \<Rightarrow> ('x flow_mem, var_FlowRules) go" where
  "newRule L rule =
     gbind (ClusterFlowRule_DeepCopy L rule) (\<lambda>c.
     case (c, rule) of
       (Some q, Some p) \<Rightarrow>
         gbind (load ClusterFlowRule_cell q) (\<lambda>copied.
         gbind (load ClusterFlowRule_cell p) (\<lambda>r.
         ret \<lparr>fru_PortId = automaticPortId, fru_Attr = cru_Attr r, fru_Pattern = cru_Pattern copied, fru_Action = None\<rparr>))
     | _ \<Rightarrow> lift (Panic ''nil pointer dereference''))"

section \<open>A configuration for a node (ethernetclusterconfig\_controller.go)\<close>

text \<open>The argument is passed by value, in a variable of the closure.\<close>

definition copyWithEmptySpec :: "'x eth_lib \<Rightarrow> 'x var_EthernetNodeConfig \<Rightarrow> ('x eth_mem, addr) go" where
  "copyWithEmptySpec L nc =
     gbind (new_cell EthernetNodeConfig_cell nc) (\<lambda>p.
     gbind (EthernetNodeConfig_DeepCopy L (Some p)) (\<lambda>newNC.
     case newNC of
       Some q \<Rightarrow>
         gbind (load EthernetNodeConfig_cell q) (\<lambda>v.
         gbind (store EthernetNodeConfig_cell q (v\<lparr>obj_Spec := \<lparr>ens_Config = None, ens_DrainSkip = False\<rparr>\<rparr>)) (\<lambda>_. ret q))
     | None \<Rightarrow> lift (Panic ''nil pointer dereference'')))"

definition zero_DeviceNodeConfig :: DeviceNodeConfig where
  "zero_DeviceNodeConfig = \<lparr>dnc_PCIAddress = [], dnc_DeviceConfig = empty_DeviceConfig\<rparr>"

text \<open>The body of the loop over the chosen configurations.\<close>

definition add_device ::
    "(nat \<Rightarrow> nat) \<Rightarrow> (string \<rightharpoonup> EthernetClusterConfig) \<Rightarrow> bool \<Rightarrow> addr \<Rightarrow> string \<Rightarrow> ('x eth_mem, unit) go" where
  "add_device spare deviceConfigContext drainSkip newNodeConfig pciAddress =
     (case deviceConfigContext pciAddress of
        None \<Rightarrow> ret ()
      | Some cc \<Rightarrow>
          gbind (load EthernetNodeConfig_cell newNodeConfig) (\<lambda>v.
          gbind (go_append spare zero_DeviceNodeConfig DeviceNodeConfigs_cell (ens_Config (obj_Spec v))
              \<lparr>dnc_PCIAddress = pciAddress, dnc_DeviceConfig = ecc_DeviceConfig (ecc_Spec cc)\<rparr>) (\<lambda>config.
          store EthernetNodeConfig_cell newNodeConfig
            (v\<lparr>obj_Spec := \<lparr>ens_Config = config, ens_DrainSkip = ens_DrainSkip (obj_Spec v) \<or> drainSkip\<rparr>\<rparr>))))"

definition newNodeConfig ::
    "(nat \<Rightarrow> nat) \<Rightarrow> (string set \<Rightarrow> string list) \<Rightarrow> 'x eth_lib \<Rightarrow> 'x var_EthernetNodeConfig \<Rightarrow>
     (string \<rightharpoonup> EthernetClusterConfig) \<Rightarrow> bool \<Rightarrow> ('x eth_mem, addr) go" where
  "newNodeConfig spare ro L currentNodeConfig deviceConfigContext drainSkip =
     gbind (copyWithEmptySpec L currentNodeConfig) (\<lambda>q.
     gbind (gfor (add_device spare deviceConfigContext drainSkip q) (ro (dom deviceConfigContext))) (\<lambda>_. ret q))"

end
