(* ===== verification/Deep_Copy_Props.thy ===== *)
theory Deep_Copy_Props
  imports Shared_Objects Go_Order
begin

text \<open>
  Properties of the deep copies: a copy shares nothing with its original, and what the controllers build from copies
  is what the models on values say, without an effect on the objects they started from.
\<close>

section \<open>Lists of node flow configurations\<close>

abbreviation NodeFlowConfigList_rep where
  "NodeFlowConfigList_rep X \<equiv> object_list_rep X (slice_rep NodeFlowConfigs_cell (NodeFlowConfig_rep X))"

text \<open>
  \<^bold>\<open>C26.\<close> \<^verbatim>\<open>DeepCopyObject\<close> of a list of node flow configurations, down to the bytes of its patterns: a nil pointer gives
  a nil interface; otherwise the result is a pointer to a list with the same value, it rests on new cells only, all
  cells there were before are unchanged, and so whatever is written outside the cells of the copy leaves the copy as it
  is, and whatever is written outside the cells of the original leaves the original.
\<close>

theorem NodeFlowConfigList_DeepCopyObject_separate:
  assumes lib: "metav1_spec X L" and ok: "mem_ok h"
    and rep: "ptr_rep NodeFlowConfigList_cell (NodeFlowConfigList_rep X) h F p a"
  shows "if p = None then NodeFlowConfigList_DeepCopyObject L p h = (Ok None, h)
    else \<exists>q h' G. NodeFlowConfigList_DeepCopyObject L p h = (Ok (Some (RuntimeObject ''NodeFlowConfigList'' q)), h') \<and>
      F \<inter> G = {} \<and> grows h h' \<and>
      (\<forall>h2. agree G h' h2 \<longrightarrow> ptr_rep NodeFlowConfigList_cell (NodeFlowConfigList_rep X) h2 G (Some q) a) \<and>
      (\<forall>h2. agree F h' h2 \<longrightarrow> ptr_rep NodeFlowConfigList_cell (NodeFlowConfigList_rep X) h2 F p a)"
  unfolding NodeFlowConfigList_DeepCopyObject_def NodeFlowConfigList_DeepCopy_def
  by (rule deep_copy.object_separate [OF flow_list_copies(1) [OF lib] flow_kinds(10) ok rep])

text \<open>
  A library whose types hold no references, and a memory with a list of one node configuration: its pattern has an item
  with a specification and a nil pointer, and its rule and a cluster's rule (at 6) use the same attributes and pattern.
\<close>

definition sample_lib :: "('c, string) metav1" where
  "sample_lib = \<lparr>RawExtension_DeepCopyInto = ret, LabelSelector_DeepCopyInto = ret, ObjectMeta_DeepCopyInto = ret,
     ListMeta_DeepCopyInto = ret, Condition_DeepCopyInto = ret\<rparr>"

lemma sample_lib_ok: "metav1_spec flat sample_lib"
  by (simp add: metav1_spec_def sample_lib_def deep_copy_flat)

definition shared_attr :: FlowAttr where
  "shared_attr = \<lparr>Group = 0, Priority = 1, Ingress = 1, Egress = 0, Transfer = 0, Reserved = 0\<rparr>"

definition sample_cluster_rule :: var_ClusterFlowRule where
  "sample_cluster_rule = \<lparr>cru_Attr = Some 3, cru_Pattern = Some \<lparr>sl_array = 2, sl_off = 0, sl_len = 2\<rparr>, cru_Action = None\<rparr>"

definition sample_flow_mem :: "string flow_mem" where
  "sample_flow_mem =
     \<lparr>cells = [0 \<mapsto> C_RawExtension ''{}'',
        1 \<mapsto> C_FlowItem \<lparr>fi_Type = ''RTE_FLOW_ITEM_TYPE_ETH'', fi_Spec = Some 0, fi_Last = None, fi_Mask = None\<rparr>,
        2 \<mapsto> C_Pointers [Some 1, None],
        3 \<mapsto> C_FlowAttr shared_attr,
        4 \<mapsto> C_FlowRules \<lparr>fru_PortId = 7, fru_Attr = Some 3, fru_Pattern = Some \<lparr>sl_array = 2, sl_off = 0, sl_len = 2\<rparr>,
               fru_Action = None\<rparr>,
        5 \<mapsto> C_Pointers [Some 4],
        6 \<mapsto> C_ClusterFlowRule sample_cluster_rule,
        7 \<mapsto> C_NodeFlowConfigs [\<lparr>obj_TypeMeta = \<lparr>Kind = ''NodeFlowConfig'', APIVersion = ''v1''\<rparr>, obj_ObjectMeta = ''node1'',
               obj_Spec = \<lparr>nfs_Rules = Some \<lparr>sl_array = 5, sl_off = 0, sl_len = 1\<rparr>\<rparr>,
               obj_Status = \<lparr>nft_PortInfo = None, nft_Rules = None, nft_SyncStatus = [], nft_SyncMsg = []\<rparr>\<rparr>],
        8 \<mapsto> C_NodeFlowConfigList \<lparr>list_TypeMeta = \<lparr>Kind = ''NodeFlowConfigList'', APIVersion = ''v1''\<rparr>, list_ListMeta = [],
               list_Items = Some \<lparr>sl_array = 7, sl_off = 0, sl_len = 1\<rparr>\<rparr>],
      free_addr = 9\<rparr>"

definition shared_pattern :: "string option go_FlowItem option list option" where
  "shared_pattern =
     Some [Some \<lparr>fi_Type = ''RTE_FLOW_ITEM_TYPE_ETH'', fi_Spec = Some ''{}'', fi_Last = None, fi_Mask = None\<rparr>, None]"

definition sample_config_list :: "(string, string val_NodeFlowConfig list option) go_list" where
  "sample_config_list =
     \<lparr>list_TypeMeta = \<lparr>Kind = ''NodeFlowConfigList'', APIVersion = ''v1''\<rparr>, list_ListMeta = [],
      list_Items = Some [\<lparr>obj_TypeMeta = \<lparr>Kind = ''NodeFlowConfig'', APIVersion = ''v1''\<rparr>, obj_ObjectMeta = ''node1'',
         obj_Spec = \<lparr>nfs_Rules = Some [Some \<lparr>fru_PortId = 7, fru_Attr = Some shared_attr, fru_Pattern = shared_pattern,
           fru_Action = None\<rparr>]\<rparr>,
         obj_Status = \<lparr>nft_PortInfo = None, nft_Rules = None, nft_SyncStatus = [], nft_SyncMsg = []\<rparr>\<rparr>]\<rparr>"

lemma sample_flow_mem_ok: "mem_ok sample_flow_mem"
  by (simp add: mem_ok_def sample_flow_mem_def)

lemma sample_at:
  "at RawExtension_cell sample_flow_mem 0 = Some ''{}''"
  "at FlowItem_cell sample_flow_mem 1 = Some \<lparr>fi_Type = ''RTE_FLOW_ITEM_TYPE_ETH'', fi_Spec = Some 0, fi_Last = None, fi_Mask = None\<rparr>"
  "at Pointers_cell sample_flow_mem 2 = Some [Some 1, None]"
  "at FlowAttr_cell sample_flow_mem 3 = Some shared_attr"
  "at ClusterFlowRule_cell sample_flow_mem 6 = Some sample_cluster_rule"
  by (simp_all add: at_def sample_flow_mem_def RawExtension_cell_def FlowItem_cell_def Pointers_cell_def FlowAttr_cell_def
      ClusterFlowRule_cell_def)

lemma shared_rep:
  "ptr_rep FlowAttr_cell flat sample_flow_mem {3} (Some 3) (Some shared_attr)"
  "pointers_rep FlowItem_cell (FlowItem_rep flat) sample_flow_mem {2, 1, 0} (Some \<lparr>sl_array = 2, sl_off = 0, sl_len = 2\<rparr>) shared_pattern"
proof -
  show "ptr_rep FlowAttr_cell flat sample_flow_mem {3} (Some 3) (Some shared_attr)"
    by (rule ptr_repI [OF sample_at(4)]) (auto simp: flat_def)
  have raw: "ptr_rep RawExtension_cell flat sample_flow_mem {0} (Some 0) (Some ''{}'')"
    by (rule ptr_repI [OF sample_at(1)]) (auto simp: flat_def)
  have item: "ptr_rep FlowItem_cell (FlowItem_rep flat) sample_flow_mem {1, 0} (Some 1)
      (Some \<lparr>fi_Type = ''RTE_FLOW_ITEM_TYPE_ETH'', fi_Spec = Some ''{}'', fi_Last = None, fi_Mask = None\<rparr>)"
  proof (rule ptr_repI [OF sample_at(2), where G = "{0}"])
    show "FlowItem_rep flat sample_flow_mem {0} \<lparr>fi_Type = ''RTE_FLOW_ITEM_TYPE_ETH'', fi_Spec = Some 0, fi_Last = None, fi_Mask = None\<rparr>
        \<lparr>fi_Type = ''RTE_FLOW_ITEM_TYPE_ETH'', fi_Spec = Some ''{}'', fi_Last = None, fi_Mask = None\<rparr>"
      unfolding FlowItem_rep_def go_FlowItem.simps
      by (intro conjI refl, rule pair_repI [where G = "{0}" and H = "{}"], rule raw,
          rule pair_repI [where G = "{}" and H = "{}"]) simp_all
  qed simp
  show "pointers_rep FlowItem_cell (FlowItem_rep flat) sample_flow_mem {2, 1, 0} (Some \<lparr>sl_array = 2, sl_off = 0, sl_len = 2\<rparr>) shared_pattern"
    unfolding shared_pattern_def
    by (rule slice_repI [OF sample_at(3)]) (use item in \<open>auto simp: list_rep_Cons ptr_rep_def [of _ _ _ _ None]\<close>)
qed

lemma sample_list_rep:
  "ptr_rep NodeFlowConfigList_cell (NodeFlowConfigList_rep flat) sample_flow_mem {8, 7, 5, 4, 3, 2, 1, 0} (Some 8) (Some sample_config_list)"
proof -
  let ?h = sample_flow_mem
  have "FlowRules_rep flat ?h {3, 2, 1, 0}
      \<lparr>fru_PortId = 7, fru_Attr = Some 3, fru_Pattern = Some \<lparr>sl_array = 2, sl_off = 0, sl_len = 2\<rparr>, fru_Action = None\<rparr>
      \<lparr>fru_PortId = 7, fru_Attr = Some shared_attr, fru_Pattern = shared_pattern, fru_Action = None\<rparr>"
    unfolding FlowRules_rep_def go_FlowRules.simps
    by (intro conjI refl, rule pair_repI [where G = "{3}" and H = "{2, 1, 0}"], rule shared_rep(1),
        rule pair_repI [where G = "{2, 1, 0}" and H = "{}"], rule shared_rep(2)) auto
  then have "ptr_rep FlowRules_cell (FlowRules_rep flat) ?h {4, 3, 2, 1, 0} (Some 4)
      (Some \<lparr>fru_PortId = 7, fru_Attr = Some shared_attr, fru_Pattern = shared_pattern, fru_Action = None\<rparr>)"
    by (rule ptr_repI [rotated]) (simp_all add: at_def sample_flow_mem_def FlowRules_cell_def)
  then have "pointers_rep FlowRules_cell (FlowRules_rep flat) ?h {5, 4, 3, 2, 1, 0} (Some \<lparr>sl_array = 5, sl_off = 0, sl_len = 1\<rparr>)
      (Some [Some \<lparr>fru_PortId = 7, fru_Attr = Some shared_attr, fru_Pattern = shared_pattern, fru_Action = None\<rparr>])"
    by (intro slice_repI [OF _ _ list_repI]) (simp_all add: at_def sample_flow_mem_def Pointers_cell_def)
  note rules = this
  have "NodeFlowConfig_rep flat ?h {5, 4, 3, 2, 1, 0}
      \<lparr>obj_TypeMeta = \<lparr>Kind = ''NodeFlowConfig'', APIVersion = ''v1''\<rparr>, obj_ObjectMeta = ''node1'',
        obj_Spec = \<lparr>nfs_Rules = Some \<lparr>sl_array = 5, sl_off = 0, sl_len = 1\<rparr>\<rparr>,
        obj_Status = \<lparr>nft_PortInfo = None, nft_Rules = None, nft_SyncStatus = [], nft_SyncMsg = []\<rparr>\<rparr>
      (hd (the (list_Items sample_config_list)))"
    unfolding object_rep_def sample_config_list_def go_object.simps go_list.simps option.sel list.sel
    by (intro conjI refl, rule pair_repI [where G = "{}" and H = "{5, 4, 3, 2, 1, 0}"], simp add: flat_def,
        rule pair_repI [where G = "{5, 4, 3, 2, 1, 0}" and H = "{}"])
      (use rules in \<open>auto simp: NodeFlowConfigSpec_rep_def NodeFlowConfigStatus_rep_def pair_rep_def\<close>)
  then have "slice_rep NodeFlowConfigs_cell (NodeFlowConfig_rep flat) ?h {7, 5, 4, 3, 2, 1, 0}
      (Some \<lparr>sl_array = 7, sl_off = 0, sl_len = 1\<rparr>) (list_Items sample_config_list)"
    unfolding sample_config_list_def go_list.simps option.sel list.sel
    by (rule slice_repI [rotated 2, OF list_repI]) (simp_all add: at_def sample_flow_mem_def NodeFlowConfigs_cell_def)
  then have "NodeFlowConfigList_rep flat ?h {7, 5, 4, 3, 2, 1, 0}
      \<lparr>list_TypeMeta = \<lparr>Kind = ''NodeFlowConfigList'', APIVersion = ''v1''\<rparr>, list_ListMeta = [],
        list_Items = Some \<lparr>sl_array = 7, sl_off = 0, sl_len = 1\<rparr>\<rparr> sample_config_list"
    unfolding object_list_rep_def go_list.simps
    by (intro conjI, intro pair_repI [where G = "{}" and H = "{7, 5, 4, 3, 2, 1, 0}"])
      (simp_all add: flat_def sample_config_list_def)
  then show ?thesis
    by (rule ptr_repI [rotated]) (simp_all add: at_def sample_flow_mem_def NodeFlowConfigList_cell_def)
qed

text \<open>The copy stays the same when the bytes of the original's pattern are overwritten.\<close>

theorem NodeFlowConfigList_DeepCopyObject_separate_witness:
  "\<exists>q h' G. NodeFlowConfigList_DeepCopyObject sample_lib (Some 8) sample_flow_mem = (Ok (Some (RuntimeObject ''NodeFlowConfigList'' q)), h') \<and>
     ptr_rep NodeFlowConfigList_cell (NodeFlowConfigList_rep flat) (h'\<lparr>cells := (cells h')(0 \<mapsto> C_RawExtension ''x'')\<rparr>) G (Some q)
       (Some sample_config_list)"
proof -
  obtain q h' G where c: "NodeFlowConfigList_DeepCopyObject sample_lib (Some 8) sample_flow_mem = (Ok (Some (RuntimeObject ''NodeFlowConfigList'' q)), h')"
      "{8, 7, 5, 4, 3, 2, 1, 0} \<inter> G = {}"
      "\<forall>h2. agree G h' h2 \<longrightarrow> ptr_rep NodeFlowConfigList_cell (NodeFlowConfigList_rep flat) h2 G (Some q) (Some sample_config_list)"
    using NodeFlowConfigList_DeepCopyObject_separate [OF sample_lib_ok sample_flow_mem_ok sample_list_rep] by auto
  have "agree G h' (h'\<lparr>cells := (cells h')(0 \<mapsto> C_RawExtension ''x'')\<rparr>)"
    using c(2) by (auto simp: agree_def)
  with c(1,3) show ?thesis by blast
qed

section \<open>The rule a cluster configuration gives to a node\<close>

text \<open>
  \<^bold>\<open>C28.\<close> The rule that \<^verbatim>\<open>updateNodeFlowConfigSpec\<close> starts from has the attributes and the pattern of the cluster's
  rule, no actions and the reserved port. It shares exactly the variable of the attributes with the cluster's rule:
  writing the pattern of the new rule leaves the cluster's rule as it is, writing its attributes does not.
\<close>

theorem newRule_shares_attributes:
  assumes lib: "metav1_spec X L" and ok: "mem_ok h" and at: "at ClusterFlowRule_cell h p = Some v"
    and rep: "ClusterFlowRule_rep X h F v a"
  shows "\<exists>r h' G. newRule L (Some p) h = (Ok r, h') \<and> grows h h' \<and>
    FlowRules_rep X h' G r \<lparr>fru_PortId = automaticPortId, fru_Attr = cru_Attr a, fru_Pattern = cru_Pattern a, fru_Action = None\<rparr> \<and>
    insert p F \<inter> G = set_option (cru_Attr v) \<and> fru_Attr r = cru_Attr v"
proof -
  note dc = ClusterFlowRule_copies [OF lib]
  obtain q v' h' G where c: "ClusterFlowRule_DeepCopy L (Some p) h = (Ok (Some q), h')" "grows h h'"
      "at ClusterFlowRule_cell h' q = Some v'" "ClusterFlowRule_rep X h' G v' a" "insert q G \<subseteq> {free_addr h..}"
    using deep_copy.copied_ptr [OF dc flow_kinds(14) ok at rep] unfolding ClusterFlowRule_DeepCopy_def by auto
  have p: "p < free_addr h" and F: "F \<subseteq> {..<free_addr h}"
    using at_allocated [OF ok at] deep_copy.allocated [OF dc ok rep] by simp_all
  have at': "at ClusterFlowRule_cell h' p = Some v"
    using at at_agree [OF grows_agree [OF c(2), of "{p}"], of p ClusterFlowRule_cell] p by simp
  let ?r = "\<lparr>fru_PortId = automaticPortId, fru_Attr = cru_Attr v, fru_Pattern = cru_Pattern v', fru_Action = None\<rparr>"
  let ?A = "set_option (cru_Attr v)"
  have run: "newRule L (Some p) h = (Ok ?r, h')"
    using c(1) load_at [OF c(3)] load_at [OF at'] by (simp add: newRule_def gbind_def ret_def)
  obtain P where P: "pointers_rep FlowItem_cell (FlowItem_rep X) h' P (cru_Pattern v') (cru_Pattern a)" "P \<subseteq> G"
    using c(4) by (auto simp: ClusterFlowRule_rep_def pair_rep_def)
  have A: "ptr_rep FlowAttr_cell flat h ?A (cru_Attr v) (cru_Attr a)" "?A \<subseteq> F"
    using rep by (auto simp: ClusterFlowRule_rep_def pair_rep_def ptr_rep_def flat_def split: option.splits)
  have "ptr_rep FlowAttr_cell flat h' ?A (cru_Attr v) (cru_Attr a)"
    by (rule deep_copy.grown [OF deep_copy_ptr [OF flow_kinds(3) deep_copy_flat] ok A(1) c(2)])
  then have "FlowRules_rep X h' (?A \<union> P) ?r
      \<lparr>fru_PortId = automaticPortId, fru_Attr = cru_Attr a, fru_Pattern = cru_Pattern a, fru_Action = None\<rparr>"
    using P(1) by (auto simp: FlowRules_rep_def pair_rep_def slice_rep_def [of _ _ _ _ None])
  moreover have "insert p F \<inter> P = {}"
    by (rule old_new) (use F p P(2) c(5) in auto)
  then have "insert p F \<inter> (?A \<union> P) = ?A"
    using A(2) by blast
  ultimately show ?thesis
    using run c(2) by (intro exI [of _ ?r] exI [of _ h'] exI [of _ "?A \<union> P"]) simp
qed

definition sample_rule_value :: "string val_ClusterFlowRule" where
  "sample_rule_value = \<lparr>cru_Attr = Some shared_attr, cru_Pattern = shared_pattern, cru_Action = None\<rparr>"

lemma sample_rule_rep: "ClusterFlowRule_rep flat sample_flow_mem {3, 2, 1, 0} sample_cluster_rule sample_rule_value"
  unfolding ClusterFlowRule_rep_def sample_cluster_rule_def sample_rule_value_def go_ClusterFlowRule.simps
  by (rule pair_repI [where G = "{3}" and H = "{2, 1, 0}"], rule shared_rep(1),
      rule pair_repI [where G = "{2, 1, 0}" and H = "{}"], rule shared_rep(2)) auto

text \<open>The new rule uses the cluster's attributes (at 3), but not the bytes of its pattern (at 0).\<close>

theorem newRule_shares_attributes_witness:
  "\<exists>r h' G. newRule sample_lib (Some 6) sample_flow_mem = (Ok r, h') \<and> fru_Attr r = Some 3 \<and>
     FlowRules_rep flat h' G r \<lparr>fru_PortId = automaticPortId, fru_Attr = cru_Attr sample_rule_value,
       fru_Pattern = cru_Pattern sample_rule_value, fru_Action = None\<rparr> \<and> 0 \<notin> G \<and> 3 \<in> G"
proof -
  obtain r h' G where r: "newRule sample_lib (Some 6) sample_flow_mem = (Ok r, h')" "fru_Attr r = cru_Attr sample_cluster_rule"
      "FlowRules_rep flat h' G r \<lparr>fru_PortId = automaticPortId, fru_Attr = cru_Attr sample_rule_value,
        fru_Pattern = cru_Pattern sample_rule_value, fru_Action = None\<rparr>"
      and G: "insert 6 {3, 2, 1, 0} \<inter> G = set_option (cru_Attr sample_cluster_rule)"
    using newRule_shares_attributes [OF sample_lib_ok sample_flow_mem_ok sample_at(5) sample_rule_rep] by blast
  have attr: "cru_Attr sample_cluster_rule = Some 3"
    by (simp add: sample_cluster_rule_def)
  have "3 \<in> insert 6 {3, 2, 1, 0} \<inter> G"
    unfolding G attr by simp
  then have "3 \<in> G" by (rule IntD2)
  moreover have "0 \<notin> G"
  proof
    assume "0 \<in> G"
    then have "0 \<in> insert 6 {3, 2, 1, 0} \<inter> G" by simp
    then show False unfolding G attr by simp
  qed
  ultimately show ?thesis
    using r(1,3) r(2) [unfolded attr] by blast
qed

section \<open>The configuration the manager builds for a node\<close>

text \<open>A specification of the model on values as a value of the specification's Go type: an empty list is nil here.\<close>

definition go_spec :: "EthernetNodeConfigSpec \<Rightarrow> val_EthernetNodeConfigSpec" where
  "go_spec sp = \<lparr>ens_Config = (if enc_Config sp = [] then None else Some (enc_Config sp)), ens_DrainSkip = DrainSkip sp\<rparr>"

text \<open>
  \<open>building X h0 q a sp h\<close>: at \<open>q\<close> is a configuration with the metadata and status of \<open>a\<close> and the specification \<open>sp\<close>,
  on cells that are new since \<open>h0\<close>, those of the specification apart from the others.
\<close>

definition building ::
    "('x, 'x, 'y) eth_rep \<Rightarrow> 'x eth_mem \<Rightarrow> addr \<Rightarrow> 'y val_EthernetNodeConfig \<Rightarrow> EthernetNodeConfigSpec \<Rightarrow> 'x eth_mem \<Rightarrow> bool" where
  "building X h0 q a sp h \<longleftrightarrow> mem_ok h \<and> free_addr h0 \<le> free_addr h \<and> (\<forall>y < free_addr h0. cells h y = cells h0 y) \<and>
     (\<exists>w M S T. at EthernetNodeConfig_cell h q = Some w \<and> obj_TypeMeta w = obj_TypeMeta a \<and>
        X h M (obj_ObjectMeta w) (obj_ObjectMeta a) \<and> EthernetNodeConfigSpec_rep h S (obj_Spec w) (go_spec sp) \<and>
        EthernetNodeConfigStatus_rep X h T (obj_Status w) (obj_Status a) \<and>
        insert q (M \<union> S \<union> T) \<subseteq> {free_addr h0..} \<and> q \<notin> M \<union> S \<union> T \<and> S \<inter> (M \<union> T) = {})"

lemma building_value:
  assumes "building X h0 q a sp h"
  shows "\<exists>G. ptr_rep EthernetNodeConfig_cell (EthernetNodeConfig_rep X) h G (Some q) (Some (a\<lparr>obj_Spec := go_spec sp\<rparr>)) \<and>
    G \<subseteq> {free_addr h0..}"
proof -
  from assms obtain w M S T where "at EthernetNodeConfig_cell h q = Some w" "obj_TypeMeta w = obj_TypeMeta a"
      "X h M (obj_ObjectMeta w) (obj_ObjectMeta a)" "EthernetNodeConfigSpec_rep h S (obj_Spec w) (go_spec sp)"
      "EthernetNodeConfigStatus_rep X h T (obj_Status w) (obj_Status a)" "insert q (M \<union> S \<union> T) \<subseteq> {free_addr h0..}"
    by (auto simp: building_def)
  then have "EthernetNodeConfig_rep X h (M \<union> (S \<union> T)) w (a\<lparr>obj_Spec := go_spec sp\<rparr>)"
    by (simp add: object_rep_def) (intro pair_repI; (assumption | rule refl))
  with \<open>at EthernetNodeConfig_cell h q = Some w\<close> \<open>insert q (M \<union> S \<union> T) \<subseteq> {free_addr h0..}\<close> show ?thesis
    by (intro exI [of _ "insert q (M \<union> (S \<union> T))"]) (auto simp: ptr_rep_def)
qed

text \<open>The step of the loop, on values.\<close>

definition add_value :: "(string \<rightharpoonup> EthernetClusterConfig) \<Rightarrow> bool \<Rightarrow> string \<Rightarrow> EthernetNodeConfigSpec \<Rightarrow> EthernetNodeConfigSpec" where
  "add_value ctx drainSkip pciAddress spec =
     (case ctx pciAddress of
        None \<Rightarrow> spec
      | Some cc \<Rightarrow>
          spec\<lparr>enc_Config := enc_Config spec @ [\<lparr>dnc_PCIAddress = pciAddress, dnc_DeviceConfig = ecc_DeviceConfig (ecc_Spec cc)\<rparr>],
               DrainSkip := DrainSkip spec \<or> drainSkip\<rparr>)"

lemma newSpec_fold: "newSpec ro ctx drainSkip = fold (add_value ctx drainSkip) (ro (dom ctx)) \<lparr>enc_Config = [], DrainSkip = False\<rparr>"
  unfolding newSpec_def by (rule arg_cong [where f = "\<lambda>f. fold f _ _"]) (simp add: fun_eq_iff add_value_def)

lemma add_device_step:
  assumes lib: "metav1_spec X L" and b: "building X h0 q a sp h"
  shows "\<exists>h'. add_device spare ctx drainSkip q pci h = (Ok (), h') \<and> building X h0 q a (add_value ctx drainSkip pci sp) h'"
proof (cases "ctx pci")
  case None
  with b show ?thesis by (simp add: add_device_def add_value_def)
next
  case (Some cc)
  let ?x = "\<lparr>dnc_PCIAddress = pci, dnc_DeviceConfig = ecc_DeviceConfig (ecc_Spec cc)\<rparr>"
  note X = metav1_specD(3) [OF lib] and Y = EthernetNodeConfigStatus_copies [OF lib]
  from b obtain w M S T where ok: "mem_ok h" "free_addr h0 \<le> free_addr h" "\<forall>y < free_addr h0. cells h y = cells h0 y"
      and w: "at EthernetNodeConfig_cell h q = Some w" "obj_TypeMeta w = obj_TypeMeta a"
      and M: "X h M (obj_ObjectMeta w) (obj_ObjectMeta a)"
      and S: "slice_rep DeviceNodeConfigs_cell flat h S (ens_Config (obj_Spec w)) (ens_Config (go_spec sp))"
        "ens_DrainSkip (obj_Spec w) = DrainSkip sp"
      and T: "EthernetNodeConfigStatus_rep X h T (obj_Status w) (obj_Status a)"
      and F: "insert q (M \<union> S \<union> T) \<subseteq> {free_addr h0..}" "q \<notin> M \<union> S \<union> T" "S \<inter> (M \<union> T) = {}"
    by (auto simp: building_def EthernetNodeConfigSpec_rep_def go_spec_def)
  have q: "q < free_addr h" and MT: "M \<union> T \<subseteq> {..<free_addr h}"
    using at_allocated [OF ok(1) w(1)] deep_copy.allocated [OF X ok(1) M] deep_copy.allocated [OF Y ok(1) T] by auto
  obtain s' h1 S' where app: "go_append spare zero_DeviceNodeConfig DeviceNodeConfigs_cell (ens_Config (obj_Spec w)) ?x h = (Ok s', h1)"
      and h1: "mem_ok h1" "free_addr h \<le> free_addr h1" "\<forall>y < free_addr h. y \<notin> S \<longrightarrow> cells h1 y = cells h y"
      and S': "S' \<subseteq> S \<union> {free_addr h..}"
        "slice_rep DeviceNodeConfigs_cell flat h1 S' s' (Some ((case ens_Config (go_spec sp) of None \<Rightarrow> [] | Some xs \<Rightarrow> xs) @ [?x]))"
    using append_rep [OF eth_kinds(16) ok(1) S(1)] by blast
  let ?s = "\<lparr>ens_Config = s', ens_DrainSkip = ens_DrainSkip (obj_Spec w) \<or> drainSkip\<rparr>"
  obtain h2 where st: "store EthernetNodeConfig_cell q (w\<lparr>obj_Spec := ?s\<rparr>) h1 = (Ok (), h2)" and h2: "mem_ok h2"
      "free_addr h2 = free_addr h1" "at EthernetNodeConfig_cell h2 q = Some (w\<lparr>obj_Spec := ?s\<rparr>)"
      "\<forall>y. y \<noteq> q \<longrightarrow> cells h2 y = cells h1 y"
    using store_run [OF eth_kinds(13) h1(1), of q] q h1(2) by (meson less_le_trans)
  have run: "add_device spare ctx drainSkip q pci h = (Ok (), h2)"
    using Some load_at [OF w(1)] app st by (simp add: add_device_def gbind_def)
  have q': "q \<notin> S'"
    using S'(1) F(2) q by auto
  have "agree (M \<union> T) h h2"
    unfolding agree_def
  proof
    fix x assume x: "x \<in> M \<union> T"
    then have "x \<noteq> q" "x \<notin> S" "x < free_addr h"
      using MT F(2,3) by auto
    with h1(3) h2(4) show "cells h2 x = cells h x" by simp
  qed
  then have M2: "X h2 M (obj_ObjectMeta w) (obj_ObjectMeta a)" and T2: "EthernetNodeConfigStatus_rep X h2 T (obj_Status w) (obj_Status a)"
    using deep_copy.frame [OF X M] deep_copy.frame [OF Y T] by (simp_all add: agree_Un)
  have "agree S' h1 h2"
    using h2(4) q' by (auto simp: agree_def)
  then have "slice_rep DeviceNodeConfigs_cell flat h2 S' s' (Some ((case ens_Config (go_spec sp) of None \<Rightarrow> [] | Some xs \<Rightarrow> xs) @ [?x]))"
    by (rule deep_copy.frame [OF deep_copy_slice [OF eth_kinds(16) deep_copy_flat] S'(2)])
  then have S2: "EthernetNodeConfigSpec_rep h2 S' ?s (go_spec (add_value ctx drainSkip pci sp))"
    using S(2) Some by (auto simp: EthernetNodeConfigSpec_rep_def go_spec_def add_value_def split: if_splits)
  have F2: "insert q (M \<union> S' \<union> T) \<subseteq> {free_addr h0..}" "q \<notin> M \<union> S' \<union> T"
    using F S'(1) q' ok(2) by (auto dest: subsetD)
  have "(M \<union> T) \<inter> {free_addr h..} = {}"
    by (rule old_new [OF MT order_refl])
  with F(3) S'(1) have D2: "S' \<inter> (M \<union> T) = {}" by blast
  have old: "\<forall>y < free_addr h0. cells h2 y = cells h0 y"
    using ok(2,3) h1(3) h2(4) F(1) by (metis (no_types) UnCI atLeast_iff insert_subset leD less_le_trans subsetD)
  have "building X h0 q a (add_value ctx drainSkip pci sp) h2"
    unfolding building_def
    using h2(1,2,3) h1(2) ok(2) old w(2) M2 S2 T2 F2 D2
    by (intro conjI exI [of _ "w\<lparr>obj_Spec := ?s\<rparr>"] exI [of _ M] exI [of _ S'] exI [of _ T]) simp_all
  with run show ?thesis by blast
qed

lemma add_devices:
  assumes lib: "metav1_spec X L"
  shows "building X h0 q a sp h \<Longrightarrow>
    \<exists>h'. gfor (add_device spare ctx drainSkip q) ks h = (Ok (), h') \<and> building X h0 q a (fold (add_value ctx drainSkip) ks sp) h'"
proof (induction ks arbitrary: sp h)
  case (Cons k ks)
  from add_device_step [OF lib Cons.prems] obtain h1 where
      "add_device spare ctx drainSkip q k h = (Ok (), h1)" "building X h0 q a (add_value ctx drainSkip k sp) h1"
    by blast
  with Cons.IH [OF this(2)] show ?case
    by (auto simp: gbind_def)
qed (simp add: ret_def)

lemma copyWithEmptySpec_building:
  assumes lib: "metav1_spec X L" and ok: "mem_ok h" and rep: "EthernetNodeConfig_rep X h F v a"
  shows "\<exists>q h'. copyWithEmptySpec L v h = (Ok q, h') \<and> building X h q a \<lparr>enc_Config = [], DrainSkip = False\<rparr> h'"
proof -
  note dc = EthernetNodeConfig_copies [OF lib]
  obtain p h1 where n: "new_cell EthernetNodeConfig_cell v h = (Ok p, h1)"
    by (simp add: new_cell_def)
  note g = grows_new [OF ok n]
  obtain q v' h2 G where c: "EthernetNodeConfig_DeepCopy L (Some p) h1 = (Ok (Some q), h2)" "grows h1 h2"
      "at EthernetNodeConfig_cell h2 q = Some v'" "EthernetNodeConfig_rep X h2 G v' a" "insert q G \<subseteq> {free_addr h1..}" "q \<notin> G"
    using deep_copy.copied_ptr [OF dc eth_kinds(13) grows_ok [OF g] at_new [OF eth_kinds(13) n] deep_copy.grown [OF dc ok rep g]]
    unfolding EthernetNodeConfig_DeepCopy_def by auto
  note gg = grows_trans [OF g c(2)]
  let ?e = "\<lparr>ens_Config = None, ens_DrainSkip = False\<rparr>"
  obtain h3 where st: "store EthernetNodeConfig_cell q (v'\<lparr>obj_Spec := ?e\<rparr>) h2 = (Ok (), h3)" and h3: "mem_ok h3"
      "free_addr h3 = free_addr h2" "at EthernetNodeConfig_cell h3 q = Some (v'\<lparr>obj_Spec := ?e\<rparr>)"
      "\<forall>y. y \<noteq> q \<longrightarrow> cells h3 y = cells h2 y"
    using store_run [OF eth_kinds(13) grows_ok [OF c(2)] at_allocated [OF grows_ok [OF c(2)] c(3)]] by blast
  have run: "copyWithEmptySpec L v h = (Ok q, h3)"
    using n c(1) load_at [OF c(3)] st by (simp add: copyWithEmptySpec_def gbind_def ret_def)
  obtain M T where MT: "X h2 M (obj_ObjectMeta v') (obj_ObjectMeta a)"
      "EthernetNodeConfigStatus_rep X h2 T (obj_Status v') (obj_Status a)" "M \<union> T \<subseteq> G" "obj_TypeMeta v' = obj_TypeMeta a"
    using c(4) by (auto simp: object_rep_def pair_rep_def)
  have "agree (M \<union> T) h2 h3"
    using h3(4) c(6) MT(3) by (auto simp: agree_def)
  then have "X h3 M (obj_ObjectMeta v') (obj_ObjectMeta a)" "EthernetNodeConfigStatus_rep X h3 T (obj_Status v') (obj_Status a)"
    using deep_copy.frame [OF metav1_specD(3) [OF lib] MT(1)] deep_copy.frame [OF EthernetNodeConfigStatus_copies [OF lib] MT(2)]
    by (simp_all add: agree_Un)
  moreover have "EthernetNodeConfigSpec_rep h3 {} ?e (go_spec \<lparr>enc_Config = [], DrainSkip = False\<rparr>)"
    by (simp add: EthernetNodeConfigSpec_rep_def slice_rep_def go_spec_def)
  moreover have "\<forall>y < free_addr h. cells h3 y = cells h y"
    using gg h3(4) c(5) grows_free [OF g] by (auto simp: grows_def)
  moreover have "insert q (M \<union> {} \<union> T) \<subseteq> {free_addr h..}" "q \<notin> M \<union> {} \<union> T"
    using c(5,6) MT(3) grows_free [OF g] by fastforce+
  ultimately have "building X h q a \<lparr>enc_Config = [], DrainSkip = False\<rparr> h3"
    unfolding building_def using h3(1,2,3) gg MT(4)
    by (intro conjI exI [of _ "v'\<lparr>obj_Spec := ?e\<rparr>"] exI [of _ M] exI [of _ "{}"] exI [of _ T]) (simp_all add: grows_def)
  with run show ?thesis by blast
qed

text \<open>
  \<^bold>\<open>C27.\<close> What \<^verbatim>\<open>synchronizeNodeConfigSpec\<close> builds in memory is what its model on values says: a configuration with
  the metadata and the status of the current one and the specification \<open>newSpec\<close>, whichever way the appended slices
  grow and in whichever order the chosen configurations are visited. The current configuration, which the client's
  cache may hold, keeps its value, and the new one shares no cell with it.
\<close>

theorem newNodeConfig_refines:
  assumes lib: "metav1_spec X L" and ok: "mem_ok h" and rep: "EthernetNodeConfig_rep X h F v a"
  shows "\<exists>q h' G. newNodeConfig spare ro L v ctx drainSkip h = (Ok q, h') \<and>
    ptr_rep EthernetNodeConfig_cell (EthernetNodeConfig_rep X) h' G (Some q) (Some (a\<lparr>obj_Spec := go_spec (newSpec ro ctx drainSkip)\<rparr>)) \<and>
    EthernetNodeConfig_rep X h' F v a \<and> F \<inter> G = {}"
proof -
  note dc = EthernetNodeConfig_copies [OF lib]
  obtain q h1 where c: "copyWithEmptySpec L v h = (Ok q, h1)" "building X h q a \<lparr>enc_Config = [], DrainSkip = False\<rparr> h1"
    using copyWithEmptySpec_building [OF lib ok rep] by blast
  obtain h2 where l: "gfor (add_device spare ctx drainSkip q) (ro (dom ctx)) h1 = (Ok (), h2)"
      "building X h q a (newSpec ro ctx drainSkip) h2"
    using add_devices [OF lib c(2)] unfolding newSpec_fold by blast
  have run: "newNodeConfig spare ro L v ctx drainSkip h = (Ok q, h2)"
    using c(1) l(1) by (simp add: newNodeConfig_def gbind_def ret_def)
  obtain G where G: "ptr_rep EthernetNodeConfig_cell (EthernetNodeConfig_rep X) h2 G (Some q) (Some (a\<lparr>obj_Spec := go_spec (newSpec ro ctx drainSkip)\<rparr>))"
      "G \<subseteq> {free_addr h..}"
    using building_value [OF l(2)] by blast
  have F: "F \<subseteq> {..<free_addr h}"
    by (rule deep_copy.allocated [OF dc ok rep])
  have "agree F h h2"
    using l(2) F by (auto simp: building_def agree_def)
  from deep_copy.frame [OF dc rep this] G F run show ?thesis
    by (intro exI [of _ q] exI [of _ h2] exI [of _ G]) fastforce
qed

text \<open>
  A node without a configuration so far and two chosen devices; appending always leaves room for one more element, so
  that the second device is written into the array of the first.
\<close>

definition sample_eth_mem :: "string eth_mem" where
  "sample_eth_mem = \<lparr>cells = [0 \<mapsto> E_DeviceNodeConfigs [zero_DeviceNodeConfig]], free_addr = 1\<rparr>"

definition sample_node_config :: "string var_EthernetNodeConfig" where
  "sample_node_config =
     \<lparr>obj_TypeMeta = \<lparr>Kind = ''EthernetNodeConfig'', APIVersion = ''v1''\<rparr>, obj_ObjectMeta = ''node1'',
      obj_Spec = \<lparr>ens_Config = Some \<lparr>sl_array = 0, sl_off = 0, sl_len = 1\<rparr>, ens_DrainSkip = True\<rparr>,
      obj_Status = \<lparr>ent_Conditions = None, ent_Devices = None\<rparr>\<rparr>"

definition sample_node_value :: "string val_EthernetNodeConfig" where
  "sample_node_value =
     \<lparr>obj_TypeMeta = \<lparr>Kind = ''EthernetNodeConfig'', APIVersion = ''v1''\<rparr>, obj_ObjectMeta = ''node1'',
      obj_Spec = \<lparr>ens_Config = Some [zero_DeviceNodeConfig], ens_DrainSkip = True\<rparr>,
      obj_Status = \<lparr>ent_Conditions = None, ent_Devices = None\<rparr>\<rparr>"

definition sample_choice :: "string \<rightharpoonup> EthernetClusterConfig" where
  "sample_choice = (\<lambda>pci. if pci \<in> {''0000:18:00.0'', ''0000:18:00.1''}
     then Some \<lparr>ecc_Name = ''config'', CreationTimestamp = 0,
       ecc_Spec = \<lparr>NodeSelector = Map.empty, ecc_DeviceSelector = \<lparr>sel_VendorID = [], sel_DeviceID = [], sel_PCIAddress = []\<rparr>,
         ecc_DeviceConfig = empty_DeviceConfig\<lparr>FWURL := ''h/f''\<rparr>, Priority = 0\<rparr>\<rparr>
     else None)"

lemma sample_newSpec:
  "newSpec (\<lambda>_. [''0000:18:00.0'', ''0000:18:00.1'']) sample_choice False =
     \<lparr>enc_Config = [\<lparr>dnc_PCIAddress = ''0000:18:00.0'', dnc_DeviceConfig = empty_DeviceConfig\<lparr>FWURL := ''h/f''\<rparr>\<rparr>,
        \<lparr>dnc_PCIAddress = ''0000:18:00.1'', dnc_DeviceConfig = empty_DeviceConfig\<lparr>FWURL := ''h/f''\<rparr>\<rparr>], DrainSkip = False\<rparr>"
  by (simp add: newSpec_def sample_choice_def)

theorem newNodeConfig_refines_witness:
  "\<exists>q h'. newNodeConfig (\<lambda>_. 1) (\<lambda>_. [''0000:18:00.0'', ''0000:18:00.1'']) sample_lib sample_node_config sample_choice False sample_eth_mem =
       (Ok q, h') \<and>
     (\<exists>G. ptr_rep EthernetNodeConfig_cell (EthernetNodeConfig_rep flat) h' G (Some q) (Some (sample_node_value\<lparr>obj_Spec :=
        \<lparr>ens_Config = Some [\<lparr>dnc_PCIAddress = ''0000:18:00.0'', dnc_DeviceConfig = empty_DeviceConfig\<lparr>FWURL := ''h/f''\<rparr>\<rparr>,
          \<lparr>dnc_PCIAddress = ''0000:18:00.1'', dnc_DeviceConfig = empty_DeviceConfig\<lparr>FWURL := ''h/f''\<rparr>\<rparr>], ens_DrainSkip = False\<rparr>\<rparr>))) \<and>
     EthernetNodeConfig_rep flat h' {0} sample_node_config sample_node_value"
proof -
  have ok: "mem_ok sample_eth_mem"
    by (simp add: mem_ok_def sample_eth_mem_def)
  have "slice_rep DeviceNodeConfigs_cell flat sample_eth_mem {0} (Some \<lparr>sl_array = 0, sl_off = 0, sl_len = 1\<rparr>) (Some [zero_DeviceNodeConfig])"
    by (simp add: slice_rep_def at_def sample_eth_mem_def DeviceNodeConfigs_cell_def)
  then have rep: "EthernetNodeConfig_rep flat sample_eth_mem {0} sample_node_config sample_node_value"
    unfolding object_rep_def sample_node_config_def sample_node_value_def go_object.simps
    by (intro conjI refl, intro pair_repI [where G = "{}" and H = "{0}"] pair_repI [where G = "{0}" and H = "{}"])
      (simp_all add: flat_def EthernetNodeConfigSpec_rep_def EthernetNodeConfigStatus_rep_def pair_rep_def)
  show ?thesis
    using newNodeConfig_refines [OF sample_lib_ok ok rep, of "\<lambda>_. 1" "\<lambda>_. [''0000:18:00.0'', ''0000:18:00.1'']" sample_choice False]
    by (auto simp: sample_newSpec go_spec_def)
qed

end
