(* ===== verification/Spec2Isabelle.thy ===== *)
theory Spec2Isabelle
  imports Flow_Path_Props Node_Flow_System_Props Flow_Grpc Firmware_Path_Props Fwddp_Prepare_Props Node_Agent_Props Labeler Operator_Props Deep_Copy_Props
begin

text \<open>
  Verification of the Intel Ethernet Operator.

  The operator has two halves. The flow half takes cluster-wide flow rules, turns them into rules for each
  node and installs these through the DCF service of the node's network card. The firmware half distributes
  firmware and DDP packages for network devices to the nodes, where a daemon applies them on the drained node
  and reboots it. Smaller parts run the agent pods of the flow half, deploy the other programs of the operator and
  label the nodes that have a supported device.

  \<^bold>\<open>Common ground.\<close> \<^verbatim>\<open>Go_Prelude\<close>: results of Go calls (a value, an error, a panic) and the string
  functions used; \<^verbatim>\<open>Go_State\<close>: calls with effects and the preservation rules; \<^verbatim>\<open>Go_Json\<close>, \<^verbatim>\<open>Go_Net\<close>, \<^verbatim>\<open>Go_Path\<close>,
  \<^verbatim>\<open>Go_Order\<close>: what the repository uses of \<^verbatim>\<open>encoding/json\<close>, \<^verbatim>\<open>net\<close>, \<^verbatim>\<open>path/filepath\<close> and of the order of
  map iteration; \<^verbatim>\<open>Os_Files\<close>: a file system with links whose every system call can fail. The locale
  \<^verbatim>\<open>request\<close> of \<^verbatim>\<open>Go_State\<close> is the contract of a call to the outside (it counts, it may fail, it never panics); it is
  interpreted on the system calls, on the requests of the daemon and on those of the deployment of assets. The locale
  \<^verbatim>\<open>attempted\<close> of \<^verbatim>\<open>Drain_Helper_Props\<close> is what draining and uncordoning share as operations that are tried again.

  \<^bold>\<open>Flow rules.\<close> \<^verbatim>\<open>Flow_Api\<close> has the messages and tables of \<^verbatim>\<open>pkg/flowconfig/rpc/v1/flow\<close>, \<^verbatim>\<open>Flow_Convert\<close> its
  conversions, \<^verbatim>\<open>Flow_Utils\<close> is \<^verbatim>\<open>pkg/flowconfig/utils\<close>, \<^verbatim>\<open>Flow_Crd\<close> the specifications of
  \<^verbatim>\<open>apis/flowconfig/v1\<close>. \<^verbatim>\<open>Flow_Webhook\<close> models both admission webhooks; \<^verbatim>\<open>Flow_Webhook_Facts\<close> shows what an
  admitted object satisfies and when admission does not panic.

  \<^bold>\<open>Node flows.\<close> \<^verbatim>\<open>Flow_Sets\<close> is the cache (\<^verbatim>\<open>pkg/flowconfig/flowsets\<close>), \<^verbatim>\<open>Sriov_Utils\<close> the sysfs lookups,
  \<^verbatim>\<open>Node_Flow_Controller\<close> the controller with the DCF client (\<^verbatim>\<open>controllers/flowconfig\<close>). The locale
  \<^verbatim>\<open>flow_cache\<close> is the contract of the cache; it is interpreted on the model of \<^verbatim>\<open>FlowSets\<close>.
  \<^verbatim>\<open>Node_Flow_Facts\<close> and \<^verbatim>\<open>Node_Flow_Props\<close> show that a synchronisation converges to the requested rules, is
  idempotent, and keeps the cache's invariant on every path. \<^verbatim>\<open>Node_Flow_System\<close> puts the daemon and the service together:
  runs of passes, crashes and restarts are an inductive relation, and \<^verbatim>\<open>Node_Flow_System_Props\<close> shows by induction over it
  that the flows of the service are those of the cache until a restart, that what is installed then is lost, and what a
  synchronisation and a deletion leave in the service. \<^verbatim>\<open>Flow_Grpc\<close> is the generated client and server of the service
  (\<^verbatim>\<open>flow_grpc.pb.go\<close>): every method of the client reaches that of the server, so what is assumed of a server holds
  for the client that the controller uses.

  \<^bold>\<open>Cluster flows.\<close> \<^verbatim>\<open>Cluster_Flow_Controller\<close>, \<^verbatim>\<open>Cluster_Flow_Facts\<close>, \<^verbatim>\<open>Cluster_Flow_Props\<close>: the loop that fills
  a node's configuration equals a reference function, deletion undoes it, what it generates passes the node
  webhook, and several selected pods on a node interfere. \<^verbatim>\<open>Flow_Path_Props\<close> composes the parts: what an admitted
  cluster rule becomes on its way through both webhooks and both controllers to a request to the DCF service.

  \<^bold>\<open>Agents.\<close> \<^verbatim>\<open>Node_Agent_Controller\<close>, \<^verbatim>\<open>Node_Agent_Props\<close>: the controller of the agent pods with the template it
  shares with them; three passes reach a fixed point in which every node is served.

  \<^bold>\<open>Utilities.\<close> \<^verbatim>\<open>Os_Utils\<close> is \<^verbatim>\<open>pkg/utils/utils.go\<close>: files without links, downloads, archives. \<^verbatim>\<open>Os_Utils_Props\<close>:
  unpacking stays below its destination for every archive, link and pattern of failing system calls.
  \<^verbatim>\<open>Drain_Helper\<close> is \<^verbatim>\<open>pkg/drainhelper\<close>; \<^verbatim>\<open>Drain_Helper_Props\<close> gives a specification of the calls it may make
  (\<^verbatim>\<open>run_spec\<close>), proves that the code refines it, and derives that the worker runs on a drained node only.

  \<^bold>\<open>Firmware.\<close> \<^verbatim>\<open>Ethernet_Types\<close> (\<^verbatim>\<open>apis/ethernet/v1\<close>), \<^verbatim>\<open>Ethernet_Manager\<close> (\<^verbatim>\<open>pkg/fwddp-manager\<close>),
  \<^verbatim>\<open>Fwddp_Inventory\<close> and \<^verbatim>\<open>Fwddp_Daemon\<close> (\<^verbatim>\<open>pkg/fwddp-daemon\<close>). \<^verbatim>\<open>Ethernet_Manager_Props\<close>: every device gets the best
  configuration and every node its specification. \<^verbatim>\<open>Fwddp_Facts\<close> records what each step of the daemon adds to
  the list of its actions; \<^verbatim>\<open>Fwddp_Props\<close> proves that a pass refines \<^verbatim>\<open>reconcile_spec\<close>, that updating, draining
  and rebooting are ordered (the composition with the drain helper), that a reboot is completed and when it is
  asked for; \<^verbatim>\<open>Fwddp_Prepare_Props\<close> that preparing an update touches only the working directory;
  \<^verbatim>\<open>Fwddp_Update_Props\<close> that a pass which is not repeated runs the update tool once for exactly the devices whose
  specification names a firmware package, and copies the profiles of exactly those that name a DDP package. \<^verbatim>\<open>Firmware_Path_Props\<close>
  composes manager and daemon: the packages that are applied on a node are those of the configurations chosen for it.

  \<^bold>\<open>Deployment.\<close> \<^verbatim>\<open>Asset_Manager\<close> (\<^verbatim>\<open>pkg/utils/assets\<close>) loads objects from files and config maps and creates or
  updates them; the objects are a heap, since an asset shares them with its copies. \<^verbatim>\<open>Asset_Facts\<close> follows one
  object and then all of them through loading and deploying, while other clients change the cluster;
  \<^verbatim>\<open>Asset_Props\<close>: everything in the config maps is in effect afterwards, a second deployment writes nothing, what the
  templates see, and when a daemon set counts as ready. \<^verbatim>\<open>Labeler\<close> is \<^verbatim>\<open>pkg/labeler\<close>: the label of a node says
  whether it has a supported device. \<^verbatim>\<open>Operator_Startup\<close> has the mains (\<^verbatim>\<open>main.go\<close>, \<^verbatim>\<open>cmd\<close>) as sequences of calls,
  the construction of the daemon and the readiness check of the DCF service; \<^verbatim>\<open>Operator_Props\<close>: the order of these
  calls and what must have succeeded before the manager starts, the kind of cluster, the options of the webhook
  server, and the bound of the readiness check.

  \<^bold>\<open>Deep copies.\<close> The other theories work on values; what Go shares is spelled out where a controller depends on it.
  \<^verbatim>\<open>Go_Memory\<close> is a memory of typed cells with pointers, slices and maps. The locale \<^verbatim>\<open>deep_copy\<close> is the contract of
  a copy function: it returns a representation of the same value on new cells and changes no cell there was before; the
  rules for pointers, slices, maps and pairs build it up, and a separation lemma is proved in it once. \<^verbatim>\<open>Flow_Deep_Copy\<close>
  and \<^verbatim>\<open>Ethernet_Deep_Copy\<close> are the two files \<^verbatim>\<open>zz_generated.deepcopy.go\<close>, function by function;
  \<^verbatim>\<open>Flow_Deep_Copy_Facts\<close> and the second half of \<^verbatim>\<open>Ethernet_Deep_Copy\<close> show that they keep the contract.
  \<^verbatim>\<open>Shared_Objects\<close> has the two places where a controller changes a copy, \<^verbatim>\<open>Deep_Copy_Props\<close> compares them with the
  models on values. A cell is written when its contents are complete: nothing reads it before. \<open>spare\<close> is the room
  that \<^verbatim>\<open>append\<close> leaves in a new array.

  \<^bold>\<open>Parameters and hypotheses.\<close> Code outside the repository is an argument: the API server and the DCF service
  (whose every request can fail, by a function from the number of the request), SHA-1 and object hashes, the readers
  of archives, XML and YAML, templates, label selection, \<^verbatim>\<open>DeepDerivative\<close>, \<^verbatim>\<open>SetControllerReference\<close>, leader election,
  retries and the programs the daemon runs. Hypotheses about them are named definitions and say what their
  documentation says: \<^verbatim>\<open>backoff_spec\<close>, \<^verbatim>\<open>elected\<close>, \<^verbatim>\<open>retry_spec\<close>, \<^verbatim>\<open>assets_backoff_spec\<close>, \<^verbatim>\<open>server_spec\<close>, \<^verbatim>\<open>steady\<close>, \<^verbatim>\<open>quiet\<close>,
  \<^verbatim>\<open>inventory_calm\<close>, \<^verbatim>\<open>valid_order\<close>, \<^verbatim>\<open>anypb_spec\<close>, \<^verbatim>\<open>stub_spec\<close> and \<^verbatim>\<open>never_refuses\<close> (what the service does to its
  flows), \<^verbatim>\<open>connected\<close> and \<^verbatim>\<open>passes_on\<close> (what gRPC does with a call), \<^verbatim>\<open>metav1_spec\<close> (the copies that the library
  makes of its own types). Map iteration is an order that may differ at every use. Theorems about panics speak of
  well-formed inputs only where the statement says so.

  \<^bold>\<open>Bounds.\<close> Symbolic links are followed 40 times, as the kernel does. Retries are bounded as in the code (five for
  draining, four for conflicts). The loop over the tokens of the result file has a budget that stands for its
  deadline; theorems hold for every budget or say how large it is. All other recursions are structural or have
  a termination proof.

  \<^bold>\<open>Not modelled.\<close> Flag parsing, loggers and schemes; what the \<^verbatim>\<open>SetupWithManager\<close> functions ask of the library, apart
  from their event filters; the registration of API groups; the getters and the reflection of the protobuf messages (of
  the getters only \<^verbatim>\<open>GetType\<close> is called, where the models read the field); test fixtures. Logging has no effect on
  the state; a TLS configuration is the pool of certificates it trusts. Concurrency is limited to the mutex of the
  cache, whose operations are atomic steps here, to other clients of the API server in the deployment of assets, and
  to leader election, which is a parameter. The DCF service changes its flows on calls only: that it loses them, for
  instance by a restart of its own, is not modelled.
\<close>

end
